theory Spec2Isabelle
  imports Complex_Main "HOL-Library.Log_Nat"
begin

section \<open>The preprocessor: macro environments and conditional groups\<close>

text \<open>
  The repository is a set of generated C calibration tables. Which constants a build gets is
  decided by \<^verbatim>\<open>#if\<close>/\<^verbatim>\<open>#elif\<close>/\<^verbatim>\<open>#else\<close> groups over configuration macros
  (\<^verbatim>\<open>_GATE_IC_TYPE\<close>, \<^verbatim>\<open>_POWER_MODULE_TYPE\<close>, ...), so resolving a configuration is what the
  C preprocessor and the C initialisers compute. The embedding follows the files:
  every conditional group is an \<open>if\<close> chain in the order of the source, every
  \<^verbatim>\<open>#error\<close> is an error result carrying the text of the directive, every
  \<^verbatim>\<open>#define\<close> and every initialised object is a binding.

  A macro environment gives each identifier the integer it is defined as, if it is defined.
  In the condition of an \<^verbatim>\<open>#if\<close>, an identifier that is not defined as a macro is read as
  \<open>0\<close> (ISO C, 6.10.1): that is \<open>pp\<close>. The environment holds both the axes set for one build
  (\<^verbatim>\<open>_GATE_IC_TYPE\<close>) and the option codes they are compared with
  (\<^verbatim>\<open>_GATE_IC_TYPE_7\<close>, \<^verbatim>\<open>_UNDEFINED_OPTION\<close>); the option codes are declared in
  \<^verbatim>\<open>common.h\<close>, which is not among the sources, so no code is fixed here.
\<close>

datatype config_error = PpError string

type_synonym macro_env = "string \<Rightarrow> int option"

definition pp :: "macro_env \<Rightarrow> string \<Rightarrow> int" where
  "pp env n = (case env n of None \<Rightarrow> 0 | Some v \<Rightarrow> v)"

text \<open>
  Directives are processed from top to bottom and the first \<^verbatim>\<open>#error\<close> reached ends the
  translation: \<open>pp_seq\<close> runs the parts of a file in order, \<open>after_defines\<close> is a run of
  \<^verbatim>\<open>#define\<close>s followed by a conditional group.
\<close>

fun pp_seq :: "(config_error + 'a list) list \<Rightarrow> config_error + 'a list" where
  "pp_seq [] = Inr []"
| "pp_seq (Inl e # rs) = Inl e"
| "pp_seq (Inr xs # rs) = (case pp_seq rs of Inl e \<Rightarrow> Inl e | Inr ys \<Rightarrow> Inr (xs @ ys))"

definition after_defines :: "'a list \<Rightarrow> config_error + 'a list \<Rightarrow> config_error + 'a list" where
  "after_defines ds r = pp_seq [Inr ds, r]"

section \<open>Floating-point formats\<close>

text \<open>
  \<^verbatim>\<open>FLOAT32\<close> and the constants with the suffix \<^verbatim>\<open>f\<close> are IEEE 754 single precision,
  the constants without a suffix are \<^verbatim>\<open>double\<close>. A format has a precision (24 and 53
  bits) and a largest exponent (127 and 1023); the smallest exponent of a normal number is one
  less the largest, and below it the spacing of the values stays that of the smallest normal
  numbers (subnormal numbers).
\<close>

datatype fmt = Single | Double

fun prec :: "fmt \<Rightarrow> nat" where
  "prec Single = 24"
| "prec Double = 53"

fun emax :: "fmt \<Rightarrow> int" where
  "emax Single = 127"
| "emax Double = 1023"

definition emin :: "fmt \<Rightarrow> int" where
  "emin f = 1 - emax f"

text \<open>
  The exponent of a real \<open>x \<noteq> 0\<close> is the \<open>e\<close> with \<open>2^e \<le> |x| < 2^(e+1)\<close>, computed from the
  bit length of the integer part of \<open>|x|\<close> or of \<open>1 / |x|\<close>. Rounding is to the nearest value of
  the format, a tie to the one with the even significand: \<open>x\<close> is scaled by the spacing of
  the format at its exponent, rounded to an integer and scaled back. A result of magnitude
  \<open>2^(emax + 1)\<close> or more is an infinity. A value is a real number, an infinity with its sign
  (\<open>True\<close> is negative) or not a number. The sign of a zero is not modelled.
\<close>

definition float_exp :: "real \<Rightarrow> int" where
  "float_exp x =
     (if 1 \<le> \<bar>x\<bar> then bitlen \<lfloor>\<bar>x\<bar>\<rfloor> - 1 else - bitlen (\<lceil>1 / \<bar>x\<bar>\<rceil> - 1))"

definition round_even :: "real \<Rightarrow> int" where
  "round_even y =
     (let n = \<lfloor>y\<rfloor>; d = y - of_int n
      in if d < 1 / 2 then n else if 1 / 2 < d then n + 1 else if even n then n else n + 1)"

datatype fval = Fin real | Infty bool | NaN

definition fp_round :: "fmt \<Rightarrow> real \<Rightarrow> fval" where
  "fp_round f x =
     (if x = 0 then Fin 0
      else let e = max (float_exp x) (emin f);
               u = 2 powi (e - int (prec f) + 1);
               y = of_int (round_even (x / u)) * u
           in if 2 powi (emax f + 1) \<le> \<bar>y\<bar> then Infty (x < 0) else Fin y)"

text \<open>
  The operations of IEEE 754 on these values: the exact result of two finite operands is
  rounded to the format; a finite non-zero value divided by zero is an infinity, zero by zero
  is not a number, and the infinities and not-a-number propagate as the standard has it.
\<close>

fun f_neg :: "fval \<Rightarrow> fval" where
  "f_neg (Fin a) = Fin (- a)"
| "f_neg (Infty s) = Infty (\<not> s)"
| "f_neg NaN = NaN"

fun f_add :: "fmt \<Rightarrow> fval \<Rightarrow> fval \<Rightarrow> fval" where
  "f_add f (Fin a) (Fin b) = fp_round f (a + b)"
| "f_add f (Fin a) (Infty t) = Infty t"
| "f_add f (Infty s) (Fin b) = Infty s"
| "f_add f (Infty s) (Infty t) = (if s = t then Infty s else NaN)"
| "f_add f NaN w = NaN"
| "f_add f v NaN = NaN"

definition f_sub :: "fmt \<Rightarrow> fval \<Rightarrow> fval \<Rightarrow> fval" where
  "f_sub f v w = f_add f v (f_neg w)"

fun f_mul :: "fmt \<Rightarrow> fval \<Rightarrow> fval \<Rightarrow> fval" where
  "f_mul f (Fin a) (Fin b) = fp_round f (a * b)"
| "f_mul f (Fin a) (Infty t) = (if a = 0 then NaN else Infty ((a < 0) \<noteq> t))"
| "f_mul f (Infty s) (Fin b) = (if b = 0 then NaN else Infty (s \<noteq> (b < 0)))"
| "f_mul f (Infty s) (Infty t) = Infty (s \<noteq> t)"
| "f_mul f NaN w = NaN"
| "f_mul f v NaN = NaN"

fun f_div :: "fmt \<Rightarrow> fval \<Rightarrow> fval \<Rightarrow> fval" where
  "f_div f (Fin a) (Fin b) =
     (if b = 0 then (if a = 0 then NaN else Infty (a < 0)) else fp_round f (a / b))"
| "f_div f (Fin a) (Infty t) = Fin 0"
| "f_div f (Infty s) (Fin b) = Infty (s \<noteq> (b < 0))"
| "f_div f (Infty s) (Infty t) = NaN"
| "f_div f NaN w = NaN"
| "f_div f v NaN = NaN"

section \<open>C values, arithmetic and initialisation\<close>

text \<open>
  A constant expression of the sources is an integer or a floating constant, or built from
  them with \<open>+ - * /\<close>. A value is an integer, or a floating value with its format. A floating
  constant is the decimal it is written as, rounded to its format. Integer arithmetic stays
  integer (division truncates towards zero; a constant expression that divides by the
  integer zero does not compile, and is \<open>0\<close> here). When an operand is floating, both operands are
  converted to the wider of the floating formats they have (an integer operand is rounded to
  it, the usual arithmetic conversions) and the operation is the one of that format: every
  operation rounds once, in the format of its operands, with no excess precision.
\<close>

datatype cval = IntV int | FV fmt fval

abbreviation FltV :: "real \<Rightarrow> cval" where
  "FltV r \<equiv> FV Single (Fin r)"

abbreviation DblV :: "real \<Rightarrow> cval" where
  "DblV r \<equiv> FV Double (Fin r)"

definition flt_lit :: "real \<Rightarrow> cval" where
  "flt_lit r = FV Single (fp_round Single r)"

definition dbl_lit :: "real \<Rightarrow> cval" where
  "dbl_lit r = FV Double (fp_round Double r)"

text \<open>
  The number a value denotes; an infinity or not-a-number denotes none and is read as \<open>0\<close>.
\<close>

fun real_of_cval :: "cval \<Rightarrow> real" where
  "real_of_cval (IntV i) = of_int i"
| "real_of_cval (FV f (Fin r)) = r"
| "real_of_cval (FV f (Infty s)) = 0"
| "real_of_cval (FV f NaN) = 0"

fun is_double :: "cval \<Rightarrow> bool" where
  "is_double (IntV i) = False"
| "is_double (FV f v) = (f = Double)"

definition fmt_of :: "cval \<Rightarrow> cval \<Rightarrow> fmt" where
  "fmt_of a b = (if is_double a \<or> is_double b then Double else Single)"

fun to_fval :: "fmt \<Rightarrow> cval \<Rightarrow> fval" where
  "to_fval f (IntV i) = fp_round f (of_int i)"
| "to_fval f (FV g (Fin r)) = fp_round f r"
| "to_fval f (FV g (Infty s)) = Infty s"
| "to_fval f (FV g NaN) = NaN"

fun c_add :: "cval \<Rightarrow> cval \<Rightarrow> cval" where
  "c_add (IntV a) (IntV b) = IntV (a + b)"
| "c_add a b = FV (fmt_of a b) (f_add (fmt_of a b) (to_fval (fmt_of a b) a) (to_fval (fmt_of a b) b))"

fun c_sub :: "cval \<Rightarrow> cval \<Rightarrow> cval" where
  "c_sub (IntV a) (IntV b) = IntV (a - b)"
| "c_sub a b = FV (fmt_of a b) (f_sub (fmt_of a b) (to_fval (fmt_of a b) a) (to_fval (fmt_of a b) b))"

fun c_mul :: "cval \<Rightarrow> cval \<Rightarrow> cval" where
  "c_mul (IntV a) (IntV b) = IntV (a * b)"
| "c_mul a b = FV (fmt_of a b) (f_mul (fmt_of a b) (to_fval (fmt_of a b) a) (to_fval (fmt_of a b) b))"

fun c_div :: "cval \<Rightarrow> cval \<Rightarrow> cval" where
  "c_div (IntV a) (IntV b) = IntV (sgn a * sgn b * (\<bar>a\<bar> div \<bar>b\<bar>))"
| "c_div a b = FV (fmt_of a b) (f_div (fmt_of a b) (to_fval (fmt_of a b) a) (to_fval (fmt_of a b) b))"

text \<open>
  An initialiser is converted to the type of the object it initialises: a value stored in a
  \<^verbatim>\<open>FLOAT32\<close> object is rounded to single precision; a floating value
  stored in an integer object is truncated towards zero, an integer stored in an unsigned
  object is reduced modulo \<open>2^N\<close>, in a signed object it wraps in two's complement (the
  conversion of the compilers for this target; every value of the sources is in range).
  The conversion of an infinity or of not-a-number to an integer type is undefined in C; it
  is \<open>0\<close> here, and no initialiser of the sources has it.
  \<^verbatim>\<open>signed long\<close> is 32 bits wide on the target. The typedef of \<^verbatim>\<open>BOOL\<close> is in a missing
  header; an integer stored in a \<^verbatim>\<open>BOOL\<close> is kept as it is.
\<close>

datatype ctype = BOOL | UINT8 | UINT16 | UINT32 | INT16 | INT32 | SIGNED_LONG | FLOAT32

definition c_trunc :: "real \<Rightarrow> int" where
  "c_trunc r = (if r < 0 then \<lceil>r\<rceil> else \<lfloor>r\<rfloor>)"

fun int_wrap :: "ctype \<Rightarrow> int \<Rightarrow> int" where
  "int_wrap UINT8 i = i mod 2 ^ 8"
| "int_wrap UINT16 i = i mod 2 ^ 16"
| "int_wrap UINT32 i = i mod 2 ^ 32"
| "int_wrap INT16 i = (i + 2 ^ 15) mod 2 ^ 16 - 2 ^ 15"
| "int_wrap INT32 i = (i + 2 ^ 31) mod 2 ^ 32 - 2 ^ 31"
| "int_wrap SIGNED_LONG i = (i + 2 ^ 31) mod 2 ^ 32 - 2 ^ 31"
| "int_wrap BOOL i = i"
| "int_wrap FLOAT32 i = i"

fun to_int :: "cval \<Rightarrow> int" where
  "to_int (IntV i) = i"
| "to_int (FV f (Fin r)) = c_trunc r"
| "to_int (FV f (Infty s)) = 0"
| "to_int (FV f NaN) = 0"

fun c_convert :: "ctype \<Rightarrow> cval \<Rightarrow> cval" where
  "c_convert ty (IntV i) =
     (if ty = FLOAT32 then FV Single (fp_round Single (of_int i)) else IntV (int_wrap ty i))"
| "c_convert ty (FV g v) =
     (if ty = FLOAT32 then FV Single (to_fval Single (FV g v))
      else IntV (int_wrap ty (to_int (FV g v))))"

text \<open>
  An initialiser is a value or a brace-enclosed list of initialisers. A binding is one
  initialised object of a \<^verbatim>\<open>.c\<close> file: its name, its element type, whether it is declared
  \<^verbatim>\<open>const\<close>, the macros that give its array dimensions (none for a scalar) and its
  initialiser after conversion.
\<close>

datatype cinit = Val cval | Agg "cinit list"

fun c_init :: "ctype \<Rightarrow> cinit \<Rightarrow> cinit" where
  "c_init ty (Val v) = Val (c_convert ty v)"
| "c_init ty (Agg xs) = Agg (map (c_init ty) xs)"

datatype binding = Binding (bname: string) (btype: ctype) (bconst: bool) (bdims: "string list") (binit: cinit)

section \<open>Macros of headers that are not among the sources\<close>

text \<open>
  The initialisers use object-like macros that no file of the sources defines (the flags, the
  resolver and HSG sensor data, the battery sensor ranges, \<^verbatim>\<open>PI\<close>, the uni-trigger delays,
  the sampling mode). They are parameters of the model: a record with one field per macro.
\<close>

record ext_macros =
  SET_FLAG :: cval
  CLR_FLAG :: cval
  PI :: cval
  DEFAULT_OFFSET_MOT :: cval
  DEFAULT_OFFSET_HSG :: cval
  RESOLVER_DIRECTION_MOT :: cval
  RESOLVER_DIRECTION_HSG :: cval
  CUR_SENSOR_RANGE_HSG :: cval
  HVBATT_SENSOR_RANGE :: cval
  HVBATT_SENSOR_RANGE_TYP :: cval
  LVBATT_SENSOR_RANGE :: cval
  LVBATT_SENSOR_RANGE_OFFSET :: cval
  LVBATT_SENSOR_RANGE_TYP :: cval
  ITRCPX_SAMPLMODE_DOUBLE :: cval
  BSWCFGRDC_MOT_UNITRIG_DELAY :: cval
  BSWCFGRDC_HSG_UNITRIG_DELAY :: cval

section \<open>\<^verbatim>\<open>CcCalPrjCfg.h\<close>: the project, performance, phase and market axes\<close>

text \<open>
  The header nests four conditional groups: project name, then performance type, then
  development phase, then market. A phase group defines the selection macros of the build
  (a macro name and its replacement text) and closes with the market group. There is one
  definition per phase group, one per project and one for the header.
  The \<^verbatim>\<open>#else\<close> group of the project name holds no directive: the header says there that the
  error for an undeclared project was removed when the headers were split.
\<close>

definition PrjCfg_MV_RWD_TCAR :: "macro_env \<Rightarrow> config_error + (string \<times> string) list" where
  "PrjCfg_MV_RWD_TCAR env =
     after_defines
       [(''_MI_REF_SETTING'', ''_MI_REF_100''),
        (''_12SMP_COND'', ''_12SMP_OFF''),
        (''_RPWM_COND'', ''_RPWM_OFF''),
        (''_NO_LOAD_TQ_COMP_COND'', ''NO_LOAD_TQ_COMP_OFF''),
        (''_SW_RDC_SETTING'', ''_MV_EV_TCAR_REAR_SW_RDC''),
        (''_ROC_RPWM_FUNCTION'', ''_ROC_RPWM_DISABLE''),
        (''_FSW_FSAMP_FREQ'', ''_7kHz_DOUBLE''),
        (''_OEW_FSW_FSAMP_FREQ'', ''_OEW_6_5kHz_DOUBLE''),
        (''_ODC_FSW_FSAMP_FREQ'', ''_ODC_12kHz_SINGLE_ALL''),
        (''_MULTI_DC_METHOD_'', ''_MULTI_INTEG''),
        (''_MULTI_NON_LINEAR_COMP'', ''_LENEAR_COMP_ON''),
        (''_CUR_MAP_VERSION'', ''_MV_TCAR_REAR_CUR_MAP''),
        (''_MOTOR_TYPE'', ''_MV_TCAR_REAR_MOTOR''),
        (''_POWER_CAL_VERSION'', ''_MV_EV_TCAR_REAR_154KW_POWER_CAL''),
        (''_DELTA_TRQREF'', ''_DELTA_TRQREF_4'')]
       (if pp env ''_MARKET_VERSION'' = pp env ''_NORTH_AMERICA_VERSION''
         then Inr [(''_TQ_COMP_CAL_VERSION'', ''_MV_EV_TCAR_REAR_TQ_COMP_CAL'')]
        else if pp env ''_MARKET_VERSION'' = pp env ''_DOMESTIC_VERSION'' \<or> pp env ''_MARKET_VERSION'' = pp env ''_EUROPE_VERSION'' \<or> pp env ''_MARKET_VERSION'' = pp env ''_CHINA_VERSION'' \<or> pp env ''_MARKET_VERSION'' = pp env ''_COMMON_COUNTRY_VERSION'' \<or> pp env ''_MARKET_VERSION'' = pp env ''_JAPAN_VERSION''
         then Inr [(''_TQ_COMP_CAL_VERSION'', ''_MV_EV_TCAR_REAR_TQ_COMP_CAL'')]
        else Inl (PpError ''undefined _MARKET_VERSION MACRO''))"

definition PrjCfg_MV_RWD_PROTO :: "macro_env \<Rightarrow> config_error + (string \<times> string) list" where
  "PrjCfg_MV_RWD_PROTO env =
     after_defines
       [(''_MI_REF_SETTING'', ''_MI_REF_103''),
        (''_12SMP_COND'', ''_12SMP_OFF''),
        (''_RPWM_COND'', ''_RPWM_01_03_ON''),
        (''_NO_LOAD_TQ_COMP_COND'', ''NO_LOAD_TQ_COMP_OFF''),
        (''_SW_RDC_SETTING'', ''_MV_EV_PROTO_REAR_SW_RDC''),
        (''_ROC_RPWM_FUNCTION'', ''_ROC_RPWM_DISABLE''),
        (''_FSW_FSAMP_FREQ'', ''_12kHz_SINGLE_ALL''),
        (''_OEW_FSW_FSAMP_FREQ'', ''_OEW_6_5kHz_DOUBLE''),
        (''_ODC_FSW_FSAMP_FREQ'', ''_ODC_12kHz_SINGLE_ALL''),
        (''_MULTI_DC_METHOD_'', ''_MULTI_INTEG''),
        (''_MULTI_NON_LINEAR_COMP'', ''_LENEAR_COMP_ON''),
        (''_CUR_MAP_VERSION'', ''_MV_PROTO_REAR_CUR_MAP''),
        (''_MOTOR_TYPE'', ''_MV_PROTO_REAR_MOTOR''),
        (''_POWER_CAL_VERSION'', ''_MV_EV_PROTO_REAR_160KW_POWER_CAL''),
        (''_DELTA_TRQREF'', ''_DELTA_TRQREF_4'')]
       (if pp env ''_MARKET_VERSION'' = pp env ''_NORTH_AMERICA_VERSION''
         then Inr [(''_TQ_COMP_CAL_VERSION'', ''_MV_EV_PROTO_REAR_TQ_COMP_CAL'')]
        else if pp env ''_MARKET_VERSION'' = pp env ''_DOMESTIC_VERSION'' \<or> pp env ''_MARKET_VERSION'' = pp env ''_EUROPE_VERSION'' \<or> pp env ''_MARKET_VERSION'' = pp env ''_CHINA_VERSION'' \<or> pp env ''_MARKET_VERSION'' = pp env ''_COMMON_COUNTRY_VERSION'' \<or> pp env ''_MARKET_VERSION'' = pp env ''_JAPAN_VERSION''
         then Inr [(''_TQ_COMP_CAL_VERSION'', ''_MV_EV_PROTO_REAR_TQ_COMP_CAL'')]
        else Inl (PpError ''undefined _MARKET_VERSION MACRO''))"

definition PrjCfg_MV_RWD_MASTER :: "macro_env \<Rightarrow> config_error + (string \<times> string) list" where
  "PrjCfg_MV_RWD_MASTER env =
     after_defines
       [(''_MI_REF_SETTING'', ''_MI_REF_103''),
        (''_12SMP_COND'', ''_12SMP_OFF''),
        (''_RPWM_COND'', ''_RPWM_01_03_ON''),
        (''_NO_LOAD_TQ_COMP_COND'', ''NO_LOAD_TQ_COMP_OFF''),
        (''_SW_RDC_SETTING'', ''_MV_EV_PROTO_REAR_SW_RDC''),
        (''_ROC_RPWM_FUNCTION'', ''_ROC_RPWM_DISABLE''),
        (''_FSW_FSAMP_FREQ'', ''_12kHz_SINGLE_ALL''),
        (''_OEW_FSW_FSAMP_FREQ'', ''_OEW_12kHz_SINGLE_ALL''),
        (''_ODC_FSW_FSAMP_FREQ'', ''_ODC_12kHz_SINGLE_ALL''),
        (''_MULTI_DC_METHOD_'', ''_MULTI_INTEG''),
        (''_MULTI_NON_LINEAR_COMP'', ''_LENEAR_COMP_ON''),
        (''_CUR_MAP_VERSION'', ''_MV_PROTO_REAR_CUR_MAP''),
        (''_MOTOR_TYPE'', ''_MV_PROTO_REAR_MOTOR''),
        (''_POWER_CAL_VERSION'', ''_MV_EV_PROTO_REAR_160KW_POWER_CAL''),
        (''_DELTA_TRQREF'', ''_DELTA_TRQREF_4'')]
       (if pp env ''_MARKET_VERSION'' = pp env ''_NORTH_AMERICA_VERSION''
         then Inr [(''_TQ_COMP_CAL_VERSION'', ''_MV_EV_PROTO_REAR_TQ_COMP_CAL'')]
        else if pp env ''_MARKET_VERSION'' = pp env ''_DOMESTIC_VERSION'' \<or> pp env ''_MARKET_VERSION'' = pp env ''_EUROPE_VERSION'' \<or> pp env ''_MARKET_VERSION'' = pp env ''_CHINA_VERSION'' \<or> pp env ''_MARKET_VERSION'' = pp env ''_COMMON_COUNTRY_VERSION'' \<or> pp env ''_MARKET_VERSION'' = pp env ''_JAPAN_VERSION''
         then Inr [(''_TQ_COMP_CAL_VERSION'', ''_MV_EV_PROTO_REAR_TQ_COMP_CAL'')]
        else Inl (PpError ''undefined _MARKET_VERSION MACRO''))"

definition PrjCfg_MV_RWD_PILOT_1 :: "macro_env \<Rightarrow> config_error + (string \<times> string) list" where
  "PrjCfg_MV_RWD_PILOT_1 env =
     after_defines
       [(''_MI_REF_SETTING'', ''_MI_REF_103''),
        (''_12SMP_COND'', ''_12SMP_OFF''),
        (''_RPWM_COND'', ''_RPWM_01_03_ON''),
        (''_NO_LOAD_TQ_COMP_COND'', ''NO_LOAD_TQ_COMP_OFF''),
        (''_SW_RDC_SETTING'', ''_MV_EV_P1_REAR_SW_RDC''),
        (''_ROC_RPWM_FUNCTION'', ''_ROC_RPWM_DISABLE''),
        (''_FSW_FSAMP_FREQ'', ''_12kHz_SINGLE_ALL''),
        (''_OEW_FSW_FSAMP_FREQ'', ''_OEW_12kHz_SINGLE_ALL''),
        (''_ODC_FSW_FSAMP_FREQ'', ''_ODC_12kHz_SINGLE_ALL''),
        (''_MULTI_DC_METHOD_'', ''_MULTI_INTEG''),
        (''_MULTI_NON_LINEAR_COMP'', ''_LENEAR_COMP_ON''),
        (''_CUR_MAP_VERSION'', ''_MV_PROTO_REAR_CUR_MAP''),
        (''_MOTOR_TYPE'', ''_MV_P2_REAR_MOTOR''),
        (''_POWER_CAL_VERSION'', ''_MV_EV_PROTO_REAR_160KW_POWER_CAL''),
        (''_DELTA_TRQREF'', ''_DELTA_TRQREF_4'')]
       (if pp env ''_MARKET_VERSION'' = pp env ''_NORTH_AMERICA_VERSION''
         then Inr [(''_TQ_COMP_CAL_VERSION'', ''_MVa_EV_P1_REAR_TQ_COMP_CAL'')]
        else if pp env ''_MARKET_VERSION'' = pp env ''_DOMESTIC_VERSION'' \<or> pp env ''_MARKET_VERSION'' = pp env ''_EUROPE_VERSION'' \<or> pp env ''_MARKET_VERSION'' = pp env ''_CHINA_VERSION'' \<or> pp env ''_MARKET_VERSION'' = pp env ''_COMMON_COUNTRY_VERSION'' \<or> pp env ''_MARKET_VERSION'' = pp env ''_JAPAN_VERSION''
         then Inr [(''_TQ_COMP_CAL_VERSION'', ''_MV_EV_P1_REAR_TQ_COMP_CAL'')]
        else Inl (PpError ''undefined _MARKET_VERSION MACRO''))"

definition PrjCfg_MV_RWD_PILOT_2 :: "macro_env \<Rightarrow> config_error + (string \<times> string) list" where
  "PrjCfg_MV_RWD_PILOT_2 env =
     after_defines
       [(''_MI_REF_SETTING'', ''_MI_REF_103''),
        (''_12SMP_COND'', ''_12SMP_OFF''),
        (''_RPWM_COND'', ''_RPWM_01_03_ON''),
        (''_NO_LOAD_TQ_COMP_COND'', ''NO_LOAD_TQ_COMP_OFF''),
        (''_SW_RDC_SETTING'', ''_MV_EV_P1_REAR_SW_RDC''),
        (''_ROC_RPWM_FUNCTION'', ''_ROC_RPWM_DISABLE''),
        (''_FSW_FSAMP_FREQ'', ''_12kHz_SINGLE_ALL''),
        (''_OEW_FSW_FSAMP_FREQ'', ''_OEW_12kHz_SINGLE_ALL''),
        (''_ODC_FSW_FSAMP_FREQ'', ''_ODC_12kHz_SINGLE_ALL''),
        (''_MULTI_DC_METHOD_'', ''_MULTI_INTEG''),
        (''_MULTI_NON_LINEAR_COMP'', ''_LENEAR_COMP_ON''),
        (''_CUR_MAP_VERSION'', ''_MV_PROTO_REAR_CUR_MAP''),
        (''_MOTOR_TYPE'', ''_MV_P2_REAR_MOTOR''),
        (''_POWER_CAL_VERSION'', ''_MV_EV_PROTO_REAR_160KW_POWER_CAL''),
        (''_DELTA_TRQREF'', ''_DELTA_TRQREF_4'')]
       (if pp env ''_MARKET_VERSION'' = pp env ''_NORTH_AMERICA_VERSION''
         then Inr [(''_TQ_COMP_CAL_VERSION'', ''_MVa_EV_P1_REAR_TQ_COMP_CAL'')]
        else if pp env ''_MARKET_VERSION'' = pp env ''_DOMESTIC_VERSION'' \<or> pp env ''_MARKET_VERSION'' = pp env ''_EUROPE_VERSION'' \<or> pp env ''_MARKET_VERSION'' = pp env ''_CHINA_VERSION'' \<or> pp env ''_MARKET_VERSION'' = pp env ''_COMMON_COUNTRY_VERSION'' \<or> pp env ''_MARKET_VERSION'' = pp env ''_JAPAN_VERSION''
         then Inr [(''_TQ_COMP_CAL_VERSION'', ''_MV_EV_P1_REAR_TQ_COMP_CAL'')]
        else Inl (PpError ''undefined _MARKET_VERSION MACRO''))"

definition PrjCfg_MV_RWD_M :: "macro_env \<Rightarrow> config_error + (string \<times> string) list" where
  "PrjCfg_MV_RWD_M env =
     after_defines
       [(''_MI_REF_SETTING'', ''_MI_REF_103''),
        (''_12SMP_COND'', ''_12SMP_OFF''),
        (''_RPWM_COND'', ''_RPWM_01_03_ON''),
        (''_NO_LOAD_TQ_COMP_COND'', ''NO_LOAD_TQ_COMP_OFF''),
        (''_SW_RDC_SETTING'', ''_MV_EV_P1_REAR_SW_RDC''),
        (''_ROC_RPWM_FUNCTION'', ''_ROC_RPWM_DISABLE''),
        (''_FSW_FSAMP_FREQ'', ''_12kHz_SINGLE_ALL''),
        (''_OEW_FSW_FSAMP_FREQ'', ''_OEW_12kHz_SINGLE_ALL''),
        (''_ODC_FSW_FSAMP_FREQ'', ''_ODC_12kHz_SINGLE_ALL''),
        (''_MULTI_DC_METHOD_'', ''_MULTI_INTEG''),
        (''_MULTI_NON_LINEAR_COMP'', ''_LENEAR_COMP_ON''),
        (''_CUR_MAP_VERSION'', ''_MV_PROTO_REAR_CUR_MAP''),
        (''_MOTOR_TYPE'', ''_MV_P2_REAR_MOTOR''),
        (''_POWER_CAL_VERSION'', ''_MV_EV_PROTO_REAR_160KW_POWER_CAL''),
        (''_DELTA_TRQREF'', ''_DELTA_TRQREF_4'')]
       (if pp env ''_MARKET_VERSION'' = pp env ''_NORTH_AMERICA_VERSION''
         then Inr [(''_TQ_COMP_CAL_VERSION'', ''_MVa_EV_P1_REAR_TQ_COMP_CAL'')]
        else if pp env ''_MARKET_VERSION'' = pp env ''_DOMESTIC_VERSION'' \<or> pp env ''_MARKET_VERSION'' = pp env ''_EUROPE_VERSION'' \<or> pp env ''_MARKET_VERSION'' = pp env ''_CHINA_VERSION'' \<or> pp env ''_MARKET_VERSION'' = pp env ''_COMMON_COUNTRY_VERSION'' \<or> pp env ''_MARKET_VERSION'' = pp env ''_JAPAN_VERSION''
         then Inr [(''_TQ_COMP_CAL_VERSION'', ''_MV_EV_P1_REAR_TQ_COMP_CAL'')]
        else Inl (PpError ''undefined _MARKET_VERSION MACRO''))"

definition PrjCfg_MV_RWD_SOP :: "macro_env \<Rightarrow> config_error + (string \<times> string) list" where
  "PrjCfg_MV_RWD_SOP env =
     after_defines
       [(''_MI_REF_SETTING'', ''_MI_REF_103''),
        (''_12SMP_COND'', ''_12SMP_OFF''),
        (''_RPWM_COND'', ''_RPWM_01_03_ON''),
        (''_NO_LOAD_TQ_COMP_COND'', ''NO_LOAD_TQ_COMP_OFF''),
        (''_SW_RDC_SETTING'', ''_MV_EV_P1_REAR_SW_RDC''),
        (''_ROC_RPWM_FUNCTION'', ''_ROC_RPWM_DISABLE''),
        (''_FSW_FSAMP_FREQ'', ''_12kHz_SINGLE_ALL''),
        (''_OEW_FSW_FSAMP_FREQ'', ''_OEW_12kHz_SINGLE_ALL''),
        (''_ODC_FSW_FSAMP_FREQ'', ''_ODC_12kHz_SINGLE_ALL''),
        (''_MULTI_DC_METHOD_'', ''_MULTI_INTEG''),
        (''_MULTI_NON_LINEAR_COMP'', ''_LENEAR_COMP_ON''),
        (''_CUR_MAP_VERSION'', ''_MV_PROTO_REAR_CUR_MAP''),
        (''_MOTOR_TYPE'', ''_MV_P2_REAR_MOTOR''),
        (''_POWER_CAL_VERSION'', ''_MV_EV_PROTO_REAR_160KW_POWER_CAL''),
        (''_DELTA_TRQREF'', ''_DELTA_TRQREF_4'')]
       (if pp env ''_MARKET_VERSION'' = pp env ''_NORTH_AMERICA_VERSION''
         then Inr [(''_TQ_COMP_CAL_VERSION'', ''_MVa_EV_P1_REAR_TQ_COMP_CAL'')]
        else if pp env ''_MARKET_VERSION'' = pp env ''_DOMESTIC_VERSION'' \<or> pp env ''_MARKET_VERSION'' = pp env ''_EUROPE_VERSION'' \<or> pp env ''_MARKET_VERSION'' = pp env ''_CHINA_VERSION'' \<or> pp env ''_MARKET_VERSION'' = pp env ''_COMMON_COUNTRY_VERSION'' \<or> pp env ''_MARKET_VERSION'' = pp env ''_JAPAN_VERSION''
         then Inr [(''_TQ_COMP_CAL_VERSION'', ''_MV_EV_P1_REAR_TQ_COMP_CAL'')]
        else Inl (PpError ''undefined _MARKET_VERSION MACRO''))"

definition PrjCfg_MV_RWD_RC :: "macro_env \<Rightarrow> config_error + (string \<times> string) list" where
  "PrjCfg_MV_RWD_RC env =
     after_defines
       [(''_MI_REF_SETTING'', ''_MI_REF_103''),
        (''_12SMP_COND'', ''_12SMP_OFF''),
        (''_RPWM_COND'', ''_RPWM_01_03_ON''),
        (''_NO_LOAD_TQ_COMP_COND'', ''NO_LOAD_TQ_COMP_OFF''),
        (''_SW_RDC_SETTING'', ''_MV_EV_P1_REAR_SW_RDC''),
        (''_ROC_RPWM_FUNCTION'', ''_ROC_RPWM_DISABLE''),
        (''_FSW_FSAMP_FREQ'', ''_12kHz_SINGLE_ALL''),
        (''_OEW_FSW_FSAMP_FREQ'', ''_OEW_12kHz_SINGLE_ALL''),
        (''_ODC_FSW_FSAMP_FREQ'', ''_ODC_12kHz_SINGLE_ALL''),
        (''_MULTI_DC_METHOD_'', ''_MULTI_INTEG''),
        (''_MULTI_NON_LINEAR_COMP'', ''_LENEAR_COMP_ON''),
        (''_CUR_MAP_VERSION'', ''_MV_PROTO_REAR_CUR_MAP''),
        (''_MOTOR_TYPE'', ''_MV_P2_REAR_MOTOR''),
        (''_POWER_CAL_VERSION'', ''_MV_EV_PROTO_REAR_160KW_POWER_CAL''),
        (''_DELTA_TRQREF'', ''_DELTA_TRQREF_4'')]
       (if pp env ''_MARKET_VERSION'' = pp env ''_NORTH_AMERICA_VERSION''
         then Inr [(''_TQ_COMP_CAL_VERSION'', ''_MVa_EV_P1_REAR_TQ_COMP_CAL'')]
        else if pp env ''_MARKET_VERSION'' = pp env ''_DOMESTIC_VERSION'' \<or> pp env ''_MARKET_VERSION'' = pp env ''_EUROPE_VERSION'' \<or> pp env ''_MARKET_VERSION'' = pp env ''_CHINA_VERSION'' \<or> pp env ''_MARKET_VERSION'' = pp env ''_COMMON_COUNTRY_VERSION'' \<or> pp env ''_MARKET_VERSION'' = pp env ''_JAPAN_VERSION''
         then Inr [(''_TQ_COMP_CAL_VERSION'', ''_MV_EV_P1_REAR_TQ_COMP_CAL'')]
        else Inl (PpError ''undefined _MARKET_VERSION MACRO''))"

definition PrjCfg_MV_RWD :: "macro_env \<Rightarrow> config_error + (string \<times> string) list" where
  "PrjCfg_MV_RWD env =
    (if pp env ''_PERFORMANCE_TYPE'' = pp env ''_STANDARD_VERSION'' \<or> pp env ''_PERFORMANCE_TYPE'' = pp env ''_PERFORMANCE_VERSION'' \<or> pp env ''_PERFORMANCE_TYPE'' = pp env ''_LONG_RANGE_VERSION'' \<or> pp env ''_PERFORMANCE_TYPE'' = pp env ''_eM_160kW_VERSION'' \<or> pp env ''_PERFORMANCE_TYPE'' = pp env ''_eM_200kW_VERSION'' \<or> pp env ''_PERFORMANCE_TYPE'' = pp env ''_eM_250kW_VERSION''
     then
       (if pp env ''_DEVELOPMENT_PHASE'' = pp env ''_TCAR_VERSION'' then PrjCfg_MV_RWD_TCAR env
        else if pp env ''_DEVELOPMENT_PHASE'' = pp env ''_PROTO_VERSION'' then PrjCfg_MV_RWD_PROTO env
        else if pp env ''_DEVELOPMENT_PHASE'' = pp env ''_MASTER_VERSION'' then PrjCfg_MV_RWD_MASTER env
        else if pp env ''_DEVELOPMENT_PHASE'' = pp env ''_PILOT_1_VERSION'' then PrjCfg_MV_RWD_PILOT_1 env
        else if pp env ''_DEVELOPMENT_PHASE'' = pp env ''_PILOT_2_VERSION'' then PrjCfg_MV_RWD_PILOT_2 env
        else if pp env ''_DEVELOPMENT_PHASE'' = pp env ''_M_VERSION'' then PrjCfg_MV_RWD_M env
        else if pp env ''_DEVELOPMENT_PHASE'' = pp env ''_SOP_VERSION'' then PrjCfg_MV_RWD_SOP env
        else if pp env ''_DEVELOPMENT_PHASE'' = pp env ''_RC_VERSION'' then PrjCfg_MV_RWD_RC env
        else Inl (PpError ''undefined _DEVELOPMENT_PHASE MACRO''))
     else Inl (PpError ''undefined _PERFORMANCE_TYPE MACRO''))"

definition PrjCfg_ME_RWD_TCAR :: "macro_env \<Rightarrow> config_error + (string \<times> string) list" where
  "PrjCfg_ME_RWD_TCAR env =
     after_defines
       [(''_MI_REF_SETTING'', ''_MI_REF_103''),
        (''_12SMP_COND'', ''_12SMP_OFF''),
        (''_RPWM_COND'', ''_RPWM_01_03_ON''),
        (''_NO_LOAD_TQ_COMP_COND'', ''NO_LOAD_TQ_COMP_OFF''),
        (''_SW_RDC_SETTING'', ''_MV_EV_PROTO_REAR_SW_RDC''),
        (''_ROC_RPWM_FUNCTION'', ''_ROC_RPWM_DISABLE''),
        (''_FSW_FSAMP_FREQ'', ''_12kHz_SINGLE_ALL''),
        (''_OEW_FSW_FSAMP_FREQ'', ''_OEW_6_5kHz_DOUBLE''),
        (''_ODC_FSW_FSAMP_FREQ'', ''_ODC_12kHz_SINGLE_ALL''),
        (''_MULTI_DC_METHOD_'', ''_MULTI_INTEG''),
        (''_MULTI_NON_LINEAR_COMP'', ''_LENEAR_COMP_ON''),
        (''_CUR_MAP_VERSION'', ''_MV_PROTO_REAR_CUR_MAP''),
        (''_MOTOR_TYPE'', ''_MV_PROTO_REAR_MOTOR''),
        (''_POWER_CAL_VERSION'', ''_MV_EV_PROTO_REAR_160KW_POWER_CAL''),
        (''_DELTA_TRQREF'', ''_DELTA_TRQREF_4'')]
       (if pp env ''_MARKET_VERSION'' = pp env ''_NORTH_AMERICA_VERSION''
         then Inr [(''_TQ_COMP_CAL_VERSION'', ''_MV_EV_PROTO_REAR_TQ_COMP_CAL'')]
        else if pp env ''_MARKET_VERSION'' = pp env ''_DOMESTIC_VERSION'' \<or> pp env ''_MARKET_VERSION'' = pp env ''_EUROPE_VERSION'' \<or> pp env ''_MARKET_VERSION'' = pp env ''_CHINA_VERSION'' \<or> pp env ''_MARKET_VERSION'' = pp env ''_COMMON_COUNTRY_VERSION'' \<or> pp env ''_MARKET_VERSION'' = pp env ''_JAPAN_VERSION''
         then Inr [(''_TQ_COMP_CAL_VERSION'', ''_MV_EV_PROTO_REAR_TQ_COMP_CAL'')]
        else Inl (PpError ''undefined _MARKET_VERSION MACRO''))"

definition PrjCfg_ME_RWD_PROTO :: "macro_env \<Rightarrow> config_error + (string \<times> string) list" where
  "PrjCfg_ME_RWD_PROTO env =
     after_defines
       [(''_MI_REF_SETTING'', ''_MI_REF_103''),
        (''_12SMP_COND'', ''_12SMP_OFF''),
        (''_RPWM_COND'', ''_RPWM_01_03_ON''),
        (''_NO_LOAD_TQ_COMP_COND'', ''NO_LOAD_TQ_COMP_OFF''),
        (''_SW_RDC_SETTING'', ''_MV_EV_P1_REAR_SW_RDC''),
        (''_ROC_RPWM_FUNCTION'', ''_ROC_RPWM_DISABLE''),
        (''_FSW_FSAMP_FREQ'', ''_12kHz_SINGLE_ALL''),
        (''_OEW_FSW_FSAMP_FREQ'', ''_OEW_12kHz_SINGLE_ALL''),
        (''_ODC_FSW_FSAMP_FREQ'', ''_ODC_12kHz_SINGLE_ALL''),
        (''_MULTI_DC_METHOD_'', ''_MULTI_INTEG''),
        (''_MULTI_NON_LINEAR_COMP'', ''_LENEAR_COMP_ON''),
        (''_CUR_MAP_VERSION'', ''_MV_PROTO_REAR_CUR_MAP''),
        (''_DELTA_TRQREF'', ''_DELTA_TRQREF_4'')]
       (if pp env ''_MARKET_VERSION'' = pp env ''_NORTH_AMERICA_VERSION''
         then Inr [(''_TQ_COMP_CAL_VERSION'', ''_MVa_EV_P1_REAR_TQ_COMP_CAL''),
               (''_POWER_CAL_VERSION'', ''_ME_EV_P2_REAR_160KW_POWER_CAL''),
               (''_MOTOR_TYPE'', ''_ME_P1_REAR_MOTOR'')]
        else if pp env ''_MARKET_VERSION'' = pp env ''_DOMESTIC_VERSION'' \<or> pp env ''_MARKET_VERSION'' = pp env ''_EUROPE_VERSION'' \<or> pp env ''_MARKET_VERSION'' = pp env ''_CHINA_VERSION'' \<or> pp env ''_MARKET_VERSION'' = pp env ''_COMMON_COUNTRY_VERSION'' \<or> pp env ''_MARKET_VERSION'' = pp env ''_JAPAN_VERSION''
         then Inr [(''_TQ_COMP_CAL_VERSION'', ''_MV_EV_P1_REAR_TQ_COMP_CAL''),
               (''_POWER_CAL_VERSION'', ''_MV_EV_PROTO_REAR_160KW_POWER_CAL''),
               (''_MOTOR_TYPE'', ''_MV_PROTO_REAR_MOTOR'')]
        else Inl (PpError ''undefined _MARKET_VERSION MACRO''))"

definition PrjCfg_ME_RWD_MASTER :: "macro_env \<Rightarrow> config_error + (string \<times> string) list" where
  "PrjCfg_ME_RWD_MASTER env =
     after_defines
       [(''_MI_REF_SETTING'', ''_MI_REF_103''),
        (''_12SMP_COND'', ''_12SMP_OFF''),
        (''_RPWM_COND'', ''_RPWM_01_03_ON''),
        (''_NO_LOAD_TQ_COMP_COND'', ''NO_LOAD_TQ_COMP_OFF''),
        (''_SW_RDC_SETTING'', ''_MV_EV_P1_REAR_SW_RDC''),
        (''_ROC_RPWM_FUNCTION'', ''_ROC_RPWM_DISABLE''),
        (''_FSW_FSAMP_FREQ'', ''_12kHz_SINGLE_ALL''),
        (''_OEW_FSW_FSAMP_FREQ'', ''_OEW_12kHz_SINGLE_ALL''),
        (''_ODC_FSW_FSAMP_FREQ'', ''_ODC_12kHz_SINGLE_ALL''),
        (''_MULTI_DC_METHOD_'', ''_MULTI_INTEG''),
        (''_MULTI_NON_LINEAR_COMP'', ''_LENEAR_COMP_ON''),
        (''_CUR_MAP_VERSION'', ''_MV_PROTO_REAR_CUR_MAP''),
        (''_DELTA_TRQREF'', ''_DELTA_TRQREF_4'')]
       (if pp env ''_MARKET_VERSION'' = pp env ''_NORTH_AMERICA_VERSION''
         then Inr [(''_TQ_COMP_CAL_VERSION'', ''_MVa_EV_P1_REAR_TQ_COMP_CAL''),
               (''_POWER_CAL_VERSION'', ''_ME_EV_P2_REAR_160KW_POWER_CAL''),
               (''_MOTOR_TYPE'', ''_ME_P1_REAR_MOTOR'')]
        else if pp env ''_MARKET_VERSION'' = pp env ''_DOMESTIC_VERSION'' \<or> pp env ''_MARKET_VERSION'' = pp env ''_EUROPE_VERSION'' \<or> pp env ''_MARKET_VERSION'' = pp env ''_CHINA_VERSION'' \<or> pp env ''_MARKET_VERSION'' = pp env ''_COMMON_COUNTRY_VERSION'' \<or> pp env ''_MARKET_VERSION'' = pp env ''_JAPAN_VERSION''
         then Inr [(''_TQ_COMP_CAL_VERSION'', ''_MV_EV_P1_REAR_TQ_COMP_CAL''),
               (''_POWER_CAL_VERSION'', ''_MV_EV_PROTO_REAR_160KW_POWER_CAL''),
               (''_MOTOR_TYPE'', ''_MV_PROTO_REAR_MOTOR'')]
        else Inl (PpError ''undefined _MARKET_VERSION MACRO''))"

definition PrjCfg_ME_RWD_PILOT_1 :: "macro_env \<Rightarrow> config_error + (string \<times> string) list" where
  "PrjCfg_ME_RWD_PILOT_1 env =
     after_defines
       [(''_MI_REF_SETTING'', ''_MI_REF_103''),
        (''_12SMP_COND'', ''_12SMP_OFF''),
        (''_RPWM_COND'', ''_RPWM_01_03_ON''),
        (''_NO_LOAD_TQ_COMP_COND'', ''NO_LOAD_TQ_COMP_OFF''),
        (''_SW_RDC_SETTING'', ''_MV_EV_P1_REAR_SW_RDC''),
        (''_ROC_RPWM_FUNCTION'', ''_ROC_RPWM_DISABLE''),
        (''_FSW_FSAMP_FREQ'', ''_12kHz_SINGLE_ALL''),
        (''_OEW_FSW_FSAMP_FREQ'', ''_OEW_12kHz_SINGLE_ALL''),
        (''_ODC_FSW_FSAMP_FREQ'', ''_ODC_12kHz_SINGLE_ALL''),
        (''_MULTI_DC_METHOD_'', ''_MULTI_INTEG''),
        (''_MULTI_NON_LINEAR_COMP'', ''_LENEAR_COMP_ON''),
        (''_CUR_MAP_VERSION'', ''_MV_PROTO_REAR_CUR_MAP''),
        (''_DELTA_TRQREF'', ''_DELTA_TRQREF_4'')]
       (if pp env ''_MARKET_VERSION'' = pp env ''_NORTH_AMERICA_VERSION''
         then Inr [(''_TQ_COMP_CAL_VERSION'', ''_MVa_EV_P1_REAR_TQ_COMP_CAL''),
               (''_POWER_CAL_VERSION'', ''_ME_EV_P2_REAR_160KW_POWER_CAL''),
               (''_MOTOR_TYPE'', ''_ME_P1_REAR_MOTOR'')]
        else if pp env ''_MARKET_VERSION'' = pp env ''_DOMESTIC_VERSION'' \<or> pp env ''_MARKET_VERSION'' = pp env ''_EUROPE_VERSION'' \<or> pp env ''_MARKET_VERSION'' = pp env ''_CHINA_VERSION'' \<or> pp env ''_MARKET_VERSION'' = pp env ''_COMMON_COUNTRY_VERSION'' \<or> pp env ''_MARKET_VERSION'' = pp env ''_JAPAN_VERSION''
         then Inr [(''_TQ_COMP_CAL_VERSION'', ''_MV_EV_P1_REAR_TQ_COMP_CAL''),
               (''_POWER_CAL_VERSION'', ''_MV_EV_PROTO_REAR_160KW_POWER_CAL''),
               (''_MOTOR_TYPE'', ''_ME_P1_REAR_MOTOR'')]
        else Inl (PpError ''undefined _MARKET_VERSION MACRO''))"

definition PrjCfg_ME_RWD_PILOT_2 :: "macro_env \<Rightarrow> config_error + (string \<times> string) list" where
  "PrjCfg_ME_RWD_PILOT_2 env =
     after_defines
       [(''_MI_REF_SETTING'', ''_MI_REF_103''),
        (''_12SMP_COND'', ''_12SMP_OFF''),
        (''_RPWM_COND'', ''_RPWM_01_03_ON''),
        (''_NO_LOAD_TQ_COMP_COND'', ''NO_LOAD_TQ_COMP_OFF''),
        (''_SW_RDC_SETTING'', ''_MV_EV_P1_REAR_SW_RDC''),
        (''_ROC_RPWM_FUNCTION'', ''_ROC_RPWM_DISABLE''),
        (''_FSW_FSAMP_FREQ'', ''_12kHz_SINGLE_ALL''),
        (''_OEW_FSW_FSAMP_FREQ'', ''_OEW_12kHz_SINGLE_ALL''),
        (''_ODC_FSW_FSAMP_FREQ'', ''_ODC_12kHz_SINGLE_ALL''),
        (''_MULTI_DC_METHOD_'', ''_MULTI_INTEG''),
        (''_MULTI_NON_LINEAR_COMP'', ''_LENEAR_COMP_ON''),
        (''_CUR_MAP_VERSION'', ''_MV_PROTO_REAR_CUR_MAP''),
        (''_DELTA_TRQREF'', ''_DELTA_TRQREF_4'')]
       (if pp env ''_MARKET_VERSION'' = pp env ''_NORTH_AMERICA_VERSION''
         then Inr [(''_TQ_COMP_CAL_VERSION'', ''_MVa_EV_P1_REAR_TQ_COMP_CAL''),
               (''_POWER_CAL_VERSION'', ''_ME_EV_P2_REAR_160KW_POWER_CAL''),
               (''_MOTOR_TYPE'', ''_ME_P1_REAR_MOTOR'')]
        else if pp env ''_MARKET_VERSION'' = pp env ''_DOMESTIC_VERSION'' \<or> pp env ''_MARKET_VERSION'' = pp env ''_EUROPE_VERSION'' \<or> pp env ''_MARKET_VERSION'' = pp env ''_CHINA_VERSION'' \<or> pp env ''_MARKET_VERSION'' = pp env ''_COMMON_COUNTRY_VERSION'' \<or> pp env ''_MARKET_VERSION'' = pp env ''_JAPAN_VERSION''
         then Inr [(''_TQ_COMP_CAL_VERSION'', ''_ME_EV_P2_REAR_TQ_COMP_CAL''),
               (''_POWER_CAL_VERSION'', ''_ME_EV_P2_REAR_160KW_POWER_CAL''),
               (''_MOTOR_TYPE'', ''_ME_P1_REAR_MOTOR'')]
        else Inl (PpError ''undefined _MARKET_VERSION MACRO''))"

definition PrjCfg_ME_RWD_M :: "macro_env \<Rightarrow> config_error + (string \<times> string) list" where
  "PrjCfg_ME_RWD_M env =
     after_defines
       [(''_MI_REF_SETTING'', ''_MI_REF_103''),
        (''_12SMP_COND'', ''_12SMP_OFF''),
        (''_RPWM_COND'', ''_RPWM_01_03_ON''),
        (''_NO_LOAD_TQ_COMP_COND'', ''NO_LOAD_TQ_COMP_OFF''),
        (''_SW_RDC_SETTING'', ''_MV_EV_P1_REAR_SW_RDC''),
        (''_ROC_RPWM_FUNCTION'', ''_ROC_RPWM_DISABLE''),
        (''_FSW_FSAMP_FREQ'', ''_12kHz_SINGLE_ALL''),
        (''_OEW_FSW_FSAMP_FREQ'', ''_OEW_12kHz_SINGLE_ALL''),
        (''_ODC_FSW_FSAMP_FREQ'', ''_ODC_12kHz_SINGLE_ALL''),
        (''_MULTI_DC_METHOD_'', ''_MULTI_INTEG''),
        (''_MULTI_NON_LINEAR_COMP'', ''_LENEAR_COMP_ON''),
        (''_CUR_MAP_VERSION'', ''_MV_PROTO_REAR_CUR_MAP''),
        (''_DELTA_TRQREF'', ''_DELTA_TRQREF_4'')]
       (if pp env ''_MARKET_VERSION'' = pp env ''_NORTH_AMERICA_VERSION''
         then Inr [(''_TQ_COMP_CAL_VERSION'', ''_MVa_EV_P1_REAR_TQ_COMP_CAL''),
               (''_POWER_CAL_VERSION'', ''_ME_EV_P2_REAR_160KW_POWER_CAL''),
               (''_MOTOR_TYPE'', ''_ME_P1_REAR_MOTOR'')]
        else if pp env ''_MARKET_VERSION'' = pp env ''_DOMESTIC_VERSION'' \<or> pp env ''_MARKET_VERSION'' = pp env ''_EUROPE_VERSION'' \<or> pp env ''_MARKET_VERSION'' = pp env ''_CHINA_VERSION'' \<or> pp env ''_MARKET_VERSION'' = pp env ''_COMMON_COUNTRY_VERSION'' \<or> pp env ''_MARKET_VERSION'' = pp env ''_JAPAN_VERSION''
         then Inr [(''_TQ_COMP_CAL_VERSION'', ''_ME_EV_P2_REAR_TQ_COMP_CAL''),
               (''_POWER_CAL_VERSION'', ''_ME_EV_P2_REAR_160KW_POWER_CAL''),
               (''_MOTOR_TYPE'', ''_ME_P1_REAR_MOTOR'')]
        else Inl (PpError ''undefined _MARKET_VERSION MACRO''))"

definition PrjCfg_ME_RWD_SOP :: "macro_env \<Rightarrow> config_error + (string \<times> string) list" where
  "PrjCfg_ME_RWD_SOP env =
     after_defines
       [(''_MI_REF_SETTING'', ''_MI_REF_103''),
        (''_12SMP_COND'', ''_12SMP_OFF''),
        (''_RPWM_COND'', ''_RPWM_01_03_ON''),
        (''_NO_LOAD_TQ_COMP_COND'', ''NO_LOAD_TQ_COMP_OFF''),
        (''_SW_RDC_SETTING'', ''_MV_EV_P1_REAR_SW_RDC''),
        (''_ROC_RPWM_FUNCTION'', ''_ROC_RPWM_DISABLE''),
        (''_FSW_FSAMP_FREQ'', ''_12kHz_SINGLE_ALL''),
        (''_OEW_FSW_FSAMP_FREQ'', ''_OEW_12kHz_SINGLE_ALL''),
        (''_ODC_FSW_FSAMP_FREQ'', ''_ODC_12kHz_SINGLE_ALL''),
        (''_MULTI_DC_METHOD_'', ''_MULTI_INTEG''),
        (''_MULTI_NON_LINEAR_COMP'', ''_LENEAR_COMP_ON''),
        (''_CUR_MAP_VERSION'', ''_MV_PROTO_REAR_CUR_MAP''),
        (''_DELTA_TRQREF'', ''_DELTA_TRQREF_4'')]
       (if pp env ''_MARKET_VERSION'' = pp env ''_NORTH_AMERICA_VERSION''
         then Inr [(''_TQ_COMP_CAL_VERSION'', ''_MVa_EV_P1_REAR_TQ_COMP_CAL''),
               (''_POWER_CAL_VERSION'', ''_ME_EV_P2_REAR_160KW_POWER_CAL''),
               (''_MOTOR_TYPE'', ''_ME_P1_REAR_MOTOR'')]
        else if pp env ''_MARKET_VERSION'' = pp env ''_DOMESTIC_VERSION'' \<or> pp env ''_MARKET_VERSION'' = pp env ''_EUROPE_VERSION'' \<or> pp env ''_MARKET_VERSION'' = pp env ''_CHINA_VERSION'' \<or> pp env ''_MARKET_VERSION'' = pp env ''_COMMON_COUNTRY_VERSION'' \<or> pp env ''_MARKET_VERSION'' = pp env ''_JAPAN_VERSION''
         then Inr [(''_TQ_COMP_CAL_VERSION'', ''_ME_EV_P2_REAR_TQ_COMP_CAL''),
               (''_POWER_CAL_VERSION'', ''_ME_EV_P2_REAR_160KW_POWER_CAL''),
               (''_MOTOR_TYPE'', ''_ME_P1_REAR_MOTOR'')]
        else Inl (PpError ''undefined _MARKET_VERSION MACRO''))"

definition PrjCfg_ME_RWD_RC :: "macro_env \<Rightarrow> config_error + (string \<times> string) list" where
  "PrjCfg_ME_RWD_RC env =
     after_defines
       [(''_MI_REF_SETTING'', ''_MI_REF_103''),
        (''_12SMP_COND'', ''_12SMP_OFF''),
        (''_RPWM_COND'', ''_RPWM_01_03_ON''),
        (''_NO_LOAD_TQ_COMP_COND'', ''NO_LOAD_TQ_COMP_OFF''),
        (''_SW_RDC_SETTING'', ''_MV_EV_P1_REAR_SW_RDC''),
        (''_ROC_RPWM_FUNCTION'', ''_ROC_RPWM_DISABLE''),
        (''_FSW_FSAMP_FREQ'', ''_12kHz_SINGLE_ALL''),
        (''_OEW_FSW_FSAMP_FREQ'', ''_OEW_12kHz_SINGLE_ALL''),
        (''_ODC_FSW_FSAMP_FREQ'', ''_ODC_12kHz_SINGLE_ALL''),
        (''_MULTI_DC_METHOD_'', ''_MULTI_INTEG''),
        (''_MULTI_NON_LINEAR_COMP'', ''_LENEAR_COMP_ON''),
        (''_CUR_MAP_VERSION'', ''_MV_PROTO_REAR_CUR_MAP''),
        (''_DELTA_TRQREF'', ''_DELTA_TRQREF_4'')]
       (if pp env ''_MARKET_VERSION'' = pp env ''_NORTH_AMERICA_VERSION''
         then Inr [(''_TQ_COMP_CAL_VERSION'', ''_MVa_EV_P1_REAR_TQ_COMP_CAL''),
               (''_POWER_CAL_VERSION'', ''_ME_EV_P2_REAR_160KW_POWER_CAL''),
               (''_MOTOR_TYPE'', ''_ME_P1_REAR_MOTOR'')]
        else if pp env ''_MARKET_VERSION'' = pp env ''_DOMESTIC_VERSION'' \<or> pp env ''_MARKET_VERSION'' = pp env ''_EUROPE_VERSION'' \<or> pp env ''_MARKET_VERSION'' = pp env ''_CHINA_VERSION'' \<or> pp env ''_MARKET_VERSION'' = pp env ''_COMMON_COUNTRY_VERSION'' \<or> pp env ''_MARKET_VERSION'' = pp env ''_JAPAN_VERSION''
         then Inr [(''_TQ_COMP_CAL_VERSION'', ''_ME_EV_P2_REAR_TQ_COMP_CAL''),
               (''_POWER_CAL_VERSION'', ''_ME_EV_P2_REAR_160KW_POWER_CAL''),
               (''_MOTOR_TYPE'', ''_ME_P1_REAR_MOTOR'')]
        else Inl (PpError ''undefined _MARKET_VERSION MACRO''))"

definition PrjCfg_ME_RWD :: "macro_env \<Rightarrow> config_error + (string \<times> string) list" where
  "PrjCfg_ME_RWD env =
    (if pp env ''_PERFORMANCE_TYPE'' = pp env ''_STANDARD_VERSION'' \<or> pp env ''_PERFORMANCE_TYPE'' = pp env ''_PERFORMANCE_VERSION'' \<or> pp env ''_PERFORMANCE_TYPE'' = pp env ''_LONG_RANGE_VERSION'' \<or> pp env ''_PERFORMANCE_TYPE'' = pp env ''_eM_160kW_VERSION'' \<or> pp env ''_PERFORMANCE_TYPE'' = pp env ''_eM_200kW_VERSION'' \<or> pp env ''_PERFORMANCE_TYPE'' = pp env ''_eM_250kW_VERSION''
     then
       (if pp env ''_DEVELOPMENT_PHASE'' = pp env ''_TCAR_VERSION'' then PrjCfg_ME_RWD_TCAR env
        else if pp env ''_DEVELOPMENT_PHASE'' = pp env ''_PROTO_VERSION'' then PrjCfg_ME_RWD_PROTO env
        else if pp env ''_DEVELOPMENT_PHASE'' = pp env ''_MASTER_VERSION'' then PrjCfg_ME_RWD_MASTER env
        else if pp env ''_DEVELOPMENT_PHASE'' = pp env ''_PILOT_1_VERSION'' then PrjCfg_ME_RWD_PILOT_1 env
        else if pp env ''_DEVELOPMENT_PHASE'' = pp env ''_PILOT_2_VERSION'' then PrjCfg_ME_RWD_PILOT_2 env
        else if pp env ''_DEVELOPMENT_PHASE'' = pp env ''_M_VERSION'' then PrjCfg_ME_RWD_M env
        else if pp env ''_DEVELOPMENT_PHASE'' = pp env ''_SOP_VERSION'' then PrjCfg_ME_RWD_SOP env
        else if pp env ''_DEVELOPMENT_PHASE'' = pp env ''_RC_VERSION'' then PrjCfg_ME_RWD_RC env
        else Inl (PpError ''undefined _DEVELOPMENT_PHASE MACRO''))
     else Inl (PpError ''undefined _PERFORMANCE_TYPE MACRO''))"

definition CcCalPrjCfg_h :: "macro_env \<Rightarrow> config_error + (string \<times> string) list" where
  "CcCalPrjCfg_h env =
    (if pp env ''_PROJECT_NAME'' = pp env ''_MV_RWD_PROJ'' then PrjCfg_MV_RWD env
     else if pp env ''_PROJECT_NAME'' = pp env ''_ME_RWD_PROJ'' then PrjCfg_ME_RWD env
     else Inr [])"

section \<open>\<^verbatim>\<open>SpInvCal.h\<close>: the gate IC, power module and motor current sensor axes\<close>

text \<open>
  Each conditional group of the header defines the same macros in every branch; a group is a
  function from the macro environment to the record of the macros it defines, or to the
  \<^verbatim>\<open>#error\<close> it reaches.
\<close>

record gate_ic_macros =
  BSWCFGPWM_MOT_INV1_MIN_WIDTH :: cval
  BSWCFGPWM_MOT_INV2_MIN_WIDTH :: cval
  BSWCFGPWM_MOT_ASAC_EDGE_OFFSET :: cval
  BSWCFGPWM_HSG_INV1_MIN_WIDTH :: cval
  BSWCFGPWM_HSG_INV2_MIN_WIDTH :: cval
  BSWCFGPWM_HSG_ASAC_EDGE_OFFSET :: cval

definition GATE_IC_TYPE_section :: "macro_env \<Rightarrow> config_error + gate_ic_macros" where
  "GATE_IC_TYPE_section env =
    (if pp env ''_GATE_IC_TYPE'' = pp env ''_UNDEFINED_OPTION'' then Inl (PpError ''undefined _GATE_IC_TYPE MACRO (check #define!!)'')
     else if pp env ''_GATE_IC_TYPE'' = pp env ''_GATE_IC_TYPE_1'' then Inr
       \<lparr>BSWCFGPWM_MOT_INV1_MIN_WIDTH = IntV 1,
        BSWCFGPWM_MOT_INV2_MIN_WIDTH = IntV 1,
        BSWCFGPWM_MOT_ASAC_EDGE_OFFSET = IntV 0,
        BSWCFGPWM_HSG_INV1_MIN_WIDTH = IntV 1,
        BSWCFGPWM_HSG_INV2_MIN_WIDTH = IntV 1,
        BSWCFGPWM_HSG_ASAC_EDGE_OFFSET = IntV 0\<rparr>
     else if pp env ''_GATE_IC_TYPE'' = pp env ''_GATE_IC_TYPE_2'' then Inr
       \<lparr>BSWCFGPWM_MOT_INV1_MIN_WIDTH = IntV 3000,
        BSWCFGPWM_MOT_INV2_MIN_WIDTH = IntV 3000,
        BSWCFGPWM_MOT_ASAC_EDGE_OFFSET = IntV 3000,
        BSWCFGPWM_HSG_INV1_MIN_WIDTH = IntV 3000,
        BSWCFGPWM_HSG_INV2_MIN_WIDTH = IntV 3000,
        BSWCFGPWM_HSG_ASAC_EDGE_OFFSET = IntV 3000\<rparr>
     else if pp env ''_GATE_IC_TYPE'' = pp env ''_GATE_IC_TYPE_3'' then Inr
       \<lparr>BSWCFGPWM_MOT_INV1_MIN_WIDTH = IntV 3000,
        BSWCFGPWM_MOT_INV2_MIN_WIDTH = IntV 3000,
        BSWCFGPWM_MOT_ASAC_EDGE_OFFSET = IntV 0,
        BSWCFGPWM_HSG_INV1_MIN_WIDTH = IntV 3000,
        BSWCFGPWM_HSG_INV2_MIN_WIDTH = IntV 3000,
        BSWCFGPWM_HSG_ASAC_EDGE_OFFSET = IntV 0\<rparr>
     else if pp env ''_GATE_IC_TYPE'' = pp env ''_GATE_IC_TYPE_4'' then Inr
       \<lparr>BSWCFGPWM_MOT_INV1_MIN_WIDTH = IntV 3000,
        BSWCFGPWM_MOT_INV2_MIN_WIDTH = IntV 3000,
        BSWCFGPWM_MOT_ASAC_EDGE_OFFSET = IntV 3000,
        BSWCFGPWM_HSG_INV1_MIN_WIDTH = IntV 3000,
        BSWCFGPWM_HSG_INV2_MIN_WIDTH = IntV 3000,
        BSWCFGPWM_HSG_ASAC_EDGE_OFFSET = IntV 3000\<rparr>
     else if pp env ''_GATE_IC_TYPE'' = pp env ''_GATE_IC_TYPE_5'' then Inr
       \<lparr>BSWCFGPWM_MOT_INV1_MIN_WIDTH = IntV 4000,
        BSWCFGPWM_MOT_INV2_MIN_WIDTH = IntV 4000,
        BSWCFGPWM_MOT_ASAC_EDGE_OFFSET = IntV 0,
        BSWCFGPWM_HSG_INV1_MIN_WIDTH = IntV 3000,
        BSWCFGPWM_HSG_INV2_MIN_WIDTH = IntV 3000,
        BSWCFGPWM_HSG_ASAC_EDGE_OFFSET = IntV 0\<rparr>
     else if pp env ''_GATE_IC_TYPE'' = pp env ''_GATE_IC_TYPE_6'' then Inr
       \<lparr>BSWCFGPWM_MOT_INV1_MIN_WIDTH = IntV 3000,
        BSWCFGPWM_MOT_INV2_MIN_WIDTH = IntV 3000,
        BSWCFGPWM_MOT_ASAC_EDGE_OFFSET = IntV 2600,
        BSWCFGPWM_HSG_INV1_MIN_WIDTH = IntV 3000,
        BSWCFGPWM_HSG_INV2_MIN_WIDTH = IntV 3000,
        BSWCFGPWM_HSG_ASAC_EDGE_OFFSET = IntV 0\<rparr>
     else if pp env ''_GATE_IC_TYPE'' = pp env ''_GATE_IC_TYPE_7'' then Inr
       \<lparr>BSWCFGPWM_MOT_INV1_MIN_WIDTH = IntV 300,
        BSWCFGPWM_MOT_INV2_MIN_WIDTH = IntV 300,
        BSWCFGPWM_MOT_ASAC_EDGE_OFFSET = IntV 390,
        BSWCFGPWM_HSG_INV1_MIN_WIDTH = IntV 300,
        BSWCFGPWM_HSG_INV2_MIN_WIDTH = IntV 300,
        BSWCFGPWM_HSG_ASAC_EDGE_OFFSET = IntV 390\<rparr>
     else if pp env ''_GATE_IC_TYPE'' = pp env ''_GATE_IC_TYPE_8_NV74_TCAR'' then Inr
       \<lparr>BSWCFGPWM_MOT_INV1_MIN_WIDTH = IntV 3000,
        BSWCFGPWM_MOT_INV2_MIN_WIDTH = IntV 3000,
        BSWCFGPWM_MOT_ASAC_EDGE_OFFSET = IntV 390,
        BSWCFGPWM_HSG_INV1_MIN_WIDTH = IntV 300,
        BSWCFGPWM_HSG_INV2_MIN_WIDTH = IntV 300,
        BSWCFGPWM_HSG_ASAC_EDGE_OFFSET = IntV 390\<rparr>
     else Inl (PpError ''undefined _GATE_IC_TYPE MACRO''))"

record power_module_macros =
  BSWCFGPWM_MOT_INV1_DEADTIME :: cval
  BSWCFGPWM_MOT_INV2_DEADTIME :: cval
  BSWCFGPWM_MOT_DEADTIME_MULTI :: cval
  BSWCFGPWM_HSG_INV1_DEADTIME :: cval
  BSWCFGPWM_HSG_INV2_DEADTIME :: cval

definition POWER_MODULE_TYPE_section :: "macro_env \<Rightarrow> config_error + power_module_macros" where
  "POWER_MODULE_TYPE_section env =
    (if pp env ''_POWER_MODULE_TYPE'' = pp env ''_UNDEFINED_OPTION'' then Inl (PpError ''undefined POWER_MODULE_TYPE MACRO (check #define!!)'')
     else if pp env ''_POWER_MODULE_TYPE'' = pp env ''_PM_CASE_TYPE'' then Inr
       \<lparr>BSWCFGPWM_MOT_INV1_DEADTIME = IntV 2200,
        BSWCFGPWM_MOT_INV2_DEADTIME = IntV 2200,
        BSWCFGPWM_MOT_DEADTIME_MULTI = IntV 2200,
        BSWCFGPWM_HSG_INV1_DEADTIME = IntV 2200,
        BSWCFGPWM_HSG_INV2_DEADTIME = IntV 2200\<rparr>
     else if pp env ''_POWER_MODULE_TYPE'' = pp env ''_PM_DSC_TYPE_1'' then Inr
       \<lparr>BSWCFGPWM_MOT_INV1_DEADTIME = IntV 2500,
        BSWCFGPWM_MOT_INV2_DEADTIME = IntV 2500,
        BSWCFGPWM_MOT_DEADTIME_MULTI = IntV 2500,
        BSWCFGPWM_HSG_INV1_DEADTIME = IntV 2500,
        BSWCFGPWM_HSG_INV2_DEADTIME = IntV 2500\<rparr>
     else if pp env ''_POWER_MODULE_TYPE'' = pp env ''_PM_DSC_TYPE_2'' then Inr
       \<lparr>BSWCFGPWM_MOT_INV1_DEADTIME = IntV 4000,
        BSWCFGPWM_MOT_INV2_DEADTIME = IntV 4000,
        BSWCFGPWM_MOT_DEADTIME_MULTI = IntV 4000,
        BSWCFGPWM_HSG_INV1_DEADTIME = IntV 4000,
        BSWCFGPWM_HSG_INV2_DEADTIME = IntV 4000\<rparr>
     else if pp env ''_POWER_MODULE_TYPE'' = pp env ''_PM_HP_DRIVE_TYPE'' then Inr
       \<lparr>BSWCFGPWM_MOT_INV1_DEADTIME = IntV 2000,
        BSWCFGPWM_MOT_INV2_DEADTIME = IntV 2000,
        BSWCFGPWM_MOT_DEADTIME_MULTI = IntV 4000,
        BSWCFGPWM_HSG_INV1_DEADTIME = IntV 2000,
        BSWCFGPWM_HSG_INV2_DEADTIME = IntV 2000\<rparr>
     else if pp env ''_POWER_MODULE_TYPE'' = pp env ''_PM_CVeGT_TYPE'' then Inr
       \<lparr>BSWCFGPWM_MOT_INV1_DEADTIME = IntV 2000,
        BSWCFGPWM_MOT_INV2_DEADTIME = IntV 4000,
        BSWCFGPWM_MOT_DEADTIME_MULTI = IntV 4000,
        BSWCFGPWM_HSG_INV1_DEADTIME = IntV 2000,
        BSWCFGPWM_HSG_INV2_DEADTIME = IntV 2000\<rparr>
     else if pp env ''_POWER_MODULE_TYPE'' = pp env ''_PM_NV74_TYPE'' then Inr
       \<lparr>BSWCFGPWM_MOT_INV1_DEADTIME = IntV 2000,
        BSWCFGPWM_MOT_INV2_DEADTIME = IntV 4000,
        BSWCFGPWM_MOT_DEADTIME_MULTI = IntV 4000,
        BSWCFGPWM_HSG_INV1_DEADTIME = IntV 2000,
        BSWCFGPWM_HSG_INV2_DEADTIME = IntV 2000\<rparr>
     else if pp env ''_POWER_MODULE_TYPE'' = pp env ''_PM_MV_TYPE'' then Inr
       \<lparr>BSWCFGPWM_MOT_INV1_DEADTIME = IntV 2000,
        BSWCFGPWM_MOT_INV2_DEADTIME = IntV 4000,
        BSWCFGPWM_MOT_DEADTIME_MULTI = IntV 2000,
        BSWCFGPWM_HSG_INV1_DEADTIME = IntV 2000,
        BSWCFGPWM_HSG_INV2_DEADTIME = IntV 2000\<rparr>
     else Inl (PpError ''undefined _POWER_MODULE_TYPE MACRO''))"

record mot_cur_sensor_macros =
  CUR_SENSOR_RANGE_MOT :: cval

definition MOT_CUR_SENSOR_TYPE_section :: "macro_env \<Rightarrow> config_error + mot_cur_sensor_macros" where
  "MOT_CUR_SENSOR_TYPE_section env =
    (if pp env ''_MOT_CUR_SENSOR_TYPE'' = pp env ''_UNDEFINED_OPTION'' then Inl (PpError ''undefined _MOT_CUR_SENSOR_TYPE MACRO (check #define!!)'')
     else if pp env ''_MOT_CUR_SENSOR_TYPE'' = pp env ''_MOT_400A_SCALE_HALL'' then Inr
       \<lparr>CUR_SENSOR_RANGE_MOT = IntV 400\<rparr>
     else if pp env ''_MOT_CUR_SENSOR_TYPE'' = pp env ''_MOT_400A_SCALE_SHUNT_TYPE1'' then Inr
       \<lparr>CUR_SENSOR_RANGE_MOT = IntV 400\<rparr>
     else if pp env ''_MOT_CUR_SENSOR_TYPE'' = pp env ''_MOT_500A_SCALE_SHUNT_TYPE1'' then Inr
       \<lparr>CUR_SENSOR_RANGE_MOT = IntV 500\<rparr>
     else if pp env ''_MOT_CUR_SENSOR_TYPE'' = pp env ''_MOT_600A_SCALE_SHUNT_TYPE1'' then Inr
       \<lparr>CUR_SENSOR_RANGE_MOT = dbl_lit 588.2353\<rparr>
     else if pp env ''_MOT_CUR_SENSOR_TYPE'' = pp env ''_MOT_400A_SCALE_SHUNT_TYPE2'' then Inr
       \<lparr>CUR_SENSOR_RANGE_MOT = dbl_lit 394.2829\<rparr>
     else if pp env ''_MOT_CUR_SENSOR_TYPE'' = pp env ''_MOT_500A_SCALE_HALL'' then Inr
       \<lparr>CUR_SENSOR_RANGE_MOT = IntV 500\<rparr>
     else if pp env ''_MOT_CUR_SENSOR_TYPE'' = pp env ''_MOT_700A_SCALE_HALL'' then Inr
       \<lparr>CUR_SENSOR_RANGE_MOT = IntV 700\<rparr>
     else if pp env ''_MOT_CUR_SENSOR_TYPE'' = pp env ''_MOT_700A_SCALE_SHUNT_0'' then Inr
       \<lparr>CUR_SENSOR_RANGE_MOT = IntV 700\<rparr>
     else if pp env ''_MOT_CUR_SENSOR_TYPE'' = pp env ''_MOT_850A_SCALE_HALL'' then Inr
       \<lparr>CUR_SENSOR_RANGE_MOT = IntV 850\<rparr>
     else if pp env ''_MOT_CUR_SENSOR_TYPE'' = pp env ''_MOT_850A_SCALE_HALL_FOR_HPV'' then Inr
       \<lparr>CUR_SENSOR_RANGE_MOT = IntV 850\<rparr>
     else if pp env ''_MOT_CUR_SENSOR_TYPE'' = pp env ''_MOT_1000A_SCALE_HALL'' then Inr
       \<lparr>CUR_SENSOR_RANGE_MOT = IntV 1000\<rparr>
     else if pp env ''_MOT_CUR_SENSOR_TYPE'' = pp env ''_MOT_1300A_SCALE_HALL'' then Inr
       \<lparr>CUR_SENSOR_RANGE_MOT = IntV 1300\<rparr>
     else if pp env ''_MOT_CUR_SENSOR_TYPE'' = pp env ''_MOT_1100A_SCALE_HALL'' then Inr
       \<lparr>CUR_SENSOR_RANGE_MOT = IntV 1100\<rparr>
     else if pp env ''_MOT_CUR_SENSOR_TYPE'' = pp env ''_MOT_1500A_SCALE_HALL'' then Inr
       \<lparr>CUR_SENSOR_RANGE_MOT = IntV 1500\<rparr>
     else if pp env ''_MOT_CUR_SENSOR_TYPE'' = pp env ''_MOT_700A_SCALE_CORELESS'' then Inr
       \<lparr>CUR_SENSOR_RANGE_MOT = dbl_lit 833.3333\<rparr>
     else if pp env ''_MOT_CUR_SENSOR_TYPE'' = pp env ''_MOT_700A_SCALE_CORELESS_TYPE2'' then Inr
       \<lparr>CUR_SENSOR_RANGE_MOT = dbl_lit 909.5043\<rparr>
     else if pp env ''_MOT_CUR_SENSOR_TYPE'' = pp env ''_MOT_650A_SCALE_CORELESS_TYPE'' then Inr
       \<lparr>CUR_SENSOR_RANGE_MOT = dbl_lit 682.0567\<rparr>
     else Inl (PpError ''undefined _MOT_CUR_SENSOR_TYPE MACRO''))"

section \<open>\<^verbatim>\<open>BswCfgPwm.h\<close> and \<^verbatim>\<open>BswCfgPwm.c\<close>: the PWM configuration\<close>

definition BSWCFGPWM_MOT_START :: "cval" where
  "BSWCFGPWM_MOT_START = IntV 125000"

definition BSWCFGPWM_MOT_PERIOD :: "cval" where
  "BSWCFGPWM_MOT_PERIOD = IntV 250000"

definition BSWCFGPWM_MOT_PWMMAC_MODE :: "ext_macros \<Rightarrow> cval" where
  "BSWCFGPWM_MOT_PWMMAC_MODE x = ITRCPX_SAMPLMODE_DOUBLE x"

definition BSWCFGPWM_HSG_START :: "cval" where
  "BSWCFGPWM_HSG_START = IntV 125000"

definition BSWCFGPWM_HSG_PERIOD :: "cval" where
  "BSWCFGPWM_HSG_PERIOD = IntV 250000"

definition BSWCFGPWM_HSG_PWMMAC_MODE :: "ext_macros \<Rightarrow> cval" where
  "BSWCFGPWM_HSG_PWMMAC_MODE x = ITRCPX_SAMPLMODE_DOUBLE x"

record etpu_macros =
  BSWCFGPWM_MOT_INV1_UPDATE_TIME :: cval
  BSWCFGPWM_MOT_INV2_UPDATE_TIME :: cval
  BSWCFGPWM_MOT_eTPULoad_SYNC :: cval
  BSWCFGPWM_MOT_eTPULoad_RSLV :: cval
  BSWCFGPWM_MOT_eTPULoad_PWM :: cval
  BSWCFGPWM_HSG_INV1_UPDATE_TIME :: cval
  BSWCFGPWM_HSG_INV2_UPDATE_TIME :: cval
  BSWCFGPWM_HSG_eTPULoad_SYNC :: cval
  BSWCFGPWM_HSG_eTPULoad_RSLV :: cval
  BSWCFGPWM_HSG_eTPULoad_PWM :: cval

definition ETPU_CALCULATION_TIME_OPTION_section :: "macro_env \<Rightarrow> config_error + etpu_macros" where
  "ETPU_CALCULATION_TIME_OPTION_section env =
    (if pp env ''_ETPU_CALCULATION_TIME_OPTION'' = pp env ''_UNDEFINED_OPTION'' then Inl (PpError ''undefined _ETPU_CALCULATION_TIME_OPTION_ (check #define!!)'')
     else if pp env ''_ETPU_CALCULATION_TIME_OPTION'' = pp env ''_SINGLE_STAGE_SYSTEM'' then Inr
       \<lparr>BSWCFGPWM_MOT_INV1_UPDATE_TIME = IntV 3800,
        BSWCFGPWM_MOT_INV2_UPDATE_TIME = IntV 3000,
        BSWCFGPWM_MOT_eTPULoad_SYNC = IntV 500,
        BSWCFGPWM_MOT_eTPULoad_RSLV = IntV 3500,
        BSWCFGPWM_MOT_eTPULoad_PWM = IntV 9500,
        BSWCFGPWM_HSG_INV1_UPDATE_TIME = IntV 3800,
        BSWCFGPWM_HSG_INV2_UPDATE_TIME = IntV 3000,
        BSWCFGPWM_HSG_eTPULoad_SYNC = IntV 0,
        BSWCFGPWM_HSG_eTPULoad_RSLV = IntV 3500,
        BSWCFGPWM_HSG_eTPULoad_PWM = IntV 9500\<rparr>
     else if pp env ''_ETPU_CALCULATION_TIME_OPTION'' = pp env ''_TWO_STAGE_SYSTEM'' then Inr
       \<lparr>BSWCFGPWM_MOT_INV1_UPDATE_TIME = IntV 3800,
        BSWCFGPWM_MOT_INV2_UPDATE_TIME = IntV 3000,
        BSWCFGPWM_MOT_eTPULoad_SYNC = IntV 500,
        BSWCFGPWM_MOT_eTPULoad_RSLV = IntV 3500,
        BSWCFGPWM_MOT_eTPULoad_PWM = IntV 9500,
        BSWCFGPWM_HSG_INV1_UPDATE_TIME = IntV 3800,
        BSWCFGPWM_HSG_INV2_UPDATE_TIME = IntV 3000,
        BSWCFGPWM_HSG_eTPULoad_SYNC = IntV 0,
        BSWCFGPWM_HSG_eTPULoad_RSLV = IntV 3500,
        BSWCFGPWM_HSG_eTPULoad_PWM = IntV 9500\<rparr>
     else Inl (PpError ''undefined _ETPU_CALCULATION_TIME_OPTION MACRO''))"

record updatetime_macros =
  BSWCFGPWM_MOT_UPDATETIME_AUTO_MODE :: cval
  BSWCFGPWM_HSG_UPDATETIME_AUTO_MODE :: cval

definition PWM_UPDATETIME_AUTO_MODE_section :: "ext_macros \<Rightarrow> macro_env \<Rightarrow> config_error + updatetime_macros" where
  "PWM_UPDATETIME_AUTO_MODE_section x env =
    (if pp env ''_PWM_UPDATETIME_AUTO_MODE'' = pp env ''_UNDEFINED_OPTION'' then Inl (PpError ''undefined _PWM_UPDATETIME_AUTO_MODE_ (check #define!!)'')
     else if pp env ''_PWM_UPDATETIME_AUTO_MODE'' = pp env ''_UPDATETIME_AUTO'' then Inr
       \<lparr>BSWCFGPWM_MOT_UPDATETIME_AUTO_MODE = SET_FLAG x,
        BSWCFGPWM_HSG_UPDATETIME_AUTO_MODE = SET_FLAG x\<rparr>
     else if pp env ''_PWM_UPDATETIME_AUTO_MODE'' = pp env ''_UPDATETIME_MANUAL'' then Inr
       \<lparr>BSWCFGPWM_MOT_UPDATETIME_AUTO_MODE = CLR_FLAG x,
        BSWCFGPWM_HSG_UPDATETIME_AUTO_MODE = CLR_FLAG x\<rparr>
     else Inl (PpError ''undefined _PWM_UPDATETIME_AUTO_MODE MACRO''))"

definition BswCfgPwm_c :: "ext_macros \<Rightarrow> gate_ic_macros \<Rightarrow> power_module_macros \<Rightarrow> etpu_macros \<Rightarrow> updatetime_macros \<Rightarrow> binding list" where
  "BswCfgPwm_c x gic pm et au =
    [Binding ''BswCfgCal_Pwm_MotStartTime'' UINT32 True [] (c_init UINT32 (Val BSWCFGPWM_MOT_START)),
     Binding ''BswCfgCal_Pwm_MotPeriod'' UINT32 True [] (c_init UINT32 (Val BSWCFGPWM_MOT_PERIOD)),
     Binding ''BswCfgCal_Pwm_MotDeadTime_INV1'' UINT32 True [] (c_init UINT32 (Val (BSWCFGPWM_MOT_INV1_DEADTIME pm))),
     Binding ''BswCfgCal_Pwm_MotDeadTime_INV2'' UINT32 True [] (c_init UINT32 (Val (BSWCFGPWM_MOT_INV2_DEADTIME pm))),
     Binding ''BswCfgCal_Pwm_MotDeadTime_Multi'' UINT32 True [] (c_init UINT32 (Val (BSWCFGPWM_MOT_DEADTIME_MULTI pm))),
     Binding ''BswCfgCal_Pwm_MotMinPulseWidth_INV1'' UINT32 True [] (c_init UINT32 (Val (BSWCFGPWM_MOT_INV1_MIN_WIDTH gic))),
     Binding ''BswCfgCal_Pwm_MotMinPulseWidth_INV2'' UINT32 True [] (c_init UINT32 (Val (BSWCFGPWM_MOT_INV2_MIN_WIDTH gic))),
     Binding ''BswCfgCal_Pwm_MotUpdateTime_INV1'' UINT32 True [] (c_init UINT32 (Val (BSWCFGPWM_MOT_INV1_UPDATE_TIME et))),
     Binding ''BswCfgCal_Pwm_MotUpdateTime_INV2'' UINT32 True [] (c_init UINT32 (Val (BSWCFGPWM_MOT_INV2_UPDATE_TIME et))),
     Binding ''BswCfgCal_Pwm_MotPwmMode'' UINT8 True [] (c_init UINT8 (Val (BSWCFGPWM_MOT_PWMMAC_MODE x))),
     Binding ''BswCfgCal_Pwm_MotAsacEdgeOffset'' UINT32 True [] (c_init UINT32 (Val (BSWCFGPWM_MOT_ASAC_EDGE_OFFSET gic))),
     Binding ''BswCfgCal_Pwm_MotUpdatetime_AutoMode'' UINT8 True [] (c_init UINT8 (Val (BSWCFGPWM_MOT_UPDATETIME_AUTO_MODE au))),
     Binding ''BswCfgCal_Pwm_MoteTPULoad_SYNC'' UINT32 True [] (c_init UINT32 (Val (BSWCFGPWM_MOT_eTPULoad_SYNC et))),
     Binding ''BswCfgCal_Pwm_MoteTPULoad_RSLV'' UINT32 True [] (c_init UINT32 (Val (BSWCFGPWM_MOT_eTPULoad_RSLV et))),
     Binding ''BswCfgCal_Pwm_MoteTPULoad_PWM'' UINT32 True [] (c_init UINT32 (Val (BSWCFGPWM_MOT_eTPULoad_PWM et))),
     Binding ''BswCfgCal_Pwm_HsgStartTime'' UINT32 True [] (c_init UINT32 (Val BSWCFGPWM_HSG_START)),
     Binding ''BswCfgCal_Pwm_HsgPeriod'' UINT32 True [] (c_init UINT32 (Val BSWCFGPWM_HSG_PERIOD)),
     Binding ''BswCfgCal_Pwm_HsgDeadTime_INV1'' UINT32 True [] (c_init UINT32 (Val (BSWCFGPWM_HSG_INV1_DEADTIME pm))),
     Binding ''BswCfgCal_Pwm_HsgDeadTime_INV2'' UINT32 True [] (c_init UINT32 (Val (BSWCFGPWM_HSG_INV2_DEADTIME pm))),
     Binding ''BswCfgCal_Pwm_HsgMinPulseWidth_INV1'' UINT32 True [] (c_init UINT32 (Val (BSWCFGPWM_HSG_INV1_MIN_WIDTH gic))),
     Binding ''BswCfgCal_Pwm_HsgMinPulseWidth_INV2'' UINT32 True [] (c_init UINT32 (Val (BSWCFGPWM_HSG_INV2_MIN_WIDTH gic))),
     Binding ''BswCfgCal_Pwm_HsgUpdateTime_INV1'' UINT32 True [] (c_init UINT32 (Val (BSWCFGPWM_HSG_INV1_UPDATE_TIME et))),
     Binding ''BswCfgCal_Pwm_HsgUpdateTime_INV2'' UINT32 True [] (c_init UINT32 (Val (BSWCFGPWM_HSG_INV2_UPDATE_TIME et))),
     Binding ''BswCfgCal_Pwm_HsgPwmMode'' UINT8 True [] (c_init UINT8 (Val (BSWCFGPWM_HSG_PWMMAC_MODE x))),
     Binding ''BswCfgCal_Pwm_HsgAsacEdgeOffset'' UINT32 True [] (c_init UINT32 (Val (BSWCFGPWM_HSG_ASAC_EDGE_OFFSET gic))),
     Binding ''BswCfgCal_Pwm_HsgUpdatetime_AutoMode'' UINT8 True [] (c_init UINT8 (Val (BSWCFGPWM_HSG_UPDATETIME_AUTO_MODE au))),
     Binding ''BswCfgCal_Pwm_HsgeTPULoad_SYNC'' UINT32 True [] (c_init UINT32 (Val (BSWCFGPWM_HSG_eTPULoad_SYNC et))),
     Binding ''BswCfgCal_Pwm_HsgeTPULoad_RSLV'' UINT32 True [] (c_init UINT32 (Val (BSWCFGPWM_HSG_eTPULoad_RSLV et))),
     Binding ''BswCfgCal_Pwm_HsgeTPULoad_PWM'' UINT32 True [] (c_init UINT32 (Val (BSWCFGPWM_HSG_eTPULoad_PWM et))),
     Binding ''BswCfgVal_Pwm_MotUpdateTime_INV1'' UINT32 False [] (c_init UINT32 (Val (BSWCFGPWM_MOT_INV1_UPDATE_TIME et))),
     Binding ''BswCfgVal_Pwm_MotUpdateTime_INV2'' UINT32 False [] (c_init UINT32 (Val (BSWCFGPWM_MOT_INV2_UPDATE_TIME et))),
     Binding ''BswCfgVal_Pwm_HsgUpdateTime_INV1'' UINT32 False [] (c_init UINT32 (Val (BSWCFGPWM_HSG_INV1_UPDATE_TIME et))),
     Binding ''BswCfgVal_Pwm_HsgUpdateTime_INV2'' UINT32 False [] (c_init UINT32 (Val (BSWCFGPWM_HSG_INV2_UPDATE_TIME et)))]"

section \<open>\<^verbatim>\<open>BswCfgRdc.h\<close> and \<^verbatim>\<open>BswCfgRdc.c\<close>: the resolver configuration\<close>

definition BSWCFGRDC_MOT_K1_D :: "cval" where
  "BSWCFGRDC_MOT_K1_D = dbl_lit 0.5605666"

definition BSWCFGRDC_MOT_K2_D :: "cval" where
  "BSWCFGRDC_MOT_K2_D = dbl_lit 0.7535489"

definition BSWCFGRDC_MOT_K1_SCALE :: "cval" where
  "BSWCFGRDC_MOT_K1_SCALE = IntV 6"

definition BSWCFGRDC_MOT_K2_SCALE :: "cval" where
  "BSWCFGRDC_MOT_K2_SCALE = IntV 5"

definition BSWCFGRDC_MOT_SIN_DC_OFFSET :: "cval" where
  "BSWCFGRDC_MOT_SIN_DC_OFFSET = IntV 0"

definition BSWCFGRDC_MOT_COS_DC_OFFSET :: "cval" where
  "BSWCFGRDC_MOT_COS_DC_OFFSET = IntV 0"

definition BSWCFGRDC_MOT_SIN_SCALE :: "cval" where
  "BSWCFGRDC_MOT_SIN_SCALE = IntV 1200"

definition BSWCFGRDC_MOT_COS_SCALE :: "cval" where
  "BSWCFGRDC_MOT_COS_SCALE = IntV 1200"

definition BSWCFGRDC_HSG_K1_D :: "cval" where
  "BSWCFGRDC_HSG_K1_D = dbl_lit 0.5605666"

definition BSWCFGRDC_HSG_K2_D :: "cval" where
  "BSWCFGRDC_HSG_K2_D = dbl_lit 0.7535489"

definition BSWCFGRDC_HSG_K1_SCALE :: "cval" where
  "BSWCFGRDC_HSG_K1_SCALE = IntV 6"

definition BSWCFGRDC_HSG_K2_SCALE :: "cval" where
  "BSWCFGRDC_HSG_K2_SCALE = IntV 5"

definition BSWCFGRDC_HSG_SIN_DC_OFFSET :: "cval" where
  "BSWCFGRDC_HSG_SIN_DC_OFFSET = IntV 0"

definition BSWCFGRDC_HSG_COS_DC_OFFSET :: "cval" where
  "BSWCFGRDC_HSG_COS_DC_OFFSET = IntV 0"

definition BSWCFGRDC_HSG_SIN_SCALE :: "cval" where
  "BSWCFGRDC_HSG_SIN_SCALE = IntV 1200"

definition BSWCFGRDC_HSG_COS_SCALE :: "cval" where
  "BSWCFGRDC_HSG_COS_SCALE = IntV 1200"

definition BSWCFGRDC_MOT_PERIOD :: "cval" where
  "BSWCFGRDC_MOT_PERIOD = IntV 66"

definition BSWCFGRDC_MOT_START_OFFSET :: "cval" where
  "BSWCFGRDC_MOT_START_OFFSET = IntV 5"

definition BSWCFGRDC_MOT_UNITRIG_START_OFFSET :: "cval" where
  "BSWCFGRDC_MOT_UNITRIG_START_OFFSET = IntV 33005"

definition BSWCFGRDC_HSG_PERIOD :: "cval" where
  "BSWCFGRDC_HSG_PERIOD = IntV 66"

definition BSWCFGRDC_HSG_START_OFFSET :: "cval" where
  "BSWCFGRDC_HSG_START_OFFSET = IntV 30"

definition BSWCFGRDC_HSG_UNITRIG_START_OFFSET :: "cval" where
  "BSWCFGRDC_HSG_UNITRIG_START_OFFSET = IntV 33030"

definition BswCfgRdc_c :: "ext_macros \<Rightarrow> binding list" where
  "BswCfgRdc_c x =
    [Binding ''BswCfgCal_Rdc_MotPeriod'' UINT32 True [] (c_init UINT32 (Val BSWCFGRDC_MOT_PERIOD)),
     Binding ''BswCfgCal_Rdc_MotStartOffset'' FLOAT32 True [] (c_init FLOAT32 (Val BSWCFGRDC_MOT_START_OFFSET)),
     Binding ''BswCfgCal_Rdc_MotK1'' FLOAT32 True [] (c_init FLOAT32 (Val BSWCFGRDC_MOT_K1_D)),
     Binding ''BswCfgCal_Rdc_MotK2'' FLOAT32 True [] (c_init FLOAT32 (Val BSWCFGRDC_MOT_K2_D)),
     Binding ''BswCfgCal_Rdc_MotK1Scale'' INT32 True [] (c_init INT32 (Val BSWCFGRDC_MOT_K1_SCALE)),
     Binding ''BswCfgCal_Rdc_MotK2Scale'' INT32 True [] (c_init INT32 (Val BSWCFGRDC_MOT_K2_SCALE)),
     Binding ''BswCfgCal_Rdc_MotSinDcOffset'' UINT32 True [] (c_init UINT32 (Val BSWCFGRDC_MOT_SIN_DC_OFFSET)),
     Binding ''BswCfgCal_Rdc_MotCosDcOffset'' UINT32 True [] (c_init UINT32 (Val BSWCFGRDC_MOT_COS_DC_OFFSET)),
     Binding ''BswCfgCal_Rdc_MotSinScale'' INT32 True [] (c_init INT32 (Val BSWCFGRDC_MOT_SIN_SCALE)),
     Binding ''BswCfgCal_Rdc_MotCosScale'' INT32 True [] (c_init INT32 (Val BSWCFGRDC_MOT_COS_SCALE)),
     Binding ''BswCfgCal_Rdc_MotUnitrigDelay'' UINT32 True [] (c_init UINT32 (Val (BSWCFGRDC_MOT_UNITRIG_DELAY x))),
     Binding ''BswCfgCal_Rdc_MotUnitrigStartOffset'' UINT32 True [] (c_init UINT32 (Val BSWCFGRDC_MOT_UNITRIG_START_OFFSET)),
     Binding ''BswCfgCal_Rdc_HsgPeriod'' UINT32 True [] (c_init UINT32 (Val BSWCFGRDC_HSG_PERIOD)),
     Binding ''BswCfgCal_Rdc_HsgStartOffset'' FLOAT32 True [] (c_init FLOAT32 (Val BSWCFGRDC_HSG_START_OFFSET)),
     Binding ''BswCfgCal_Rdc_HsgK1'' FLOAT32 True [] (c_init FLOAT32 (Val BSWCFGRDC_HSG_K1_D)),
     Binding ''BswCfgCal_Rdc_HsgK2'' FLOAT32 True [] (c_init FLOAT32 (Val BSWCFGRDC_HSG_K2_D)),
     Binding ''BswCfgCal_Rdc_HsgK1Scale'' INT32 True [] (c_init INT32 (Val BSWCFGRDC_HSG_K1_SCALE)),
     Binding ''BswCfgCal_Rdc_HsgK2Scale'' INT32 True [] (c_init INT32 (Val BSWCFGRDC_HSG_K2_SCALE)),
     Binding ''BswCfgCal_Rdc_HsgSinDcOffset'' UINT32 True [] (c_init UINT32 (Val BSWCFGRDC_HSG_SIN_DC_OFFSET)),
     Binding ''BswCfgCal_Rdc_HsgCosDcOffset'' UINT32 True [] (c_init UINT32 (Val BSWCFGRDC_HSG_COS_DC_OFFSET)),
     Binding ''BswCfgCal_Rdc_HsgSinScale'' INT32 True [] (c_init INT32 (Val BSWCFGRDC_HSG_SIN_SCALE)),
     Binding ''BswCfgCal_Rdc_HsgCosScale'' INT32 True [] (c_init INT32 (Val BSWCFGRDC_HSG_COS_SCALE)),
     Binding ''BswCfgCal_Rdc_HsgUnitrigDelay'' UINT32 True [] (c_init UINT32 (Val (BSWCFGRDC_HSG_UNITRIG_DELAY x))),
     Binding ''BswCfgCal_Rdc_HsgUnitrigStartOffset'' UINT32 True [] (c_init UINT32 (Val BSWCFGRDC_HSG_UNITRIG_START_OFFSET))]"

section \<open>\<^verbatim>\<open>CcCalBase.h\<close> and \<^verbatim>\<open>CcCalBase.c\<close>: the current-control base calibration\<close>

text \<open>
  The objects of \<^verbatim>\<open>CcCalBase.c\<close> in the order of the file: runs of unconditional definitions
  (\<open>CcCalBase_c_part1\<close> to \<open>CcCalBase_c_part4\<close>) between the four conditional groups of the
  file.
\<close>

definition CUR_SENSOR_OFFSET_MOT :: "cval" where
  "CUR_SENSOR_OFFSET_MOT = IntV 2048"

definition CUR_SENSOR_SCALE_MOT :: "mot_cur_sensor_macros \<Rightarrow> cval" where
  "CUR_SENSOR_SCALE_MOT cs = c_mul (CUR_SENSOR_RANGE_MOT cs) (dbl_lit 0.00061035)"

definition HVBATT_SENSOR_OFFSET :: "cval" where
  "HVBATT_SENSOR_OFFSET = IntV 0"

definition HVBATT_SENSOR_SCALE :: "ext_macros \<Rightarrow> cval" where
  "HVBATT_SENSOR_SCALE x = c_mul (c_div (HVBATT_SENSOR_RANGE x) (HVBATT_SENSOR_RANGE_TYP x)) (dbl_lit 0.0012207)"

definition CUR_SENSOR_OFFSET_HSG :: "cval" where
  "CUR_SENSOR_OFFSET_HSG = IntV 2048"

definition CUR_SENSOR_SCALE_HSG :: "ext_macros \<Rightarrow> cval" where
  "CUR_SENSOR_SCALE_HSG x = c_mul (CUR_SENSOR_RANGE_HSG x) (dbl_lit 0.00061035)"

definition LVBATT_SENSOR_OFFSET :: "ext_macros \<Rightarrow> cval" where
  "LVBATT_SENSOR_OFFSET x = LVBATT_SENSOR_RANGE_OFFSET x"

definition LVBATT_SENSOR_SCALE :: "ext_macros \<Rightarrow> cval" where
  "LVBATT_SENSOR_SCALE x = c_mul (c_div (c_sub (LVBATT_SENSOR_RANGE x) (LVBATT_SENSOR_RANGE_OFFSET x)) (LVBATT_SENSOR_RANGE_TYP x)) (dbl_lit 0.0012207)"

definition CcCalBase_c_part1 :: "ext_macros \<Rightarrow> binding list" where
  "CcCalBase_c_part1 x =
    [Binding ''BswCfgCal_Rsv_DefaultOffset'' FLOAT32 True [''TOTAL_TARGET''] (c_init FLOAT32 (Agg [Val (DEFAULT_OFFSET_MOT x), Val (DEFAULT_OFFSET_HSG x)])),
     Binding ''BswCfgCal_Rsv_RotDir'' UINT16 True [''TOTAL_TARGET''] (c_init UINT16 (Agg [Val (RESOLVER_DIRECTION_MOT x), Val (RESOLVER_DIRECTION_HSG x)]))]"

definition SA_2STAGE_PWM_MODE_section :: "ext_macros \<Rightarrow> macro_env \<Rightarrow> config_error + binding list" where
  "SA_2STAGE_PWM_MODE_section x env =
    (if pp env ''_SA_2STAGE_PWM_MODE'' = pp env ''_2STG_SVPWM'' then Inr
       [Binding ''TestCal_RSPWM_Enb'' BOOL True [] (c_init BOOL (Val (CLR_FLAG x)))]
     else if pp env ''_SA_2STAGE_PWM_MODE'' = pp env ''_2STG_RSPWM'' then Inr
       [Binding ''TestCal_RSPWM_Enb'' BOOL True [] (c_init BOOL (Val (SET_FLAG x)))]
     else Inl (PpError ''undefined _SA_2STAGE_PWM_MODE MACRO''))"

definition CcCalBase_c_part2 :: "ext_macros \<Rightarrow> binding list" where
  "CcCalBase_c_part2 x =
    [Binding ''TestCal_VnCtrl_Enb'' BOOL True [] (c_init BOOL (Val (SET_FLAG x)))]"

definition SA_SQPWM_REGEN_DIS_section :: "ext_macros \<Rightarrow> macro_env \<Rightarrow> config_error + binding list" where
  "SA_SQPWM_REGEN_DIS_section x env =
    (if pp env ''_SA_SQPWM_REGEN_DIS'' = pp env ''_SQPWM_REGEN_ENB'' then Inr
       [Binding ''CcCal_SQPWM_Mode_Regen_Disable'' UINT8 True [''TOTAL_TARGET''] (c_init UINT8 (Agg [Val (CLR_FLAG x), Val (CLR_FLAG x)]))]
     else if pp env ''_SA_SQPWM_REGEN_DIS'' = pp env ''_SQPWM_REGEN_DIS'' then Inr
       [Binding ''CcCal_SQPWM_Mode_Regen_Disable'' UINT8 True [''TOTAL_TARGET''] (c_init UINT8 (Agg [Val (SET_FLAG x), Val (SET_FLAG x)]))]
     else Inl (PpError ''undefined _SA_SQPWM_REGEN_DIS MACRO''))"

definition CcCalBase_c_part3 :: "ext_macros \<Rightarrow> power_module_macros \<Rightarrow> mot_cur_sensor_macros \<Rightarrow> binding list" where
  "CcCalBase_c_part3 x pm cs =
    [Binding ''CcCal_Motor_frated'' FLOAT32 True [''TOTAL_TARGET''] (c_init FLOAT32 (Agg [Val (flt_lit 0), Val (flt_lit 0)])),
     Binding ''CcCal_SWRDC_GainUpdateCal'' UINT8 True [''TOTAL_TARGET''] (c_init UINT8 (Agg [Val (CLR_FLAG x), Val (CLR_FLAG x)])),
     Binding ''CcCal_SWRDC_GainUpdate_K1D'' SIGNED_LONG True [''TOTAL_TARGET''] (c_init SIGNED_LONG (Agg [Val (c_mul (dbl_lit 0.64339817) (IntV 8388608)), Val (c_mul (dbl_lit 0.64339817) (IntV 8388608))])),
     Binding ''CcCal_SWRDC_GainUpdate_K1SCALE'' SIGNED_LONG True [''TOTAL_TARGET''] (c_init SIGNED_LONG (Agg [Val (IntV 7), Val (IntV 7)])),
     Binding ''CcCal_SWRDC_GainUpdate_K2D'' SIGNED_LONG True [''TOTAL_TARGET''] (c_init SIGNED_LONG (Agg [Val (c_mul (dbl_lit 0.99471843) (IntV 8388608)), Val (c_mul (dbl_lit 0.99471843) (IntV 8388608))])),
     Binding ''CcCal_SWRDC_GainUpdate_K2SCALE'' SIGNED_LONG True [''TOTAL_TARGET''] (c_init SIGNED_LONG (Agg [Val (IntV 4), Val (IntV 4)])),
     Binding ''CcCal_SWRDC_GainUpdate_NaturalFreq'' INT32 True [''TOTAL_TARGET''] (c_init INT32 (Agg [Val (IntV 200), Val (IntV 200)])),
     Binding ''CcCal_SWRDC_GainUpdate_DampFac'' FLOAT32 True [''TOTAL_TARGET''] (c_init FLOAT32 (Agg [Val (flt_lit 1), Val (flt_lit 1)])),
     Binding ''CcCal_ToggleEnb'' UINT16 True [''TOTAL_TARGET''] (c_init UINT16 (Agg [Val (CLR_FLAG x), Val (CLR_FLAG x)])),
     Binding ''CcCal_Fsamp_High_Limit'' FLOAT32 True [''TOTAL_TARGET''] (c_init FLOAT32 (Agg [Val (flt_lit 19800), Val (flt_lit 19700)])),
     Binding ''CcCal_Motor_Ld'' FLOAT32 True [''TOTAL_TARGET''] (c_init FLOAT32 (Agg [Val (flt_lit 0.00016), Val (flt_lit 0.0002)])),
     Binding ''CcCal_Motor_Lq'' FLOAT32 True [''TOTAL_TARGET''] (c_init FLOAT32 (Agg [Val (flt_lit 0.00027), Val (flt_lit 0.0004)])),
     Binding ''CcCal_Motor_Llk'' FLOAT32 True [''TOTAL_TARGET''] (c_init FLOAT32 (Agg [Val (flt_lit 0.003), Val (flt_lit 0.0003)])),
     Binding ''CcCal_DaxisCurCtrlBW'' FLOAT32 True [''TOTAL_TARGET''] (c_init FLOAT32 (Agg [Val (flt_lit 350), Val (flt_lit 350)])),
     Binding ''CcCal_QaxisCurCtrlBW'' FLOAT32 True [''TOTAL_TARGET''] (c_init FLOAT32 (Agg [Val (flt_lit 350), Val (flt_lit 350)])),
     Binding ''CcCal_NaxisCurCtrlBW'' FLOAT32 True [''TOTAL_TARGET''] (c_init FLOAT32 (Agg [Val (flt_lit 350), Val (flt_lit 350)])),
     Binding ''CcCal_PaxisCurCtrlBW'' FLOAT32 True [''TOTAL_TARGET''] (c_init FLOAT32 (Agg [Val (flt_lit 350), Val (flt_lit 350)])),
     Binding ''CcCal_SWRDC_Speed_Override'' UINT16 True [''TOTAL_TARGET''] (c_init UINT16 (Agg [Val (CLR_FLAG x), Val (CLR_FLAG x)])),
     Binding ''L1'' FLOAT32 True [] (c_init FLOAT32 (Val (c_mul (flt_lit 3) (c_mul (c_mul (flt_lit 400) (PI x)) (flt_lit 0.3))))),
     Binding ''L2'' FLOAT32 True [] (c_init FLOAT32 (Val (c_mul (c_mul (flt_lit 3) (c_mul (c_mul (flt_lit 400) (PI x)) (flt_lit 0.3))) (c_mul (c_mul (flt_lit 400) (PI x)) (flt_lit 0.3))))),
     Binding ''L3'' FLOAT32 True [] (c_init FLOAT32 (Val (c_mul (c_mul (c_mul (c_mul (flt_lit 400) (PI x)) (flt_lit 0.3)) (c_mul (c_mul (flt_lit 400) (PI x)) (flt_lit 0.3))) (c_mul (c_mul (flt_lit 400) (PI x)) (flt_lit 0.3))))),
     Binding ''CcCal_Cur_lag'' FLOAT32 True [''TOTAL_TARGET''] (c_init FLOAT32 (Agg [Val (flt_lit 0), Val (flt_lit 0)])),
     Binding ''FSW_TAB'' FLOAT32 True [''TOTAL_TARGET'', ''VARIABLE_FSW_TAB_OUT_SIZE''] (c_init FLOAT32 (Agg [Agg [Val (flt_lit 4000), Val (flt_lit 4000), Val (flt_lit 4000), Val (flt_lit 4000), Val (flt_lit 4000), Val (flt_lit 4000), Val (flt_lit 4000), Val (flt_lit 4000), Val (flt_lit 4000)], Agg [Val (flt_lit 4000), Val (flt_lit 4000), Val (flt_lit 4000), Val (flt_lit 4000), Val (flt_lit 4000), Val (flt_lit 4000), Val (flt_lit 4000), Val (flt_lit 4000), Val (flt_lit 4000)]])),
     Binding ''HSG_VAR_HOVMGAIN_TAB'' FLOAT32 True [''VARIABLE_HOVM_TAB_ROW_SIZE'', ''VARIABLE_HOVM_TAB_COL_SIZE''] (c_init FLOAT32 (Agg [Agg [Val (flt_lit 1), Val (flt_lit 1), Val (flt_lit 1), Val (flt_lit 1), Val (flt_lit 1), Val (flt_lit 1), Val (flt_lit 1), Val (flt_lit 1.1), Val (flt_lit 1.1), Val (flt_lit 1.1), Val (flt_lit 1.1)], Agg [Val (flt_lit 1), Val (flt_lit 1), Val (flt_lit 1), Val (flt_lit 1), Val (flt_lit 1), Val (flt_lit 1), Val (flt_lit 1), Val (flt_lit 1.1), Val (flt_lit 1.1), Val (flt_lit 1.1), Val (flt_lit 1.1)], Agg [Val (flt_lit 1), Val (flt_lit 1), Val (flt_lit 1), Val (flt_lit 1), Val (flt_lit 1), Val (flt_lit 1), Val (flt_lit 1), Val (flt_lit 1.1), Val (flt_lit 1.1), Val (flt_lit 1.1), Val (flt_lit 1.1)], Agg [Val (flt_lit 1), Val (flt_lit 1), Val (flt_lit 1), Val (flt_lit 1), Val (flt_lit 1), Val (flt_lit 1), Val (flt_lit 1), Val (flt_lit 1.1), Val (flt_lit 1.1), Val (flt_lit 1.1), Val (flt_lit 1.1)], Agg [Val (flt_lit 1), Val (flt_lit 1), Val (flt_lit 1), Val (flt_lit 1), Val (flt_lit 1), Val (flt_lit 1), Val (flt_lit 1), Val (flt_lit 1.1), Val (flt_lit 1.1), Val (flt_lit 1.1), Val (flt_lit 1.1)], Agg [Val (flt_lit 1), Val (flt_lit 1), Val (flt_lit 1), Val (flt_lit 1), Val (flt_lit 1), Val (flt_lit 1), Val (flt_lit 1), Val (flt_lit 1.1), Val (flt_lit 1.1), Val (flt_lit 1.1), Val (flt_lit 1.1)], Agg [Val (flt_lit 1), Val (flt_lit 1), Val (flt_lit 1), Val (flt_lit 1), Val (flt_lit 1), Val (flt_lit 1), Val (flt_lit 1), Val (flt_lit 1.1), Val (flt_lit 1.1), Val (flt_lit 1.1), Val (flt_lit 1.1)], Agg [Val (flt_lit 1), Val (flt_lit 1), Val (flt_lit 1), Val (flt_lit 1), Val (flt_lit 1), Val (flt_lit 1), Val (flt_lit 1), Val (flt_lit 1.1), Val (flt_lit 1.1), Val (flt_lit 1.1), Val (flt_lit 1.1)], Agg [Val (flt_lit 1), Val (flt_lit 1), Val (flt_lit 1), Val (flt_lit 1), Val (flt_lit 1), Val (flt_lit 1), Val (flt_lit 1), Val (flt_lit 1.1), Val (flt_lit 1.1), Val (flt_lit 1.1), Val (flt_lit 1.1)], Agg [Val (flt_lit 1), Val (flt_lit 1), Val (flt_lit 1.1), Val (flt_lit 1.1), Val (flt_lit 1.1), Val (flt_lit 1.1), Val (flt_lit 1.1), Val (flt_lit 1.1), Val (flt_lit 1.1), Val (flt_lit 1.1), Val (flt_lit 1.1)], Agg [Val (flt_lit 1), Val (flt_lit 1), Val (flt_lit 1.1), Val (flt_lit 1.1), Val (flt_lit 1.1), Val (flt_lit 1.1), Val (flt_lit 1.1), Val (flt_lit 1.1), Val (flt_lit 1.1), Val (flt_lit 1.1), Val (flt_lit 1.1)], Agg [Val (flt_lit 1), Val (flt_lit 1), Val (flt_lit 1.1), Val (flt_lit 1.1), Val (flt_lit 1.1), Val (flt_lit 1.1), Val (flt_lit 1.1), Val (flt_lit 1.1), Val (flt_lit 1.1), Val (flt_lit 1.1), Val (flt_lit 1.1)], Agg [Val (flt_lit 1), Val (flt_lit 1), Val (flt_lit 1.1), Val (flt_lit 1.1), Val (flt_lit 1.1), Val (flt_lit 1.1), Val (flt_lit 1.1), Val (flt_lit 1.1), Val (flt_lit 1.1), Val (flt_lit 1.1), Val (flt_lit 1.1)], Agg [Val (flt_lit 1), Val (flt_lit 1), Val (flt_lit 1.1), Val (flt_lit 1.1), Val (flt_lit 1.1), Val (flt_lit 1.1), Val (flt_lit 1.1), Val (flt_lit 1.1), Val (flt_lit 1.1), Val (flt_lit 1.1), Val (flt_lit 1.1)], Agg [Val (flt_lit 1), Val (flt_lit 1), Val (flt_lit 1.1), Val (flt_lit 1.1), Val (flt_lit 1.1), Val (flt_lit 1.1), Val (flt_lit 1.1), Val (flt_lit 1.1), Val (flt_lit 1.1), Val (flt_lit 1.1), Val (flt_lit 1.1)], Agg [Val (flt_lit 1), Val (flt_lit 1), Val (flt_lit 1.1), Val (flt_lit 1.1), Val (flt_lit 1.1), Val (flt_lit 1.1), Val (flt_lit 1.1), Val (flt_lit 1.1), Val (flt_lit 1.1), Val (flt_lit 1.1), Val (flt_lit 1.1)], Agg [Val (flt_lit 1), Val (flt_lit 1), Val (flt_lit 1.1), Val (flt_lit 1.1), Val (flt_lit 1.1), Val (flt_lit 1.1), Val (flt_lit 1.1), Val (flt_lit 1.1), Val (flt_lit 1.1), Val (flt_lit 1.1), Val (flt_lit 1.1)], Agg [Val (flt_lit 1), Val (flt_lit 1), Val (flt_lit 1.1), Val (flt_lit 1.1), Val (flt_lit 1.1), Val (flt_lit 1.1), Val (flt_lit 1.1), Val (flt_lit 1.1), Val (flt_lit 1.1), Val (flt_lit 1.1), Val (flt_lit 1.1)], Agg [Val (flt_lit 1), Val (flt_lit 1), Val (flt_lit 1.1), Val (flt_lit 1.1), Val (flt_lit 1.1), Val (flt_lit 1.1), Val (flt_lit 1.1), Val (flt_lit 1.1), Val (flt_lit 1.1), Val (flt_lit 1.1), Val (flt_lit 1.1)]])),
     Binding ''MAGINJ_TAB'' FLOAT32 True [''TOTAL_TARGET'', ''VARIABLE_FSW_TAB_OUT_SIZE''] (c_init FLOAT32 (Agg [Agg [Val (flt_lit 0), Val (flt_lit 0), Val (flt_lit 0), Val (flt_lit 0), Val (flt_lit 0), Val (flt_lit 0), Val (flt_lit 0), Val (flt_lit 0), Val (flt_lit 0)], Agg [Val (flt_lit 0), Val (flt_lit 0), Val (flt_lit 0), Val (flt_lit 0), Val (flt_lit 0), Val (flt_lit 0), Val (flt_lit 0), Val (flt_lit 0), Val (flt_lit 0)]])),
     Binding ''CcCal_BETC_SetFlag'' UINT8 True [''TOTAL_TARGET''] (c_init UINT8 (Agg [Val (CLR_FLAG x), Val (CLR_FLAG x)])),
     Binding ''CcCal_BETC_CoeffLAMpm_Tmp'' FLOAT32 True [''TOTAL_TARGET''] (c_init FLOAT32 (Agg [Val (flt_lit 0.001), Val (flt_lit 0.001)])),
     Binding ''CcCal_BETC_LAMpmAt90MAP'' FLOAT32 True [''TOTAL_TARGET''] (c_init FLOAT32 (Agg [Val (flt_lit 0.052), Val (flt_lit 0.052)])),
     Binding ''CcCal_BETC_EndCnt'' UINT32 True [''TOTAL_TARGET''] (c_init UINT32 (Agg [Val (IntV 3), Val (IntV 3)])),
     Binding ''CcCal_BETC_DeltaTmpComp_Lmt'' FLOAT32 True [''TOTAL_TARGET''] (c_init FLOAT32 (Agg [Val (flt_lit 40), Val (flt_lit 40)])),
     Binding ''CcCal_DeadTimeCompEnb'' UINT8 True [''TOTAL_TARGET''] (c_init UINT8 (Agg [Val (SET_FLAG x), Val (SET_FLAG x)])),
     Binding ''CcCal_DeadTimeComp_INVIcompZCC_INV1'' FLOAT32 False [''TOTAL_TARGET''] (c_init FLOAT32 (Agg [Val (c_div (flt_lit 1) (c_mul (CUR_SENSOR_RANGE_MOT cs) (flt_lit 0.05))), Val (c_div (flt_lit 1) (c_mul (CUR_SENSOR_RANGE_HSG x) (flt_lit 0.05)))])),
     Binding ''CcCal_DeadTimeComp_INVIcompZCC_INV2'' FLOAT32 False [''TOTAL_TARGET''] (c_init FLOAT32 (Agg [Val (c_div (flt_lit 1) (c_mul (CUR_SENSOR_RANGE_MOT cs) (flt_lit 0.05))), Val (c_div (flt_lit 1) (c_mul (CUR_SENSOR_RANGE_HSG x) (flt_lit 0.05)))])),
     Binding ''CcCal_DeadTimeComp_TdeadComp_INV1'' FLOAT32 True [''TOTAL_TARGET''] (c_init FLOAT32 (Agg [Val (c_mul (c_sub (BSWCFGPWM_MOT_INV1_DEADTIME pm) (flt_lit 100)) (flt_lit 0.000000001)), Val (c_mul (c_sub (BSWCFGPWM_HSG_INV1_DEADTIME pm) (flt_lit 100)) (flt_lit 0.000000001))])),
     Binding ''CcCal_DeadTimeComp_TdeadComp_INV2'' FLOAT32 True [''TOTAL_TARGET''] (c_init FLOAT32 (Agg [Val (c_mul (c_sub (BSWCFGPWM_MOT_INV2_DEADTIME pm) (flt_lit 100)) (flt_lit 0.000000001)), Val (c_mul (c_sub (BSWCFGPWM_HSG_INV2_DEADTIME pm) (flt_lit 100)) (flt_lit 0.000000001))])),
     Binding ''CcCal_DeadTimeComp_IcompZCC_INV1'' FLOAT32 True [''TOTAL_TARGET''] (c_init FLOAT32 (Agg [Val (c_mul (CUR_SENSOR_RANGE_MOT cs) (flt_lit 0.05)), Val (c_mul (CUR_SENSOR_RANGE_HSG x) (flt_lit 0.05))])),
     Binding ''CcCal_DeadTimeComp_IcompZCC_INV2'' FLOAT32 True [''TOTAL_TARGET''] (c_init FLOAT32 (Agg [Val (c_mul (CUR_SENSOR_RANGE_MOT cs) (flt_lit 0.05)), Val (c_mul (CUR_SENSOR_RANGE_HSG x) (flt_lit 0.05))])),
     Binding ''CcCal_CurA_InitialOffset'' INT16 True [''TOTAL_TARGET''] (c_init INT16 (Agg [Val CUR_SENSOR_OFFSET_MOT, Val CUR_SENSOR_OFFSET_HSG])),
     Binding ''CcCal_CurB_InitialOffset'' INT16 True [''TOTAL_TARGET''] (c_init INT16 (Agg [Val CUR_SENSOR_OFFSET_MOT, Val CUR_SENSOR_OFFSET_HSG])),
     Binding ''CcCal_CurC_InitialOffset'' INT16 True [''TOTAL_TARGET''] (c_init INT16 (Agg [Val CUR_SENSOR_OFFSET_MOT, Val CUR_SENSOR_OFFSET_HSG])),
     Binding ''CcCal_Cur_ScaleFactor'' FLOAT32 True [''TOTAL_TARGET''] (c_init FLOAT32 (Agg [Val (CUR_SENSOR_SCALE_MOT cs), Val (CUR_SENSOR_SCALE_HSG x)])),
     Binding ''CcCal_HvBatt_InitialOffset'' UINT16 True [''TOTAL_TARGET''] (c_init UINT16 (Agg [Val HVBATT_SENSOR_OFFSET, Val HVBATT_SENSOR_OFFSET])),
     Binding ''CcCal_HvBatt_ScaleFactor'' FLOAT32 True [''TOTAL_TARGET''] (c_init FLOAT32 (Agg [Val (HVBATT_SENSOR_SCALE x), Val (HVBATT_SENSOR_SCALE x)])),
     Binding ''CcCal_OffsetValidityChk_ZeroCurOverride'' UINT8 True [''TOTAL_TARGET''] (c_init UINT8 (Agg [Val (SET_FLAG x), Val (SET_FLAG x)])),
     Binding ''CcCal_LvAdToPhyOffset'' FLOAT32 True [''TOTAL_TARGET''] (c_init FLOAT32 (Agg [Val (LVBATT_SENSOR_OFFSET x), Val (LVBATT_SENSOR_OFFSET x)])),
     Binding ''CcCal_LvAdToPhySclFct'' FLOAT32 True [''TOTAL_TARGET''] (c_init FLOAT32 (Agg [Val (LVBATT_SENSOR_SCALE x), Val (LVBATT_SENSOR_SCALE x)]))]"

definition PWM_BURST_MODE_section :: "ext_macros \<Rightarrow> macro_env \<Rightarrow> config_error + binding list" where
  "PWM_BURST_MODE_section x env =
    (if pp env ''_PWM_BURST_MODE'' = pp env ''_UNDEFINED_OPTION'' then Inl (PpError ''undefined _PWM_BURST_MODE MACRO (check #define!!)'')
     else if pp env ''_PWM_BURST_MODE'' = pp env ''_BURST_MODE_ENABLE'' then Inr
       [Binding ''CcCal_PwmOff_MotTqLvl_Max'' FLOAT32 True [''TOTAL_TARGET''] (c_init FLOAT32 (Agg [Val (flt_lit 1), Val (flt_lit 0)])),
        Binding ''CcCal_PwmOff_MotTqLvl_Min'' FLOAT32 True [''TOTAL_TARGET''] (c_init FLOAT32 (Agg [Val (flt_lit 0), Val (flt_lit 0)])),
        Binding ''CcCal_PwmOn_MotTqLvl_Max'' FLOAT32 True [''TOTAL_TARGET''] (c_init FLOAT32 (Agg [Val (flt_lit 2), Val (flt_lit 0)])),
        Binding ''CcCal_PwmOn_MotTqLvl_Min'' FLOAT32 True [''TOTAL_TARGET''] (c_init FLOAT32 (Agg [Val (flt_lit 0), Val (flt_lit 0)])),
        Binding ''CcCal_PwmOff_WaitTime'' UINT32 True [''TOTAL_TARGET''] (c_init UINT32 (Agg [Val (IntV 100), Val (IntV 100)]))]
     else if pp env ''_PWM_BURST_MODE'' = pp env ''_BURST_MODE_DISABLE'' then Inr
       [Binding ''CcCal_PwmOff_MotTqLvl_Max'' FLOAT32 True [''TOTAL_TARGET''] (c_init FLOAT32 (Agg [Val (flt_lit 0), Val (flt_lit 0)])),
        Binding ''CcCal_PwmOff_MotTqLvl_Min'' FLOAT32 True [''TOTAL_TARGET''] (c_init FLOAT32 (Agg [Val (flt_lit 0), Val (flt_lit 0)])),
        Binding ''CcCal_PwmOn_MotTqLvl_Max'' FLOAT32 True [''TOTAL_TARGET''] (c_init FLOAT32 (Agg [Val (flt_lit 0), Val (flt_lit 0)])),
        Binding ''CcCal_PwmOn_MotTqLvl_Min'' FLOAT32 True [''TOTAL_TARGET''] (c_init FLOAT32 (Agg [Val (flt_lit 0), Val (flt_lit 0)])),
        Binding ''CcCal_PwmOff_WaitTime'' UINT32 True [''TOTAL_TARGET''] (c_init UINT32 (Agg [Val (IntV 100), Val (IntV 100)]))]
     else Inl (PpError ''undefined _PWM_BURST_MODE MACRO''))"

definition VAR_DTGS_OPTION_section :: "ext_macros \<Rightarrow> macro_env \<Rightarrow> config_error + binding list" where
  "VAR_DTGS_OPTION_section x env =
    (if pp env ''_VAR_DTGS_OPTION'' = pp env ''_UNDEFINED_OPTION'' then Inl (PpError ''undefined _VAR_DTGS_OPTION MACRO (check #define!!)'')
     else if pp env ''_VAR_DTGS_OPTION'' = pp env ''_VAR_DTGS_OPTION_INCLUDED'' then Inr
       [Binding ''CcCal_VarDTGS_Enb'' UINT8 True [''TOTAL_TARGET''] (c_init UINT8 (Agg [Val (SET_FLAG x), Val (SET_FLAG x)]))]
     else if pp env ''_VAR_DTGS_OPTION'' = pp env ''_VAR_DTGS_OPTION_NOT_INCLUDED'' then Inr
       [Binding ''CcCal_VarDTGS_Enb'' UINT8 True [''TOTAL_TARGET''] (c_init UINT8 (Agg [Val (CLR_FLAG x), Val (CLR_FLAG x)]))]
     else Inl (PpError ''undefined _VAR_DTGS_OPTION MACRO''))"

definition CcCalBase_c_part4 :: "binding list" where
  "CcCalBase_c_part4 =
    [Binding ''CcCal_VarDTGS_MotTqLvl1_Max_HysIn'' FLOAT32 True [''TOTAL_TARGET''] (c_init FLOAT32 (Agg [Val (flt_lit 80), Val (flt_lit 0)])),
     Binding ''CcCal_VarDTGS_MotTqLvl1_Min_HysIn'' FLOAT32 True [''TOTAL_TARGET''] (c_init FLOAT32 (Agg [Val (flt_lit (- 45)), Val (flt_lit 0)])),
     Binding ''CcCal_VarDTGS_MotSpdLvl1_Max_HysIn'' FLOAT32 True [''TOTAL_TARGET''] (c_init FLOAT32 (Agg [Val (flt_lit 8200), Val (flt_lit 0)])),
     Binding ''CcCal_VarDTGS_MotSpdLvl1_Min_HysIn'' FLOAT32 True [''TOTAL_TARGET''] (c_init FLOAT32 (Agg [Val (flt_lit 866), Val (flt_lit 0)])),
     Binding ''CcCal_VarDTGS_MotTqLvl1_Max_HysOut'' FLOAT32 True [''TOTAL_TARGET''] (c_init FLOAT32 (Agg [Val (flt_lit 88), Val (flt_lit 0)])),
     Binding ''CcCal_VarDTGS_MotTqLvl1_Min_HysOut'' FLOAT32 True [''TOTAL_TARGET''] (c_init FLOAT32 (Agg [Val (flt_lit (- 50)), Val (flt_lit 0)])),
     Binding ''CcCal_VarDTGS_MotSpdLvl1_Max_HysOut'' FLOAT32 True [''TOTAL_TARGET''] (c_init FLOAT32 (Agg [Val (flt_lit 8500), Val (flt_lit 0)])),
     Binding ''CcCal_VarDTGS_MotSpdLvl1_Min_HysOut'' FLOAT32 True [''TOTAL_TARGET''] (c_init FLOAT32 (Agg [Val (flt_lit 709), Val (flt_lit 0)])),
     Binding ''CcCal_VarDTGS_MotTqLvl2_Max_HysIn'' FLOAT32 True [''TOTAL_TARGET''] (c_init FLOAT32 (Agg [Val (flt_lit 0), Val (flt_lit 0)])),
     Binding ''CcCal_VarDTGS_MotTqLvl2_Min_HysIn'' FLOAT32 True [''TOTAL_TARGET''] (c_init FLOAT32 (Agg [Val (flt_lit 0), Val (flt_lit 0)])),
     Binding ''CcCal_VarDTGS_MotSpdLvl2_Max_HysIn'' FLOAT32 True [''TOTAL_TARGET''] (c_init FLOAT32 (Agg [Val (flt_lit 0), Val (flt_lit 0)])),
     Binding ''CcCal_VarDTGS_MotSpdLvl2_Min_HysIn'' FLOAT32 True [''TOTAL_TARGET''] (c_init FLOAT32 (Agg [Val (flt_lit 0), Val (flt_lit 0)])),
     Binding ''CcCal_VarDTGS_MotTqLvl2_Max_HysOut'' FLOAT32 True [''TOTAL_TARGET''] (c_init FLOAT32 (Agg [Val (flt_lit 0), Val (flt_lit 0)])),
     Binding ''CcCal_VarDTGS_MotTqLvl2_Min_HysOut'' FLOAT32 True [''TOTAL_TARGET''] (c_init FLOAT32 (Agg [Val (flt_lit 0), Val (flt_lit 0)])),
     Binding ''CcCal_VarDTGS_MotSpdLvl2_Max_HysOut'' FLOAT32 True [''TOTAL_TARGET''] (c_init FLOAT32 (Agg [Val (flt_lit 0), Val (flt_lit 0)])),
     Binding ''CcCal_VarDTGS_MotSpdLvl2_Min_HysOut'' FLOAT32 True [''TOTAL_TARGET''] (c_init FLOAT32 (Agg [Val (flt_lit 0), Val (flt_lit 0)])),
     Binding ''CcCal_VarDTGS_MotTqLvl3_Max_HysIn'' FLOAT32 True [''TOTAL_TARGET''] (c_init FLOAT32 (Agg [Val (flt_lit 0), Val (flt_lit 0)])),
     Binding ''CcCal_VarDTGS_MotTqLvl3_Min_HysIn'' FLOAT32 True [''TOTAL_TARGET''] (c_init FLOAT32 (Agg [Val (flt_lit 0), Val (flt_lit 0)])),
     Binding ''CcCal_VarDTGS_MotSpdLvl3_Max_HysIn'' FLOAT32 True [''TOTAL_TARGET''] (c_init FLOAT32 (Agg [Val (flt_lit 0), Val (flt_lit 0)])),
     Binding ''CcCal_VarDTGS_MotSpdLvl3_Min_HysIn'' FLOAT32 True [''TOTAL_TARGET''] (c_init FLOAT32 (Agg [Val (flt_lit 0), Val (flt_lit 0)])),
     Binding ''CcCal_VarDTGS_MotTqLvl3_Max_HysOut'' FLOAT32 True [''TOTAL_TARGET''] (c_init FLOAT32 (Agg [Val (flt_lit 0), Val (flt_lit 0)])),
     Binding ''CcCal_VarDTGS_MotTqLvl3_Min_HysOut'' FLOAT32 True [''TOTAL_TARGET''] (c_init FLOAT32 (Agg [Val (flt_lit 0), Val (flt_lit 0)])),
     Binding ''CcCal_VarDTGS_MotSpdLvl3_Max_HysOut'' FLOAT32 True [''TOTAL_TARGET''] (c_init FLOAT32 (Agg [Val (flt_lit 0), Val (flt_lit 0)])),
     Binding ''CcCal_VarDTGS_MotSpdLvl3_Min_HysOut'' FLOAT32 True [''TOTAL_TARGET''] (c_init FLOAT32 (Agg [Val (flt_lit 0), Val (flt_lit 0)]))]"

definition CcCalBase_c :: "ext_macros \<Rightarrow> macro_env \<Rightarrow> power_module_macros \<Rightarrow> mot_cur_sensor_macros \<Rightarrow> config_error + binding list" where
  "CcCalBase_c x env pm cs =
    pp_seq
      [Inr (CcCalBase_c_part1 x),
       SA_2STAGE_PWM_MODE_section x env,
       Inr (CcCalBase_c_part2 x),
       SA_SQPWM_REGEN_DIS_section x env,
       Inr (CcCalBase_c_part3 x pm cs),
       PWM_BURST_MODE_section x env,
       VAR_DTGS_OPTION_section x env,
       Inr CcCalBase_c_part4]"

section \<open>Resolution of one build\<close>

text \<open>
  The result of a build is the table of what the files bind: the selection macros of
  \<^verbatim>\<open>CcCalPrjCfg.h\<close> and the objects of the three \<^verbatim>\<open>.c\<close> files. The headers are processed
  first (project tuple, then \<^verbatim>\<open>SpInvCal.h\<close>, then \<^verbatim>\<open>BswCfgPwm.h\<close>, each in file order), the
  conditional groups of \<^verbatim>\<open>CcCalBase.c\<close> last; the first \<^verbatim>\<open>#error\<close> is the result and
  nothing is bound then.
\<close>

record binding_table =
  selection_macros :: "(string \<times> string) list"
  constants :: "binding list"

definition resolve :: "ext_macros \<Rightarrow> macro_env \<Rightarrow> config_error + binding_table" where
  "resolve x env =
    (case CcCalPrjCfg_h env of Inl e \<Rightarrow> Inl e | Inr prj \<Rightarrow>
    (case GATE_IC_TYPE_section env of Inl e \<Rightarrow> Inl e | Inr gic \<Rightarrow>
    (case POWER_MODULE_TYPE_section env of Inl e \<Rightarrow> Inl e | Inr pm \<Rightarrow>
    (case MOT_CUR_SENSOR_TYPE_section env of Inl e \<Rightarrow> Inl e | Inr cs \<Rightarrow>
    (case ETPU_CALCULATION_TIME_OPTION_section env of Inl e \<Rightarrow> Inl e | Inr et \<Rightarrow>
    (case PWM_UPDATETIME_AUTO_MODE_section x env of Inl e \<Rightarrow> Inl e | Inr au \<Rightarrow>
    (case CcCalBase_c x env pm cs of Inl e \<Rightarrow> Inl e | Inr base \<Rightarrow>
       Inr \<lparr>selection_macros = prj,
            constants = BswCfgPwm_c x gic pm et au @ BswCfgRdc_c x @ base\<rparr>)))))))"

text \<open>
  Reading the table: the object of a name, the value of a scalar, and the element of a
  per-target array. The arrays declared with the first dimension \<^verbatim>\<open>TOTAL_TARGET\<close> are
  indexed by the target; the arity of such an array is right when its initialiser list has
  one entry per target.
\<close>

fun lookup_binding :: "binding list \<Rightarrow> string \<Rightarrow> binding option" where
  "lookup_binding [] n = None"
| "lookup_binding (b # bs) n = (if bname b = n then Some b else lookup_binding bs n)"

definition scalar_of :: "binding list \<Rightarrow> string \<Rightarrow> cval option" where
  "scalar_of bs n =
     (case lookup_binding bs n of
        Some b \<Rightarrow> (case binit b of Val v \<Rightarrow> Some v | Agg es \<Rightarrow> None)
      | None \<Rightarrow> None)"

text \<open>
  Modelled from the spec: the Target Identity domain. Its enumerators are declared in
  \<^verbatim>\<open>common.h\<close>, which is not among the sources; the spec fixes two targets, the motor first
  and the hybrid starter-generator second. The sources agree: every initialiser list puts the
  \<^verbatim>\<open>_MOT\<close> macro before the \<^verbatim>\<open>_HSG\<close> macro.
\<close>

datatype target = MOT | HSG

definition targets :: "target list" where
  "targets = [MOT, HSG]"

fun target_index :: "target \<Rightarrow> nat" where
  "target_index MOT = 0"
| "target_index HSG = 1"

definition per_target :: "binding \<Rightarrow> bool" where
  "per_target b = (case bdims b of [] \<Rightarrow> False | d # ds \<Rightarrow> d = ''TOTAL_TARGET'')"

definition entries :: "binding \<Rightarrow> cinit list" where
  "entries b = (case binit b of Val v \<Rightarrow> [] | Agg es \<Rightarrow> es)"

definition arity_ok :: "binding \<Rightarrow> bool" where
  "arity_ok b = (case binit b of Val v \<Rightarrow> False | Agg es \<Rightarrow> length es = length targets)"

definition target_arity :: "binding \<Rightarrow> bool" where
  "target_arity b = (per_target b \<longrightarrow> arity_ok b)"

definition element_of :: "binding list \<Rightarrow> string \<Rightarrow> target \<Rightarrow> cval option" where
  "element_of bs n tg =
     (case lookup_binding bs n of
        Some b \<Rightarrow>
          (if target_index tg < length (entries b)
           then (case entries b ! target_index tg of Val v \<Rightarrow> Some v | Agg es \<Rightarrow> None)
           else None)
      | None \<Rightarrow> None)"

section \<open>The axes and the options they are compared with\<close>

text \<open>
  For every conditional group, the macros its guards compare the axis with, in the order of
  the guards (\<^verbatim>\<open>_UNDEFINED_OPTION\<close> first where the group starts with that guard). A value
  is unmatched when it equals none of them: the group then takes its \<^verbatim>\<open>#else\<close>. Two macro
  environments agree on a list of names when they define each of them alike.
\<close>

definition PROJECT_NAME_options :: "string list" where
  "PROJECT_NAME_options =
    [''_MV_RWD_PROJ'', ''_ME_RWD_PROJ'']"

definition PERFORMANCE_TYPE_options :: "string list" where
  "PERFORMANCE_TYPE_options =
    [''_STANDARD_VERSION'', ''_PERFORMANCE_VERSION'', ''_LONG_RANGE_VERSION'',
     ''_eM_160kW_VERSION'', ''_eM_200kW_VERSION'', ''_eM_250kW_VERSION'']"

definition DEVELOPMENT_PHASE_options :: "string list" where
  "DEVELOPMENT_PHASE_options =
    [''_TCAR_VERSION'', ''_PROTO_VERSION'', ''_MASTER_VERSION'', ''_PILOT_1_VERSION'',
     ''_PILOT_2_VERSION'', ''_M_VERSION'', ''_SOP_VERSION'', ''_RC_VERSION'']"

definition MARKET_VERSION_options :: "string list" where
  "MARKET_VERSION_options =
    [''_NORTH_AMERICA_VERSION'', ''_DOMESTIC_VERSION'', ''_EUROPE_VERSION'', ''_CHINA_VERSION'',
     ''_COMMON_COUNTRY_VERSION'', ''_JAPAN_VERSION'']"

definition GATE_IC_TYPE_options :: "string list" where
  "GATE_IC_TYPE_options =
    [''_UNDEFINED_OPTION'', ''_GATE_IC_TYPE_1'', ''_GATE_IC_TYPE_2'', ''_GATE_IC_TYPE_3'',
     ''_GATE_IC_TYPE_4'', ''_GATE_IC_TYPE_5'', ''_GATE_IC_TYPE_6'', ''_GATE_IC_TYPE_7'',
     ''_GATE_IC_TYPE_8_NV74_TCAR'']"

definition POWER_MODULE_TYPE_options :: "string list" where
  "POWER_MODULE_TYPE_options =
    [''_UNDEFINED_OPTION'', ''_PM_CASE_TYPE'', ''_PM_DSC_TYPE_1'', ''_PM_DSC_TYPE_2'',
     ''_PM_HP_DRIVE_TYPE'', ''_PM_CVeGT_TYPE'', ''_PM_NV74_TYPE'', ''_PM_MV_TYPE'']"

definition MOT_CUR_SENSOR_TYPE_options :: "string list" where
  "MOT_CUR_SENSOR_TYPE_options =
    [''_UNDEFINED_OPTION'', ''_MOT_400A_SCALE_HALL'', ''_MOT_400A_SCALE_SHUNT_TYPE1'',
     ''_MOT_500A_SCALE_SHUNT_TYPE1'', ''_MOT_600A_SCALE_SHUNT_TYPE1'',
     ''_MOT_400A_SCALE_SHUNT_TYPE2'', ''_MOT_500A_SCALE_HALL'', ''_MOT_700A_SCALE_HALL'',
     ''_MOT_700A_SCALE_SHUNT_0'', ''_MOT_850A_SCALE_HALL'', ''_MOT_850A_SCALE_HALL_FOR_HPV'',
     ''_MOT_1000A_SCALE_HALL'', ''_MOT_1300A_SCALE_HALL'', ''_MOT_1100A_SCALE_HALL'',
     ''_MOT_1500A_SCALE_HALL'', ''_MOT_700A_SCALE_CORELESS'',
     ''_MOT_700A_SCALE_CORELESS_TYPE2'', ''_MOT_650A_SCALE_CORELESS_TYPE'']"

definition ETPU_CALCULATION_TIME_OPTION_options :: "string list" where
  "ETPU_CALCULATION_TIME_OPTION_options =
    [''_UNDEFINED_OPTION'', ''_SINGLE_STAGE_SYSTEM'', ''_TWO_STAGE_SYSTEM'']"

definition PWM_UPDATETIME_AUTO_MODE_options :: "string list" where
  "PWM_UPDATETIME_AUTO_MODE_options =
    [''_UNDEFINED_OPTION'', ''_UPDATETIME_AUTO'', ''_UPDATETIME_MANUAL'']"

definition SA_2STAGE_PWM_MODE_options :: "string list" where
  "SA_2STAGE_PWM_MODE_options =
    [''_2STG_SVPWM'', ''_2STG_RSPWM'']"

definition SA_SQPWM_REGEN_DIS_options :: "string list" where
  "SA_SQPWM_REGEN_DIS_options =
    [''_SQPWM_REGEN_ENB'', ''_SQPWM_REGEN_DIS'']"

definition PWM_BURST_MODE_options :: "string list" where
  "PWM_BURST_MODE_options =
    [''_UNDEFINED_OPTION'', ''_BURST_MODE_ENABLE'', ''_BURST_MODE_DISABLE'']"

definition VAR_DTGS_OPTION_options :: "string list" where
  "VAR_DTGS_OPTION_options =
    [''_UNDEFINED_OPTION'', ''_VAR_DTGS_OPTION_INCLUDED'', ''_VAR_DTGS_OPTION_NOT_INCLUDED'']"

definition axes :: "string list" where
  "axes =
    [''_PROJECT_NAME'', ''_PERFORMANCE_TYPE'', ''_DEVELOPMENT_PHASE'', ''_MARKET_VERSION'',
     ''_GATE_IC_TYPE'', ''_POWER_MODULE_TYPE'', ''_MOT_CUR_SENSOR_TYPE'',
     ''_ETPU_CALCULATION_TIME_OPTION'', ''_PWM_UPDATETIME_AUTO_MODE'', ''_SA_2STAGE_PWM_MODE'',
     ''_SA_SQPWM_REGEN_DIS'', ''_PWM_BURST_MODE'', ''_VAR_DTGS_OPTION'']"

definition config_macros :: "string list" where
  "config_macros =
     axes
     @ PROJECT_NAME_options
     @ PERFORMANCE_TYPE_options
     @ DEVELOPMENT_PHASE_options
     @ MARKET_VERSION_options
     @ GATE_IC_TYPE_options
     @ POWER_MODULE_TYPE_options
     @ MOT_CUR_SENSOR_TYPE_options
     @ ETPU_CALCULATION_TIME_OPTION_options
     @ PWM_UPDATETIME_AUTO_MODE_options
     @ SA_2STAGE_PWM_MODE_options
     @ SA_SQPWM_REGEN_DIS_options
     @ PWM_BURST_MODE_options
     @ VAR_DTGS_OPTION_options"

definition unmatched :: "macro_env \<Rightarrow> string \<Rightarrow> string list \<Rightarrow> bool" where
  "unmatched env axis opts = list_all (\<lambda>opt. pp env axis \<noteq> pp env opt) opts"

definition agree_on :: "string list \<Rightarrow> macro_env \<Rightarrow> macro_env \<Rightarrow> bool" where
  "agree_on ns env1 env2 = list_all (\<lambda>n. env1 n = env2 n) ns"

section \<open>Target-indexed macros and the formulas of the specification\<close>

text \<open>
  The macro of a family that carries the suffix of the target (\<^verbatim>\<open>_MOT\<close>, \<^verbatim>\<open>_HSG\<close>).
\<close>

definition DEFAULT_OFFSET :: "ext_macros \<Rightarrow> target \<Rightarrow> cval" where
  "DEFAULT_OFFSET x tg = (case tg of MOT \<Rightarrow> DEFAULT_OFFSET_MOT x | HSG \<Rightarrow> DEFAULT_OFFSET_HSG x)"

definition RESOLVER_DIRECTION :: "ext_macros \<Rightarrow> target \<Rightarrow> cval" where
  "RESOLVER_DIRECTION x tg =
     (case tg of MOT \<Rightarrow> RESOLVER_DIRECTION_MOT x | HSG \<Rightarrow> RESOLVER_DIRECTION_HSG x)"

definition CUR_SENSOR_RANGE :: "ext_macros \<Rightarrow> mot_cur_sensor_macros \<Rightarrow> target \<Rightarrow> cval" where
  "CUR_SENSOR_RANGE x cs tg = (case tg of MOT \<Rightarrow> CUR_SENSOR_RANGE_MOT cs | HSG \<Rightarrow> CUR_SENSOR_RANGE_HSG x)"

definition CUR_SENSOR_OFFSET :: "target \<Rightarrow> cval" where
  "CUR_SENSOR_OFFSET tg = (case tg of MOT \<Rightarrow> CUR_SENSOR_OFFSET_MOT | HSG \<Rightarrow> CUR_SENSOR_OFFSET_HSG)"

definition CUR_SENSOR_SCALE :: "ext_macros \<Rightarrow> mot_cur_sensor_macros \<Rightarrow> target \<Rightarrow> cval" where
  "CUR_SENSOR_SCALE x cs tg = (case tg of MOT \<Rightarrow> CUR_SENSOR_SCALE_MOT cs | HSG \<Rightarrow> CUR_SENSOR_SCALE_HSG x)"

definition INV1_DEADTIME :: "power_module_macros \<Rightarrow> target \<Rightarrow> cval" where
  "INV1_DEADTIME pm tg =
     (case tg of MOT \<Rightarrow> BSWCFGPWM_MOT_INV1_DEADTIME pm | HSG \<Rightarrow> BSWCFGPWM_HSG_INV1_DEADTIME pm)"

definition INV2_DEADTIME :: "power_module_macros \<Rightarrow> target \<Rightarrow> cval" where
  "INV2_DEADTIME pm tg =
     (case tg of MOT \<Rightarrow> BSWCFGPWM_MOT_INV2_DEADTIME pm | HSG \<Rightarrow> BSWCFGPWM_HSG_INV2_DEADTIME pm)"

text \<open>
  The object of \<^verbatim>\<open>BswCfgPwm.c\<close> that holds the dead time of a target and an inverter.
\<close>

definition DeadTime_INV1_name :: "target \<Rightarrow> string" where
  "DeadTime_INV1_name tg =
     (case tg of MOT \<Rightarrow> ''BswCfgCal_Pwm_MotDeadTime_INV1'' | HSG \<Rightarrow> ''BswCfgCal_Pwm_HsgDeadTime_INV1'')"

definition DeadTime_INV2_name :: "target \<Rightarrow> string" where
  "DeadTime_INV2_name tg =
     (case tg of MOT \<Rightarrow> ''BswCfgCal_Pwm_MotDeadTime_INV2'' | HSG \<Rightarrow> ''BswCfgCal_Pwm_HsgDeadTime_INV2'')"

text \<open>
  The formulas in the words of the specification, to compare the bound values with: the
  dead-time compensation is the dead time less the fixed offset of 100 ns, in seconds; the
  current scale is the sensor range times \<open>0.00061035\<close>; a mantissa \<open>m\<close> with scale \<open>s\<close>
  decodes to \<open>m / 2^s\<close>.
\<close>

definition spec_dead_time_comp :: "real \<Rightarrow> real" where
  "spec_dead_time_comp deadtime = (deadtime - 100) * 0.000000001"

definition spec_current_sensor_scale :: "real \<Rightarrow> real" where
  "spec_current_sensor_scale r = r * 0.00061035"

definition spec_decode :: "int \<Rightarrow> nat \<Rightarrow> real" where
  "spec_decode m s = of_int m / 2 ^ s"

section \<open>A build to evaluate the model on\<close>

text \<open>
  The theorems below hold for every macro environment. To evaluate them, one environment is
  written out: option codes as a \<^verbatim>\<open>common.h\<close> could number them (the sentinel
  \<^verbatim>\<open>_UNDEFINED_OPTION\<close> is 0, the options of an axis count from 1), the axes of one build
  (the ME rear-wheel-drive project, 160 kW, prototype phase, North America, gate IC type 7,
  the CVeGT power module, the 400 A Hall sensor), and values for the macros of the missing
  headers.
\<close>

definition example_common_h :: "(string \<times> int) list" where
  "example_common_h =
    [(''_UNDEFINED_OPTION'', 0), (''_MV_RWD_PROJ'', 1), (''_ME_RWD_PROJ'', 2),
     (''_STANDARD_VERSION'', 1), (''_PERFORMANCE_VERSION'', 2), (''_LONG_RANGE_VERSION'', 3),
     (''_eM_160kW_VERSION'', 4), (''_eM_200kW_VERSION'', 5), (''_eM_250kW_VERSION'', 6),
     (''_TCAR_VERSION'', 1), (''_PROTO_VERSION'', 2), (''_MASTER_VERSION'', 3),
     (''_PILOT_1_VERSION'', 4), (''_PILOT_2_VERSION'', 5), (''_M_VERSION'', 6),
     (''_SOP_VERSION'', 7), (''_RC_VERSION'', 8), (''_NORTH_AMERICA_VERSION'', 1),
     (''_DOMESTIC_VERSION'', 2), (''_EUROPE_VERSION'', 3), (''_CHINA_VERSION'', 4),
     (''_COMMON_COUNTRY_VERSION'', 5), (''_JAPAN_VERSION'', 6), (''_GATE_IC_TYPE_1'', 1),
     (''_GATE_IC_TYPE_2'', 2), (''_GATE_IC_TYPE_3'', 3), (''_GATE_IC_TYPE_4'', 4),
     (''_GATE_IC_TYPE_5'', 5), (''_GATE_IC_TYPE_6'', 6), (''_GATE_IC_TYPE_7'', 7),
     (''_GATE_IC_TYPE_8_NV74_TCAR'', 8), (''_PM_CASE_TYPE'', 1), (''_PM_DSC_TYPE_1'', 2),
     (''_PM_DSC_TYPE_2'', 3), (''_PM_HP_DRIVE_TYPE'', 4), (''_PM_CVeGT_TYPE'', 5),
     (''_PM_NV74_TYPE'', 6), (''_PM_MV_TYPE'', 7), (''_MOT_400A_SCALE_HALL'', 1),
     (''_MOT_400A_SCALE_SHUNT_TYPE1'', 2), (''_MOT_500A_SCALE_SHUNT_TYPE1'', 3),
     (''_MOT_600A_SCALE_SHUNT_TYPE1'', 4), (''_MOT_400A_SCALE_SHUNT_TYPE2'', 5),
     (''_MOT_500A_SCALE_HALL'', 6), (''_MOT_700A_SCALE_HALL'', 7),
     (''_MOT_700A_SCALE_SHUNT_0'', 8), (''_MOT_850A_SCALE_HALL'', 9),
     (''_MOT_850A_SCALE_HALL_FOR_HPV'', 10), (''_MOT_1000A_SCALE_HALL'', 11),
     (''_MOT_1300A_SCALE_HALL'', 12), (''_MOT_1100A_SCALE_HALL'', 13),
     (''_MOT_1500A_SCALE_HALL'', 14), (''_MOT_700A_SCALE_CORELESS'', 15),
     (''_MOT_700A_SCALE_CORELESS_TYPE2'', 16), (''_MOT_650A_SCALE_CORELESS_TYPE'', 17),
     (''_SINGLE_STAGE_SYSTEM'', 1), (''_TWO_STAGE_SYSTEM'', 2), (''_UPDATETIME_AUTO'', 1),
     (''_UPDATETIME_MANUAL'', 2), (''_2STG_SVPWM'', 1), (''_2STG_RSPWM'', 2),
     (''_SQPWM_REGEN_ENB'', 1), (''_SQPWM_REGEN_DIS'', 2), (''_BURST_MODE_ENABLE'', 1),
     (''_BURST_MODE_DISABLE'', 2), (''_VAR_DTGS_OPTION_INCLUDED'', 1),
     (''_VAR_DTGS_OPTION_NOT_INCLUDED'', 2)]"

definition example_build :: "(string \<times> int) list" where
  "example_build =
    [(''_PROJECT_NAME'', 2), (''_PERFORMANCE_TYPE'', 4), (''_DEVELOPMENT_PHASE'', 2),
     (''_MARKET_VERSION'', 1), (''_GATE_IC_TYPE'', 7), (''_POWER_MODULE_TYPE'', 5),
     (''_MOT_CUR_SENSOR_TYPE'', 1), (''_ETPU_CALCULATION_TIME_OPTION'', 2),
     (''_PWM_UPDATETIME_AUTO_MODE'', 1), (''_SA_2STAGE_PWM_MODE'', 1),
     (''_SA_SQPWM_REGEN_DIS'', 1), (''_PWM_BURST_MODE'', 1), (''_VAR_DTGS_OPTION'', 1)]"

definition example_env :: macro_env where
  "example_env = map_of (example_build @ example_common_h)"

definition example_ext :: ext_macros where
  "example_ext =
     \<lparr>SET_FLAG = IntV 1,
      CLR_FLAG = IntV 0,
      PI = flt_lit 3.14159265,
      DEFAULT_OFFSET_MOT = FltV 0,
      DEFAULT_OFFSET_HSG = FltV 0,
      RESOLVER_DIRECTION_MOT = IntV 1,
      RESOLVER_DIRECTION_HSG = IntV 2,
      CUR_SENSOR_RANGE_HSG = IntV 500,
      HVBATT_SENSOR_RANGE = FltV 1000,
      HVBATT_SENSOR_RANGE_TYP = FltV 1000,
      LVBATT_SENSOR_RANGE = FltV 20,
      LVBATT_SENSOR_RANGE_OFFSET = FltV 0,
      LVBATT_SENSOR_RANGE_TYP = FltV 20,
      ITRCPX_SAMPLMODE_DOUBLE = IntV 1,
      BSWCFGRDC_MOT_UNITRIG_DELAY = IntV 0,
      BSWCFGRDC_HSG_UNITRIG_DELAY = IntV 0\<rparr>"

definition example_table :: binding_table where
  "example_table =
     (case resolve example_ext example_env of
        Inr t \<Rightarrow> t
      | Inl e \<Rightarrow> \<lparr>selection_macros = [], constants = []\<rparr>)"

text \<open>
  The same build with an axis left undefined, with an axis set to another code, and with
  the project name of no project.
\<close>

definition without_axis :: "string \<Rightarrow> macro_env" where
  "without_axis axis = example_env(axis := None)"

definition with_axis :: "string \<Rightarrow> int \<Rightarrow> macro_env" where
  "with_axis axis v = example_env(axis \<mapsto> v)"

definition undeclared_project_env :: macro_env where
  "undeclared_project_env = with_axis ''_PROJECT_NAME'' 3"

section \<open>Rounding\<close>

text \<open>
  The exponent brackets the value, rounding to an integer is off by at most a half, and so
  rounding a value in the range of the normal numbers has a relative error of at most
  \<open>2^-p\<close>. A rounding is checked from its exponent and its significand.
\<close>

lemma float_exp_bounds:
  assumes "x \<noteq> 0"
  shows "2 powi (float_exp x) \<le> \<bar>x\<bar>" "\<bar>x\<bar> < 2 powi (float_exp x + 1)"
proof -
  define a where "a = \<bar>x\<bar>"
  have a: "0 < a" using assms by (simp add: a_def)
  have "2 powi (float_exp x) \<le> a \<and> a < 2 powi (float_exp x + 1)"
  proof (cases "1 \<le> a")
    case True
    define n where "n = \<lfloor>a\<rfloor>"
    have n: "0 < n" using True by (simp add: n_def)
    define k where "k = bitlen n"
    from bitlen_bounds [OF n] have b: "2 ^ nat (k - 1) \<le> n" "n < 2 ^ nat k"
      by (simp_all add: k_def)
    have k: "1 \<le> k" using n bitlen_nonneg [of n] bitlen_eq_zero_iff [of n] by (simp add: k_def) 
    have e: "float_exp x = k - 1"
      using True by (simp add: float_exp_def a_def [symmetric] n_def k_def)
    have "real_of_int (2 ^ nat (k - 1)) \<le> real_of_int n"
      using b(1) by (rule iffD2 [OF of_int_le_iff])
    then have "2 ^ nat (k - 1) \<le> real_of_int n" by simp
    moreover have "real_of_int n \<le> a" by (simp add: n_def)
    ultimately have "2 ^ nat (k - 1) \<le> a" by linarith
    then have 1: "2 powi (k - 1) \<le> a" using k by (simp add: power_int_def)
    have "n + 1 \<le> 2 ^ nat k" using b(2) by simp
    then have "real_of_int (n + 1) \<le> real_of_int (2 ^ nat k)" by (rule iffD2 [OF of_int_le_iff])
    then have "real_of_int n + 1 \<le> 2 ^ nat k" by simp
    moreover have "a < real_of_int n + 1" unfolding n_def by linarith
    ultimately have "a < 2 ^ nat k" by linarith
    then have 2: "a < 2 powi k" using k by (simp add: power_int_def)
    show ?thesis using 1 2 by (simp add: e)
  next
    case False
    define y where "y = 1 / a"
    have y: "1 < y" using False a by (simp add: y_def)
    define m where "m = \<lceil>y\<rceil>"
    have m: "0 < m - 1" using y by (simp add: m_def)
    define k where "k = bitlen (m - 1)"
    from bitlen_bounds [OF m] have b: "2 ^ nat (k - 1) \<le> m - 1" "m - 1 < 2 ^ nat k"
      by (simp_all add: k_def)
    have k: "1 \<le> k" using m bitlen_nonneg [of "m - 1"] bitlen_eq_zero_iff [of "m - 1"] by (simp add: k_def) 
    have e: "float_exp x = - k"
      using False by (simp add: float_exp_def a_def [symmetric] m_def k_def y_def)
    have "m \<le> 2 ^ nat k" using b(2) by simp
    then have "real_of_int m \<le> real_of_int (2 ^ nat k)" by (rule iffD2 [OF of_int_le_iff])
    then have "real_of_int m \<le> 2 ^ nat k" by simp
    moreover have "y \<le> real_of_int m" by (simp add: m_def)
    ultimately have "y \<le> 2 ^ nat k" by linarith
    then have "1 / 2 ^ nat k \<le> a" using a by (simp add: y_def field_simps)
    then have 1: "2 powi (- k) \<le> a" using k by (simp add: power_int_def field_simps)
    have "real_of_int (2 ^ nat (k - 1)) \<le> real_of_int (m - 1)"
      using b(1) by (rule iffD2 [OF of_int_le_iff])
    then have "2 ^ nat (k - 1) \<le> real_of_int m - 1" by simp
    moreover have "real_of_int m - 1 < y" unfolding m_def by linarith
    ultimately have "2 ^ nat (k - 1) < y" by linarith
    then have "a < 1 / 2 ^ nat (k - 1)" using a by (simp add: y_def field_simps)
    then have 2: "a < 2 powi (- k + 1)" using k
      by (cases "k = 1") (simp_all add: power_int_def field_simps nat_diff_distrib)
    show ?thesis using 1 2 by (simp add: e)
  qed
  then show "2 powi (float_exp x) \<le> \<bar>x\<bar>" "\<bar>x\<bar> < 2 powi (float_exp x + 1)"
    by (simp_all add: a_def)
qed


lemma float_exp_eq:
  assumes "2 powi e \<le> \<bar>x\<bar>" "\<bar>x\<bar> < 2 powi (e + 1)"
  shows "float_exp x = e"
proof -
  have "\<not> (2::real) powi e \<le> 0" by (simp add: not_le)
  with assms(1) have x: "x \<noteq> 0" by auto
  note b = float_exp_bounds [OF x]
  have "\<not> e + 1 \<le> float_exp x"
  proof
    assume "e + 1 \<le> float_exp x"
    then have "(2::real) powi (e + 1) \<le> 2 powi float_exp x"
      by (intro power_int_increasing) simp_all
    with b(1) assms(2) show False by linarith
  qed
  moreover have "\<not> float_exp x + 1 \<le> e"
  proof
    assume "float_exp x + 1 \<le> e"
    then have "(2::real) powi (float_exp x + 1) \<le> 2 powi e"
      by (intro power_int_increasing) simp_all
    with b(2) assms(1) show False by linarith
  qed
  ultimately show ?thesis by linarith
qed

lemma round_even_error: "\<bar>of_int (round_even y) - y\<bar> \<le> 1 / 2"
  unfolding round_even_def Let_def by (auto simp: abs_if) linarith+

lemma round_even_eq:
  assumes "\<bar>y - of_int m\<bar> < 1 / 2"
  shows "round_even y = m"
proof -
  have "\<bar>of_int (round_even y) - y\<bar> \<le> 1 / 2" by (rule round_even_error)
  with assms have "\<bar>real_of_int (round_even y) - of_int m\<bar> < 1" by linarith
  then have "\<bar>real_of_int (round_even y - m)\<bar> < 1" by simp
  then have "\<bar>round_even y - m\<bar> < 1" by linarith
  then show ?thesis by simp
qed

lemma fp_round_cert:
  assumes "2 powi e \<le> \<bar>x\<bar>" "\<bar>x\<bar> < 2 powi (e + 1)" "emin f \<le> e"
    and "\<bar>x - of_int m * 2 powi (e - int (prec f) + 1)\<bar> * 2 < 2 powi (e - int (prec f) + 1)"
    and "\<bar>real_of_int m * 2 powi (e - int (prec f) + 1)\<bar> < 2 powi (emax f + 1)"
  shows "fp_round f x = Fin (of_int m * 2 powi (e - int (prec f) + 1))"
proof -
  define u :: real where "u = 2 powi (e - int (prec f) + 1)"
  have u: "0 < u" by (simp add: u_def)
  have "\<not> (2::real) powi e \<le> 0" by (simp add: not_le)
  with assms(1) have x: "x \<noteq> 0" by auto
  have e: "max (float_exp x) (emin f) = e"
    using float_exp_eq [OF assms(1,2)] assms(3) by simp
  have "\<bar>x / u - of_int m\<bar> = \<bar>x - of_int m * u\<bar> / u"
    using u by (simp add: field_simps abs_if)
  also have "\<dots> < 1 / 2"
    using assms(4) [folded u_def] u by (simp add: field_simps)
  finally have r: "round_even (x / u) = m" by (rule round_even_eq)
  show ?thesis
    using x assms(5) by (simp add: fp_round_def e Let_def u_def [symmetric] r)
qed

lemma fp_round_normal:
  assumes "2 powi emin f \<le> \<bar>x\<bar>" "\<bar>x\<bar> < 2 powi emax f"
  shows "\<exists>y. fp_round f x = Fin y \<and> \<bar>y - x\<bar> \<le> \<bar>x\<bar> * 2 powi (- int (prec f))"
proof -
  have "\<not> (2::real) powi emin f \<le> 0" by (simp add: not_le)
  with assms(1) have x: "x \<noteq> 0" by auto
  define e where "e = float_exp x"
  note b = float_exp_bounds [OF x, folded e_def]
  have "\<not> e + 1 \<le> emin f"
  proof
    assume "e + 1 \<le> emin f"
    then have "(2::real) powi (e + 1) \<le> 2 powi emin f"
      by (intro power_int_increasing) simp_all
    with b(2) assms(1) show False by linarith
  qed
  then have e: "max e (emin f) = e" by simp
  define u :: real where "u = 2 powi (e - int (prec f) + 1)"
  have u: "0 < u" by (simp add: u_def)
  define y where "y = of_int (round_even (x / u)) * u"
  have "y - x = (of_int (round_even (x / u)) - x / u) * u"
    using u by (simp add: y_def field_simps)
  then have "\<bar>y - x\<bar> = \<bar>of_int (round_even (x / u)) - x / u\<bar> * u"
    using u by (simp add: abs_mult)
  also have "\<dots> \<le> 1 / 2 * u"
    using u round_even_error [of "x / u"] by (intro mult_right_mono) simp_all
  also have "\<dots> = 2 powi e * 2 powi (- int (prec f))"
    by (simp add: u_def power_int_add power_int_diff power_int_minus field_simps)
  also have "\<dots> \<le> \<bar>x\<bar> * 2 powi (- int (prec f))"
    using b(1) by (intro mult_right_mono) simp_all
  finally have err: "\<bar>y - x\<bar> \<le> \<bar>x\<bar> * 2 powi (- int (prec f))" .
  have "(2::real) powi (- int (prec f)) \<le> 2 powi 0"
    by (intro power_int_increasing) simp_all
  then have "\<bar>x\<bar> * 2 powi (- int (prec f)) \<le> \<bar>x\<bar> * 1"
    by (intro mult_left_mono) simp_all
  with err have "\<bar>y\<bar> \<le> 2 * \<bar>x\<bar>" by linarith
  also have "\<dots> < 2 * 2 powi emax f" using assms(2) by simp
  also have "\<dots> = 2 powi (emax f + 1)" by (simp add: power_int_add)
  finally have "\<not> 2 powi (emax f + 1) \<le> \<bar>y\<bar>" by simp
  then have "fp_round f x = Fin y"
    using x by (simp add: fp_round_def e_def [symmetric] e Let_def u_def [symmetric] y_def [symmetric])
  with err show ?thesis by blast
qed


lemma round_even_tie:
  assumes "y = of_int n + 1 / 2"
  shows "round_even y = (if even n then n else n + 1)"
proof -
  have "\<lfloor>y\<rfloor> = n"
    unfolding assms by (rule floor_unique) simp_all
  then show ?thesis
    by (simp add: round_even_def Let_def assms)
qed

lemma fp_round_tie:
  assumes "2 powi e \<le> \<bar>x\<bar>" "\<bar>x\<bar> < 2 powi (e + 1)" "emin f \<le> e"
    and "x = (of_int n + 1 / 2) * 2 powi (e - int (prec f) + 1)"
    and "\<bar>real_of_int (if even n then n else n + 1) * 2 powi (e - int (prec f) + 1)\<bar>
          < 2 powi (emax f + 1)"
  shows "fp_round f x = Fin (of_int (if even n then n else n + 1) * 2 powi (e - int (prec f) + 1))"
proof -
  define u :: real where "u = 2 powi (e - int (prec f) + 1)"
  have u: "0 < u" by (simp add: u_def)
  have "\<not> (2::real) powi e \<le> 0" by (simp add: not_le)
  with assms(1) have x: "x \<noteq> 0" by auto
  have e: "max (float_exp x) (emin f) = e"
    using float_exp_eq [OF assms(1,2)] assms(3) by simp
  have "x / u = of_int n + 1 / 2"
    using assms(4) [folded u_def] u by simp
  then have r: "round_even (x / u) = (if even n then n else n + 1)"
    by (rule round_even_tie)
  show ?thesis
    using x assms(5) [folded u_def] unfolding fp_round_def e Let_def u_def [symmetric] r
    by simp
qed

lemma round_even_of_int [simp]: "round_even (of_int n) = n"
  by (rule round_even_eq) simp

lemma fp_round_0 [simp]: "fp_round f 0 = Fin 0"
  by (simp add: fp_round_def)

lemma pow2_int: "0 \<le> k \<Longrightarrow> \<exists>n::int. (2::real) powi k = of_int n"
  by (rule exI [of _ "2 ^ nat k"]) (simp add: power_int_def)

lemma ulp_prec: "2 ^ prec f * (2::real) powi (e - int (prec f) + 1) = 2 powi (e + 1)"
proof -
  have "(2::real) powi (int (prec f)) * 2 powi (e - int (prec f) + 1)
      = 2 powi (int (prec f) + (e - int (prec f) + 1))"
    by (rule power_int_add [symmetric]) simp
  then show ?thesis by simp
qed

lemma pow2_quot: "(2::real) powi a / 2 powi b = 2 powi (a - b)"
  by (rule power_int_diff [symmetric]) simp

lemma fp_round_idem:
  assumes "fp_round f x = Fin y"
  shows "fp_round f y = Fin y"
proof (cases "x = 0 \<or> y = 0")
  case True
  then show ?thesis using assms by auto
next
  case False
  then have x: "x \<noteq> 0" and y: "y \<noteq> 0" by simp_all
  define e where "e = max (float_exp x) (emin f)"
  define u :: real where "u = 2 powi (e - int (prec f) + 1)"
  define m where "m = round_even (x / u)"
  have u: "0 < u" by (simp add: u_def)
  from assms x have ym: "y = of_int m * u" and fin: "\<not> 2 powi (emax f + 1) \<le> \<bar>y\<bar>"
    by (simp_all add: fp_round_def Let_def e_def [symmetric] u_def [symmetric] m_def [symmetric]
        split: if_splits)
  have ee: "emin f \<le> e" "float_exp x \<le> e" by (simp_all add: e_def)
  have "\<bar>x\<bar> < 2 powi (float_exp x + 1)" by (rule float_exp_bounds [OF x])
  also have "\<dots> \<le> 2 powi (e + 1)"
    using ee(2) by (intro power_int_increasing) simp_all
  finally have "\<bar>x\<bar> / u < 2 powi (e + 1) / u"
    using u by (simp add: divide_strict_right_mono)
  also have "2 powi (e + 1) / u = 2 ^ prec f"
    using u ulp_prec [of f e, folded u_def] by (simp add: field_simps)
  finally have xu: "\<bar>x / u\<bar> < 2 ^ prec f" using u by simp
  have "\<bar>real_of_int m - x / u\<bar> \<le> 1 / 2"
    unfolding m_def by (rule round_even_error)
  with xu have "\<bar>real_of_int m\<bar> < 2 ^ prec f + 1" by linarith
  then have "\<bar>real_of_int m\<bar> < real_of_int (2 ^ prec f + 1)" by simp
  then have "\<bar>m\<bar> < 2 ^ prec f + 1" by linarith
  then have m: "\<bar>m\<bar> \<le> 2 ^ prec f" by simp
  define ey where "ey = max (float_exp y) (emin f)"
  define uy :: real where "uy = 2 powi (ey - int (prec f) + 1)"
  have uy: "0 < uy" by (simp add: uy_def)
  have "\<exists>n. y / uy = of_int n"
  proof (cases "ey \<le> e")
    case True
    then obtain k where "(2::real) powi (e - ey) = of_int k"
      using pow2_int [of "e - ey"] by auto
    moreover have "u / uy = 2 powi (e - ey)"
    proof -
      have "e - int (prec f) + 1 - (ey - int (prec f) + 1) = e - ey" by simp
      then show ?thesis unfolding u_def uy_def pow2_quot by (rule arg_cong)
    qed
    ultimately have "u / uy = of_int k" by simp
    then have "y / uy = of_int m * of_int k"
      unfolding ym times_divide_eq_right [symmetric] by (rule arg_cong)
    then have "y / uy = of_int (m * k)" by simp
    then show ?thesis by blast
  next
    case False
    then have "e < float_exp y" using ee(1) by (simp add: ey_def)
    then have "(2::real) powi (e + 1) \<le> 2 powi float_exp y"
      by (intro power_int_increasing) simp_all
    also have "\<dots> \<le> \<bar>y\<bar>" by (rule float_exp_bounds [OF y])
    finally have lo: "2 powi (e + 1) \<le> \<bar>y\<bar>" .
    have "\<bar>y\<bar> = \<bar>real_of_int m\<bar> * u" using u by (simp add: ym abs_mult)
    also have "\<dots> \<le> 2 ^ prec f * u"
    proof -
      have "real_of_int \<bar>m\<bar> \<le> real_of_int (2 ^ prec f)" using m by (rule iffD2 [OF of_int_le_iff])
      then show ?thesis using u by (intro mult_right_mono) simp_all
    qed
    also have "\<dots> = 2 powi (e + 1)"
      unfolding u_def by (rule ulp_prec)
    finally have hi: "\<bar>y\<bar> \<le> 2 powi (e + 1)" .
    from lo hi have ay: "\<bar>y\<bar> = 2 powi (e + 1)" by linarith
    then have "float_exp y = e + 1"
      by (intro float_exp_eq) (simp_all add: power_int_add)
    then have "ey = e + 1" using ee(1) by (simp add: ey_def)
    then have "e + 1 - (ey - int (prec f) + 1) = int (prec f) - 1" by simp
    then have "\<bar>y\<bar> / uy = 2 powi (int (prec f) - 1)"
      unfolding ay uy_def pow2_quot by (rule arg_cong)
    moreover obtain k where "(2::real) powi (int (prec f) - 1) = of_int k"
      using pow2_int [of "int (prec f) - 1"] by (cases f) auto
    ultimately have "\<bar>y / uy\<bar> = of_int k" using uy by simp
    then have "y / uy = of_int k \<or> y / uy = of_int (- k)" by (simp add: abs_if split: if_splits)
    then show ?thesis by blast
  qed
  then obtain n where n: "y / uy = of_int n" ..
  then have "of_int (round_even (y / uy)) * uy = y"
    using uy by (simp add: field_simps)
  then show ?thesis
    using y fin by (simp add: fp_round_def Let_def ey_def [symmetric] uy_def [symmetric])
qed

lemma fp_round_pos:
  assumes "2 powi emin f \<le> x" "x < 2 powi emax f"
  obtains y where "fp_round f x = Fin y" "\<bar>y - x\<bar> \<le> x / 2 ^ prec f" "x / 2 \<le> y" "y \<le> 2 * x"
proof -
  have "\<not> (2::real) powi emin f \<le> 0" by (simp add: not_le)
  with assms(1) have x: "0 < x" by linarith
  with assms have "2 powi emin f \<le> \<bar>x\<bar>" "\<bar>x\<bar> < 2 powi emax f" by simp_all
  from fp_round_normal [OF this] obtain y where
    y: "fp_round f x = Fin y" "\<bar>y - x\<bar> \<le> \<bar>x\<bar> * 2 powi (- int (prec f))" by blast
  have p: "(2::real) powi (- int (prec f)) = 1 / 2 ^ prec f"
    by (simp add: power_int_minus field_simps)
  have e: "\<bar>y - x\<bar> \<le> x / 2 ^ prec f" using y(2) x by (simp add: p)
  have "(2::real) ^ 1 \<le> 2 ^ prec f" by (intro power_increasing) (cases f; simp)+
  then have "x / 2 ^ prec f \<le> x / 2 ^ 1" using x by (intro divide_left_mono) simp_all
  then have "x / 2 ^ prec f \<le> x / 2" by simp
  with e have "\<bar>y - x\<bar> \<le> x / 2" by linarith
  then have "x / 2 \<le> y" "y \<le> 2 * x" using x by linarith+
  with y(1) e show thesis by (rule that)
qed

lemma rel_prod:
  fixes p q :: real
  assumes "\<bar>p - 1\<bar> \<le> s" "\<bar>q - 1\<bar> \<le> t"
  shows "\<bar>p * q - 1\<bar> \<le> s + t + s * t"
proof -
  have "p * q - 1 = (p - 1) * (q - 1) + (p - 1) + (q - 1)" by (simp add: algebra_simps)
  then have "\<bar>p * q - 1\<bar> \<le> \<bar>p - 1\<bar> * \<bar>q - 1\<bar> + \<bar>p - 1\<bar> + \<bar>q - 1\<bar>"
    by (simp add: abs_mult [symmetric] del: abs_mult)
  moreover have "\<bar>p - 1\<bar> * \<bar>q - 1\<bar> \<le> s * t"
    using assms by (intro mult_mono) simp_all
  ultimately show ?thesis using assms by linarith
qed

section \<open>Basic facts\<close>

lemma pp_seq_Cons_Inr:
  "pp_seq (r # rs) = Inr zs \<longleftrightarrow> (\<exists>xs ys. r = Inr xs \<and> pp_seq rs = Inr ys \<and> zs = xs @ ys)"
  by (cases r; cases "pp_seq rs") auto

lemma pp_seq_Cons_Inl: "pp_seq (Inl e # rs) = Inl e"
  by simp

lemma pp_upd: "pp (env(k \<mapsto> v)) n = (if n = k then v else pp env n)"
  by (simp add: pp_def)

lemma pp_upd_None: "pp (env(k := None)) n = (if n = k then 0 else pp env n)"
  by (simp add: pp_def)

lemma lookup_binding_hit: "bname b = n \<Longrightarrow> lookup_binding (b # bs) n = Some b"
  by simp

lemma lookup_binding_skip: "bname b \<noteq> n \<Longrightarrow> lookup_binding (b # bs) n = lookup_binding bs n"
  by simp

lemma lookup_binding_weak_cong: "n = n' \<Longrightarrow> lookup_binding bs n = lookup_binding bs n'"
  by simp

lemma lookup_binding_append:
  "lookup_binding (xs @ ys) n =
     (case lookup_binding xs n of Some b \<Rightarrow> Some b | None \<Rightarrow> lookup_binding ys n)"
  by (induction xs) simp_all

lemma lookup_binding_None: "n \<notin> bname ` set bs \<Longrightarrow> lookup_binding bs n = None"
  by (induction bs) auto

lemma resolve_InrD:
  assumes "resolve x env = Inr t"
  obtains prj gic pm cs et au base where
    "CcCalPrjCfg_h env = Inr prj" "GATE_IC_TYPE_section env = Inr gic"
    "POWER_MODULE_TYPE_section env = Inr pm" "MOT_CUR_SENSOR_TYPE_section env = Inr cs"
    "ETPU_CALCULATION_TIME_OPTION_section env = Inr et"
    "PWM_UPDATETIME_AUTO_MODE_section x env = Inr au"
    "CcCalBase_c x env pm cs = Inr base"
    "t = \<lparr>selection_macros = prj,
          constants = BswCfgPwm_c x gic pm et au @ BswCfgRdc_c x @ base\<rparr>"
  using assms by (auto simp: resolve_def split: sum.splits)

lemma resolve_fails:
  "isl (CcCalPrjCfg_h env) \<Longrightarrow> isl (resolve x env)"
  "isl (GATE_IC_TYPE_section env) \<Longrightarrow> isl (resolve x env)"
  "isl (POWER_MODULE_TYPE_section env) \<Longrightarrow> isl (resolve x env)"
  "isl (MOT_CUR_SENSOR_TYPE_section env) \<Longrightarrow> isl (resolve x env)"
  "isl (ETPU_CALCULATION_TIME_OPTION_section env) \<Longrightarrow> isl (resolve x env)"
  "isl (PWM_UPDATETIME_AUTO_MODE_section x env) \<Longrightarrow> isl (resolve x env)"
  by (auto simp: resolve_def split: sum.splits)

lemma CcCalBase_c_InrD:
  assumes "CcCalBase_c x env pm cs = Inr base"
  obtains s1 s2 s3 s4 where
    "SA_2STAGE_PWM_MODE_section x env = Inr s1" "SA_SQPWM_REGEN_DIS_section x env = Inr s2"
    "PWM_BURST_MODE_section x env = Inr s3" "VAR_DTGS_OPTION_section x env = Inr s4"
    "base = CcCalBase_c_part1 x @ s1 @ CcCalBase_c_part2 x @ s2 @ CcCalBase_c_part3 x pm cs
            @ s3 @ s4 @ CcCalBase_c_part4"
  using assms unfolding CcCalBase_c_def pp_seq_Cons_Inr by auto

lemma CcCalBase_c_fails:
  "isl (SA_2STAGE_PWM_MODE_section x env) \<Longrightarrow> isl (CcCalBase_c x env pm cs)"
  "isl (SA_SQPWM_REGEN_DIS_section x env) \<Longrightarrow> isl (CcCalBase_c x env pm cs)"
  "isl (PWM_BURST_MODE_section x env) \<Longrightarrow> isl (CcCalBase_c x env pm cs)"
  "isl (VAR_DTGS_OPTION_section x env) \<Longrightarrow> isl (CcCalBase_c x env pm cs)"
  by (cases "CcCalBase_c x env pm cs"; auto elim!: CcCalBase_c_InrD)+

lemma resolve_fails_base:
  "isl (CcCalBase_c x env pm cs) \<Longrightarrow> POWER_MODULE_TYPE_section env = Inr pm
     \<Longrightarrow> MOT_CUR_SENSOR_TYPE_section env = Inr cs \<Longrightarrow> isl (resolve x env)"
  by (auto simp: resolve_def split: sum.splits)

section \<open>Evaluating the example build\<close>

lemma map_of_append_case:
  "map_of (xs @ ys) n = (case map_of xs n of Some v \<Rightarrow> Some v | None \<Rightarrow> map_of ys n)"
  by (simp add: map_add_def split: option.splits)

lemma map_of_Cons_if: "map_of ((k, v) # ps) n = (if k = n then Some v else map_of ps n)"
  by simp

lemma map_of_Nil: "map_of [] n = None"
  by simp

lemma map_of_weak_cong: "n = n' \<Longrightarrow> map_of ps n = map_of ps n'"
  by simp


lemma example_env_axes:
  "pp example_env ''_PROJECT_NAME'' = 2"
  "pp example_env ''_PERFORMANCE_TYPE'' = 4"
  "pp example_env ''_DEVELOPMENT_PHASE'' = 2"
  "pp example_env ''_MARKET_VERSION'' = 1"
  "pp example_env ''_GATE_IC_TYPE'' = 7"
  "pp example_env ''_POWER_MODULE_TYPE'' = 5"
  "pp example_env ''_MOT_CUR_SENSOR_TYPE'' = 1"
  "pp example_env ''_ETPU_CALCULATION_TIME_OPTION'' = 2"
  "pp example_env ''_PWM_UPDATETIME_AUTO_MODE'' = 1"
  "pp example_env ''_SA_2STAGE_PWM_MODE'' = 1"
  "pp example_env ''_SA_SQPWM_REGEN_DIS'' = 1"
  "pp example_env ''_PWM_BURST_MODE'' = 1"
  "pp example_env ''_VAR_DTGS_OPTION'' = 1"
  unfolding pp_def example_env_def map_of_append_case example_build_def example_common_h_def
  by (simp_all only: map_of_Nil map_of_Cons_if list.inject list.distinct char.inject simp_thms
      if_True if_False option.case cong: map_of_weak_cong if_weak_cong)

lemma example_env_options_1:
  "pp example_env ''_UNDEFINED_OPTION'' = 0"
  "pp example_env ''_MV_RWD_PROJ'' = 1"
  "pp example_env ''_ME_RWD_PROJ'' = 2"
  "pp example_env ''_STANDARD_VERSION'' = 1"
  "pp example_env ''_PERFORMANCE_VERSION'' = 2"
  "pp example_env ''_LONG_RANGE_VERSION'' = 3"
  "pp example_env ''_eM_160kW_VERSION'' = 4"
  "pp example_env ''_eM_200kW_VERSION'' = 5"
  "pp example_env ''_eM_250kW_VERSION'' = 6"
  "pp example_env ''_TCAR_VERSION'' = 1"
  "pp example_env ''_PROTO_VERSION'' = 2"
  "pp example_env ''_MASTER_VERSION'' = 3"
  "pp example_env ''_PILOT_1_VERSION'' = 4"
  "pp example_env ''_PILOT_2_VERSION'' = 5"
  "pp example_env ''_M_VERSION'' = 6"
  "pp example_env ''_SOP_VERSION'' = 7"
  "pp example_env ''_RC_VERSION'' = 8"
  "pp example_env ''_NORTH_AMERICA_VERSION'' = 1"
  "pp example_env ''_DOMESTIC_VERSION'' = 2"
  "pp example_env ''_EUROPE_VERSION'' = 3"
  "pp example_env ''_CHINA_VERSION'' = 4"
  "pp example_env ''_COMMON_COUNTRY_VERSION'' = 5"
  "pp example_env ''_JAPAN_VERSION'' = 6"
  "pp example_env ''_GATE_IC_TYPE_1'' = 1"
  unfolding pp_def example_env_def map_of_append_case example_build_def example_common_h_def
  by (simp_all only: map_of_Nil map_of_Cons_if list.inject list.distinct char.inject simp_thms
      if_True if_False option.case cong: map_of_weak_cong if_weak_cong)

lemma example_env_options_2:
  "pp example_env ''_GATE_IC_TYPE_2'' = 2"
  "pp example_env ''_GATE_IC_TYPE_3'' = 3"
  "pp example_env ''_GATE_IC_TYPE_4'' = 4"
  "pp example_env ''_GATE_IC_TYPE_5'' = 5"
  "pp example_env ''_GATE_IC_TYPE_6'' = 6"
  "pp example_env ''_GATE_IC_TYPE_7'' = 7"
  "pp example_env ''_GATE_IC_TYPE_8_NV74_TCAR'' = 8"
  "pp example_env ''_PM_CASE_TYPE'' = 1"
  "pp example_env ''_PM_DSC_TYPE_1'' = 2"
  "pp example_env ''_PM_DSC_TYPE_2'' = 3"
  "pp example_env ''_PM_HP_DRIVE_TYPE'' = 4"
  "pp example_env ''_PM_CVeGT_TYPE'' = 5"
  "pp example_env ''_PM_NV74_TYPE'' = 6"
  "pp example_env ''_PM_MV_TYPE'' = 7"
  "pp example_env ''_MOT_400A_SCALE_HALL'' = 1"
  "pp example_env ''_MOT_400A_SCALE_SHUNT_TYPE1'' = 2"
  "pp example_env ''_MOT_500A_SCALE_SHUNT_TYPE1'' = 3"
  "pp example_env ''_MOT_600A_SCALE_SHUNT_TYPE1'' = 4"
  "pp example_env ''_MOT_400A_SCALE_SHUNT_TYPE2'' = 5"
  "pp example_env ''_MOT_500A_SCALE_HALL'' = 6"
  "pp example_env ''_MOT_700A_SCALE_HALL'' = 7"
  "pp example_env ''_MOT_700A_SCALE_SHUNT_0'' = 8"
  "pp example_env ''_MOT_850A_SCALE_HALL'' = 9"
  "pp example_env ''_MOT_850A_SCALE_HALL_FOR_HPV'' = 10"
  unfolding pp_def example_env_def map_of_append_case example_build_def example_common_h_def
  by (simp_all only: map_of_Nil map_of_Cons_if list.inject list.distinct char.inject simp_thms
      if_True if_False option.case cong: map_of_weak_cong if_weak_cong)

lemma example_env_options_3:
  "pp example_env ''_MOT_1000A_SCALE_HALL'' = 11"
  "pp example_env ''_MOT_1300A_SCALE_HALL'' = 12"
  "pp example_env ''_MOT_1100A_SCALE_HALL'' = 13"
  "pp example_env ''_MOT_1500A_SCALE_HALL'' = 14"
  "pp example_env ''_MOT_700A_SCALE_CORELESS'' = 15"
  "pp example_env ''_MOT_700A_SCALE_CORELESS_TYPE2'' = 16"
  "pp example_env ''_MOT_650A_SCALE_CORELESS_TYPE'' = 17"
  "pp example_env ''_SINGLE_STAGE_SYSTEM'' = 1"
  "pp example_env ''_TWO_STAGE_SYSTEM'' = 2"
  "pp example_env ''_UPDATETIME_AUTO'' = 1"
  "pp example_env ''_UPDATETIME_MANUAL'' = 2"
  "pp example_env ''_2STG_SVPWM'' = 1"
  "pp example_env ''_2STG_RSPWM'' = 2"
  "pp example_env ''_SQPWM_REGEN_ENB'' = 1"
  "pp example_env ''_SQPWM_REGEN_DIS'' = 2"
  "pp example_env ''_BURST_MODE_ENABLE'' = 1"
  "pp example_env ''_BURST_MODE_DISABLE'' = 2"
  "pp example_env ''_VAR_DTGS_OPTION_INCLUDED'' = 1"
  "pp example_env ''_VAR_DTGS_OPTION_NOT_INCLUDED'' = 2"
  unfolding pp_def example_env_def map_of_append_case example_build_def example_common_h_def
  by (simp_all only: map_of_Nil map_of_Cons_if list.inject list.distinct char.inject simp_thms
      if_True if_False option.case cong: map_of_weak_cong if_weak_cong)

lemmas example_env_pp = example_env_axes example_env_options_1 example_env_options_2 example_env_options_3

lemma example_GATE_IC_TYPE_section:
  "GATE_IC_TYPE_section example_env = Inr
       \<lparr>BSWCFGPWM_MOT_INV1_MIN_WIDTH = IntV 300,
        BSWCFGPWM_MOT_INV2_MIN_WIDTH = IntV 300,
        BSWCFGPWM_MOT_ASAC_EDGE_OFFSET = IntV 390,
        BSWCFGPWM_HSG_INV1_MIN_WIDTH = IntV 300,
        BSWCFGPWM_HSG_INV2_MIN_WIDTH = IntV 300,
        BSWCFGPWM_HSG_ASAC_EDGE_OFFSET = IntV 390\<rparr>"
  by (simp add: GATE_IC_TYPE_section_def example_env_pp)

lemma example_POWER_MODULE_TYPE_section:
  "POWER_MODULE_TYPE_section example_env = Inr
       \<lparr>BSWCFGPWM_MOT_INV1_DEADTIME = IntV 2000,
        BSWCFGPWM_MOT_INV2_DEADTIME = IntV 4000,
        BSWCFGPWM_MOT_DEADTIME_MULTI = IntV 4000,
        BSWCFGPWM_HSG_INV1_DEADTIME = IntV 2000,
        BSWCFGPWM_HSG_INV2_DEADTIME = IntV 2000\<rparr>"
  by (simp add: POWER_MODULE_TYPE_section_def example_env_pp)

lemma example_MOT_CUR_SENSOR_TYPE_section:
  "MOT_CUR_SENSOR_TYPE_section example_env = Inr \<lparr>CUR_SENSOR_RANGE_MOT = IntV 400\<rparr>"
  by (simp add: MOT_CUR_SENSOR_TYPE_section_def example_env_pp)

lemma example_ETPU_CALCULATION_TIME_OPTION_section:
  "\<not> isl (ETPU_CALCULATION_TIME_OPTION_section example_env)"
  by (simp add: ETPU_CALCULATION_TIME_OPTION_section_def example_env_pp)

lemma example_PWM_UPDATETIME_AUTO_MODE_section:
  "\<not> isl (PWM_UPDATETIME_AUTO_MODE_section x example_env)"
  by (simp add: PWM_UPDATETIME_AUTO_MODE_section_def example_env_pp)

lemma example_CcCalPrjCfg_h:
  "\<not> isl (CcCalPrjCfg_h example_env)"
  by (simp add: CcCalPrjCfg_h_def PrjCfg_ME_RWD_def PrjCfg_ME_RWD_PROTO_def after_defines_def example_env_pp)

lemma example_CcCalBase_c:
  "\<not> isl (CcCalBase_c x example_env pm cs)"
  by (simp add: CcCalBase_c_def SA_2STAGE_PWM_MODE_section_def SA_SQPWM_REGEN_DIS_section_def
      PWM_BURST_MODE_section_def VAR_DTGS_OPTION_section_def example_env_pp)

lemma not_isl_Inr: "\<not> isl r \<Longrightarrow> \<exists>v. r = Inr v"
  by (cases r) simp_all

lemma example_resolves: "resolve example_ext example_env = Inr example_table"
proof -
  obtain prj where 1: "CcCalPrjCfg_h example_env = Inr prj"
    using not_isl_Inr [OF example_CcCalPrjCfg_h] by blast
  obtain et where 2: "ETPU_CALCULATION_TIME_OPTION_section example_env = Inr et"
    using not_isl_Inr [OF example_ETPU_CALCULATION_TIME_OPTION_section] by blast
  obtain au where 3: "PWM_UPDATETIME_AUTO_MODE_section example_ext example_env = Inr au"
    using not_isl_Inr [OF example_PWM_UPDATETIME_AUTO_MODE_section] by blast
  obtain base where 4: "CcCalBase_c example_ext example_env
      \<lparr>BSWCFGPWM_MOT_INV1_DEADTIME = IntV 2000,
        BSWCFGPWM_MOT_INV2_DEADTIME = IntV 4000,
        BSWCFGPWM_MOT_DEADTIME_MULTI = IntV 4000,
        BSWCFGPWM_HSG_INV1_DEADTIME = IntV 2000,
        BSWCFGPWM_HSG_INV2_DEADTIME = IntV 2000\<rparr>
      \<lparr>CUR_SENSOR_RANGE_MOT = IntV 400\<rparr> = Inr base"
    using not_isl_Inr [OF example_CcCalBase_c] by blast
  show ?thesis
    by (simp add: example_table_def resolve_def 1 2 3 4 example_GATE_IC_TYPE_section
        example_POWER_MODULE_TYPE_section example_MOT_CUR_SENSOR_TYPE_section)
qed

section \<open>Finding an object in a resolved table\<close>

lemma lookup_binding_pred_None:
  "list_all (\<lambda>b. P (bname b)) bs \<Longrightarrow> \<not> P n \<Longrightarrow> lookup_binding bs n = None"
  by (induction bs) auto

lemma lookup_binding_names_None:
  "n \<notin> set (map bname bs) \<Longrightarrow> lookup_binding bs n = None"
  by (induction bs) auto

lemma element_of_lookup:
  "lookup_binding bs n = lookup_binding bs' n \<Longrightarrow> element_of bs n tg = element_of bs' n tg"
  by (simp add: element_of_def)

lemma scalar_of_lookup:
  "lookup_binding bs n = lookup_binding bs' n \<Longrightarrow> scalar_of bs n = scalar_of bs' n"
  by (simp add: scalar_of_def)

lemma element_of_SomeD: "element_of bs n tg = Some v \<Longrightarrow> \<exists>b. lookup_binding bs n = Some b"
  by (auto simp: element_of_def split: option.splits)

lemma scalar_of_SomeD: "scalar_of bs n = Some v \<Longrightarrow> \<exists>b. lookup_binding bs n = Some b"
  by (auto simp: scalar_of_def split: option.splits)

lemma BswCfgPwm_c_names:
  "list_all (\<lambda>b. take 4 (drop 10 (bname b)) = ''Pwm_'') (BswCfgPwm_c x gic pm et au)"
  by (simp add: BswCfgPwm_c_def)

lemma BswCfgRdc_c_names:
  "list_all (\<lambda>b. take 4 (drop 10 (bname b)) = ''Rdc_'') (BswCfgRdc_c x)"
  by (simp add: BswCfgRdc_c_def)

lemma CcCalBase_c_part1_names:
  "map bname (CcCalBase_c_part1 x) = [''BswCfgCal_Rsv_DefaultOffset'', ''BswCfgCal_Rsv_RotDir'']"
  by (simp add: CcCalBase_c_part1_def)

lemma CcCalBase_c_part2_names: "map bname (CcCalBase_c_part2 x) = [''TestCal_VnCtrl_Enb'']"
  by (simp add: CcCalBase_c_part2_def)

lemma SA_2STAGE_PWM_MODE_section_names:
  "SA_2STAGE_PWM_MODE_section x env = Inr s \<Longrightarrow> map bname s = [''TestCal_RSPWM_Enb'']"
  by (auto simp: SA_2STAGE_PWM_MODE_section_def split: if_splits)

lemma SA_SQPWM_REGEN_DIS_section_names:
  "SA_SQPWM_REGEN_DIS_section x env = Inr s \<Longrightarrow> map bname s = [''CcCal_SQPWM_Mode_Regen_Disable'']"
  by (auto simp: SA_SQPWM_REGEN_DIS_section_def split: if_splits)

text \<open>
  The objects of a resolved table, file by file: where an object of \<^verbatim>\<open>BswCfgPwm.c\<close>, of
  \<^verbatim>\<open>BswCfgRdc.c\<close> and of the first and third run of \<^verbatim>\<open>CcCalBase.c\<close> is found.
\<close>

lemma resolved_table:
  assumes "resolve x env = Inr t"
  obtains prj gic pm cs et au s1 s2 rest where
    "CcCalPrjCfg_h env = Inr prj" "GATE_IC_TYPE_section env = Inr gic"
    "POWER_MODULE_TYPE_section env = Inr pm" "MOT_CUR_SENSOR_TYPE_section env = Inr cs"
    "ETPU_CALCULATION_TIME_OPTION_section env = Inr et"
    "PWM_UPDATETIME_AUTO_MODE_section x env = Inr au"
    "map bname s1 = [''TestCal_RSPWM_Enb'']" "map bname s2 = [''CcCal_SQPWM_Mode_Regen_Disable'']"
    "constants t = BswCfgPwm_c x gic pm et au @ BswCfgRdc_c x @ CcCalBase_c_part1 x @ s1
        @ CcCalBase_c_part2 x @ s2 @ CcCalBase_c_part3 x pm cs @ rest"
proof -
  from assms obtain prj gic pm cs et au base where
    a: "CcCalPrjCfg_h env = Inr prj" "GATE_IC_TYPE_section env = Inr gic"
    "POWER_MODULE_TYPE_section env = Inr pm" "MOT_CUR_SENSOR_TYPE_section env = Inr cs"
    "ETPU_CALCULATION_TIME_OPTION_section env = Inr et"
    "PWM_UPDATETIME_AUTO_MODE_section x env = Inr au"
    and b: "CcCalBase_c x env pm cs = Inr base"
    and t: "t = \<lparr>selection_macros = prj,
          constants = BswCfgPwm_c x gic pm et au @ BswCfgRdc_c x @ base\<rparr>"
    by (rule resolve_InrD)
  from b obtain s1 s2 s3 s4 where
    s: "SA_2STAGE_PWM_MODE_section x env = Inr s1" "SA_SQPWM_REGEN_DIS_section x env = Inr s2"
    and base: "base = CcCalBase_c_part1 x @ s1 @ CcCalBase_c_part2 x @ s2 @ CcCalBase_c_part3 x pm cs
            @ s3 @ s4 @ CcCalBase_c_part4"
    by (rule CcCalBase_c_InrD)
  show thesis
    using a SA_2STAGE_PWM_MODE_section_names [OF s(1)] SA_SQPWM_REGEN_DIS_section_names [OF s(2)]
    by (rule that) (simp add: t base)
qed

lemma lookup_in_BswCfgPwm_c:
  assumes "constants t = BswCfgPwm_c x gic pm et au @ rest"
    and "lookup_binding (BswCfgPwm_c x gic pm et au) n = Some b"
  shows "lookup_binding (constants t) n = Some b"
  using assms by (simp add: lookup_binding_append)

lemma lookup_in_BswCfgRdc_c:
  assumes "constants t = BswCfgPwm_c x gic pm et au @ BswCfgRdc_c x @ rest"
    and "take 4 (drop 10 n) \<noteq> ''Pwm_''"
  shows "lookup_binding (constants t) n =
    (case lookup_binding (BswCfgRdc_c x) n of Some b \<Rightarrow> Some b | None \<Rightarrow> lookup_binding rest n)"
  using assms lookup_binding_pred_None [OF BswCfgPwm_c_names]
  by (simp add: lookup_binding_append)

lemma lookup_in_CcCalBase_c_part1:
  assumes "constants t = BswCfgPwm_c x gic pm et au @ BswCfgRdc_c x @ CcCalBase_c_part1 x @ rest"
    and "take 4 (drop 10 n) \<noteq> ''Pwm_''" and "take 4 (drop 10 n) \<noteq> ''Rdc_''"
    and "lookup_binding (CcCalBase_c_part1 x) n = Some b"
  shows "lookup_binding (constants t) n = Some b"
  using assms lookup_binding_pred_None [OF BswCfgPwm_c_names]
    lookup_binding_pred_None [OF BswCfgRdc_c_names]
  by (simp add: lookup_binding_append)

lemma lookup_in_CcCalBase_c_part3:
  assumes "constants t = BswCfgPwm_c x gic pm et au @ BswCfgRdc_c x @ CcCalBase_c_part1 x @ s1
        @ CcCalBase_c_part2 x @ s2 @ CcCalBase_c_part3 x pm cs @ rest"
    and "map bname s1 = [''TestCal_RSPWM_Enb'']"
    and "map bname s2 = [''CcCal_SQPWM_Mode_Regen_Disable'']"
    and "take 4 (drop 10 n) \<noteq> ''Pwm_''" and "take 4 (drop 10 n) \<noteq> ''Rdc_''"
    and "n \<notin> set [''BswCfgCal_Rsv_DefaultOffset'', ''BswCfgCal_Rsv_RotDir'', ''TestCal_RSPWM_Enb'',
          ''TestCal_VnCtrl_Enb'', ''CcCal_SQPWM_Mode_Regen_Disable'']"
    and "lookup_binding (CcCalBase_c_part3 x pm cs) n = Some b"
  shows "lookup_binding (constants t) n = Some b"
proof -
  have "lookup_binding (BswCfgPwm_c x gic pm et au) n = None"
    "lookup_binding (BswCfgRdc_c x) n = None"
    using assms(4,5) lookup_binding_pred_None [OF BswCfgPwm_c_names]
      lookup_binding_pred_None [OF BswCfgRdc_c_names] by auto
  moreover have "lookup_binding (CcCalBase_c_part1 x) n = None" "lookup_binding s1 n = None"
    "lookup_binding (CcCalBase_c_part2 x) n = None" "lookup_binding s2 n = None"
    using assms(2,3,6)
    by (auto intro!: lookup_binding_names_None simp: CcCalBase_c_part1_names CcCalBase_c_part2_names)
  ultimately show ?thesis
    using assms(1,7) by (simp add: lookup_binding_append)
qed

lemma scalar_in_BswCfgPwm_c:
  assumes "constants t = BswCfgPwm_c x gic pm et au @ rest"
    and "scalar_of (BswCfgPwm_c x gic pm et au) n = Some v"
  shows "scalar_of (constants t) n = Some v"
proof -
  from assms(2) obtain b where "lookup_binding (BswCfgPwm_c x gic pm et au) n = Some b"
    using scalar_of_SomeD by blast
  with assms(1) have "lookup_binding (constants t) n = lookup_binding (BswCfgPwm_c x gic pm et au) n"
    by (simp add: lookup_binding_append)
  then show ?thesis
    using assms(2) by (simp add: scalar_of_def)
qed

lemma BswCfgPwm_c_scalars:
  "scalar_of (BswCfgPwm_c x gic pm et au) ''BswCfgCal_Pwm_MotMinPulseWidth_INV1''
     = Some (c_convert UINT32 (BSWCFGPWM_MOT_INV1_MIN_WIDTH gic))"
  "scalar_of (BswCfgPwm_c x gic pm et au) ''BswCfgCal_Pwm_MotMinPulseWidth_INV2''
     = Some (c_convert UINT32 (BSWCFGPWM_MOT_INV2_MIN_WIDTH gic))"
  "scalar_of (BswCfgPwm_c x gic pm et au) ''BswCfgCal_Pwm_MotAsacEdgeOffset''
     = Some (c_convert UINT32 (BSWCFGPWM_MOT_ASAC_EDGE_OFFSET gic))"
  "scalar_of (BswCfgPwm_c x gic pm et au) ''BswCfgCal_Pwm_HsgMinPulseWidth_INV1''
     = Some (c_convert UINT32 (BSWCFGPWM_HSG_INV1_MIN_WIDTH gic))"
  "scalar_of (BswCfgPwm_c x gic pm et au) ''BswCfgCal_Pwm_HsgMinPulseWidth_INV2''
     = Some (c_convert UINT32 (BSWCFGPWM_HSG_INV2_MIN_WIDTH gic))"
  "scalar_of (BswCfgPwm_c x gic pm et au) ''BswCfgCal_Pwm_HsgAsacEdgeOffset''
     = Some (c_convert UINT32 (BSWCFGPWM_HSG_ASAC_EDGE_OFFSET gic))"
  "scalar_of (BswCfgPwm_c x gic pm et au) ''BswCfgCal_Pwm_MotDeadTime_INV1''
     = Some (c_convert UINT32 (BSWCFGPWM_MOT_INV1_DEADTIME pm))"
  "scalar_of (BswCfgPwm_c x gic pm et au) ''BswCfgCal_Pwm_MotDeadTime_INV2''
     = Some (c_convert UINT32 (BSWCFGPWM_MOT_INV2_DEADTIME pm))"
  "scalar_of (BswCfgPwm_c x gic pm et au) ''BswCfgCal_Pwm_HsgDeadTime_INV1''
     = Some (c_convert UINT32 (BSWCFGPWM_HSG_INV1_DEADTIME pm))"
  "scalar_of (BswCfgPwm_c x gic pm et au) ''BswCfgCal_Pwm_HsgDeadTime_INV2''
     = Some (c_convert UINT32 (BSWCFGPWM_HSG_INV2_DEADTIME pm))"
  unfolding scalar_of_def BswCfgPwm_c_def
  by (simp_all only: lookup_binding.simps binding.sel list.inject list.distinct char.inject
      simp_thms if_True if_False option.case c_init.simps cinit.case
      cong: lookup_binding_weak_cong if_weak_cong)

section \<open>What a conditional group reads\<close>

text \<open>
  A conditional group reads the macro environment only through the values of its axis and of
  the options its guards name: two environments that give these the same values give the
  same result.
\<close>

lemma GATE_IC_TYPE_section_reads:
  "list_all (\<lambda>n. pp env1 n = pp env2 n) (''_GATE_IC_TYPE'' # GATE_IC_TYPE_options)
     \<Longrightarrow> GATE_IC_TYPE_section env1 = GATE_IC_TYPE_section env2"
  by (simp add: GATE_IC_TYPE_options_def GATE_IC_TYPE_section_def)

lemma POWER_MODULE_TYPE_section_reads:
  "list_all (\<lambda>n. pp env1 n = pp env2 n) (''_POWER_MODULE_TYPE'' # POWER_MODULE_TYPE_options)
     \<Longrightarrow> POWER_MODULE_TYPE_section env1 = POWER_MODULE_TYPE_section env2"
  by (simp add: POWER_MODULE_TYPE_options_def POWER_MODULE_TYPE_section_def)

lemma MOT_CUR_SENSOR_TYPE_section_reads:
  "list_all (\<lambda>n. pp env1 n = pp env2 n) (''_MOT_CUR_SENSOR_TYPE'' # MOT_CUR_SENSOR_TYPE_options)
     \<Longrightarrow> MOT_CUR_SENSOR_TYPE_section env1 = MOT_CUR_SENSOR_TYPE_section env2"
  by (simp add: MOT_CUR_SENSOR_TYPE_options_def MOT_CUR_SENSOR_TYPE_section_def)

lemma ETPU_CALCULATION_TIME_OPTION_section_reads:
  "list_all (\<lambda>n. pp env1 n = pp env2 n) (''_ETPU_CALCULATION_TIME_OPTION'' # ETPU_CALCULATION_TIME_OPTION_options)
     \<Longrightarrow> ETPU_CALCULATION_TIME_OPTION_section env1 = ETPU_CALCULATION_TIME_OPTION_section env2"
  by (simp add: ETPU_CALCULATION_TIME_OPTION_options_def ETPU_CALCULATION_TIME_OPTION_section_def)

lemma PWM_UPDATETIME_AUTO_MODE_section_reads:
  "list_all (\<lambda>n. pp env1 n = pp env2 n) (''_PWM_UPDATETIME_AUTO_MODE'' # PWM_UPDATETIME_AUTO_MODE_options)
     \<Longrightarrow> PWM_UPDATETIME_AUTO_MODE_section x env1 = PWM_UPDATETIME_AUTO_MODE_section x env2"
  by (simp add: PWM_UPDATETIME_AUTO_MODE_options_def PWM_UPDATETIME_AUTO_MODE_section_def)

lemma SA_2STAGE_PWM_MODE_section_reads:
  "list_all (\<lambda>n. pp env1 n = pp env2 n) (''_SA_2STAGE_PWM_MODE'' # SA_2STAGE_PWM_MODE_options)
     \<Longrightarrow> SA_2STAGE_PWM_MODE_section x env1 = SA_2STAGE_PWM_MODE_section x env2"
  by (simp add: SA_2STAGE_PWM_MODE_options_def SA_2STAGE_PWM_MODE_section_def)

lemma SA_SQPWM_REGEN_DIS_section_reads:
  "list_all (\<lambda>n. pp env1 n = pp env2 n) (''_SA_SQPWM_REGEN_DIS'' # SA_SQPWM_REGEN_DIS_options)
     \<Longrightarrow> SA_SQPWM_REGEN_DIS_section x env1 = SA_SQPWM_REGEN_DIS_section x env2"
  by (simp add: SA_SQPWM_REGEN_DIS_options_def SA_SQPWM_REGEN_DIS_section_def)

lemma PWM_BURST_MODE_section_reads:
  "list_all (\<lambda>n. pp env1 n = pp env2 n) (''_PWM_BURST_MODE'' # PWM_BURST_MODE_options)
     \<Longrightarrow> PWM_BURST_MODE_section x env1 = PWM_BURST_MODE_section x env2"
  by (simp add: PWM_BURST_MODE_options_def PWM_BURST_MODE_section_def)

lemma VAR_DTGS_OPTION_section_reads:
  "list_all (\<lambda>n. pp env1 n = pp env2 n) (''_VAR_DTGS_OPTION'' # VAR_DTGS_OPTION_options)
     \<Longrightarrow> VAR_DTGS_OPTION_section x env1 = VAR_DTGS_OPTION_section x env2"
  by (simp add: VAR_DTGS_OPTION_options_def VAR_DTGS_OPTION_section_def)

lemma PrjCfg_phase_reads:
  assumes "list_all (\<lambda>n. pp env1 n = pp env2 n) (''_MARKET_VERSION'' # MARKET_VERSION_options)"
  shows "PrjCfg_MV_RWD_TCAR env1 = PrjCfg_MV_RWD_TCAR env2"
    "PrjCfg_MV_RWD_PROTO env1 = PrjCfg_MV_RWD_PROTO env2"
    "PrjCfg_MV_RWD_MASTER env1 = PrjCfg_MV_RWD_MASTER env2"
    "PrjCfg_MV_RWD_PILOT_1 env1 = PrjCfg_MV_RWD_PILOT_1 env2"
    "PrjCfg_MV_RWD_PILOT_2 env1 = PrjCfg_MV_RWD_PILOT_2 env2"
    "PrjCfg_MV_RWD_M env1 = PrjCfg_MV_RWD_M env2"
    "PrjCfg_MV_RWD_SOP env1 = PrjCfg_MV_RWD_SOP env2"
    "PrjCfg_MV_RWD_RC env1 = PrjCfg_MV_RWD_RC env2"
    "PrjCfg_ME_RWD_TCAR env1 = PrjCfg_ME_RWD_TCAR env2"
    "PrjCfg_ME_RWD_PROTO env1 = PrjCfg_ME_RWD_PROTO env2"
    "PrjCfg_ME_RWD_MASTER env1 = PrjCfg_ME_RWD_MASTER env2"
    "PrjCfg_ME_RWD_PILOT_1 env1 = PrjCfg_ME_RWD_PILOT_1 env2"
    "PrjCfg_ME_RWD_PILOT_2 env1 = PrjCfg_ME_RWD_PILOT_2 env2"
    "PrjCfg_ME_RWD_M env1 = PrjCfg_ME_RWD_M env2"
    "PrjCfg_ME_RWD_SOP env1 = PrjCfg_ME_RWD_SOP env2"
    "PrjCfg_ME_RWD_RC env1 = PrjCfg_ME_RWD_RC env2"
  using assms
  by (simp_all add: MARKET_VERSION_options_def after_defines_def
      PrjCfg_MV_RWD_TCAR_def PrjCfg_MV_RWD_PROTO_def PrjCfg_MV_RWD_MASTER_def PrjCfg_MV_RWD_PILOT_1_def
      PrjCfg_MV_RWD_PILOT_2_def PrjCfg_MV_RWD_M_def PrjCfg_MV_RWD_SOP_def PrjCfg_MV_RWD_RC_def
      PrjCfg_ME_RWD_TCAR_def PrjCfg_ME_RWD_PROTO_def PrjCfg_ME_RWD_MASTER_def PrjCfg_ME_RWD_PILOT_1_def
      PrjCfg_ME_RWD_PILOT_2_def PrjCfg_ME_RWD_M_def PrjCfg_ME_RWD_SOP_def PrjCfg_ME_RWD_RC_def)

lemma PrjCfg_project_reads:
  assumes "list_all (\<lambda>n. pp env1 n = pp env2 n) (''_MARKET_VERSION'' # MARKET_VERSION_options)"
    and "list_all (\<lambda>n. pp env1 n = pp env2 n) (''_DEVELOPMENT_PHASE'' # DEVELOPMENT_PHASE_options)"
    and "list_all (\<lambda>n. pp env1 n = pp env2 n) (''_PERFORMANCE_TYPE'' # PERFORMANCE_TYPE_options)"
  shows "PrjCfg_MV_RWD env1 = PrjCfg_MV_RWD env2" "PrjCfg_ME_RWD env1 = PrjCfg_ME_RWD env2"
  using assms(2,3) PrjCfg_phase_reads [OF assms(1)]
  by (simp_all add: DEVELOPMENT_PHASE_options_def PERFORMANCE_TYPE_options_def
      PrjCfg_MV_RWD_def PrjCfg_ME_RWD_def)

lemma CcCalPrjCfg_h_reads:
  assumes "list_all (\<lambda>n. pp env1 n = pp env2 n) (''_MARKET_VERSION'' # MARKET_VERSION_options)"
    and "list_all (\<lambda>n. pp env1 n = pp env2 n) (''_DEVELOPMENT_PHASE'' # DEVELOPMENT_PHASE_options)"
    and "list_all (\<lambda>n. pp env1 n = pp env2 n) (''_PERFORMANCE_TYPE'' # PERFORMANCE_TYPE_options)"
    and "list_all (\<lambda>n. pp env1 n = pp env2 n) (''_PROJECT_NAME'' # PROJECT_NAME_options)"
  shows "CcCalPrjCfg_h env1 = CcCalPrjCfg_h env2"
  using assms(4) PrjCfg_project_reads [OF assms(1,2,3)]
  by (simp add: PROJECT_NAME_options_def CcCalPrjCfg_h_def)

lemma CcCalBase_c_reads:
  assumes "list_all (\<lambda>n. pp env1 n = pp env2 n) (''_SA_2STAGE_PWM_MODE'' # SA_2STAGE_PWM_MODE_options)"
    and "list_all (\<lambda>n. pp env1 n = pp env2 n) (''_SA_SQPWM_REGEN_DIS'' # SA_SQPWM_REGEN_DIS_options)"
    and "list_all (\<lambda>n. pp env1 n = pp env2 n) (''_PWM_BURST_MODE'' # PWM_BURST_MODE_options)"
    and "list_all (\<lambda>n. pp env1 n = pp env2 n) (''_VAR_DTGS_OPTION'' # VAR_DTGS_OPTION_options)"
  shows "CcCalBase_c x env1 pm cs = CcCalBase_c x env2 pm cs"
  unfolding CcCalBase_c_def
  using SA_2STAGE_PWM_MODE_section_reads [OF assms(1)] SA_SQPWM_REGEN_DIS_section_reads [OF assms(2)]
    PWM_BURST_MODE_section_reads [OF assms(3)] VAR_DTGS_OPTION_section_reads [OF assms(4)]
  by simp

lemma agree_on_pp:
  "agree_on ns env1 env2 \<Longrightarrow> set ms \<subseteq> set ns \<Longrightarrow> list_all (\<lambda>n. pp env1 n = pp env2 n) ms"
  by (auto simp: agree_on_def list_all_iff pp_def)

lemma axis_in_config_macros:
  "set (''_PROJECT_NAME'' # PROJECT_NAME_options) \<subseteq> set config_macros"
  "set (''_PERFORMANCE_TYPE'' # PERFORMANCE_TYPE_options) \<subseteq> set config_macros"
  "set (''_DEVELOPMENT_PHASE'' # DEVELOPMENT_PHASE_options) \<subseteq> set config_macros"
  "set (''_MARKET_VERSION'' # MARKET_VERSION_options) \<subseteq> set config_macros"
  "set (''_GATE_IC_TYPE'' # GATE_IC_TYPE_options) \<subseteq> set config_macros"
  "set (''_POWER_MODULE_TYPE'' # POWER_MODULE_TYPE_options) \<subseteq> set config_macros"
  "set (''_MOT_CUR_SENSOR_TYPE'' # MOT_CUR_SENSOR_TYPE_options) \<subseteq> set config_macros"
  "set (''_ETPU_CALCULATION_TIME_OPTION'' # ETPU_CALCULATION_TIME_OPTION_options) \<subseteq> set config_macros"
  "set (''_PWM_UPDATETIME_AUTO_MODE'' # PWM_UPDATETIME_AUTO_MODE_options) \<subseteq> set config_macros"
  "set (''_SA_2STAGE_PWM_MODE'' # SA_2STAGE_PWM_MODE_options) \<subseteq> set config_macros"
  "set (''_SA_SQPWM_REGEN_DIS'' # SA_SQPWM_REGEN_DIS_options) \<subseteq> set config_macros"
  "set (''_PWM_BURST_MODE'' # PWM_BURST_MODE_options) \<subseteq> set config_macros"
  "set (''_VAR_DTGS_OPTION'' # VAR_DTGS_OPTION_options) \<subseteq> set config_macros"
  by (auto simp: config_macros_def axes_def)

lemma resolve_reads:
  assumes "agree_on config_macros env1 env2"
  shows "resolve x env1 = resolve x env2"
proof -
  note r = agree_on_pp [OF assms]
  have 1: "CcCalPrjCfg_h env1 = CcCalPrjCfg_h env2"
    by (intro CcCalPrjCfg_h_reads r axis_in_config_macros)
  have 2: "GATE_IC_TYPE_section env1 = GATE_IC_TYPE_section env2"
    by (intro GATE_IC_TYPE_section_reads r axis_in_config_macros)
  have 3: "POWER_MODULE_TYPE_section env1 = POWER_MODULE_TYPE_section env2"
    by (intro POWER_MODULE_TYPE_section_reads r axis_in_config_macros)
  have 4: "MOT_CUR_SENSOR_TYPE_section env1 = MOT_CUR_SENSOR_TYPE_section env2"
    by (intro MOT_CUR_SENSOR_TYPE_section_reads r axis_in_config_macros)
  have 5: "ETPU_CALCULATION_TIME_OPTION_section env1 = ETPU_CALCULATION_TIME_OPTION_section env2"
    by (intro ETPU_CALCULATION_TIME_OPTION_section_reads r axis_in_config_macros)
  have 6: "PWM_UPDATETIME_AUTO_MODE_section x env1 = PWM_UPDATETIME_AUTO_MODE_section x env2"
    by (intro PWM_UPDATETIME_AUTO_MODE_section_reads r axis_in_config_macros)
  have 7: "CcCalBase_c x env1 pm cs = CcCalBase_c x env2 pm cs" for pm cs
    by (intro CcCalBase_c_reads r axis_in_config_macros)
  show ?thesis
    unfolding resolve_def 1 2 3 4 5 6 7 by (rule refl)
qed

section \<open>A value that matches no guard\<close>

lemma GATE_IC_TYPE_section_unmatched:
  "unmatched env ''_GATE_IC_TYPE'' GATE_IC_TYPE_options
     \<Longrightarrow> GATE_IC_TYPE_section env = Inl (PpError ''undefined _GATE_IC_TYPE MACRO'')"
  by (simp add: unmatched_def GATE_IC_TYPE_options_def GATE_IC_TYPE_section_def)

lemma POWER_MODULE_TYPE_section_unmatched:
  "unmatched env ''_POWER_MODULE_TYPE'' POWER_MODULE_TYPE_options
     \<Longrightarrow> POWER_MODULE_TYPE_section env = Inl (PpError ''undefined _POWER_MODULE_TYPE MACRO'')"
  by (simp add: unmatched_def POWER_MODULE_TYPE_options_def POWER_MODULE_TYPE_section_def)

lemma MOT_CUR_SENSOR_TYPE_section_unmatched:
  "unmatched env ''_MOT_CUR_SENSOR_TYPE'' MOT_CUR_SENSOR_TYPE_options
     \<Longrightarrow> MOT_CUR_SENSOR_TYPE_section env = Inl (PpError ''undefined _MOT_CUR_SENSOR_TYPE MACRO'')"
  by (simp add: unmatched_def MOT_CUR_SENSOR_TYPE_options_def MOT_CUR_SENSOR_TYPE_section_def)

lemma ETPU_CALCULATION_TIME_OPTION_section_unmatched:
  "unmatched env ''_ETPU_CALCULATION_TIME_OPTION'' ETPU_CALCULATION_TIME_OPTION_options
     \<Longrightarrow> ETPU_CALCULATION_TIME_OPTION_section env = Inl (PpError ''undefined _ETPU_CALCULATION_TIME_OPTION MACRO'')"
  by (simp add: unmatched_def ETPU_CALCULATION_TIME_OPTION_options_def ETPU_CALCULATION_TIME_OPTION_section_def)

lemma PWM_UPDATETIME_AUTO_MODE_section_unmatched:
  "unmatched env ''_PWM_UPDATETIME_AUTO_MODE'' PWM_UPDATETIME_AUTO_MODE_options
     \<Longrightarrow> PWM_UPDATETIME_AUTO_MODE_section x env = Inl (PpError ''undefined _PWM_UPDATETIME_AUTO_MODE MACRO'')"
  by (simp add: unmatched_def PWM_UPDATETIME_AUTO_MODE_options_def PWM_UPDATETIME_AUTO_MODE_section_def)

lemma SA_2STAGE_PWM_MODE_section_unmatched:
  "unmatched env ''_SA_2STAGE_PWM_MODE'' SA_2STAGE_PWM_MODE_options
     \<Longrightarrow> SA_2STAGE_PWM_MODE_section x env = Inl (PpError ''undefined _SA_2STAGE_PWM_MODE MACRO'')"
  by (simp add: unmatched_def SA_2STAGE_PWM_MODE_options_def SA_2STAGE_PWM_MODE_section_def)

lemma SA_SQPWM_REGEN_DIS_section_unmatched:
  "unmatched env ''_SA_SQPWM_REGEN_DIS'' SA_SQPWM_REGEN_DIS_options
     \<Longrightarrow> SA_SQPWM_REGEN_DIS_section x env = Inl (PpError ''undefined _SA_SQPWM_REGEN_DIS MACRO'')"
  by (simp add: unmatched_def SA_SQPWM_REGEN_DIS_options_def SA_SQPWM_REGEN_DIS_section_def)

lemma PWM_BURST_MODE_section_unmatched:
  "unmatched env ''_PWM_BURST_MODE'' PWM_BURST_MODE_options
     \<Longrightarrow> PWM_BURST_MODE_section x env = Inl (PpError ''undefined _PWM_BURST_MODE MACRO'')"
  by (simp add: unmatched_def PWM_BURST_MODE_options_def PWM_BURST_MODE_section_def)

lemma VAR_DTGS_OPTION_section_unmatched:
  "unmatched env ''_VAR_DTGS_OPTION'' VAR_DTGS_OPTION_options
     \<Longrightarrow> VAR_DTGS_OPTION_section x env = Inl (PpError ''undefined _VAR_DTGS_OPTION MACRO'')"
  by (simp add: unmatched_def VAR_DTGS_OPTION_options_def VAR_DTGS_OPTION_section_def)

lemma PrjCfg_phase_unmatched:
  assumes "unmatched env ''_MARKET_VERSION'' MARKET_VERSION_options"
  shows "PrjCfg_MV_RWD_TCAR env = Inl (PpError ''undefined _MARKET_VERSION MACRO'')"
    "PrjCfg_MV_RWD_PROTO env = Inl (PpError ''undefined _MARKET_VERSION MACRO'')"
    "PrjCfg_MV_RWD_MASTER env = Inl (PpError ''undefined _MARKET_VERSION MACRO'')"
    "PrjCfg_MV_RWD_PILOT_1 env = Inl (PpError ''undefined _MARKET_VERSION MACRO'')"
    "PrjCfg_MV_RWD_PILOT_2 env = Inl (PpError ''undefined _MARKET_VERSION MACRO'')"
    "PrjCfg_MV_RWD_M env = Inl (PpError ''undefined _MARKET_VERSION MACRO'')"
    "PrjCfg_MV_RWD_SOP env = Inl (PpError ''undefined _MARKET_VERSION MACRO'')"
    "PrjCfg_MV_RWD_RC env = Inl (PpError ''undefined _MARKET_VERSION MACRO'')"
    "PrjCfg_ME_RWD_TCAR env = Inl (PpError ''undefined _MARKET_VERSION MACRO'')"
    "PrjCfg_ME_RWD_PROTO env = Inl (PpError ''undefined _MARKET_VERSION MACRO'')"
    "PrjCfg_ME_RWD_MASTER env = Inl (PpError ''undefined _MARKET_VERSION MACRO'')"
    "PrjCfg_ME_RWD_PILOT_1 env = Inl (PpError ''undefined _MARKET_VERSION MACRO'')"
    "PrjCfg_ME_RWD_PILOT_2 env = Inl (PpError ''undefined _MARKET_VERSION MACRO'')"
    "PrjCfg_ME_RWD_M env = Inl (PpError ''undefined _MARKET_VERSION MACRO'')"
    "PrjCfg_ME_RWD_SOP env = Inl (PpError ''undefined _MARKET_VERSION MACRO'')"
    "PrjCfg_ME_RWD_RC env = Inl (PpError ''undefined _MARKET_VERSION MACRO'')"
  using assms
  by (simp_all add: unmatched_def MARKET_VERSION_options_def after_defines_def
      PrjCfg_MV_RWD_TCAR_def PrjCfg_MV_RWD_PROTO_def PrjCfg_MV_RWD_MASTER_def PrjCfg_MV_RWD_PILOT_1_def
      PrjCfg_MV_RWD_PILOT_2_def PrjCfg_MV_RWD_M_def PrjCfg_MV_RWD_SOP_def PrjCfg_MV_RWD_RC_def
      PrjCfg_ME_RWD_TCAR_def PrjCfg_ME_RWD_PROTO_def PrjCfg_ME_RWD_MASTER_def PrjCfg_ME_RWD_PILOT_1_def
      PrjCfg_ME_RWD_PILOT_2_def PrjCfg_ME_RWD_M_def PrjCfg_ME_RWD_SOP_def PrjCfg_ME_RWD_RC_def)

lemma PrjCfg_project_unmatched_market:
  assumes "unmatched env ''_MARKET_VERSION'' MARKET_VERSION_options"
    and "\<not> unmatched env ''_DEVELOPMENT_PHASE'' DEVELOPMENT_PHASE_options"
    and "\<not> unmatched env ''_PERFORMANCE_TYPE'' PERFORMANCE_TYPE_options"
  shows "PrjCfg_MV_RWD env = Inl (PpError ''undefined _MARKET_VERSION MACRO'')"
    "PrjCfg_ME_RWD env = Inl (PpError ''undefined _MARKET_VERSION MACRO'')"
  using assms(2,3) PrjCfg_phase_unmatched [OF assms(1)]
  by (auto simp: unmatched_def DEVELOPMENT_PHASE_options_def PERFORMANCE_TYPE_options_def
      PrjCfg_MV_RWD_def PrjCfg_ME_RWD_def)

lemma PrjCfg_project_unmatched_phase:
  assumes "unmatched env ''_DEVELOPMENT_PHASE'' DEVELOPMENT_PHASE_options"
    and "\<not> unmatched env ''_PERFORMANCE_TYPE'' PERFORMANCE_TYPE_options"
  shows "PrjCfg_MV_RWD env = Inl (PpError ''undefined _DEVELOPMENT_PHASE MACRO'')"
    "PrjCfg_ME_RWD env = Inl (PpError ''undefined _DEVELOPMENT_PHASE MACRO'')"
  using assms
  by (auto simp: unmatched_def DEVELOPMENT_PHASE_options_def PERFORMANCE_TYPE_options_def
      PrjCfg_MV_RWD_def PrjCfg_ME_RWD_def)

lemma PrjCfg_project_unmatched_performance:
  assumes "unmatched env ''_PERFORMANCE_TYPE'' PERFORMANCE_TYPE_options"
  shows "PrjCfg_MV_RWD env = Inl (PpError ''undefined _PERFORMANCE_TYPE MACRO'')"
    "PrjCfg_ME_RWD env = Inl (PpError ''undefined _PERFORMANCE_TYPE MACRO'')"
  using assms
  by (simp_all add: unmatched_def PERFORMANCE_TYPE_options_def PrjCfg_MV_RWD_def PrjCfg_ME_RWD_def)

lemma CcCalPrjCfg_h_matched:
  "\<not> unmatched env ''_PROJECT_NAME'' PROJECT_NAME_options
     \<Longrightarrow> CcCalPrjCfg_h env = PrjCfg_MV_RWD env \<or> CcCalPrjCfg_h env = PrjCfg_ME_RWD env"
  by (auto simp: unmatched_def PROJECT_NAME_options_def CcCalPrjCfg_h_def)

lemma CcCalPrjCfg_h_unmatched:
  "unmatched env ''_PROJECT_NAME'' PROJECT_NAME_options \<Longrightarrow> CcCalPrjCfg_h env = Inr []"
  by (simp add: unmatched_def PROJECT_NAME_options_def CcCalPrjCfg_h_def)

lemma resolve_fails_in_CcCalBase_c:
  "isl (SA_2STAGE_PWM_MODE_section x env) \<Longrightarrow> isl (resolve x env)"
  "isl (SA_SQPWM_REGEN_DIS_section x env) \<Longrightarrow> isl (resolve x env)"
  "isl (PWM_BURST_MODE_section x env) \<Longrightarrow> isl (resolve x env)"
  "isl (VAR_DTGS_OPTION_section x env) \<Longrightarrow> isl (resolve x env)"
  by (cases "resolve x env"; auto elim!: resolve_InrD CcCalBase_c_InrD)+

lemma unmatched_gate_ic:
  "unmatched env ''_GATE_IC_TYPE'' GATE_IC_TYPE_options \<longrightarrow>
   GATE_IC_TYPE_section env = Inl (PpError ''undefined _GATE_IC_TYPE MACRO'')
   \<and> isl (resolve x env)"
  by (simp add: GATE_IC_TYPE_section_unmatched resolve_fails)

lemma unmatched_power_module:
  "unmatched env ''_POWER_MODULE_TYPE'' POWER_MODULE_TYPE_options \<longrightarrow>
   POWER_MODULE_TYPE_section env = Inl (PpError ''undefined _POWER_MODULE_TYPE MACRO'')
   \<and> isl (resolve x env)"
  by (simp add: POWER_MODULE_TYPE_section_unmatched resolve_fails)

lemma unmatched_mot_cur_sensor:
  "unmatched env ''_MOT_CUR_SENSOR_TYPE'' MOT_CUR_SENSOR_TYPE_options \<longrightarrow>
   MOT_CUR_SENSOR_TYPE_section env = Inl (PpError ''undefined _MOT_CUR_SENSOR_TYPE MACRO'')
   \<and> isl (resolve x env)"
  by (simp add: MOT_CUR_SENSOR_TYPE_section_unmatched resolve_fails)

lemma unmatched_pwm_burst:
  "unmatched env ''_PWM_BURST_MODE'' PWM_BURST_MODE_options \<longrightarrow>
   PWM_BURST_MODE_section x env = Inl (PpError ''undefined _PWM_BURST_MODE MACRO'')
   \<and> isl (resolve x env)"
  by (simp add: PWM_BURST_MODE_section_unmatched resolve_fails_in_CcCalBase_c)

lemma unmatched_var_dtgs:
  "unmatched env ''_VAR_DTGS_OPTION'' VAR_DTGS_OPTION_options \<longrightarrow>
   VAR_DTGS_OPTION_section x env = Inl (PpError ''undefined _VAR_DTGS_OPTION MACRO'')
   \<and> isl (resolve x env)"
  by (simp add: VAR_DTGS_OPTION_section_unmatched resolve_fails_in_CcCalBase_c)

lemma unmatched_etpu:
  "unmatched env ''_ETPU_CALCULATION_TIME_OPTION'' ETPU_CALCULATION_TIME_OPTION_options \<longrightarrow>
   ETPU_CALCULATION_TIME_OPTION_section env
     = Inl (PpError ''undefined _ETPU_CALCULATION_TIME_OPTION MACRO'')
   \<and> isl (resolve x env)"
  by (simp add: ETPU_CALCULATION_TIME_OPTION_section_unmatched resolve_fails)

lemma unmatched_updatetime:
  "unmatched env ''_PWM_UPDATETIME_AUTO_MODE'' PWM_UPDATETIME_AUTO_MODE_options \<longrightarrow>
   PWM_UPDATETIME_AUTO_MODE_section x env
     = Inl (PpError ''undefined _PWM_UPDATETIME_AUTO_MODE MACRO'')
   \<and> isl (resolve x env)"
  by (simp add: PWM_UPDATETIME_AUTO_MODE_section_unmatched resolve_fails)

lemma unmatched_two_stage:
  "unmatched env ''_SA_2STAGE_PWM_MODE'' SA_2STAGE_PWM_MODE_options \<longrightarrow>
   SA_2STAGE_PWM_MODE_section x env = Inl (PpError ''undefined _SA_2STAGE_PWM_MODE MACRO'')
   \<and> isl (resolve x env)"
  by (simp add: SA_2STAGE_PWM_MODE_section_unmatched resolve_fails_in_CcCalBase_c)

lemma unmatched_regen:
  "unmatched env ''_SA_SQPWM_REGEN_DIS'' SA_SQPWM_REGEN_DIS_options \<longrightarrow>
   SA_SQPWM_REGEN_DIS_section x env = Inl (PpError ''undefined _SA_SQPWM_REGEN_DIS MACRO'')
   \<and> isl (resolve x env)"
  by (simp add: SA_SQPWM_REGEN_DIS_section_unmatched resolve_fails_in_CcCalBase_c)

lemma unmatched_performance:
  "\<not> unmatched env ''_PROJECT_NAME'' PROJECT_NAME_options
    \<and> unmatched env ''_PERFORMANCE_TYPE'' PERFORMANCE_TYPE_options \<longrightarrow>
   CcCalPrjCfg_h env = Inl (PpError ''undefined _PERFORMANCE_TYPE MACRO'')
   \<and> isl (resolve x env)"
  using CcCalPrjCfg_h_matched [of env] PrjCfg_project_unmatched_performance [of env]
    resolve_fails(1) [of env x] by auto

lemma unmatched_phase:
  "\<not> unmatched env ''_PROJECT_NAME'' PROJECT_NAME_options
    \<and> \<not> unmatched env ''_PERFORMANCE_TYPE'' PERFORMANCE_TYPE_options
    \<and> unmatched env ''_DEVELOPMENT_PHASE'' DEVELOPMENT_PHASE_options \<longrightarrow>
   CcCalPrjCfg_h env = Inl (PpError ''undefined _DEVELOPMENT_PHASE MACRO'')
   \<and> isl (resolve x env)"
  using CcCalPrjCfg_h_matched [of env] PrjCfg_project_unmatched_phase [of env]
    resolve_fails(1) [of env x] by auto

lemma unmatched_market:
  "\<not> unmatched env ''_PROJECT_NAME'' PROJECT_NAME_options
    \<and> \<not> unmatched env ''_PERFORMANCE_TYPE'' PERFORMANCE_TYPE_options
    \<and> \<not> unmatched env ''_DEVELOPMENT_PHASE'' DEVELOPMENT_PHASE_options
    \<and> unmatched env ''_MARKET_VERSION'' MARKET_VERSION_options \<longrightarrow>
   CcCalPrjCfg_h env = Inl (PpError ''undefined _MARKET_VERSION MACRO'')
   \<and> isl (resolve x env)"
  using CcCalPrjCfg_h_matched [of env] PrjCfg_project_unmatched_market [of env]
    resolve_fails(1) [of env x] by auto

lemma unmatched_project:
  "unmatched env ''_PROJECT_NAME'' PROJECT_NAME_options \<longrightarrow> CcCalPrjCfg_h env = Inr []"
  by (simp add: CcCalPrjCfg_h_unmatched)

section \<open>Evaluating the changed builds\<close>

lemma pp_with_axis: "pp (with_axis a v) n = (if n = a then v else pp example_env n)"
  by (simp add: with_axis_def pp_upd)

lemma pp_without_axis: "pp (without_axis a) n = (if n = a then 0 else pp example_env n)"
  by (simp add: without_axis_def pp_upd_None)

lemma unchanged_reads:
  "a \<notin> set ns \<Longrightarrow> list_all (\<lambda>n. pp (with_axis a v) n = pp example_env n) ns"
  "a \<notin> set ns \<Longrightarrow> list_all (\<lambda>n. pp (without_axis a) n = pp example_env n) ns"
  by (auto simp: list_all_iff pp_with_axis pp_without_axis)

lemma sections_with_axis:
  "a \<notin> set (''_GATE_IC_TYPE'' # GATE_IC_TYPE_options)
     \<Longrightarrow> GATE_IC_TYPE_section (with_axis a v) = GATE_IC_TYPE_section example_env"
  "a \<notin> set (''_POWER_MODULE_TYPE'' # POWER_MODULE_TYPE_options)
     \<Longrightarrow> POWER_MODULE_TYPE_section (with_axis a v) = POWER_MODULE_TYPE_section example_env"
  "a \<notin> set (''_MOT_CUR_SENSOR_TYPE'' # MOT_CUR_SENSOR_TYPE_options)
     \<Longrightarrow> MOT_CUR_SENSOR_TYPE_section (with_axis a v) = MOT_CUR_SENSOR_TYPE_section example_env"
  "a \<notin> set (''_ETPU_CALCULATION_TIME_OPTION'' # ETPU_CALCULATION_TIME_OPTION_options)
     \<Longrightarrow> ETPU_CALCULATION_TIME_OPTION_section (with_axis a v) = ETPU_CALCULATION_TIME_OPTION_section example_env"
  "a \<notin> set (''_PWM_UPDATETIME_AUTO_MODE'' # PWM_UPDATETIME_AUTO_MODE_options)
     \<Longrightarrow> PWM_UPDATETIME_AUTO_MODE_section x (with_axis a v) = PWM_UPDATETIME_AUTO_MODE_section x example_env"
  by (intro GATE_IC_TYPE_section_reads POWER_MODULE_TYPE_section_reads MOT_CUR_SENSOR_TYPE_section_reads
      ETPU_CALCULATION_TIME_OPTION_section_reads PWM_UPDATETIME_AUTO_MODE_section_reads unchanged_reads; assumption)+

lemma CcCalBase_c_with_axis:
  assumes "a \<notin> set (''_SA_2STAGE_PWM_MODE'' # SA_2STAGE_PWM_MODE_options)"
    and "a \<notin> set (''_SA_SQPWM_REGEN_DIS'' # SA_SQPWM_REGEN_DIS_options)"
    and "a \<notin> set (''_PWM_BURST_MODE'' # PWM_BURST_MODE_options)"
    and "a \<notin> set (''_VAR_DTGS_OPTION'' # VAR_DTGS_OPTION_options)"
  shows "CcCalBase_c x (with_axis a v) pm cs = CcCalBase_c x example_env pm cs"
  by (intro CcCalBase_c_reads unchanged_reads assms)

lemma CcCalPrjCfg_h_with_axis:
  assumes "a \<notin> set (''_MARKET_VERSION'' # MARKET_VERSION_options)"
    and "a \<notin> set (''_DEVELOPMENT_PHASE'' # DEVELOPMENT_PHASE_options)"
    and "a \<notin> set (''_PERFORMANCE_TYPE'' # PERFORMANCE_TYPE_options)"
    and "a \<notin> set (''_PROJECT_NAME'' # PROJECT_NAME_options)"
  shows "CcCalPrjCfg_h (with_axis a v) = CcCalPrjCfg_h example_env"
  by (intro CcCalPrjCfg_h_reads unchanged_reads assms)

lemma sections_without_axis:
  "a \<notin> set (''_GATE_IC_TYPE'' # GATE_IC_TYPE_options)
     \<Longrightarrow> GATE_IC_TYPE_section (without_axis a) = GATE_IC_TYPE_section example_env"
  "a \<notin> set (''_POWER_MODULE_TYPE'' # POWER_MODULE_TYPE_options)
     \<Longrightarrow> POWER_MODULE_TYPE_section (without_axis a) = POWER_MODULE_TYPE_section example_env"
  "a \<notin> set (''_MOT_CUR_SENSOR_TYPE'' # MOT_CUR_SENSOR_TYPE_options)
     \<Longrightarrow> MOT_CUR_SENSOR_TYPE_section (without_axis a) = MOT_CUR_SENSOR_TYPE_section example_env"
  "a \<notin> set (''_ETPU_CALCULATION_TIME_OPTION'' # ETPU_CALCULATION_TIME_OPTION_options)
     \<Longrightarrow> ETPU_CALCULATION_TIME_OPTION_section (without_axis a) = ETPU_CALCULATION_TIME_OPTION_section example_env"
  "a \<notin> set (''_PWM_UPDATETIME_AUTO_MODE'' # PWM_UPDATETIME_AUTO_MODE_options)
     \<Longrightarrow> PWM_UPDATETIME_AUTO_MODE_section x (without_axis a) = PWM_UPDATETIME_AUTO_MODE_section x example_env"
  by (intro GATE_IC_TYPE_section_reads POWER_MODULE_TYPE_section_reads MOT_CUR_SENSOR_TYPE_section_reads
      ETPU_CALCULATION_TIME_OPTION_section_reads PWM_UPDATETIME_AUTO_MODE_section_reads unchanged_reads; assumption)+

lemma CcCalBase_c_without_axis:
  assumes "a \<notin> set (''_SA_2STAGE_PWM_MODE'' # SA_2STAGE_PWM_MODE_options)"
    and "a \<notin> set (''_SA_SQPWM_REGEN_DIS'' # SA_SQPWM_REGEN_DIS_options)"
    and "a \<notin> set (''_PWM_BURST_MODE'' # PWM_BURST_MODE_options)"
    and "a \<notin> set (''_VAR_DTGS_OPTION'' # VAR_DTGS_OPTION_options)"
  shows "CcCalBase_c x (without_axis a) pm cs = CcCalBase_c x example_env pm cs"
  by (intro CcCalBase_c_reads unchanged_reads assms)

lemma CcCalPrjCfg_h_without_axis:
  assumes "a \<notin> set (''_MARKET_VERSION'' # MARKET_VERSION_options)"
    and "a \<notin> set (''_DEVELOPMENT_PHASE'' # DEVELOPMENT_PHASE_options)"
    and "a \<notin> set (''_PERFORMANCE_TYPE'' # PERFORMANCE_TYPE_options)"
    and "a \<notin> set (''_PROJECT_NAME'' # PROJECT_NAME_options)"
  shows "CcCalPrjCfg_h (without_axis a) = CcCalPrjCfg_h example_env"
  by (intro CcCalPrjCfg_h_reads unchanged_reads assms)

lemma undeclared_project_resolves:
  "resolve example_ext undeclared_project_env = Inr (example_table\<lparr>selection_macros := []\<rparr>)"
proof -
  from example_resolves obtain prj gic pm cs et au base where
    s: "CcCalPrjCfg_h example_env = Inr prj" "GATE_IC_TYPE_section example_env = Inr gic"
      "POWER_MODULE_TYPE_section example_env = Inr pm"
      "MOT_CUR_SENSOR_TYPE_section example_env = Inr cs"
      "ETPU_CALCULATION_TIME_OPTION_section example_env = Inr et"
      "PWM_UPDATETIME_AUTO_MODE_section example_ext example_env = Inr au"
      "CcCalBase_c example_ext example_env pm cs = Inr base"
    and t: "example_table = \<lparr>selection_macros = prj,
          constants = BswCfgPwm_c example_ext gic pm et au @ BswCfgRdc_c example_ext @ base\<rparr>"
    by (rule resolve_InrD)
  have 1: "CcCalPrjCfg_h undeclared_project_env = Inr []"
    by (rule CcCalPrjCfg_h_unmatched)
      (simp add: unmatched_def PROJECT_NAME_options_def undeclared_project_env_def pp_with_axis
        example_env_pp)
  have 2: "GATE_IC_TYPE_section undeclared_project_env = Inr gic"
    "POWER_MODULE_TYPE_section undeclared_project_env = Inr pm"
    "MOT_CUR_SENSOR_TYPE_section undeclared_project_env = Inr cs"
    "ETPU_CALCULATION_TIME_OPTION_section undeclared_project_env = Inr et"
    "PWM_UPDATETIME_AUTO_MODE_section example_ext undeclared_project_env = Inr au"
    unfolding undeclared_project_env_def
    by (subst sections_with_axis;
        simp add: s GATE_IC_TYPE_options_def POWER_MODULE_TYPE_options_def
          MOT_CUR_SENSOR_TYPE_options_def ETPU_CALCULATION_TIME_OPTION_options_def
          PWM_UPDATETIME_AUTO_MODE_options_def)+
  have 3: "CcCalBase_c example_ext undeclared_project_env pm cs = Inr base"
    unfolding undeclared_project_env_def
    by (subst CcCalBase_c_with_axis;
        simp add: s SA_2STAGE_PWM_MODE_options_def SA_SQPWM_REGEN_DIS_options_def
          PWM_BURST_MODE_options_def VAR_DTGS_OPTION_options_def)
  show ?thesis
    by (simp add: resolve_def 1 2 3 t)
qed

section \<open>The objects the claims are about\<close>

lemma CcCalBase_c_part3_elements:
  "element_of (CcCalBase_c_part3 x pm cs) ''CcCal_DeadTimeComp_INVIcompZCC_INV1'' tg
     = Some (c_convert FLOAT32 (c_div (flt_lit 1) (c_mul (CUR_SENSOR_RANGE x cs tg) (flt_lit 0.05))))"
  "element_of (CcCalBase_c_part3 x pm cs) ''CcCal_DeadTimeComp_INVIcompZCC_INV2'' tg
     = Some (c_convert FLOAT32 (c_div (flt_lit 1) (c_mul (CUR_SENSOR_RANGE x cs tg) (flt_lit 0.05))))"
  "element_of (CcCalBase_c_part3 x pm cs) ''CcCal_DeadTimeComp_TdeadComp_INV1'' tg
     = Some (c_convert FLOAT32 (c_mul (c_sub (INV1_DEADTIME pm tg) (flt_lit 100)) (flt_lit 0.000000001)))"
  "element_of (CcCalBase_c_part3 x pm cs) ''CcCal_DeadTimeComp_TdeadComp_INV2'' tg
     = Some (c_convert FLOAT32 (c_mul (c_sub (INV2_DEADTIME pm tg) (flt_lit 100)) (flt_lit 0.000000001)))"
  "element_of (CcCalBase_c_part3 x pm cs) ''CcCal_DeadTimeComp_IcompZCC_INV1'' tg
     = Some (c_convert FLOAT32 (c_mul (CUR_SENSOR_RANGE x cs tg) (flt_lit 0.05)))"
  "element_of (CcCalBase_c_part3 x pm cs) ''CcCal_DeadTimeComp_IcompZCC_INV2'' tg
     = Some (c_convert FLOAT32 (c_mul (CUR_SENSOR_RANGE x cs tg) (flt_lit 0.05)))"
  "element_of (CcCalBase_c_part3 x pm cs) ''CcCal_CurA_InitialOffset'' tg
     = Some (c_convert INT16 (CUR_SENSOR_OFFSET tg))"
  "element_of (CcCalBase_c_part3 x pm cs) ''CcCal_CurB_InitialOffset'' tg
     = Some (c_convert INT16 (CUR_SENSOR_OFFSET tg))"
  "element_of (CcCalBase_c_part3 x pm cs) ''CcCal_CurC_InitialOffset'' tg
     = Some (c_convert INT16 (CUR_SENSOR_OFFSET tg))"
  "element_of (CcCalBase_c_part3 x pm cs) ''CcCal_Cur_ScaleFactor'' tg
     = Some (c_convert FLOAT32 (CUR_SENSOR_SCALE x cs tg))"
  "element_of (CcCalBase_c_part3 x pm cs) ''CcCal_HvBatt_ScaleFactor'' tg
     = Some (c_convert FLOAT32 (HVBATT_SENSOR_SCALE x))"
  "element_of (CcCalBase_c_part3 x pm cs) ''CcCal_LvAdToPhySclFct'' tg
     = Some (c_convert FLOAT32 (LVBATT_SENSOR_SCALE x))"
  "element_of (CcCalBase_c_part3 x pm cs) ''CcCal_SWRDC_GainUpdate_K1D'' tg
     = Some (c_convert SIGNED_LONG (c_mul (dbl_lit 0.64339817) (IntV 8388608)))"
  "element_of (CcCalBase_c_part3 x pm cs) ''CcCal_SWRDC_GainUpdate_K1SCALE'' tg
     = Some (c_convert SIGNED_LONG (IntV 7))"
  "element_of (CcCalBase_c_part3 x pm cs) ''CcCal_SWRDC_GainUpdate_K2D'' tg
     = Some (c_convert SIGNED_LONG (c_mul (dbl_lit 0.99471843) (IntV 8388608)))"
  "element_of (CcCalBase_c_part3 x pm cs) ''CcCal_SWRDC_GainUpdate_K2SCALE'' tg
     = Some (c_convert SIGNED_LONG (IntV 4))"
  unfolding element_of_def CcCalBase_c_part3_def
  by (simp_all only: lookup_binding.simps binding.sel list.inject list.distinct char.inject
      simp_thms if_True if_False option.case cong: lookup_binding_weak_cong if_weak_cong;
      cases tg; simp add: entries_def DEFAULT_OFFSET_def RESOLVER_DIRECTION_def CUR_SENSOR_RANGE_def
      CUR_SENSOR_OFFSET_def CUR_SENSOR_SCALE_def INV1_DEADTIME_def INV2_DEADTIME_def)+

lemma CcCalBase_c_part3_scalars:
  "scalar_of (CcCalBase_c_part3 x pm cs) ''L1''
     = Some (c_convert FLOAT32 (c_mul (flt_lit 3) (c_mul (c_mul (flt_lit 400) (PI x)) (flt_lit 0.3))))"
  "scalar_of (CcCalBase_c_part3 x pm cs) ''L2''
     = Some (c_convert FLOAT32 (c_mul (c_mul (flt_lit 3) (c_mul (c_mul (flt_lit 400) (PI x)) (flt_lit 0.3))) (c_mul (c_mul (flt_lit 400) (PI x)) (flt_lit 0.3))))"
  "scalar_of (CcCalBase_c_part3 x pm cs) ''L3''
     = Some (c_convert FLOAT32 (c_mul (c_mul (c_mul (c_mul (flt_lit 400) (PI x)) (flt_lit 0.3)) (c_mul (c_mul (flt_lit 400) (PI x)) (flt_lit 0.3))) (c_mul (c_mul (flt_lit 400) (PI x)) (flt_lit 0.3))))"
  unfolding scalar_of_def CcCalBase_c_part3_def
  by (simp_all only: lookup_binding.simps binding.sel list.inject list.distinct char.inject
      simp_thms if_True if_False option.case
      cong: lookup_binding_weak_cong if_weak_cong; simp)+

lemma CcCalBase_c_part1_elements:
  "element_of (CcCalBase_c_part1 x) ''BswCfgCal_Rsv_DefaultOffset'' tg
     = Some (c_convert FLOAT32 (DEFAULT_OFFSET x tg))"
  "element_of (CcCalBase_c_part1 x) ''BswCfgCal_Rsv_RotDir'' tg
     = Some (c_convert UINT16 (RESOLVER_DIRECTION x tg))"
  unfolding element_of_def CcCalBase_c_part1_def
  by (simp_all only: lookup_binding.simps binding.sel list.inject list.distinct char.inject
      simp_thms if_True if_False option.case cong: lookup_binding_weak_cong if_weak_cong;
      cases tg; simp add: entries_def DEFAULT_OFFSET_def RESOLVER_DIRECTION_def CUR_SENSOR_RANGE_def
      CUR_SENSOR_OFFSET_def CUR_SENSOR_SCALE_def INV1_DEADTIME_def INV2_DEADTIME_def)+

lemma BswCfgRdc_c_scalars:
  "scalar_of (BswCfgRdc_c x) ''BswCfgCal_Rdc_MotK1''
     = Some (c_convert FLOAT32 BSWCFGRDC_MOT_K1_D)"
  "scalar_of (BswCfgRdc_c x) ''BswCfgCal_Rdc_MotK2''
     = Some (c_convert FLOAT32 BSWCFGRDC_MOT_K2_D)"
  "scalar_of (BswCfgRdc_c x) ''BswCfgCal_Rdc_MotK1Scale''
     = Some (c_convert INT32 BSWCFGRDC_MOT_K1_SCALE)"
  "scalar_of (BswCfgRdc_c x) ''BswCfgCal_Rdc_MotK2Scale''
     = Some (c_convert INT32 BSWCFGRDC_MOT_K2_SCALE)"
  "scalar_of (BswCfgRdc_c x) ''BswCfgCal_Rdc_HsgK1''
     = Some (c_convert FLOAT32 BSWCFGRDC_HSG_K1_D)"
  "scalar_of (BswCfgRdc_c x) ''BswCfgCal_Rdc_HsgK2''
     = Some (c_convert FLOAT32 BSWCFGRDC_HSG_K2_D)"
  "scalar_of (BswCfgRdc_c x) ''BswCfgCal_Rdc_HsgK1Scale''
     = Some (c_convert INT32 BSWCFGRDC_HSG_K1_SCALE)"
  "scalar_of (BswCfgRdc_c x) ''BswCfgCal_Rdc_HsgK2Scale''
     = Some (c_convert INT32 BSWCFGRDC_HSG_K2_SCALE)"
  unfolding scalar_of_def BswCfgRdc_c_def
  by (simp_all only: lookup_binding.simps binding.sel list.inject list.distinct char.inject
      simp_thms if_True if_False option.case
      cong: lookup_binding_weak_cong if_weak_cong; simp)+

lemma element_in_CcCalBase_c_part3:
  assumes "constants t = BswCfgPwm_c x gic pm et au @ BswCfgRdc_c x @ CcCalBase_c_part1 x @ s1
        @ CcCalBase_c_part2 x @ s2 @ CcCalBase_c_part3 x pm cs @ rest"
    and "map bname s1 = [''TestCal_RSPWM_Enb'']"
    and "map bname s2 = [''CcCal_SQPWM_Mode_Regen_Disable'']"
    and "take 4 (drop 10 n) \<noteq> ''Pwm_''" and "take 4 (drop 10 n) \<noteq> ''Rdc_''"
    and "n \<notin> set [''BswCfgCal_Rsv_DefaultOffset'', ''BswCfgCal_Rsv_RotDir'', ''TestCal_RSPWM_Enb'',
          ''TestCal_VnCtrl_Enb'', ''CcCal_SQPWM_Mode_Regen_Disable'']"
    and "element_of (CcCalBase_c_part3 x pm cs) n tg = Some v"
  shows "element_of (constants t) n tg = Some v"
proof -
  from assms(7) obtain b where "lookup_binding (CcCalBase_c_part3 x pm cs) n = Some b"
    using element_of_SomeD by blast
  then have "lookup_binding (constants t) n = lookup_binding (CcCalBase_c_part3 x pm cs) n"
    using lookup_in_CcCalBase_c_part3 [OF assms(1-6)] by simp
  then show ?thesis
    using assms(7) element_of_lookup by metis
qed

lemma scalar_in_CcCalBase_c_part3:
  assumes "constants t = BswCfgPwm_c x gic pm et au @ BswCfgRdc_c x @ CcCalBase_c_part1 x @ s1
        @ CcCalBase_c_part2 x @ s2 @ CcCalBase_c_part3 x pm cs @ rest"
    and "map bname s1 = [''TestCal_RSPWM_Enb'']"
    and "map bname s2 = [''CcCal_SQPWM_Mode_Regen_Disable'']"
    and "take 4 (drop 10 n) \<noteq> ''Pwm_''" and "take 4 (drop 10 n) \<noteq> ''Rdc_''"
    and "n \<notin> set [''BswCfgCal_Rsv_DefaultOffset'', ''BswCfgCal_Rsv_RotDir'', ''TestCal_RSPWM_Enb'',
          ''TestCal_VnCtrl_Enb'', ''CcCal_SQPWM_Mode_Regen_Disable'']"
    and "scalar_of (CcCalBase_c_part3 x pm cs) n = Some v"
  shows "scalar_of (constants t) n = Some v"
proof -
  from assms(7) obtain b where "lookup_binding (CcCalBase_c_part3 x pm cs) n = Some b"
    using scalar_of_SomeD by blast
  then have "lookup_binding (constants t) n = lookup_binding (CcCalBase_c_part3 x pm cs) n"
    using lookup_in_CcCalBase_c_part3 [OF assms(1-6)] by simp
  then show ?thesis
    using assms(7) scalar_of_lookup by metis
qed

lemma element_in_CcCalBase_c_part1:
  assumes "constants t = BswCfgPwm_c x gic pm et au @ BswCfgRdc_c x @ CcCalBase_c_part1 x @ rest"
    and "take 4 (drop 10 n) \<noteq> ''Pwm_''" and "take 4 (drop 10 n) \<noteq> ''Rdc_''"
    and "element_of (CcCalBase_c_part1 x) n tg = Some v"
  shows "element_of (constants t) n tg = Some v"
proof -
  from assms(4) obtain b where "lookup_binding (CcCalBase_c_part1 x) n = Some b"
    using element_of_SomeD by blast
  then have "lookup_binding (constants t) n = lookup_binding (CcCalBase_c_part1 x) n"
    using lookup_in_CcCalBase_c_part1 [OF assms(1-3)] by simp
  then show ?thesis
    using assms(4) element_of_lookup by metis
qed

lemma scalar_in_BswCfgRdc_c:
  assumes "constants t = BswCfgPwm_c x gic pm et au @ BswCfgRdc_c x @ rest"
    and "take 4 (drop 10 n) \<noteq> ''Pwm_''"
    and "scalar_of (BswCfgRdc_c x) n = Some v"
  shows "scalar_of (constants t) n = Some v"
proof -
  from assms(3) obtain b where "lookup_binding (BswCfgRdc_c x) n = Some b"
    using scalar_of_SomeD by blast
  then have "lookup_binding (constants t) n = lookup_binding (BswCfgRdc_c x) n"
    using lookup_in_BswCfgRdc_c [OF assms(1,2)] by simp
  then show ?thesis
    using assms(3) scalar_of_lookup by metis
qed

text \<open>
  What a resolved table holds under the names the claims are about, in terms of the macros
  the header groups defined for the build.
\<close>

lemma resolved_objects:
  assumes "resolve x env = Inr t"
  obtains gic pm cs et au where
    "GATE_IC_TYPE_section env = Inr gic" "POWER_MODULE_TYPE_section env = Inr pm"
    "MOT_CUR_SENSOR_TYPE_section env = Inr cs"
    "\<And>n v. scalar_of (BswCfgPwm_c x gic pm et au) n = Some v
       \<Longrightarrow> scalar_of (constants t) n = Some v"
    "\<And>n v. take 4 (drop 10 n) \<noteq> ''Pwm_'' \<Longrightarrow> scalar_of (BswCfgRdc_c x) n = Some v
       \<Longrightarrow> scalar_of (constants t) n = Some v"
    "\<And>n tg v. take 4 (drop 10 n) \<noteq> ''Pwm_'' \<Longrightarrow> take 4 (drop 10 n) \<noteq> ''Rdc_''
       \<Longrightarrow> element_of (CcCalBase_c_part1 x) n tg = Some v
       \<Longrightarrow> element_of (constants t) n tg = Some v"
    "\<And>n tg v. take 4 (drop 10 n) \<noteq> ''Pwm_'' \<Longrightarrow> take 4 (drop 10 n) \<noteq> ''Rdc_''
       \<Longrightarrow> n \<notin> set [''BswCfgCal_Rsv_DefaultOffset'', ''BswCfgCal_Rsv_RotDir'',
             ''TestCal_RSPWM_Enb'', ''TestCal_VnCtrl_Enb'', ''CcCal_SQPWM_Mode_Regen_Disable'']
       \<Longrightarrow> element_of (CcCalBase_c_part3 x pm cs) n tg = Some v
       \<Longrightarrow> element_of (constants t) n tg = Some v"
    "\<And>n v. take 4 (drop 10 n) \<noteq> ''Pwm_'' \<Longrightarrow> take 4 (drop 10 n) \<noteq> ''Rdc_''
       \<Longrightarrow> n \<notin> set [''BswCfgCal_Rsv_DefaultOffset'', ''BswCfgCal_Rsv_RotDir'',
             ''TestCal_RSPWM_Enb'', ''TestCal_VnCtrl_Enb'', ''CcCal_SQPWM_Mode_Regen_Disable'']
       \<Longrightarrow> scalar_of (CcCalBase_c_part3 x pm cs) n = Some v
       \<Longrightarrow> scalar_of (constants t) n = Some v"
proof -
  from assms obtain prj gic pm cs et au s1 s2 rest where
    s: "GATE_IC_TYPE_section env = Inr gic" "POWER_MODULE_TYPE_section env = Inr pm"
      "MOT_CUR_SENSOR_TYPE_section env = Inr cs"
    and n: "map bname s1 = [''TestCal_RSPWM_Enb'']"
      "map bname s2 = [''CcCal_SQPWM_Mode_Regen_Disable'']"
    and t: "constants t = BswCfgPwm_c x gic pm et au @ BswCfgRdc_c x @ CcCalBase_c_part1 x @ s1
        @ CcCalBase_c_part2 x @ s2 @ CcCalBase_c_part3 x pm cs @ rest"
    by (rule resolved_table)
  show thesis
    using s
  proof (rule that)
    show "scalar_of (constants t) n = Some v"
      if "scalar_of (BswCfgPwm_c x gic pm et au) n = Some v" for n v
      using t that by (rule scalar_in_BswCfgPwm_c)
    show "scalar_of (constants t) n = Some v"
      if "take 4 (drop 10 n) \<noteq> ''Pwm_''" "scalar_of (BswCfgRdc_c x) n = Some v" for n v
      using t that by (rule scalar_in_BswCfgRdc_c)
    show "element_of (constants t) n tg = Some v"
      if "take 4 (drop 10 n) \<noteq> ''Pwm_''" "take 4 (drop 10 n) \<noteq> ''Rdc_''"
        "element_of (CcCalBase_c_part1 x) n tg = Some v" for n tg v
      using t that by (rule element_in_CcCalBase_c_part1)
    show "element_of (constants t) n tg = Some v"
      if "take 4 (drop 10 n) \<noteq> ''Pwm_''" "take 4 (drop 10 n) \<noteq> ''Rdc_''"
        "n \<notin> set [''BswCfgCal_Rsv_DefaultOffset'', ''BswCfgCal_Rsv_RotDir'',
             ''TestCal_RSPWM_Enb'', ''TestCal_VnCtrl_Enb'', ''CcCal_SQPWM_Mode_Regen_Disable'']"
        "element_of (CcCalBase_c_part3 x pm cs) n tg = Some v" for n tg v
      using t n that by (rule element_in_CcCalBase_c_part3)
    show "scalar_of (constants t) n = Some v"
      if "take 4 (drop 10 n) \<noteq> ''Pwm_''" "take 4 (drop 10 n) \<noteq> ''Rdc_''"
        "n \<notin> set [''BswCfgCal_Rsv_DefaultOffset'', ''BswCfgCal_Rsv_RotDir'',
             ''TestCal_RSPWM_Enb'', ''TestCal_VnCtrl_Enb'', ''CcCal_SQPWM_Mode_Regen_Disable'']"
        "scalar_of (CcCalBase_c_part3 x pm cs) n = Some v" for n v
      using t n that by (rule scalar_in_CcCalBase_c_part3)
  qed
qed

lemma target_arity_scalar: "target_arity (Binding n ty c [] i)"
  by (simp add: target_arity_def per_target_def)

lemma target_arity_pair: "target_arity (Binding n ty c ds (c_init ty (Agg [a, b])))"
  by (simp add: target_arity_def arity_ok_def targets_def)

lemma target_arity_other: "d \<noteq> ''TOTAL_TARGET'' \<Longrightarrow> target_arity (Binding n ty c (d # ds) i)"
  by (simp add: target_arity_def per_target_def)

lemmas target_arity_rules =
  list.pred_inject target_arity_scalar target_arity_pair target_arity_other
  list.inject list.distinct char.inject simp_thms

lemma BswCfgPwm_c_arity: "list_all target_arity (BswCfgPwm_c x gic pm et au)"
  unfolding BswCfgPwm_c_def by (simp only: target_arity_rules)

lemma BswCfgRdc_c_arity: "list_all target_arity (BswCfgRdc_c x)"
  unfolding BswCfgRdc_c_def by (simp only: target_arity_rules)

lemma CcCalBase_c_parts_arity:
  "list_all target_arity (CcCalBase_c_part1 x)"
  "list_all target_arity (CcCalBase_c_part2 x)"
  "list_all target_arity (CcCalBase_c_part3 x pm cs)"
  "list_all target_arity CcCalBase_c_part4"
  unfolding CcCalBase_c_part1_def CcCalBase_c_part2_def CcCalBase_c_part3_def CcCalBase_c_part4_def
  by (simp_all only: target_arity_rules)

lemma CcCalBase_c_sections_arity:
  "SA_2STAGE_PWM_MODE_section x env = Inr s1 \<Longrightarrow> list_all target_arity s1"
  "SA_SQPWM_REGEN_DIS_section x env = Inr s2 \<Longrightarrow> list_all target_arity s2"
  "PWM_BURST_MODE_section x env = Inr s3 \<Longrightarrow> list_all target_arity s3"
  "VAR_DTGS_OPTION_section x env = Inr s4 \<Longrightarrow> list_all target_arity s4"
  unfolding SA_2STAGE_PWM_MODE_section_def SA_SQPWM_REGEN_DIS_section_def
    PWM_BURST_MODE_section_def VAR_DTGS_OPTION_section_def
  by (auto simp only: target_arity_rules sum.inject sum.distinct split: if_splits)

lemma resolved_arity:
  assumes "resolve x env = Inr t"
  shows "list_all target_arity (constants t)"
proof -
  from assms obtain prj gic pm cs et au base where
    b: "CcCalBase_c x env pm cs = Inr base"
    and t: "t = \<lparr>selection_macros = prj,
          constants = BswCfgPwm_c x gic pm et au @ BswCfgRdc_c x @ base\<rparr>"
    by (rule resolve_InrD)
  from b obtain s1 s2 s3 s4 where
    s: "SA_2STAGE_PWM_MODE_section x env = Inr s1" "SA_SQPWM_REGEN_DIS_section x env = Inr s2"
      "PWM_BURST_MODE_section x env = Inr s3" "VAR_DTGS_OPTION_section x env = Inr s4"
    and base: "base = CcCalBase_c_part1 x @ s1 @ CcCalBase_c_part2 x @ s2 @ CcCalBase_c_part3 x pm cs
            @ s3 @ s4 @ CcCalBase_c_part4"
    by (rule CcCalBase_c_InrD)
  show ?thesis
    unfolding t base
    by (simp add: BswCfgPwm_c_arity BswCfgRdc_c_arity CcCalBase_c_parts_arity
        CcCalBase_c_sections_arity(1) [OF s(1)] CcCalBase_c_sections_arity(2) [OF s(2)]
        CcCalBase_c_sections_arity(3) [OF s(3)] CcCalBase_c_sections_arity(4) [OF s(4)])
qed

section \<open>The initialisers at the values of the sources\<close>

text \<open>
  The value of each expression that the claims evaluate, operation by operation; every
  rounding is checked from its exponent and its significand.
\<close>

lemma TdeadComp_2000:
  "c_convert FLOAT32 (c_mul (c_sub (IntV 2000) (flt_lit 100)) (flt_lit 0.000000001)) = FltV (130567 / 2 ^ 36)"
proof -
  have e1: "flt_lit 100 = FltV 100"
    using fp_round_cert [of "6" "100" Single "13107200"]
    by (simp add: emin_def flt_lit_def)
  have e2: "c_sub (IntV 2000) (FltV 100) = FltV 1900"
    using fp_round_cert [of "10" "2000" Single "16384000"]
      fp_round_cert [of "6" "100" Single "13107200"]
      fp_round_cert [of "10" "1900" Single "15564800"]
    by (simp add: emin_def fmt_of_def f_sub_def)
  have e3: "flt_lit 0.000000001 = FltV (9007199 / 2 ^ 53)"
    using fp_round_cert [of "- 30" "1 / 1000000000" Single "9007199"]
    by (simp add: emin_def flt_lit_def)
  have e4: "c_mul (FltV 1900) (FltV (9007199 / 2 ^ 53)) = FltV (130567 / 2 ^ 36)"
    using fp_round_cert [of "10" "1900" Single "15564800"]
      fp_round_cert [of "- 30" "9007199 / 2 ^ 53" Single "9007199"]
      fp_round_cert [of "- 20" "4278419525 / 2 ^ 51" Single "16712576"]
    by (simp add: emin_def fmt_of_def f_sub_def)
  have e5: "c_convert FLOAT32 (FltV (130567 / 2 ^ 36)) = FltV (130567 / 2 ^ 36)"
    using fp_round_cert [of "- 20" "130567 / 2 ^ 36" Single "16712576"]
    by (simp add: emin_def)
  show ?thesis
    by (simp only: e1 e2 e3 e4 e5)
qed

lemma TdeadComp_2200:
  "c_convert FLOAT32 (c_mul (c_sub (IntV 2200) (flt_lit 100)) (flt_lit 0.000000001)) = FltV (9235897 / 2 ^ 42)"
proof -
  have e1: "flt_lit 100 = FltV 100"
    using fp_round_cert [of "6" "100" Single "13107200"]
    by (simp add: emin_def flt_lit_def)
  have e2: "c_sub (IntV 2200) (FltV 100) = FltV 2100"
    using fp_round_cert [of "11" "2200" Single "9011200"]
      fp_round_cert [of "6" "100" Single "13107200"]
      fp_round_cert [of "11" "2100" Single "8601600"]
    by (simp add: emin_def fmt_of_def f_sub_def)
  have e3: "flt_lit 0.000000001 = FltV (9007199 / 2 ^ 53)"
    using fp_round_cert [of "- 30" "1 / 1000000000" Single "9007199"]
    by (simp add: emin_def flt_lit_def)
  have e4: "c_mul (FltV 2100) (FltV (9007199 / 2 ^ 53)) = FltV (9235897 / 2 ^ 42)"
    using fp_round_cert [of "11" "2100" Single "8601600"]
      fp_round_cert [of "- 30" "9007199 / 2 ^ 53" Single "9007199"]
      fp_round_cert [of "- 19" "4728779475 / 2 ^ 51" Single "9235897"]
    by (simp add: emin_def fmt_of_def f_sub_def)
  have e5: "c_convert FLOAT32 (FltV (9235897 / 2 ^ 42)) = FltV (9235897 / 2 ^ 42)"
    using fp_round_cert [of "- 19" "9235897 / 2 ^ 42" Single "9235897"]
    by (simp add: emin_def)
  show ?thesis
    by (simp only: e1 e2 e3 e4 e5)
qed

lemma TdeadComp_2500:
  "c_convert FLOAT32 (c_mul (c_sub (IntV 2500) (flt_lit 100)) (flt_lit 0.000000001)) = FltV (10555311 / 2 ^ 42)"
proof -
  have e1: "flt_lit 100 = FltV 100"
    using fp_round_cert [of "6" "100" Single "13107200"]
    by (simp add: emin_def flt_lit_def)
  have e2: "c_sub (IntV 2500) (FltV 100) = FltV 2400"
    using fp_round_cert [of "11" "2500" Single "10240000"]
      fp_round_cert [of "6" "100" Single "13107200"]
      fp_round_cert [of "11" "2400" Single "9830400"]
    by (simp add: emin_def fmt_of_def f_sub_def)
  have e3: "flt_lit 0.000000001 = FltV (9007199 / 2 ^ 53)"
    using fp_round_cert [of "- 30" "1 / 1000000000" Single "9007199"]
    by (simp add: emin_def flt_lit_def)
  have e4: "c_mul (FltV 2400) (FltV (9007199 / 2 ^ 53)) = FltV (10555311 / 2 ^ 42)"
    using fp_round_cert [of "11" "2400" Single "9830400"]
      fp_round_cert [of "- 30" "9007199 / 2 ^ 53" Single "9007199"]
      fp_round_cert [of "- 19" "675539925 / 2 ^ 48" Single "10555311"]
    by (simp add: emin_def fmt_of_def f_sub_def)
  have e5: "c_convert FLOAT32 (FltV (10555311 / 2 ^ 42)) = FltV (10555311 / 2 ^ 42)"
    using fp_round_cert [of "- 19" "10555311 / 2 ^ 42" Single "10555311"]
    by (simp add: emin_def)
  show ?thesis
    by (simp only: e1 e2 e3 e4 e5)
qed

lemma TdeadComp_4000:
  "c_convert FLOAT32 (c_mul (c_sub (IntV 4000) (flt_lit 100)) (flt_lit 0.000000001)) = FltV (4288095 / 2 ^ 40)"
proof -
  have e1: "flt_lit 100 = FltV 100"
    using fp_round_cert [of "6" "100" Single "13107200"]
    by (simp add: emin_def flt_lit_def)
  have e2: "c_sub (IntV 4000) (FltV 100) = FltV 3900"
    using fp_round_cert [of "11" "4000" Single "16384000"]
      fp_round_cert [of "6" "100" Single "13107200"]
      fp_round_cert [of "11" "3900" Single "15974400"]
    by (simp add: emin_def fmt_of_def f_sub_def)
  have e3: "flt_lit 0.000000001 = FltV (9007199 / 2 ^ 53)"
    using fp_round_cert [of "- 30" "1 / 1000000000" Single "9007199"]
    by (simp add: emin_def flt_lit_def)
  have e4: "c_mul (FltV 3900) (FltV (9007199 / 2 ^ 53)) = FltV (4288095 / 2 ^ 40)"
    using fp_round_cert [of "11" "3900" Single "15974400"]
      fp_round_cert [of "- 30" "9007199 / 2 ^ 53" Single "9007199"]
      fp_round_cert [of "- 18" "8782019025 / 2 ^ 51" Single "8576190"]
    by (simp add: emin_def fmt_of_def f_sub_def)
  have e5: "c_convert FLOAT32 (FltV (4288095 / 2 ^ 40)) = FltV (4288095 / 2 ^ 40)"
    using fp_round_cert [of "- 18" "4288095 / 2 ^ 40" Single "8576190"]
    by (simp add: emin_def)
  show ?thesis
    by (simp only: e1 e2 e3 e4 e5)
qed

lemma IcompZCC_400:
  "c_convert FLOAT32 (c_mul (IntV 400) (flt_lit 0.05)) = FltV 20"
proof -
  have e1: "flt_lit 0.05 = FltV (13421773 / 2 ^ 28)"
    using fp_round_cert [of "- 5" "1 / 20" Single "13421773"]
    by (simp add: emin_def flt_lit_def)
  have e2: "c_mul (IntV 400) (FltV (13421773 / 2 ^ 28)) = FltV 20"
    using fp_round_cert [of "8" "400" Single "13107200"]
      fp_round_cert [of "- 5" "13421773 / 2 ^ 28" Single "13421773"]
      fp_round_cert [of "4" "335544325 / 2 ^ 24" Single "10485760"]
    by (simp add: emin_def fmt_of_def f_sub_def)
  have e3: "c_convert FLOAT32 (FltV 20) = FltV 20"
    using fp_round_cert [of "4" "20" Single "10485760"]
    by (simp add: emin_def)
  show ?thesis
    by (simp only: e1 e2 e3)
qed

lemma IcompZCC_500:
  "c_convert FLOAT32 (c_mul (IntV 500) (flt_lit 0.05)) = FltV 25"
proof -
  have e1: "flt_lit 0.05 = FltV (13421773 / 2 ^ 28)"
    using fp_round_cert [of "- 5" "1 / 20" Single "13421773"]
    by (simp add: emin_def flt_lit_def)
  have e2: "c_mul (IntV 500) (FltV (13421773 / 2 ^ 28)) = FltV 25"
    using fp_round_cert [of "8" "500" Single "16384000"]
      fp_round_cert [of "- 5" "13421773 / 2 ^ 28" Single "13421773"]
      fp_round_cert [of "4" "1677721625 / 2 ^ 26" Single "13107200"]
    by (simp add: emin_def fmt_of_def f_sub_def)
  have e3: "c_convert FLOAT32 (FltV 25) = FltV 25"
    using fp_round_cert [of "4" "25" Single "13107200"]
    by (simp add: emin_def)
  show ?thesis
    by (simp only: e1 e2 e3)
qed

lemma INVIcompZCC_400:
  "c_convert FLOAT32 (c_div (flt_lit 1) (c_mul (IntV 400) (flt_lit 0.05))) = FltV (13421773 / 2 ^ 28)"
proof -
  have e1: "flt_lit 0.05 = FltV (13421773 / 2 ^ 28)"
    using fp_round_cert [of "- 5" "1 / 20" Single "13421773"]
    by (simp add: emin_def flt_lit_def)
  have e2: "c_mul (IntV 400) (FltV (13421773 / 2 ^ 28)) = FltV 20"
    using fp_round_cert [of "8" "400" Single "13107200"]
      fp_round_cert [of "- 5" "13421773 / 2 ^ 28" Single "13421773"]
      fp_round_cert [of "4" "335544325 / 2 ^ 24" Single "10485760"]
    by (simp add: emin_def fmt_of_def f_sub_def)
  have e3: "flt_lit 1 = FltV 1"
    using fp_round_cert [of "0" "1" Single "8388608"]
    by (simp add: emin_def flt_lit_def)
  have e4: "c_div (FltV 1) (FltV 20) = FltV (13421773 / 2 ^ 28)"
    using fp_round_cert [of "0" "1" Single "8388608"]
      fp_round_cert [of "4" "20" Single "10485760"]
      fp_round_cert [of "- 5" "1 / 20" Single "13421773"]
    by (simp add: emin_def fmt_of_def f_sub_def)
  have e5: "c_convert FLOAT32 (FltV (13421773 / 2 ^ 28)) = FltV (13421773 / 2 ^ 28)"
    using fp_round_cert [of "- 5" "13421773 / 2 ^ 28" Single "13421773"]
    by (simp add: emin_def)
  show ?thesis
    by (simp only: e1 e2 e3 e4 e5)
qed

lemma INVIcompZCC_500:
  "c_convert FLOAT32 (c_div (flt_lit 1) (c_mul (IntV 500) (flt_lit 0.05))) = FltV (5368709 / 2 ^ 27)"
proof -
  have e1: "flt_lit 0.05 = FltV (13421773 / 2 ^ 28)"
    using fp_round_cert [of "- 5" "1 / 20" Single "13421773"]
    by (simp add: emin_def flt_lit_def)
  have e2: "c_mul (IntV 500) (FltV (13421773 / 2 ^ 28)) = FltV 25"
    using fp_round_cert [of "8" "500" Single "16384000"]
      fp_round_cert [of "- 5" "13421773 / 2 ^ 28" Single "13421773"]
      fp_round_cert [of "4" "1677721625 / 2 ^ 26" Single "13107200"]
    by (simp add: emin_def fmt_of_def f_sub_def)
  have e3: "flt_lit 1 = FltV 1"
    using fp_round_cert [of "0" "1" Single "8388608"]
    by (simp add: emin_def flt_lit_def)
  have e4: "c_div (FltV 1) (FltV 25) = FltV (5368709 / 2 ^ 27)"
    using fp_round_cert [of "0" "1" Single "8388608"]
      fp_round_cert [of "4" "25" Single "13107200"]
      fp_round_cert [of "- 5" "1 / 25" Single "10737418"]
    by (simp add: emin_def fmt_of_def f_sub_def)
  have e5: "c_convert FLOAT32 (FltV (5368709 / 2 ^ 27)) = FltV (5368709 / 2 ^ 27)"
    using fp_round_cert [of "- 5" "5368709 / 2 ^ 27" Single "10737418"]
    by (simp add: emin_def)
  show ?thesis
    by (simp only: e1 e2 e3 e4 e5)
qed

lemma ScaleFactor_400:
  "c_convert FLOAT32 (c_mul (IntV 400) (dbl_lit 0.00061035)) = FltV (8191979 / 2 ^ 25)"
proof -
  have e1: "dbl_lit 0.00061035 = DblV (703685640336789 / 2 ^ 60)"
    using fp_round_cert [of "- 11" "12207 / 20000000" Double "5629485122694312"]
    by (simp add: emin_def dbl_lit_def)
  have e2: "c_mul (IntV 400) (DblV (703685640336789 / 2 ^ 60)) = DblV (4398035252104931 / 2 ^ 54)"
    using fp_round_cert [of "8" "400" Double "7036874417766400"]
      fp_round_cert [of "- 11" "703685640336789 / 2 ^ 60" Double "5629485122694312"]
      fp_round_tie [of "- 3" "17592141008419725 / 2 ^ 56" Double "8796070504209862"]
    by (simp add: emin_def fmt_of_def f_sub_def)
  have e3: "c_convert FLOAT32 (DblV (4398035252104931 / 2 ^ 54)) = FltV (8191979 / 2 ^ 25)"
    using fp_round_cert [of "- 3" "4398035252104931 / 2 ^ 54" Single "16383958"]
    by (simp add: emin_def)
  show ?thesis
    by (simp only: e1 e2 e3)
qed

lemma mantissa_K1:
  "c_convert SIGNED_LONG (c_mul (dbl_lit 0.64339817) (IntV 8388608)) = IntV 5397215"
proof -
  have e1: "dbl_lit 0.64339817 = DblV (2897607758662859 / 2 ^ 52)"
    using fp_round_cert [of "- 1" "64339817 / 100000000" Double "5795215517325718"]
    by (simp add: emin_def dbl_lit_def)
  have e2: "c_mul (DblV (2897607758662859 / 2 ^ 52)) (IntV 8388608) = DblV (2897607758662859 / 2 ^ 29)"
    using fp_round_cert [of "- 1" "2897607758662859 / 2 ^ 52" Double "5795215517325718"]
      fp_round_cert [of "23" "8388608" Double "4503599627370496"]
      fp_round_cert [of "22" "2897607758662859 / 2 ^ 29" Double "5795215517325718"]
    by (simp add: emin_def fmt_of_def f_sub_def)
  have e3: "c_convert SIGNED_LONG (DblV (2897607758662859 / 2 ^ 29)) = IntV 5397215"
  proof -
    have "\<lfloor>2897607758662859 / 2 ^ 29 :: real\<rfloor> = 5397215"
      by (rule floor_unique) simp_all
    then show ?thesis
      by (simp add: c_trunc_def)
  qed
  show ?thesis
    by (simp only: e1 e2 e3)
qed

lemma mantissa_K2:
  "c_convert SIGNED_LONG (c_mul (dbl_lit 0.99471843) (IntV 8388608)) = IntV 8344302"
proof -
  have e1: "dbl_lit 0.99471843 = DblV (4479813550686565 / 2 ^ 52)"
    using fp_round_cert [of "- 1" "99471843 / 100000000" Double "8959627101373130"]
    by (simp add: emin_def dbl_lit_def)
  have e2: "c_mul (DblV (4479813550686565 / 2 ^ 52)) (IntV 8388608) = DblV (4479813550686565 / 2 ^ 29)"
    using fp_round_cert [of "- 1" "4479813550686565 / 2 ^ 52" Double "8959627101373130"]
      fp_round_cert [of "23" "8388608" Double "4503599627370496"]
      fp_round_cert [of "22" "4479813550686565 / 2 ^ 29" Double "8959627101373130"]
    by (simp add: emin_def fmt_of_def f_sub_def)
  have e3: "c_convert SIGNED_LONG (DblV (4479813550686565 / 2 ^ 29)) = IntV 8344302"
  proof -
    have "\<lfloor>4479813550686565 / 2 ^ 29 :: real\<rfloor> = 8344302"
      by (rule floor_unique) simp_all
    then show ?thesis
      by (simp add: c_trunc_def)
  qed
  show ?thesis
    by (simp only: e1 e2 e3)
qed

lemma stored_K1:
  "c_convert FLOAT32 (dbl_lit 0.5605666) = FltV (9404747 / 2 ^ 24)"
proof -
  have e1: "dbl_lit 0.5605666 = DblV (1262283765438173 / 2 ^ 51)"
    using fp_round_cert [of "- 1" "2802833 / 5000000" Double "5049135061752692"]
    by (simp add: emin_def dbl_lit_def)
  have e2: "c_convert FLOAT32 (DblV (1262283765438173 / 2 ^ 51)) = FltV (9404747 / 2 ^ 24)"
    using fp_round_cert [of "- 1" "1262283765438173 / 2 ^ 51" Single "9404747"]
    by (simp add: emin_def)
  show ?thesis
    by (simp only: e1 e2)
qed

lemma stored_K2:
  "c_convert FLOAT32 (dbl_lit 0.7535489) = FltV (12642453 / 2 ^ 24)"
proof -
  have e1: "dbl_lit 0.7535489 = DblV (3393682545245447 / 2 ^ 52)"
    using fp_round_cert [of "- 1" "7535489 / 10000000" Double "6787365090490894"]
    by (simp add: emin_def dbl_lit_def)
  have e2: "c_convert FLOAT32 (DblV (3393682545245447 / 2 ^ 52)) = FltV (12642453 / 2 ^ 24)"
    using fp_round_cert [of "- 1" "3393682545245447 / 2 ^ 52" Single "12642453"]
    by (simp add: emin_def)
  show ?thesis
    by (simp only: e1 e2)
qed

lemma range_588_2353:
  "dbl_lit 588.2353 = DblV (2587086208873215 / 2 ^ 42)"
proof -
  have e1: "dbl_lit 588.2353 = DblV (2587086208873215 / 2 ^ 42)"
    using fp_round_cert [of "9" "5882353 / 10000" Double "5174172417746430"]
    by (simp add: emin_def dbl_lit_def)
  show ?thesis
    by (simp only: e1)
qed

lemma range_394_2829:
  "dbl_lit 394.2829 = DblV (6936298130931869 / 2 ^ 44)"
proof -
  have e1: "dbl_lit 394.2829 = DblV (6936298130931869 / 2 ^ 44)"
    using fp_round_cert [of "8" "3942829 / 10000" Double "6936298130931869"]
    by (simp add: emin_def dbl_lit_def)
  show ?thesis
    by (simp only: e1)
qed

lemma range_833_3333:
  "dbl_lit 833.3333 = DblV (3665038612651783 / 2 ^ 42)"
proof -
  have e1: "dbl_lit 833.3333 = DblV (3665038612651783 / 2 ^ 42)"
    using fp_round_cert [of "9" "8333333 / 10000" Double "7330077225303566"]
    by (simp add: emin_def dbl_lit_def)
  show ?thesis
    by (simp only: e1)
qed

lemma range_909_5043:
  "dbl_lit 909.5043 = DblV (8000084426898171 / 2 ^ 43)"
proof -
  have e1: "dbl_lit 909.5043 = DblV (8000084426898171 / 2 ^ 43)"
    using fp_round_cert [of "9" "9095043 / 10000" Double "8000084426898171"]
    by (simp add: emin_def dbl_lit_def)
  show ?thesis
    by (simp only: e1)
qed

lemma range_682_0567:
  "dbl_lit 682.0567 = DblV (5999434179620215 / 2 ^ 43)"
proof -
  have e1: "dbl_lit 682.0567 = DblV (5999434179620215 / 2 ^ 43)"
    using fp_round_cert [of "9" "6820567 / 10000" Double "5999434179620215"]
    by (simp add: emin_def dbl_lit_def)
  show ?thesis
    by (simp only: e1)
qed

lemma stored_int_5:
  "c_convert FLOAT32 (IntV 5) = FltV 5"
proof -
  have e1: "c_convert FLOAT32 (IntV 5) = FltV 5"
    using fp_round_cert [of "2" "5" Single "10485760"]
    by (simp add: emin_def)
  show ?thesis
    by (simp only: e1)
qed

lemma stored_int_30:
  "c_convert FLOAT32 (IntV 30) = FltV 30"
proof -
  have e1: "c_convert FLOAT32 (IntV 30) = FltV 30"
    using fp_round_cert [of "4" "30" Single "15728640"]
    by (simp add: emin_def)
  show ?thesis
    by (simp only: e1)
qed

lemma fp_round_1_Single: "fp_round Single 1 = Fin 1"
  using fp_round_cert [of "0" "1" Single "8388608"]
  by (simp add: emin_def)

lemma fp_round_twentieth_Single: "fp_round Single (13421773 / 2 ^ 28) = Fin (13421773 / 2 ^ 28)"
  using fp_round_cert [of "- 5" "13421773 / 2 ^ 28" Single "13421773"]
  by (simp add: emin_def)

lemma fp_round_1_Double: "fp_round Double 1 = Fin 1"
  using fp_round_cert [of "0" "1" Double "4503599627370496"]
  by (simp add: emin_def)

lemma fp_round_twentieth_Double: "fp_round Double (13421773 / 2 ^ 28) = Fin (13421773 / 2 ^ 28)"
  using fp_round_cert [of "- 5" "13421773 / 2 ^ 28" Double "7205759511166976"]
  by (simp add: emin_def)

lemma flt_lit_twentieth:
  "flt_lit 0.05 = FltV (13421773 / 2 ^ 28)"
proof -
  have e1: "flt_lit 0.05 = FltV (13421773 / 2 ^ 28)"
    using fp_round_cert [of "- 5" "1 / 20" Single "13421773"]
    by (simp add: emin_def flt_lit_def)
  show ?thesis
    by (simp only: e1)
qed

lemma flt_lit_one:
  "flt_lit 1 = FltV 1"
proof -
  have e1: "flt_lit 1 = FltV 1"
    using fp_round_cert [of "0" "1" Single "8388608"]
    by (simp add: emin_def flt_lit_def)
  show ?thesis
    by (simp only: e1)
qed

section \<open>A rounded value and its rounded reciprocal\<close>

text \<open>
  For a range between 1 and 100000, of any type, the product with \<^verbatim>\<open>0.05f\<close> and the quotient
  of \<^verbatim>\<open>1.f\<close> by it stay in the range of the normal numbers, so each rounding has a relative
  error of at most \<open>2^-24\<close> and the product of the two stored values is within \<open>2^-22\<close> of 1.
\<close>

lemma in_normal_range:
  fixes x :: real
  assumes "1 / 2 ^ 100 \<le> x" "x \<le> 2 ^ 99"
  shows "2 powi emin f \<le> x" "x < 2 powi emax f"
proof -
  have "(2::real) powi emin f \<le> 2 powi (- 100)"
    by (intro power_int_increasing) (cases f; simp add: emin_def)+
  also have "\<dots> = 1 / 2 ^ 100"
    by (simp add: power_int_minus_divide)
  finally show "2 powi emin f \<le> x" using assms(1) by linarith
  have "(2::real) powi 99 < 2 powi emax f"
    by (intro power_int_strict_increasing) (cases f; simp)+
  then show "x < 2 powi emax f" using assms(2) by simp
qed

lemma rel_err:
  fixes a y :: real
  assumes "0 < a" "\<bar>y - a\<bar> \<le> a / 2 ^ n" "24 \<le> n"
  shows "\<bar>y / a - 1\<bar> \<le> 1 / 2 ^ 24"
proof -
  have "y / a - 1 = (y - a) / a" using assms(1) by (simp add: field_simps)
  then have "\<bar>y / a - 1\<bar> = \<bar>y - a\<bar> / a" using assms(1) by simp
  also have "\<dots> \<le> (a / 2 ^ n) / a" using assms(1,2) by (intro divide_right_mono) simp_all
  also have "\<dots> = 1 / 2 ^ n" using assms(1) by simp
  also have "\<dots> \<le> 1 / 2 ^ 24"
    using power_increasing [OF assms(3), of "2::real"] by (simp add: field_simps)
  finally show ?thesis .
qed

lemma prec_ge: "24 \<le> prec f"
  by (cases f) simp_all

lemma fp_round_1: "fp_round f 1 = Fin 1"
  by (cases f) (simp_all only: fp_round_1_Single fp_round_1_Double)

lemma fp_round_twentieth: "fp_round f (13421773 / 2 ^ 28) = Fin (13421773 / 2 ^ 28)"
  by (cases f) (simp_all only: fp_round_twentieth_Single fp_round_twentieth_Double)

lemma to_fval_finite: "1 \<le> real_of_cval r \<Longrightarrow> to_fval f r = fp_round f (real_of_cval r)"
  by (cases r rule: real_of_cval.cases) simp_all

lemma c_mul_floating: "c_mul r (FV g w) = FV (fmt_of r (FV g w))
    (f_mul (fmt_of r (FV g w)) (to_fval (fmt_of r (FV g w)) r) (to_fval (fmt_of r (FV g w)) (FV g w)))"
  by (cases r) simp_all

lemma inverse_pair:
  assumes "1 \<le> real_of_cval r" "real_of_cval r \<le> 100000"
  obtains v w where
    "c_convert FLOAT32 (c_mul r (flt_lit 0.05)) = FltV v"
    "c_convert FLOAT32 (c_div (flt_lit 1) (c_mul r (flt_lit 0.05))) = FltV w"
    "0 < v" "\<bar>v * w - 1\<bar> \<le> 1 / 2 ^ 22"
proof -
  define c :: real where "c = 13421773 / 2 ^ 28"
  define r0 where "r0 = real_of_cval r"
  define f where "f = fmt_of r (FltV c)"
  have c: "1 / 32 \<le> c" "c \<le> 1 / 16" by (simp_all add: c_def)
  have r0: "1 \<le> r0" "r0 \<le> 100000" using assms by (simp_all add: r0_def)
  \<comment> \<open>the range in the format of the product\<close>
  have "2 powi emin f \<le> r0" "r0 < 2 powi emax f"
    using r0 by (intro in_normal_range; simp)+
  then obtain r' where r': "fp_round f r0 = Fin r'" "r0 / 2 \<le> r'" "r' \<le> 2 * r0"
    by (rule fp_round_pos)
  \<comment> \<open>the product\<close>
  have a0: "1 / 64 \<le> r' * c" "r' * c \<le> 12500"
  proof -
    have "1 / 2 * (1 / 32) \<le> r' * c" using r'(2) r0 c by (intro mult_mono) simp_all
    then show "1 / 64 \<le> r' * c" by simp
    have "r' * c \<le> 200000 * (1 / 16)" using r'(3) r0 c by (intro mult_mono) simp_all
    then show "r' * c \<le> 12500" by simp
  qed
  have "2 powi emin f \<le> r' * c" "r' * c < 2 powi emax f"
    using a0 by (intro in_normal_range; simp)+
  then obtain a where a: "fp_round f (r' * c) = Fin a" "r' * c / 2 \<le> a" "a \<le> 2 * (r' * c)"
    by (rule fp_round_pos)
  have ab: "1 / 128 \<le> a" "a \<le> 25000" using a(2,3) a0 by simp_all
  have mul: "c_mul r (flt_lit 0.05) = FV f (Fin a)"
    unfolding flt_lit_twentieth c_def [symmetric] c_mul_floating f_def [symmetric]
    using assms(1) a(1) r'(1)
    by (simp add: to_fval_finite r0_def [symmetric] fp_round_twentieth [unfolded c_def [symmetric]])
  \<comment> \<open>the stored value\<close>
  have "2 powi emin Single \<le> a" "a < 2 powi emax Single"
    using ab by (intro in_normal_range; simp)+
  then obtain v where v: "fp_round Single a = Fin v" "\<bar>v - a\<bar> \<le> a / 2 ^ prec Single"
      "a / 2 \<le> v" "v \<le> 2 * a"
    by (rule fp_round_pos)
  have sv: "c_convert FLOAT32 (c_mul r (flt_lit 0.05)) = FltV v"
    unfolding mul by (simp add: v(1))
  \<comment> \<open>the reciprocal\<close>
  have ia: "1 / 25000 \<le> 1 / a" "1 / a \<le> 128"
    using ab by (simp_all add: field_simps)
  have "2 powi emin f \<le> 1 / a" "1 / a < 2 powi emax f"
    using ia by (intro in_normal_range; simp)+
  then obtain q where q: "fp_round f (1 / a) = Fin q" "\<bar>q - 1 / a\<bar> \<le> (1 / a) / 2 ^ prec f"
      "(1 / a) / 2 \<le> q" "q \<le> 2 * (1 / a)"
    by (rule fp_round_pos)
  have qb: "1 / 50000 \<le> q" "q \<le> 256" using q(3,4) ia by simp_all
  have ff: "fmt_of (FltV 1) (FV f (Fin a)) = f"
    by (cases f) (simp_all add: fmt_of_def)
  have dv: "c_div (flt_lit 1) (c_mul r (flt_lit 0.05)) = FV f (Fin q)"
    unfolding mul flt_lit_one
    using ab(1) by (simp add: ff fp_round_1 fp_round_idem [OF a(1)] q(1))
  have "2 powi emin Single \<le> q" "q < 2 powi emax Single"
    using qb by (intro in_normal_range; simp)+
  then obtain w where w: "fp_round Single q = Fin w" "\<bar>w - q\<bar> \<le> q / 2 ^ prec Single"
    by (rule fp_round_pos)
  have sw: "c_convert FLOAT32 (c_div (flt_lit 1) (c_mul r (flt_lit 0.05))) = FltV w"
    unfolding dv by (simp add: w(1))
  \<comment> \<open>the product of the stored values\<close>
  have a_pos: "0 < a" and q_pos: "0 < q" and ia_pos: "0 < 1 / a" using ab qb by simp_all
  have 1: "\<bar>v / a - 1\<bar> \<le> 1 / 2 ^ 24"
    using a_pos v(2) by (rule rel_err) simp
  have "\<bar>q / (1 / a) - 1\<bar> \<le> 1 / 2 ^ 24"
    using ia_pos q(2) prec_ge by (rule rel_err)
  then have 2: "\<bar>q * a - 1\<bar> \<le> 1 / 2 ^ 24" by simp
  have 3: "\<bar>w / q - 1\<bar> \<le> 1 / 2 ^ 24"
    using q_pos w(2) by (rule rel_err) simp
  have "\<bar>(v / a) * (q * a) - 1\<bar> \<le> 1 / 2 ^ 24 + 1 / 2 ^ 24 + 1 / 2 ^ 24 * (1 / 2 ^ 24)"
    using 1 2 by (rule rel_prod)
  then have "\<bar>(v / a) * (q * a) * (w / q) - 1\<bar>
      \<le> (1 / 2 ^ 24 + 1 / 2 ^ 24 + 1 / 2 ^ 24 * (1 / 2 ^ 24)) + 1 / 2 ^ 24
        + (1 / 2 ^ 24 + 1 / 2 ^ 24 + 1 / 2 ^ 24 * (1 / 2 ^ 24)) * (1 / 2 ^ 24)"
    using 3 by (rule rel_prod)
  moreover have "(v / a) * (q * a) * (w / q) = v * w"
    using a_pos q_pos by simp
  ultimately have "\<bar>v * w - 1\<bar> \<le> 1 / 2 ^ 22" by simp
  moreover have "0 < v" using v(3) a_pos by linarith
  ultimately show thesis using sv sw by (intro that)
qed

section \<open>The values the axes select\<close>

lemma POWER_MODULE_deadtimes:
  assumes "POWER_MODULE_TYPE_section env = Inr pm"
  shows "\<exists>d. INV1_DEADTIME pm tg = IntV d \<and> 0 \<le> d \<and> d < 2 ^ 32"
    and "\<exists>d. INV2_DEADTIME pm tg = IntV d \<and> 0 \<le> d \<and> d < 2 ^ 32"
  using assms
  by (cases tg; auto simp: POWER_MODULE_TYPE_section_def INV1_DEADTIME_def INV2_DEADTIME_def
      split: if_splits)+

lemma BswCfgPwm_c_deadtimes:
  "scalar_of (BswCfgPwm_c x gic pm et au) (DeadTime_INV1_name tg)
     = Some (c_convert UINT32 (INV1_DEADTIME pm tg))"
  "scalar_of (BswCfgPwm_c x gic pm et au) (DeadTime_INV2_name tg)
     = Some (c_convert UINT32 (INV2_DEADTIME pm tg))"
  by (cases tg; simp add: DeadTime_INV1_name_def DeadTime_INV2_name_def INV1_DEADTIME_def
      INV2_DEADTIME_def BswCfgPwm_c_scalars)+
lemma POWER_MODULE_deadtime_cases:
  assumes "POWER_MODULE_TYPE_section env = Inr pm"
  shows "INV1_DEADTIME pm tg \<in> {IntV 2000, IntV 2200, IntV 2500, IntV 4000}"
    and "INV2_DEADTIME pm tg \<in> {IntV 2000, IntV 2200, IntV 2500, IntV 4000}"
  using assms
  by (cases tg; auto simp: POWER_MODULE_TYPE_section_def INV1_DEADTIME_def INV2_DEADTIME_def
      split: if_splits)+

lemma MOT_CUR_SENSOR_range_cases:
  assumes "MOT_CUR_SENSOR_TYPE_section env = Inr cs"
  shows "CUR_SENSOR_RANGE_MOT cs \<in> {IntV 400, IntV 500, IntV 700, IntV 850, IntV 1000, IntV 1100,
     IntV 1300, IntV 1500, DblV (2587086208873215 / 2 ^ 42), DblV (6936298130931869 / 2 ^ 44),
     DblV (3665038612651783 / 2 ^ 42), DblV (8000084426898171 / 2 ^ 43),
     DblV (5999434179620215 / 2 ^ 43)}"
  using assms
  unfolding MOT_CUR_SENSOR_TYPE_section_def range_588_2353 range_394_2829 range_833_3333
    range_909_5043 range_682_0567
  by (auto split: if_splits)

lemma MOT_CUR_SENSOR_range_bounds:
  assumes "MOT_CUR_SENSOR_TYPE_section env = Inr cs"
  shows "1 \<le> real_of_cval (CUR_SENSOR_RANGE_MOT cs)"
    and "real_of_cval (CUR_SENSOR_RANGE_MOT cs) \<le> 100000"
  using MOT_CUR_SENSOR_range_cases [OF assms] by auto

lemma MOT_CUR_SENSOR_range_400:
  assumes "MOT_CUR_SENSOR_TYPE_section env = Inr cs"
    and "real_of_cval (CUR_SENSOR_RANGE_MOT cs) = 400"
  shows "CUR_SENSOR_RANGE_MOT cs = IntV 400"
  using MOT_CUR_SENSOR_range_cases [OF assms(1)] assms(2) by auto

lemma TdeadComp_cases:
  assumes "d \<in> {2000, 2200, 2500, 4000}"
  obtains v where
    "c_convert FLOAT32 (c_mul (c_sub (IntV d) (flt_lit 100)) (flt_lit 0.000000001)) = FltV v"
    "\<bar>v - spec_dead_time_comp (of_int d)\<bar> \<le> spec_dead_time_comp (of_int d) / 2 ^ 23"
    "v \<noteq> spec_dead_time_comp (of_int d)"
proof -
  from assms consider "d = 2000" | "d = 2200" | "d = 2500" | "d = 4000" by auto
  then show thesis
  proof cases
    case 1
    show thesis
    proof (rule that [of "130567 / 2 ^ 36"])
      show "c_convert FLOAT32 (c_mul (c_sub (IntV d) (flt_lit 100)) (flt_lit 0.000000001))
          = FltV (130567 / 2 ^ 36)"
        unfolding 1 by (rule TdeadComp_2000)
    qed (simp_all add: 1 spec_dead_time_comp_def)
  next
    case 2
    show thesis
    proof (rule that [of "9235897 / 2 ^ 42"])
      show "c_convert FLOAT32 (c_mul (c_sub (IntV d) (flt_lit 100)) (flt_lit 0.000000001))
          = FltV (9235897 / 2 ^ 42)"
        unfolding 2 by (rule TdeadComp_2200)
    qed (simp_all add: 2 spec_dead_time_comp_def)
  next
    case 3
    show thesis
    proof (rule that [of "10555311 / 2 ^ 42"])
      show "c_convert FLOAT32 (c_mul (c_sub (IntV d) (flt_lit 100)) (flt_lit 0.000000001))
          = FltV (10555311 / 2 ^ 42)"
        unfolding 3 by (rule TdeadComp_2500)
    qed (simp_all add: 3 spec_dead_time_comp_def)
  next
    case 4
    show thesis
    proof (rule that [of "4288095 / 2 ^ 40"])
      show "c_convert FLOAT32 (c_mul (c_sub (IntV d) (flt_lit 100)) (flt_lit 0.000000001))
          = FltV (4288095 / 2 ^ 40)"
        unfolding 4 by (rule TdeadComp_4000)
    qed (simp_all add: 4 spec_dead_time_comp_def)
  qed
qed

lemma deadtime_of_cases:
  assumes "v \<in> {IntV 2000, IntV 2200, IntV 2500, IntV 4000}"
  obtains d where "v = IntV d" "d \<in> {2000, 2200, 2500, 4000}"
  using assms by auto

section \<open>Every axis that matches no guard\<close>

text \<open>
  C1, as the sources have it. For every axis but the project name, a value that matches no
  guard of the axis takes the \<^verbatim>\<open>#else\<close> of its group, which is an \<^verbatim>\<open>#error\<close> naming the
  axis, and no table is resolved. The groups of the performance type, the development phase
  and the market are nested: each is reached once the groups around it have matched. For the
  project name the \<^verbatim>\<open>#else\<close> is empty: a value that is neither project is no error, and the
  header defines no selection macro.
\<close>

theorem unmatched_axis_value:
  "(unmatched env ''_GATE_IC_TYPE'' GATE_IC_TYPE_options \<longrightarrow>
      GATE_IC_TYPE_section env = Inl (PpError ''undefined _GATE_IC_TYPE MACRO'')
      \<and> isl (resolve x env))
   \<and> (unmatched env ''_POWER_MODULE_TYPE'' POWER_MODULE_TYPE_options \<longrightarrow>
      POWER_MODULE_TYPE_section env = Inl (PpError ''undefined _POWER_MODULE_TYPE MACRO'')
      \<and> isl (resolve x env))
   \<and> (unmatched env ''_MOT_CUR_SENSOR_TYPE'' MOT_CUR_SENSOR_TYPE_options \<longrightarrow>
      MOT_CUR_SENSOR_TYPE_section env = Inl (PpError ''undefined _MOT_CUR_SENSOR_TYPE MACRO'')
      \<and> isl (resolve x env))
   \<and> (unmatched env ''_PWM_BURST_MODE'' PWM_BURST_MODE_options \<longrightarrow>
      PWM_BURST_MODE_section x env = Inl (PpError ''undefined _PWM_BURST_MODE MACRO'')
      \<and> isl (resolve x env))
   \<and> (unmatched env ''_VAR_DTGS_OPTION'' VAR_DTGS_OPTION_options \<longrightarrow>
      VAR_DTGS_OPTION_section x env = Inl (PpError ''undefined _VAR_DTGS_OPTION MACRO'')
      \<and> isl (resolve x env))
   \<and> (unmatched env ''_ETPU_CALCULATION_TIME_OPTION'' ETPU_CALCULATION_TIME_OPTION_options \<longrightarrow>
      ETPU_CALCULATION_TIME_OPTION_section env
        = Inl (PpError ''undefined _ETPU_CALCULATION_TIME_OPTION MACRO'')
      \<and> isl (resolve x env))
   \<and> (unmatched env ''_PWM_UPDATETIME_AUTO_MODE'' PWM_UPDATETIME_AUTO_MODE_options \<longrightarrow>
      PWM_UPDATETIME_AUTO_MODE_section x env
        = Inl (PpError ''undefined _PWM_UPDATETIME_AUTO_MODE MACRO'')
      \<and> isl (resolve x env))
   \<and> (unmatched env ''_SA_2STAGE_PWM_MODE'' SA_2STAGE_PWM_MODE_options \<longrightarrow>
      SA_2STAGE_PWM_MODE_section x env = Inl (PpError ''undefined _SA_2STAGE_PWM_MODE MACRO'')
      \<and> isl (resolve x env))
   \<and> (unmatched env ''_SA_SQPWM_REGEN_DIS'' SA_SQPWM_REGEN_DIS_options \<longrightarrow>
      SA_SQPWM_REGEN_DIS_section x env = Inl (PpError ''undefined _SA_SQPWM_REGEN_DIS MACRO'')
      \<and> isl (resolve x env))
   \<and> (\<not> unmatched env ''_PROJECT_NAME'' PROJECT_NAME_options
       \<and> unmatched env ''_PERFORMANCE_TYPE'' PERFORMANCE_TYPE_options \<longrightarrow>
      CcCalPrjCfg_h env = Inl (PpError ''undefined _PERFORMANCE_TYPE MACRO'')
      \<and> isl (resolve x env))
   \<and> (\<not> unmatched env ''_PROJECT_NAME'' PROJECT_NAME_options
       \<and> \<not> unmatched env ''_PERFORMANCE_TYPE'' PERFORMANCE_TYPE_options
       \<and> unmatched env ''_DEVELOPMENT_PHASE'' DEVELOPMENT_PHASE_options \<longrightarrow>
      CcCalPrjCfg_h env = Inl (PpError ''undefined _DEVELOPMENT_PHASE MACRO'')
      \<and> isl (resolve x env))
   \<and> (\<not> unmatched env ''_PROJECT_NAME'' PROJECT_NAME_options
       \<and> \<not> unmatched env ''_PERFORMANCE_TYPE'' PERFORMANCE_TYPE_options
       \<and> \<not> unmatched env ''_DEVELOPMENT_PHASE'' DEVELOPMENT_PHASE_options
       \<and> unmatched env ''_MARKET_VERSION'' MARKET_VERSION_options \<longrightarrow>
      CcCalPrjCfg_h env = Inl (PpError ''undefined _MARKET_VERSION MACRO'')
      \<and> isl (resolve x env))
   \<and> (unmatched env ''_PROJECT_NAME'' PROJECT_NAME_options \<longrightarrow> CcCalPrjCfg_h env = Inr [])"
  by (intro conjI unmatched_gate_ic unmatched_power_module unmatched_mot_cur_sensor unmatched_pwm_burst unmatched_var_dtgs unmatched_etpu unmatched_updatetime
      unmatched_two_stage unmatched_regen unmatched_performance unmatched_phase unmatched_market unmatched_project)

theorem unmatched_axis_value_witness:
  "(GATE_IC_TYPE_section (with_axis ''_GATE_IC_TYPE'' 99) = Inl (PpError ''undefined _GATE_IC_TYPE MACRO'')
       \<and> isl (resolve example_ext (with_axis ''_GATE_IC_TYPE'' 99)))
   \<and> (POWER_MODULE_TYPE_section (with_axis ''_POWER_MODULE_TYPE'' 99) = Inl (PpError ''undefined _POWER_MODULE_TYPE MACRO'')
       \<and> isl (resolve example_ext (with_axis ''_POWER_MODULE_TYPE'' 99)))
   \<and> (MOT_CUR_SENSOR_TYPE_section (with_axis ''_MOT_CUR_SENSOR_TYPE'' 99) = Inl (PpError ''undefined _MOT_CUR_SENSOR_TYPE MACRO'')
       \<and> isl (resolve example_ext (with_axis ''_MOT_CUR_SENSOR_TYPE'' 99)))
   \<and> (PWM_BURST_MODE_section example_ext (with_axis ''_PWM_BURST_MODE'' 99) = Inl (PpError ''undefined _PWM_BURST_MODE MACRO'')
       \<and> isl (resolve example_ext (with_axis ''_PWM_BURST_MODE'' 99)))
   \<and> (VAR_DTGS_OPTION_section example_ext (with_axis ''_VAR_DTGS_OPTION'' 99) = Inl (PpError ''undefined _VAR_DTGS_OPTION MACRO'')
       \<and> isl (resolve example_ext (with_axis ''_VAR_DTGS_OPTION'' 99)))
   \<and> (ETPU_CALCULATION_TIME_OPTION_section (with_axis ''_ETPU_CALCULATION_TIME_OPTION'' 99)
       = Inl (PpError ''undefined _ETPU_CALCULATION_TIME_OPTION MACRO'')
       \<and> isl (resolve example_ext (with_axis ''_ETPU_CALCULATION_TIME_OPTION'' 99)))
   \<and> (PWM_UPDATETIME_AUTO_MODE_section example_ext (with_axis ''_PWM_UPDATETIME_AUTO_MODE'' 99)
       = Inl (PpError ''undefined _PWM_UPDATETIME_AUTO_MODE MACRO'')
       \<and> isl (resolve example_ext (with_axis ''_PWM_UPDATETIME_AUTO_MODE'' 99)))
   \<and> (SA_2STAGE_PWM_MODE_section example_ext (with_axis ''_SA_2STAGE_PWM_MODE'' 99) = Inl (PpError ''undefined _SA_2STAGE_PWM_MODE MACRO'')
       \<and> isl (resolve example_ext (with_axis ''_SA_2STAGE_PWM_MODE'' 99)))
   \<and> (SA_SQPWM_REGEN_DIS_section example_ext (with_axis ''_SA_SQPWM_REGEN_DIS'' 99) = Inl (PpError ''undefined _SA_SQPWM_REGEN_DIS MACRO'')
       \<and> isl (resolve example_ext (with_axis ''_SA_SQPWM_REGEN_DIS'' 99)))
   \<and> (CcCalPrjCfg_h (with_axis ''_PERFORMANCE_TYPE'' 99) = Inl (PpError ''undefined _PERFORMANCE_TYPE MACRO'')
       \<and> isl (resolve example_ext (with_axis ''_PERFORMANCE_TYPE'' 99)))
   \<and> (CcCalPrjCfg_h (with_axis ''_DEVELOPMENT_PHASE'' 99) = Inl (PpError ''undefined _DEVELOPMENT_PHASE MACRO'')
       \<and> isl (resolve example_ext (with_axis ''_DEVELOPMENT_PHASE'' 99)))
   \<and> (CcCalPrjCfg_h (with_axis ''_MARKET_VERSION'' 99) = Inl (PpError ''undefined _MARKET_VERSION MACRO'')
       \<and> isl (resolve example_ext (with_axis ''_MARKET_VERSION'' 99)))
   \<and> CcCalPrjCfg_h undeclared_project_env = Inr []"
proof -
  have h1: "unmatched (with_axis ''_GATE_IC_TYPE'' 99) ''_GATE_IC_TYPE'' GATE_IC_TYPE_options"
    by (simp add: unmatched_def GATE_IC_TYPE_options_def pp_with_axis example_env_pp)
  have c1: "GATE_IC_TYPE_section (with_axis ''_GATE_IC_TYPE'' 99) = Inl (PpError ''undefined _GATE_IC_TYPE MACRO'')
       \<and> isl (resolve example_ext (with_axis ''_GATE_IC_TYPE'' 99))"
    by (rule unmatched_axis_value [of "with_axis ''_GATE_IC_TYPE'' 99" example_ext, THEN conjunct1, THEN mp, OF h1])
  have h2: "unmatched (with_axis ''_POWER_MODULE_TYPE'' 99) ''_POWER_MODULE_TYPE'' POWER_MODULE_TYPE_options"
    by (simp add: unmatched_def POWER_MODULE_TYPE_options_def pp_with_axis example_env_pp)
  have c2: "POWER_MODULE_TYPE_section (with_axis ''_POWER_MODULE_TYPE'' 99) = Inl (PpError ''undefined _POWER_MODULE_TYPE MACRO'')
       \<and> isl (resolve example_ext (with_axis ''_POWER_MODULE_TYPE'' 99))"
    by (rule unmatched_axis_value [of "with_axis ''_POWER_MODULE_TYPE'' 99" example_ext, THEN conjunct2, THEN conjunct1, THEN mp, OF h2])
  have h3: "unmatched (with_axis ''_MOT_CUR_SENSOR_TYPE'' 99) ''_MOT_CUR_SENSOR_TYPE'' MOT_CUR_SENSOR_TYPE_options"
    by (simp add: unmatched_def MOT_CUR_SENSOR_TYPE_options_def pp_with_axis example_env_pp)
  have c3: "MOT_CUR_SENSOR_TYPE_section (with_axis ''_MOT_CUR_SENSOR_TYPE'' 99) = Inl (PpError ''undefined _MOT_CUR_SENSOR_TYPE MACRO'')
       \<and> isl (resolve example_ext (with_axis ''_MOT_CUR_SENSOR_TYPE'' 99))"
    by (rule unmatched_axis_value [of "with_axis ''_MOT_CUR_SENSOR_TYPE'' 99" example_ext, THEN conjunct2, THEN conjunct2, THEN conjunct1, THEN mp, OF h3])
  have h4: "unmatched (with_axis ''_PWM_BURST_MODE'' 99) ''_PWM_BURST_MODE'' PWM_BURST_MODE_options"
    by (simp add: unmatched_def PWM_BURST_MODE_options_def pp_with_axis example_env_pp)
  have c4: "PWM_BURST_MODE_section example_ext (with_axis ''_PWM_BURST_MODE'' 99) = Inl (PpError ''undefined _PWM_BURST_MODE MACRO'')
       \<and> isl (resolve example_ext (with_axis ''_PWM_BURST_MODE'' 99))"
    by (rule unmatched_axis_value [of "with_axis ''_PWM_BURST_MODE'' 99" example_ext, THEN conjunct2, THEN conjunct2, THEN conjunct2, THEN conjunct1, THEN mp, OF h4])
  have h5: "unmatched (with_axis ''_VAR_DTGS_OPTION'' 99) ''_VAR_DTGS_OPTION'' VAR_DTGS_OPTION_options"
    by (simp add: unmatched_def VAR_DTGS_OPTION_options_def pp_with_axis example_env_pp)
  have c5: "VAR_DTGS_OPTION_section example_ext (with_axis ''_VAR_DTGS_OPTION'' 99) = Inl (PpError ''undefined _VAR_DTGS_OPTION MACRO'')
       \<and> isl (resolve example_ext (with_axis ''_VAR_DTGS_OPTION'' 99))"
    by (rule unmatched_axis_value [of "with_axis ''_VAR_DTGS_OPTION'' 99" example_ext, THEN conjunct2, THEN conjunct2, THEN conjunct2, THEN conjunct2, THEN conjunct1, THEN mp, OF h5])
  have h6: "unmatched (with_axis ''_ETPU_CALCULATION_TIME_OPTION'' 99) ''_ETPU_CALCULATION_TIME_OPTION'' ETPU_CALCULATION_TIME_OPTION_options"
    by (simp add: unmatched_def ETPU_CALCULATION_TIME_OPTION_options_def pp_with_axis example_env_pp)
  have c6: "ETPU_CALCULATION_TIME_OPTION_section (with_axis ''_ETPU_CALCULATION_TIME_OPTION'' 99)
       = Inl (PpError ''undefined _ETPU_CALCULATION_TIME_OPTION MACRO'')
       \<and> isl (resolve example_ext (with_axis ''_ETPU_CALCULATION_TIME_OPTION'' 99))"
    by (rule unmatched_axis_value [of "with_axis ''_ETPU_CALCULATION_TIME_OPTION'' 99" example_ext, THEN conjunct2, THEN conjunct2, THEN conjunct2, THEN conjunct2, THEN conjunct2, THEN conjunct1, THEN mp, OF h6])
  have h7: "unmatched (with_axis ''_PWM_UPDATETIME_AUTO_MODE'' 99) ''_PWM_UPDATETIME_AUTO_MODE'' PWM_UPDATETIME_AUTO_MODE_options"
    by (simp add: unmatched_def PWM_UPDATETIME_AUTO_MODE_options_def pp_with_axis example_env_pp)
  have c7: "PWM_UPDATETIME_AUTO_MODE_section example_ext (with_axis ''_PWM_UPDATETIME_AUTO_MODE'' 99)
       = Inl (PpError ''undefined _PWM_UPDATETIME_AUTO_MODE MACRO'')
       \<and> isl (resolve example_ext (with_axis ''_PWM_UPDATETIME_AUTO_MODE'' 99))"
    by (rule unmatched_axis_value [of "with_axis ''_PWM_UPDATETIME_AUTO_MODE'' 99" example_ext, THEN conjunct2, THEN conjunct2, THEN conjunct2, THEN conjunct2, THEN conjunct2, THEN conjunct2, THEN conjunct1, THEN mp, OF h7])
  have h8: "unmatched (with_axis ''_SA_2STAGE_PWM_MODE'' 99) ''_SA_2STAGE_PWM_MODE'' SA_2STAGE_PWM_MODE_options"
    by (simp add: unmatched_def SA_2STAGE_PWM_MODE_options_def pp_with_axis example_env_pp)
  have c8: "SA_2STAGE_PWM_MODE_section example_ext (with_axis ''_SA_2STAGE_PWM_MODE'' 99) = Inl (PpError ''undefined _SA_2STAGE_PWM_MODE MACRO'')
       \<and> isl (resolve example_ext (with_axis ''_SA_2STAGE_PWM_MODE'' 99))"
    by (rule unmatched_axis_value [of "with_axis ''_SA_2STAGE_PWM_MODE'' 99" example_ext, THEN conjunct2, THEN conjunct2, THEN conjunct2, THEN conjunct2, THEN conjunct2, THEN conjunct2, THEN conjunct2, THEN conjunct1, THEN mp, OF h8])
  have h9: "unmatched (with_axis ''_SA_SQPWM_REGEN_DIS'' 99) ''_SA_SQPWM_REGEN_DIS'' SA_SQPWM_REGEN_DIS_options"
    by (simp add: unmatched_def SA_SQPWM_REGEN_DIS_options_def pp_with_axis example_env_pp)
  have c9: "SA_SQPWM_REGEN_DIS_section example_ext (with_axis ''_SA_SQPWM_REGEN_DIS'' 99) = Inl (PpError ''undefined _SA_SQPWM_REGEN_DIS MACRO'')
       \<and> isl (resolve example_ext (with_axis ''_SA_SQPWM_REGEN_DIS'' 99))"
    by (rule unmatched_axis_value [of "with_axis ''_SA_SQPWM_REGEN_DIS'' 99" example_ext, THEN conjunct2, THEN conjunct2, THEN conjunct2, THEN conjunct2, THEN conjunct2, THEN conjunct2, THEN conjunct2, THEN conjunct2, THEN conjunct1, THEN mp, OF h9])
  have h10: "\<not> unmatched (with_axis ''_PERFORMANCE_TYPE'' 99) ''_PROJECT_NAME'' PROJECT_NAME_options
      \<and> unmatched (with_axis ''_PERFORMANCE_TYPE'' 99) ''_PERFORMANCE_TYPE'' PERFORMANCE_TYPE_options"
    by (simp add: unmatched_def PROJECT_NAME_options_def PERFORMANCE_TYPE_options_def pp_with_axis example_env_pp)
  have c10: "CcCalPrjCfg_h (with_axis ''_PERFORMANCE_TYPE'' 99) = Inl (PpError ''undefined _PERFORMANCE_TYPE MACRO'')
       \<and> isl (resolve example_ext (with_axis ''_PERFORMANCE_TYPE'' 99))"
    by (rule unmatched_axis_value [of "with_axis ''_PERFORMANCE_TYPE'' 99" example_ext, THEN conjunct2, THEN conjunct2, THEN conjunct2, THEN conjunct2, THEN conjunct2, THEN conjunct2, THEN conjunct2, THEN conjunct2, THEN conjunct2, THEN conjunct1, THEN mp, OF h10])
  have h11: "\<not> unmatched (with_axis ''_DEVELOPMENT_PHASE'' 99) ''_PROJECT_NAME'' PROJECT_NAME_options
      \<and> \<not> unmatched (with_axis ''_DEVELOPMENT_PHASE'' 99) ''_PERFORMANCE_TYPE'' PERFORMANCE_TYPE_options
      \<and> unmatched (with_axis ''_DEVELOPMENT_PHASE'' 99) ''_DEVELOPMENT_PHASE'' DEVELOPMENT_PHASE_options"
    by (simp add: unmatched_def PROJECT_NAME_options_def PERFORMANCE_TYPE_options_def DEVELOPMENT_PHASE_options_def pp_with_axis example_env_pp)
  have c11: "CcCalPrjCfg_h (with_axis ''_DEVELOPMENT_PHASE'' 99) = Inl (PpError ''undefined _DEVELOPMENT_PHASE MACRO'')
       \<and> isl (resolve example_ext (with_axis ''_DEVELOPMENT_PHASE'' 99))"
    by (rule unmatched_axis_value [of "with_axis ''_DEVELOPMENT_PHASE'' 99" example_ext, THEN conjunct2, THEN conjunct2, THEN conjunct2, THEN conjunct2, THEN conjunct2, THEN conjunct2, THEN conjunct2, THEN conjunct2, THEN conjunct2, THEN conjunct2, THEN conjunct1, THEN mp, OF h11])
  have h12: "\<not> unmatched (with_axis ''_MARKET_VERSION'' 99) ''_PROJECT_NAME'' PROJECT_NAME_options
      \<and> \<not> unmatched (with_axis ''_MARKET_VERSION'' 99) ''_PERFORMANCE_TYPE'' PERFORMANCE_TYPE_options
      \<and> \<not> unmatched (with_axis ''_MARKET_VERSION'' 99) ''_DEVELOPMENT_PHASE'' DEVELOPMENT_PHASE_options
      \<and> unmatched (with_axis ''_MARKET_VERSION'' 99) ''_MARKET_VERSION'' MARKET_VERSION_options"
    by (simp add: unmatched_def PROJECT_NAME_options_def PERFORMANCE_TYPE_options_def DEVELOPMENT_PHASE_options_def MARKET_VERSION_options_def pp_with_axis example_env_pp)
  have c12: "CcCalPrjCfg_h (with_axis ''_MARKET_VERSION'' 99) = Inl (PpError ''undefined _MARKET_VERSION MACRO'')
       \<and> isl (resolve example_ext (with_axis ''_MARKET_VERSION'' 99))"
    by (rule unmatched_axis_value [of "with_axis ''_MARKET_VERSION'' 99" example_ext, THEN conjunct2, THEN conjunct2, THEN conjunct2, THEN conjunct2, THEN conjunct2, THEN conjunct2, THEN conjunct2, THEN conjunct2, THEN conjunct2, THEN conjunct2, THEN conjunct2, THEN conjunct1, THEN mp, OF h12])
  have h13: "unmatched undeclared_project_env ''_PROJECT_NAME'' PROJECT_NAME_options"
    by (simp add: unmatched_def PROJECT_NAME_options_def undeclared_project_env_def pp_with_axis
        example_env_pp)
  have c13: "CcCalPrjCfg_h undeclared_project_env = Inr []"
    by (rule unmatched_axis_value [of undeclared_project_env example_ext, THEN conjunct2, THEN conjunct2, THEN conjunct2, THEN conjunct2, THEN conjunct2, THEN conjunct2, THEN conjunct2, THEN conjunct2, THEN conjunct2, THEN conjunct2, THEN conjunct2, THEN conjunct2, THEN mp, OF h13])
  show ?thesis
    by (intro conjI c1 c2 c3 c4 c5 c6 c7 c8 c9 c10 c11 c12 c13)
qed

text \<open>
  C1 as it is worded fails for the project name. In the example build with
  \<^verbatim>\<open>_PROJECT_NAME\<close> set to 3, the code of neither project, the header reaches no
  \<^verbatim>\<open>#error\<close> and defines nothing, and the build resolves: to the table of the example
  build without its selection macros.
\<close>

theorem undeclared_project_is_no_error:
  "unmatched undeclared_project_env ''_PROJECT_NAME'' PROJECT_NAME_options
   \<and> CcCalPrjCfg_h undeclared_project_env = Inr []
   \<and> \<not> isl (resolve example_ext undeclared_project_env)
   \<and> resolve example_ext undeclared_project_env = Inr (example_table\<lparr>selection_macros := []\<rparr>)"
proof -
  have u: "unmatched undeclared_project_env ''_PROJECT_NAME'' PROJECT_NAME_options"
    by (simp add: unmatched_def PROJECT_NAME_options_def undeclared_project_env_def pp_with_axis
        example_env_pp)
  show ?thesis
    using u CcCalPrjCfg_h_unmatched [OF u] undeclared_project_resolves by simp
qed

section \<open>Arrays indexed by the target\<close>

text \<open>
  C2. In every build that resolves, every object declared with the first dimension
  \<^verbatim>\<open>TOTAL_TARGET\<close> is initialised with exactly two entries, one per target. The arrays whose
  initialisers are macros of a target (\<^verbatim>\<open>_MOT\<close>, \<^verbatim>\<open>_HSG\<close>) hold the value of the motor
  first and the value of the hybrid starter-generator second, in \<^verbatim>\<open>CcCalBase.c\<close> without
  exception: the entry at the index of target \<open>tg\<close> is the initialiser over the macros of
  \<open>tg\<close>. \<^verbatim>\<open>TOTAL_TARGET\<close> itself is a macro of a header that is not among the sources, so the
  count is that of the written initialisers.
\<close>

theorem per_target_arrays_have_one_entry_per_target:
  assumes "resolve x env = Inr t"
  shows "(\<forall>b \<in> set (constants t). per_target b \<longrightarrow> arity_ok b \<and> length (entries b) = 2)
    \<and> (\<exists>pm cs. POWER_MODULE_TYPE_section env = Inr pm
        \<and> MOT_CUR_SENSOR_TYPE_section env = Inr cs
        \<and> element_of (constants t) ''BswCfgCal_Rsv_DefaultOffset'' tg
             = Some (c_convert FLOAT32 (DEFAULT_OFFSET x tg))
        \<and> element_of (constants t) ''BswCfgCal_Rsv_RotDir'' tg
             = Some (c_convert UINT16 (RESOLVER_DIRECTION x tg))
        \<and> element_of (constants t) ''CcCal_DeadTimeComp_INVIcompZCC_INV1'' tg
             = Some (c_convert FLOAT32 (c_div (flt_lit 1) (c_mul (CUR_SENSOR_RANGE x cs tg) (flt_lit 0.05))))
        \<and> element_of (constants t) ''CcCal_DeadTimeComp_INVIcompZCC_INV2'' tg
             = Some (c_convert FLOAT32 (c_div (flt_lit 1) (c_mul (CUR_SENSOR_RANGE x cs tg) (flt_lit 0.05))))
        \<and> element_of (constants t) ''CcCal_DeadTimeComp_TdeadComp_INV1'' tg
             = Some (c_convert FLOAT32 (c_mul (c_sub (INV1_DEADTIME pm tg) (flt_lit 100)) (flt_lit 0.000000001)))
        \<and> element_of (constants t) ''CcCal_DeadTimeComp_TdeadComp_INV2'' tg
             = Some (c_convert FLOAT32 (c_mul (c_sub (INV2_DEADTIME pm tg) (flt_lit 100)) (flt_lit 0.000000001)))
        \<and> element_of (constants t) ''CcCal_DeadTimeComp_IcompZCC_INV1'' tg
             = Some (c_convert FLOAT32 (c_mul (CUR_SENSOR_RANGE x cs tg) (flt_lit 0.05)))
        \<and> element_of (constants t) ''CcCal_DeadTimeComp_IcompZCC_INV2'' tg
             = Some (c_convert FLOAT32 (c_mul (CUR_SENSOR_RANGE x cs tg) (flt_lit 0.05)))
        \<and> element_of (constants t) ''CcCal_CurA_InitialOffset'' tg
             = Some (c_convert INT16 (CUR_SENSOR_OFFSET tg))
        \<and> element_of (constants t) ''CcCal_CurB_InitialOffset'' tg
             = Some (c_convert INT16 (CUR_SENSOR_OFFSET tg))
        \<and> element_of (constants t) ''CcCal_CurC_InitialOffset'' tg
             = Some (c_convert INT16 (CUR_SENSOR_OFFSET tg))
        \<and> element_of (constants t) ''CcCal_Cur_ScaleFactor'' tg
             = Some (c_convert FLOAT32 (CUR_SENSOR_SCALE x cs tg)))"
proof -
  from assms obtain pm cs where
    pm: "POWER_MODULE_TYPE_section env = Inr pm"
    and cs: "MOT_CUR_SENSOR_TYPE_section env = Inr cs"
    and p: "\<And>n tg v. take 4 (drop 10 n) \<noteq> ''Pwm_'' \<Longrightarrow> take 4 (drop 10 n) \<noteq> ''Rdc_''
       \<Longrightarrow> element_of (CcCalBase_c_part1 x) n tg = Some v
       \<Longrightarrow> element_of (constants t) n tg = Some v"
    and e: "\<And>n tg v. take 4 (drop 10 n) \<noteq> ''Pwm_'' \<Longrightarrow> take 4 (drop 10 n) \<noteq> ''Rdc_''
       \<Longrightarrow> n \<notin> set [''BswCfgCal_Rsv_DefaultOffset'', ''BswCfgCal_Rsv_RotDir'',
             ''TestCal_RSPWM_Enb'', ''TestCal_VnCtrl_Enb'', ''CcCal_SQPWM_Mode_Regen_Disable'']
       \<Longrightarrow> element_of (CcCalBase_c_part3 x pm cs) n tg = Some v
       \<Longrightarrow> element_of (constants t) n tg = Some v"
    by (rule resolved_objects) (rule that, assumption+)
  have a: "\<forall>b \<in> set (constants t). per_target b \<longrightarrow> arity_ok b \<and> length (entries b) = 2"
    using resolved_arity [OF assms]
    by (auto simp: list_all_iff target_arity_def arity_ok_def entries_def targets_def
        split: cinit.splits)
  have o1: "element_of (constants t) ''BswCfgCal_Rsv_DefaultOffset'' tg
             = Some (c_convert FLOAT32 (DEFAULT_OFFSET x tg))"
    by (rule p [OF _ _ CcCalBase_c_part1_elements(1)]) simp_all
  have o2: "element_of (constants t) ''BswCfgCal_Rsv_RotDir'' tg
             = Some (c_convert UINT16 (RESOLVER_DIRECTION x tg))"
    by (rule p [OF _ _ CcCalBase_c_part1_elements(2)]) simp_all
  have e1: "element_of (constants t) ''CcCal_DeadTimeComp_INVIcompZCC_INV1'' tg
             = Some (c_convert FLOAT32 (c_div (flt_lit 1) (c_mul (CUR_SENSOR_RANGE x cs tg) (flt_lit 0.05))))"
    by (rule e [OF _ _ _ CcCalBase_c_part3_elements(1)]) simp_all
  have e2: "element_of (constants t) ''CcCal_DeadTimeComp_INVIcompZCC_INV2'' tg
             = Some (c_convert FLOAT32 (c_div (flt_lit 1) (c_mul (CUR_SENSOR_RANGE x cs tg) (flt_lit 0.05))))"
    by (rule e [OF _ _ _ CcCalBase_c_part3_elements(2)]) simp_all
  have e3: "element_of (constants t) ''CcCal_DeadTimeComp_TdeadComp_INV1'' tg
             = Some (c_convert FLOAT32 (c_mul (c_sub (INV1_DEADTIME pm tg) (flt_lit 100)) (flt_lit 0.000000001)))"
    by (rule e [OF _ _ _ CcCalBase_c_part3_elements(3)]) simp_all
  have e4: "element_of (constants t) ''CcCal_DeadTimeComp_TdeadComp_INV2'' tg
             = Some (c_convert FLOAT32 (c_mul (c_sub (INV2_DEADTIME pm tg) (flt_lit 100)) (flt_lit 0.000000001)))"
    by (rule e [OF _ _ _ CcCalBase_c_part3_elements(4)]) simp_all
  have e5: "element_of (constants t) ''CcCal_DeadTimeComp_IcompZCC_INV1'' tg
             = Some (c_convert FLOAT32 (c_mul (CUR_SENSOR_RANGE x cs tg) (flt_lit 0.05)))"
    by (rule e [OF _ _ _ CcCalBase_c_part3_elements(5)]) simp_all
  have e6: "element_of (constants t) ''CcCal_DeadTimeComp_IcompZCC_INV2'' tg
             = Some (c_convert FLOAT32 (c_mul (CUR_SENSOR_RANGE x cs tg) (flt_lit 0.05)))"
    by (rule e [OF _ _ _ CcCalBase_c_part3_elements(6)]) simp_all
  have e7: "element_of (constants t) ''CcCal_CurA_InitialOffset'' tg
             = Some (c_convert INT16 (CUR_SENSOR_OFFSET tg))"
    by (rule e [OF _ _ _ CcCalBase_c_part3_elements(7)]) simp_all
  have e8: "element_of (constants t) ''CcCal_CurB_InitialOffset'' tg
             = Some (c_convert INT16 (CUR_SENSOR_OFFSET tg))"
    by (rule e [OF _ _ _ CcCalBase_c_part3_elements(8)]) simp_all
  have e9: "element_of (constants t) ''CcCal_CurC_InitialOffset'' tg
             = Some (c_convert INT16 (CUR_SENSOR_OFFSET tg))"
    by (rule e [OF _ _ _ CcCalBase_c_part3_elements(9)]) simp_all
  have e10: "element_of (constants t) ''CcCal_Cur_ScaleFactor'' tg
             = Some (c_convert FLOAT32 (CUR_SENSOR_SCALE x cs tg))"
    by (rule e [OF _ _ _ CcCalBase_c_part3_elements(10)]) simp_all
  show ?thesis
    by (intro conjI exI [of _ pm] exI [of _ cs] a pm cs o1 o2 e1 e2 e3 e4 e5 e6 e7 e8 e9 e10)
qed

theorem per_target_arrays_have_one_entry_per_target_witness:
  "resolve example_ext example_env = Inr example_table
   \<and> list_all target_arity (constants example_table)
   \<and> element_of (constants example_table) ''BswCfgCal_Rsv_RotDir'' MOT = Some (IntV 1)
   \<and> element_of (constants example_table) ''BswCfgCal_Rsv_RotDir'' HSG = Some (IntV 2)
   \<and> element_of (constants example_table) ''CcCal_DeadTimeComp_IcompZCC_INV1'' MOT = Some (FltV 20)
   \<and> element_of (constants example_table) ''CcCal_DeadTimeComp_IcompZCC_INV1'' HSG = Some (FltV 25)"
proof -
  note r = example_resolves
  note m = per_target_arrays_have_one_entry_per_target [OF r, of MOT]
  note h = per_target_arrays_have_one_entry_per_target [OF r, of HSG]
  have a: "list_all target_arity (constants example_table)"
    using m by (simp add: list_all_iff target_arity_def)
  have rng: "CUR_SENSOR_RANGE example_ext \<lparr>CUR_SENSOR_RANGE_MOT = IntV 400\<rparr> MOT = IntV 400"
    "CUR_SENSOR_RANGE example_ext \<lparr>CUR_SENSOR_RANGE_MOT = IntV 400\<rparr> HSG = IntV 500"
    by (simp_all add: CUR_SENSOR_RANGE_def example_ext_def)
  from m obtain cs where "MOT_CUR_SENSOR_TYPE_section example_env = Inr cs"
    and d: "element_of (constants example_table) ''BswCfgCal_Rsv_RotDir'' MOT
             = Some (c_convert UINT16 (RESOLVER_DIRECTION example_ext MOT))"
    and i: "element_of (constants example_table) ''CcCal_DeadTimeComp_IcompZCC_INV1'' MOT
             = Some (c_convert FLOAT32 (c_mul (CUR_SENSOR_RANGE example_ext cs MOT) (flt_lit 0.05)))"
    by blast
  then have cs: "cs = \<lparr>CUR_SENSOR_RANGE_MOT = IntV 400\<rparr>"
    by (simp add: example_MOT_CUR_SENSOR_TYPE_section)
  from h obtain cs' where "MOT_CUR_SENSOR_TYPE_section example_env = Inr cs'"
    and d': "element_of (constants example_table) ''BswCfgCal_Rsv_RotDir'' HSG
             = Some (c_convert UINT16 (RESOLVER_DIRECTION example_ext HSG))"
    and i': "element_of (constants example_table) ''CcCal_DeadTimeComp_IcompZCC_INV1'' HSG
             = Some (c_convert FLOAT32 (c_mul (CUR_SENSOR_RANGE example_ext cs' HSG) (flt_lit 0.05)))"
    by blast
  then have cs': "cs' = \<lparr>CUR_SENSOR_RANGE_MOT = IntV 400\<rparr>"
    by (simp add: example_MOT_CUR_SENSOR_TYPE_section)
  have "element_of (constants example_table) ''BswCfgCal_Rsv_RotDir'' MOT = Some (IntV 1)"
    "element_of (constants example_table) ''BswCfgCal_Rsv_RotDir'' HSG = Some (IntV 2)"
    using d d' by (simp_all add: RESOLVER_DIRECTION_def example_ext_def)
  moreover
  have "element_of (constants example_table) ''CcCal_DeadTimeComp_IcompZCC_INV1'' MOT = Some (FltV 20)"
    using i unfolding cs rng IcompZCC_400 .
  moreover
  have "element_of (constants example_table) ''CcCal_DeadTimeComp_IcompZCC_INV1'' HSG = Some (FltV 25)"
    using i' unfolding cs' rng IcompZCC_500 .
  ultimately show ?thesis
    using r a by simp
qed

section \<open>Resolution is a function of the axes\<close>

text \<open>
  C3. Resolution is a function, so it has no effect but its result, and the same macro
  environment gives the same table. More is true: the result depends on nothing in the macro
  environment but the axes set for the build and the codes of the options they are compared
  with. Two environments that agree on these names resolve alike, to the same table in every
  constant or to the same error, whatever else they define.
\<close>

theorem resolve_is_a_function_of_the_axes:
  "agree_on config_macros env1 env2 \<Longrightarrow> resolve x env1 = resolve x env2"
  by (rule resolve_reads)

theorem resolve_is_a_function_of_the_axes_witness:
  "agree_on config_macros example_env (with_axis ''_HSG_CUR_SENSOR_TYPE'' 2)
   \<and> with_axis ''_HSG_CUR_SENSOR_TYPE'' 2 ''_HSG_CUR_SENSOR_TYPE'' = Some 2
   \<and> example_env ''_HSG_CUR_SENSOR_TYPE'' = None
   \<and> resolve example_ext example_env = Inr example_table
   \<and> resolve example_ext (with_axis ''_HSG_CUR_SENSOR_TYPE'' 2) = Inr example_table"
proof -
  have a: "agree_on config_macros example_env (with_axis ''_HSG_CUR_SENSOR_TYPE'' 2)"
    by (simp add: agree_on_def with_axis_def config_macros_def axes_def PROJECT_NAME_options_def
        PERFORMANCE_TYPE_options_def DEVELOPMENT_PHASE_options_def MARKET_VERSION_options_def
        GATE_IC_TYPE_options_def POWER_MODULE_TYPE_options_def MOT_CUR_SENSOR_TYPE_options_def
        ETPU_CALCULATION_TIME_OPTION_options_def PWM_UPDATETIME_AUTO_MODE_options_def
        SA_2STAGE_PWM_MODE_options_def SA_SQPWM_REGEN_DIS_options_def PWM_BURST_MODE_options_def
        VAR_DTGS_OPTION_options_def)
  have n: "example_env ''_HSG_CUR_SENSOR_TYPE'' = None"
    unfolding example_env_def map_of_append_case example_build_def example_common_h_def
    by (simp only: map_of_Nil map_of_Cons_if list.inject list.distinct char.inject simp_thms
        if_True if_False option.case cong: map_of_weak_cong if_weak_cong)
  have s: "with_axis ''_HSG_CUR_SENSOR_TYPE'' 2 ''_HSG_CUR_SENSOR_TYPE'' = Some 2"
    by (simp add: with_axis_def)
  show ?thesis
    using a n s example_resolves resolve_is_a_function_of_the_axes [OF a, of example_ext]
    by simp
qed

section \<open>Derived objects\<close>

text \<open>
  C4. The dead-time compensation is declared as \<^verbatim>\<open>(DEADTIME-100.f)*0.000000001f\<close>, a product
  of single precision: the constant \<^verbatim>\<open>0.000000001f\<close> is not \<open>10^-9\<close> and the product is
  rounded, so the object does not hold \<open>(d - 100) * 10^-9\<close>. In the example build the dead time
  of the first motor inverter is \<open>2000\<close> and the object holds \<open>130567 / 2^36\<close>, not
  \<open>1900 * 10^-9\<close>.
\<close>

theorem dead_time_comp_is_not_the_real_formula:
  "scalar_of (constants example_table) ''BswCfgCal_Pwm_MotDeadTime_INV1'' = Some (IntV 2000)
   \<and> element_of (constants example_table) ''CcCal_DeadTimeComp_TdeadComp_INV1'' MOT
       = Some (FltV (130567 / 2 ^ 36))
   \<and> 130567 / 2 ^ 36 \<noteq> spec_dead_time_comp 2000"
proof -
  from example_resolves obtain gic pm cs et au where
    pm: "POWER_MODULE_TYPE_section example_env = Inr pm"
    and p: "\<And>n v. scalar_of (BswCfgPwm_c example_ext gic pm et au) n = Some v
       \<Longrightarrow> scalar_of (constants example_table) n = Some v"
    and e: "\<And>n tg v. take 4 (drop 10 n) \<noteq> ''Pwm_'' \<Longrightarrow> take 4 (drop 10 n) \<noteq> ''Rdc_''
       \<Longrightarrow> n \<notin> set [''BswCfgCal_Rsv_DefaultOffset'', ''BswCfgCal_Rsv_RotDir'',
             ''TestCal_RSPWM_Enb'', ''TestCal_VnCtrl_Enb'', ''CcCal_SQPWM_Mode_Regen_Disable'']
       \<Longrightarrow> element_of (CcCalBase_c_part3 example_ext pm cs) n tg = Some v
       \<Longrightarrow> element_of (constants example_table) n tg = Some v"
    by (rule resolved_objects) (rule that, assumption+)
  have d: "INV1_DEADTIME pm MOT = IntV 2000"
    using pm by (auto simp: example_POWER_MODULE_TYPE_section INV1_DEADTIME_def)
  have "scalar_of (constants example_table) (DeadTime_INV1_name MOT) = Some (c_convert UINT32 (IntV 2000))"
    using p [OF BswCfgPwm_c_deadtimes(1), of MOT] unfolding d .
  then have 1: "scalar_of (constants example_table) ''BswCfgCal_Pwm_MotDeadTime_INV1'' = Some (IntV 2000)"
    by (simp add: DeadTime_INV1_name_def)
  have "element_of (CcCalBase_c_part3 example_ext pm cs) ''CcCal_DeadTimeComp_TdeadComp_INV1'' MOT
      = Some (FltV (130567 / 2 ^ 36))"
    unfolding CcCalBase_c_part3_elements(3) d TdeadComp_2000 by (rule refl)
  then have 2: "element_of (constants example_table) ''CcCal_DeadTimeComp_TdeadComp_INV1'' MOT
      = Some (FltV (130567 / 2 ^ 36))"
    by (rule e [rotated 3]) simp_all
  have 3: "130567 / 2 ^ 36 \<noteq> spec_dead_time_comp 2000"
    by (simp add: spec_dead_time_comp_def)
  from 1 2 3 show ?thesis by (intro conjI)
qed

text \<open>
  C4, as the code has it. In every build that resolves, every object whose initialiser is an
  expression holds the value of that expression in the arithmetic of C, at the values the
  build selected, converted to the type of the object: the dead-time compensations, the
  compensation currents and their reciprocals, the three scale factors, the two gain
  mantissas and \<^verbatim>\<open>L1\<close>, \<^verbatim>\<open>L2\<close>, \<^verbatim>\<open>L3\<close>. For every target and both inverters the dead time
  \<open>d\<close> is the one the power module group selected and \<^verbatim>\<open>BswCfgPwm.c\<close> stores, and the
  compensation is the single-precision value of \<^verbatim>\<open>(d-100.f)*0.000000001f\<close>: it differs from
  \<open>(d - 100) * 10^-9\<close>, by at most \<open>2^-23\<close> of it.
\<close>

theorem derived_objects_hold_their_rounded_formulas:
  assumes "resolve x env = Inr t"
  shows "\<exists>pm cs d1 d2 v1 v2.
      POWER_MODULE_TYPE_section env = Inr pm
    \<and> MOT_CUR_SENSOR_TYPE_section env = Inr cs
    \<and> INV1_DEADTIME pm tg = IntV d1
    \<and> INV2_DEADTIME pm tg = IntV d2
    \<and> scalar_of (constants t) (DeadTime_INV1_name tg) = Some (IntV d1)
    \<and> scalar_of (constants t) (DeadTime_INV2_name tg) = Some (IntV d2)
    \<and> c_convert FLOAT32 (c_mul (c_sub (IntV d1) (flt_lit 100)) (flt_lit 0.000000001)) = FltV v1
    \<and> c_convert FLOAT32 (c_mul (c_sub (IntV d2) (flt_lit 100)) (flt_lit 0.000000001)) = FltV v2
    \<and> element_of (constants t) ''CcCal_DeadTimeComp_TdeadComp_INV1'' tg = Some (FltV v1)
    \<and> element_of (constants t) ''CcCal_DeadTimeComp_TdeadComp_INV2'' tg = Some (FltV v2)
    \<and> \<bar>v1 - spec_dead_time_comp (of_int d1)\<bar> \<le> spec_dead_time_comp (of_int d1) / 2 ^ 23
    \<and> \<bar>v2 - spec_dead_time_comp (of_int d2)\<bar> \<le> spec_dead_time_comp (of_int d2) / 2 ^ 23
    \<and> v1 \<noteq> spec_dead_time_comp (of_int d1)
    \<and> v2 \<noteq> spec_dead_time_comp (of_int d2)
    \<and> element_of (constants t) ''CcCal_DeadTimeComp_IcompZCC_INV1'' tg
         = Some (c_convert FLOAT32 (c_mul (CUR_SENSOR_RANGE x cs tg) (flt_lit 0.05)))
    \<and> element_of (constants t) ''CcCal_DeadTimeComp_IcompZCC_INV2'' tg
         = Some (c_convert FLOAT32 (c_mul (CUR_SENSOR_RANGE x cs tg) (flt_lit 0.05)))
    \<and> element_of (constants t) ''CcCal_DeadTimeComp_INVIcompZCC_INV1'' tg
         = Some (c_convert FLOAT32 (c_div (flt_lit 1) (c_mul (CUR_SENSOR_RANGE x cs tg) (flt_lit 0.05))))
    \<and> element_of (constants t) ''CcCal_DeadTimeComp_INVIcompZCC_INV2'' tg
         = Some (c_convert FLOAT32 (c_div (flt_lit 1) (c_mul (CUR_SENSOR_RANGE x cs tg) (flt_lit 0.05))))
    \<and> element_of (constants t) ''CcCal_Cur_ScaleFactor'' tg
         = Some (c_convert FLOAT32 (c_mul (CUR_SENSOR_RANGE x cs tg) (dbl_lit 0.00061035)))
    \<and> element_of (constants t) ''CcCal_HvBatt_ScaleFactor'' tg
         = Some (c_convert FLOAT32 (c_mul (c_div (HVBATT_SENSOR_RANGE x) (HVBATT_SENSOR_RANGE_TYP x))
             (dbl_lit 0.0012207)))
    \<and> element_of (constants t) ''CcCal_LvAdToPhySclFct'' tg
         = Some (c_convert FLOAT32 (c_mul (c_div (c_sub (LVBATT_SENSOR_RANGE x)
             (LVBATT_SENSOR_RANGE_OFFSET x)) (LVBATT_SENSOR_RANGE_TYP x)) (dbl_lit 0.0012207)))
    \<and> element_of (constants t) ''CcCal_SWRDC_GainUpdate_K1D'' tg
         = Some (c_convert SIGNED_LONG (c_mul (dbl_lit 0.64339817) (IntV 8388608)))
    \<and> element_of (constants t) ''CcCal_SWRDC_GainUpdate_K2D'' tg
         = Some (c_convert SIGNED_LONG (c_mul (dbl_lit 0.99471843) (IntV 8388608)))
    \<and> scalar_of (constants t) ''L1''
         = Some (c_convert FLOAT32 (c_mul (flt_lit 3) (c_mul (c_mul (flt_lit 400) (PI x)) (flt_lit 0.3))))
    \<and> scalar_of (constants t) ''L2''
         = Some (c_convert FLOAT32 (c_mul (c_mul (flt_lit 3) (c_mul (c_mul (flt_lit 400) (PI x)) (flt_lit 0.3))) (c_mul (c_mul (flt_lit 400) (PI x)) (flt_lit 0.3))))
    \<and> scalar_of (constants t) ''L3''
         = Some (c_convert FLOAT32 (c_mul (c_mul (c_mul (c_mul (flt_lit 400) (PI x)) (flt_lit 0.3)) (c_mul (c_mul (flt_lit 400) (PI x)) (flt_lit 0.3))) (c_mul (c_mul (flt_lit 400) (PI x)) (flt_lit 0.3))))"
proof -
  from assms obtain gic pm cs et au where
    pm: "POWER_MODULE_TYPE_section env = Inr pm"
    and cs: "MOT_CUR_SENSOR_TYPE_section env = Inr cs"
    and p: "\<And>n v. scalar_of (BswCfgPwm_c x gic pm et au) n = Some v
       \<Longrightarrow> scalar_of (constants t) n = Some v"
    and e: "\<And>n tg v. take 4 (drop 10 n) \<noteq> ''Pwm_'' \<Longrightarrow> take 4 (drop 10 n) \<noteq> ''Rdc_''
       \<Longrightarrow> n \<notin> set [''BswCfgCal_Rsv_DefaultOffset'', ''BswCfgCal_Rsv_RotDir'',
             ''TestCal_RSPWM_Enb'', ''TestCal_VnCtrl_Enb'', ''CcCal_SQPWM_Mode_Regen_Disable'']
       \<Longrightarrow> element_of (CcCalBase_c_part3 x pm cs) n tg = Some v
       \<Longrightarrow> element_of (constants t) n tg = Some v"
    and s: "\<And>n v. take 4 (drop 10 n) \<noteq> ''Pwm_'' \<Longrightarrow> take 4 (drop 10 n) \<noteq> ''Rdc_''
       \<Longrightarrow> n \<notin> set [''BswCfgCal_Rsv_DefaultOffset'', ''BswCfgCal_Rsv_RotDir'',
             ''TestCal_RSPWM_Enb'', ''TestCal_VnCtrl_Enb'', ''CcCal_SQPWM_Mode_Regen_Disable'']
       \<Longrightarrow> scalar_of (CcCalBase_c_part3 x pm cs) n = Some v
       \<Longrightarrow> scalar_of (constants t) n = Some v"
    by (rule resolved_objects) (rule that, assumption+)
  from POWER_MODULE_deadtime_cases(1) [OF pm, of tg] obtain d1 where
    d1: "INV1_DEADTIME pm tg = IntV d1" "d1 \<in> {2000, 2200, 2500, 4000}"
    by (rule deadtime_of_cases)
  from POWER_MODULE_deadtime_cases(2) [OF pm, of tg] obtain d2 where
    d2: "INV2_DEADTIME pm tg = IntV d2" "d2 \<in> {2000, 2200, 2500, 4000}"
    by (rule deadtime_of_cases)
  from d1(2) obtain v1 where
    v1: "c_convert FLOAT32 (c_mul (c_sub (IntV d1) (flt_lit 100)) (flt_lit 0.000000001)) = FltV v1"
      "\<bar>v1 - spec_dead_time_comp (of_int d1)\<bar> \<le> spec_dead_time_comp (of_int d1) / 2 ^ 23"
      "v1 \<noteq> spec_dead_time_comp (of_int d1)"
    by (rule TdeadComp_cases)
  from d2(2) obtain v2 where
    v2: "c_convert FLOAT32 (c_mul (c_sub (IntV d2) (flt_lit 100)) (flt_lit 0.000000001)) = FltV v2"
      "\<bar>v2 - spec_dead_time_comp (of_int d2)\<bar> \<le> spec_dead_time_comp (of_int d2) / 2 ^ 23"
      "v2 \<noteq> spec_dead_time_comp (of_int d2)"
    by (rule TdeadComp_cases)
  have "scalar_of (constants t) (DeadTime_INV1_name tg) = Some (c_convert UINT32 (IntV d1))"
    using p [OF BswCfgPwm_c_deadtimes(1), of tg] unfolding d1(1) .
  then have s1: "scalar_of (constants t) (DeadTime_INV1_name tg) = Some (IntV d1)"
    using d1(2) by auto
  have "scalar_of (constants t) (DeadTime_INV2_name tg) = Some (c_convert UINT32 (IntV d2))"
    using p [OF BswCfgPwm_c_deadtimes(2), of tg] unfolding d2(1) .
  then have s2: "scalar_of (constants t) (DeadTime_INV2_name tg) = Some (IntV d2)"
    using d2(2) by auto
  have "element_of (CcCalBase_c_part3 x pm cs) ''CcCal_DeadTimeComp_TdeadComp_INV1'' tg = Some (FltV v1)"
    unfolding CcCalBase_c_part3_elements(3) d1(1) v1(1) by (rule refl)
  then have t1: "element_of (constants t) ''CcCal_DeadTimeComp_TdeadComp_INV1'' tg = Some (FltV v1)"
    by (rule e [rotated 3]) simp_all
  have "element_of (CcCalBase_c_part3 x pm cs) ''CcCal_DeadTimeComp_TdeadComp_INV2'' tg = Some (FltV v2)"
    unfolding CcCalBase_c_part3_elements(4) d2(1) v2(1) by (rule refl)
  then have t2: "element_of (constants t) ''CcCal_DeadTimeComp_TdeadComp_INV2'' tg = Some (FltV v2)"
    by (rule e [rotated 3]) simp_all
  have i1: "element_of (constants t) ''CcCal_DeadTimeComp_IcompZCC_INV1'' tg
         = Some (c_convert FLOAT32 (c_mul (CUR_SENSOR_RANGE x cs tg) (flt_lit 0.05)))"
    by (rule e [OF _ _ _ CcCalBase_c_part3_elements(5)]) simp_all
  have i2: "element_of (constants t) ''CcCal_DeadTimeComp_IcompZCC_INV2'' tg
         = Some (c_convert FLOAT32 (c_mul (CUR_SENSOR_RANGE x cs tg) (flt_lit 0.05)))"
    by (rule e [OF _ _ _ CcCalBase_c_part3_elements(6)]) simp_all
  have j1: "element_of (constants t) ''CcCal_DeadTimeComp_INVIcompZCC_INV1'' tg
         = Some (c_convert FLOAT32 (c_div (flt_lit 1) (c_mul (CUR_SENSOR_RANGE x cs tg) (flt_lit 0.05))))"
    by (rule e [OF _ _ _ CcCalBase_c_part3_elements(1)]) simp_all
  have j2: "element_of (constants t) ''CcCal_DeadTimeComp_INVIcompZCC_INV2'' tg
         = Some (c_convert FLOAT32 (c_div (flt_lit 1) (c_mul (CUR_SENSOR_RANGE x cs tg) (flt_lit 0.05))))"
    by (rule e [OF _ _ _ CcCalBase_c_part3_elements(2)]) simp_all
  have "CUR_SENSOR_SCALE x cs tg = c_mul (CUR_SENSOR_RANGE x cs tg) (dbl_lit 0.00061035)"
    unfolding CUR_SENSOR_SCALE_def CUR_SENSOR_RANGE_def CUR_SENSOR_SCALE_MOT_def
      CUR_SENSOR_SCALE_HSG_def
    by (cases tg) (simp_all only: target.case)
  then have "element_of (CcCalBase_c_part3 x pm cs) ''CcCal_Cur_ScaleFactor'' tg
         = Some (c_convert FLOAT32 (c_mul (CUR_SENSOR_RANGE x cs tg) (dbl_lit 0.00061035)))"
    unfolding CcCalBase_c_part3_elements(10) by (rule arg_cong)
  then have sf: "element_of (constants t) ''CcCal_Cur_ScaleFactor'' tg
         = Some (c_convert FLOAT32 (c_mul (CUR_SENSOR_RANGE x cs tg) (dbl_lit 0.00061035)))"
    by (rule e [rotated 3]) simp_all
  have hv: "element_of (constants t) ''CcCal_HvBatt_ScaleFactor'' tg
         = Some (c_convert FLOAT32 (c_mul (c_div (HVBATT_SENSOR_RANGE x) (HVBATT_SENSOR_RANGE_TYP x))
             (dbl_lit 0.0012207)))"
    by (rule e [OF _ _ _ CcCalBase_c_part3_elements(11) [unfolded HVBATT_SENSOR_SCALE_def]]) simp_all
  have lv: "element_of (constants t) ''CcCal_LvAdToPhySclFct'' tg
         = Some (c_convert FLOAT32 (c_mul (c_div (c_sub (LVBATT_SENSOR_RANGE x)
             (LVBATT_SENSOR_RANGE_OFFSET x)) (LVBATT_SENSOR_RANGE_TYP x)) (dbl_lit 0.0012207)))"
    by (rule e [OF _ _ _ CcCalBase_c_part3_elements(12) [unfolded LVBATT_SENSOR_SCALE_def]]) simp_all
  have k1: "element_of (constants t) ''CcCal_SWRDC_GainUpdate_K1D'' tg
         = Some (c_convert SIGNED_LONG (c_mul (dbl_lit 0.64339817) (IntV 8388608)))"
    by (rule e [OF _ _ _ CcCalBase_c_part3_elements(13)]) simp_all
  have k2: "element_of (constants t) ''CcCal_SWRDC_GainUpdate_K2D'' tg
         = Some (c_convert SIGNED_LONG (c_mul (dbl_lit 0.99471843) (IntV 8388608)))"
    by (rule e [OF _ _ _ CcCalBase_c_part3_elements(15)]) simp_all
  have l1: "scalar_of (constants t) ''L1''
         = Some (c_convert FLOAT32 (c_mul (flt_lit 3) (c_mul (c_mul (flt_lit 400) (PI x)) (flt_lit 0.3))))"
    by (rule s [OF _ _ _ CcCalBase_c_part3_scalars(1)]) simp_all
  have l2: "scalar_of (constants t) ''L2''
         = Some (c_convert FLOAT32 (c_mul (c_mul (flt_lit 3) (c_mul (c_mul (flt_lit 400) (PI x)) (flt_lit 0.3))) (c_mul (c_mul (flt_lit 400) (PI x)) (flt_lit 0.3))))"
    by (rule s [OF _ _ _ CcCalBase_c_part3_scalars(2)]) simp_all
  have l3: "scalar_of (constants t) ''L3''
         = Some (c_convert FLOAT32 (c_mul (c_mul (c_mul (c_mul (flt_lit 400) (PI x)) (flt_lit 0.3)) (c_mul (c_mul (flt_lit 400) (PI x)) (flt_lit 0.3))) (c_mul (c_mul (flt_lit 400) (PI x)) (flt_lit 0.3))))"
    by (rule s [OF _ _ _ CcCalBase_c_part3_scalars(3)]) simp_all
  show ?thesis
    by (intro exI [of _ pm] exI [of _ cs] exI [of _ d1] exI [of _ d2] exI [of _ v1] exI [of _ v2]
        conjI pm cs d1(1) d2(1) s1 s2 v1 v2 t1 t2 i1 i2 j1 j2 sf hv lv k1 k2 l1 l2 l3)
qed

theorem derived_objects_hold_their_rounded_formulas_witness:
  "resolve example_ext example_env = Inr example_table
   \<and> scalar_of (constants example_table) ''BswCfgCal_Pwm_MotDeadTime_INV2'' = Some (IntV 4000)
   \<and> element_of (constants example_table) ''CcCal_DeadTimeComp_TdeadComp_INV2'' MOT
       = Some (FltV (4288095 / 2 ^ 40))
   \<and> \<bar>4288095 / 2 ^ 40 - spec_dead_time_comp 4000\<bar> \<le> spec_dead_time_comp 4000 / 2 ^ 23"
proof -
  from derived_objects_hold_their_rounded_formulas [OF example_resolves, of MOT]
  obtain pm d2 v2 where
    pm: "POWER_MODULE_TYPE_section example_env = Inr pm"
    and d: "INV2_DEADTIME pm MOT = IntV d2"
    and s: "scalar_of (constants example_table) (DeadTime_INV2_name MOT) = Some (IntV d2)"
    and c: "c_convert FLOAT32 (c_mul (c_sub (IntV d2) (flt_lit 100)) (flt_lit 0.000000001)) = FltV v2"
    and t: "element_of (constants example_table) ''CcCal_DeadTimeComp_TdeadComp_INV2'' MOT = Some (FltV v2)"
    and b: "\<bar>v2 - spec_dead_time_comp (of_int d2)\<bar> \<le> spec_dead_time_comp (of_int d2) / 2 ^ 23"
    by blast
  have d2: "d2 = 4000"
    using pm d by (auto simp: example_POWER_MODULE_TYPE_section INV2_DEADTIME_def)
  have v2: "v2 = 4288095 / 2 ^ 40"
    using c unfolding d2 TdeadComp_4000 by simp
  show ?thesis
    using example_resolves s t b unfolding d2 v2 by (simp add: DeadTime_INV2_name_def)
qed

section \<open>The gain mantissas\<close>

text \<open>
  C5. The gains of \<^verbatim>\<open>CcCal_SWRDC_GainUpdate_K1D\<close> and \<^verbatim>\<open>CcCal_SWRDC_GainUpdate_K2D\<close> are stored
  as the literal times \<^verbatim>\<open>0x800000\<close>, truncated to \<^verbatim>\<open>signed long\<close>: the exponent of the
  mantissa is 23 for both, and it is not the object \<^verbatim>\<open>K1SCALE\<close> (7) or \<^verbatim>\<open>K2SCALE\<close> (4) that
  is declared next to it. In the example build the mantissa of \<open>0.64339817\<close> is \<open>5397215\<close>, and
  decoded with the scale 7 it is more than 42165, not the gain.
\<close>

theorem gain_mantissa_decoded_with_its_scale:
  "element_of (constants example_table) ''CcCal_SWRDC_GainUpdate_K1D'' MOT = Some (IntV 5397215)
   \<and> element_of (constants example_table) ''CcCal_SWRDC_GainUpdate_K1SCALE'' MOT = Some (IntV 7)
   \<and> 42165 < spec_decode 5397215 7
   \<and> 1 < \<bar>spec_decode 5397215 7 - 0.64339817\<bar>"
proof -
  from example_resolves obtain pm cs where
    e: "\<And>n tg v. take 4 (drop 10 n) \<noteq> ''Pwm_'' \<Longrightarrow> take 4 (drop 10 n) \<noteq> ''Rdc_''
       \<Longrightarrow> n \<notin> set [''BswCfgCal_Rsv_DefaultOffset'', ''BswCfgCal_Rsv_RotDir'',
             ''TestCal_RSPWM_Enb'', ''TestCal_VnCtrl_Enb'', ''CcCal_SQPWM_Mode_Regen_Disable'']
       \<Longrightarrow> element_of (CcCalBase_c_part3 example_ext pm cs) n tg = Some v
       \<Longrightarrow> element_of (constants example_table) n tg = Some v"
    by (rule resolved_objects) (rule that, assumption+)
  have "element_of (constants example_table) ''CcCal_SWRDC_GainUpdate_K1D'' MOT = Some (IntV 5397215)"
    using e [OF _ _ _ CcCalBase_c_part3_elements(13) [unfolded mantissa_K1], of MOT]
    by simp
  moreover
  have "element_of (constants example_table) ''CcCal_SWRDC_GainUpdate_K1SCALE'' MOT = Some (IntV 7)"
    using e [OF _ _ _ CcCalBase_c_part3_elements(14), of MOT] by simp
  moreover have "42165 < spec_decode 5397215 7" "1 < \<bar>spec_decode 5397215 7 - 0.64339817\<bar>"
    by (simp_all add: spec_decode_def)
  ultimately show ?thesis
    by simp
qed

text \<open>
  C5, as the code has it. In every build that resolves and for every target, the mantissas are
  \<open>5397215\<close> and \<open>8344302\<close>; decoded with the exponent 23 of their declaration they are below
  the gain by less than \<open>2^-23\<close>, one unit of the mantissa. The scales 7 and 4 are objects of
  their own. The gains of the resolver configuration (\<^verbatim>\<open>BswCfgRdc.c\<close>) are stored as
  \<^verbatim>\<open>FLOAT32\<close> next to their scales 6 and 5, with no mantissa: \<open>0.5605666\<close> and \<open>0.7535489\<close>
  rounded to single precision.
\<close>

theorem gain_mantissas_decode_with_exponent_23:
  assumes "resolve x env = Inr t"
  shows "element_of (constants t) ''CcCal_SWRDC_GainUpdate_K1D'' tg = Some (IntV 5397215)
    \<and> element_of (constants t) ''CcCal_SWRDC_GainUpdate_K2D'' tg = Some (IntV 8344302)
    \<and> 0 \<le> 0.64339817 - spec_decode 5397215 23
    \<and> 0.64339817 - spec_decode 5397215 23 < 1 / 2 ^ 23
    \<and> 0 \<le> 0.99471843 - spec_decode 8344302 23
    \<and> 0.99471843 - spec_decode 8344302 23 < 1 / 2 ^ 23
    \<and> element_of (constants t) ''CcCal_SWRDC_GainUpdate_K1SCALE'' tg = Some (IntV 7)
    \<and> element_of (constants t) ''CcCal_SWRDC_GainUpdate_K2SCALE'' tg = Some (IntV 4)
    \<and> scalar_of (constants t) ''BswCfgCal_Rdc_MotK1'' = Some (FltV (9404747 / 2 ^ 24))
    \<and> scalar_of (constants t) ''BswCfgCal_Rdc_MotK2'' = Some (FltV (12642453 / 2 ^ 24))
    \<and> scalar_of (constants t) ''BswCfgCal_Rdc_MotK1Scale'' = Some (IntV 6)
    \<and> scalar_of (constants t) ''BswCfgCal_Rdc_MotK2Scale'' = Some (IntV 5)
    \<and> scalar_of (constants t) ''BswCfgCal_Rdc_HsgK1'' = Some (FltV (9404747 / 2 ^ 24))
    \<and> scalar_of (constants t) ''BswCfgCal_Rdc_HsgK2'' = Some (FltV (12642453 / 2 ^ 24))
    \<and> scalar_of (constants t) ''BswCfgCal_Rdc_HsgK1Scale'' = Some (IntV 6)
    \<and> scalar_of (constants t) ''BswCfgCal_Rdc_HsgK2Scale'' = Some (IntV 5)
    \<and> \<bar>9404747 / 2 ^ 24 - 0.5605666\<bar> \<le> (1::real) / 2 ^ 25
    \<and> \<bar>12642453 / 2 ^ 24 - 0.7535489\<bar> \<le> (1::real) / 2 ^ 25"
proof -
  from assms obtain pm cs where
    r: "\<And>n v. take 4 (drop 10 n) \<noteq> ''Pwm_'' \<Longrightarrow> scalar_of (BswCfgRdc_c x) n = Some v
       \<Longrightarrow> scalar_of (constants t) n = Some v"
    and e: "\<And>n tg v. take 4 (drop 10 n) \<noteq> ''Pwm_'' \<Longrightarrow> take 4 (drop 10 n) \<noteq> ''Rdc_''
       \<Longrightarrow> n \<notin> set [''BswCfgCal_Rsv_DefaultOffset'', ''BswCfgCal_Rsv_RotDir'',
             ''TestCal_RSPWM_Enb'', ''TestCal_VnCtrl_Enb'', ''CcCal_SQPWM_Mode_Regen_Disable'']
       \<Longrightarrow> element_of (CcCalBase_c_part3 x pm cs) n tg = Some v
       \<Longrightarrow> element_of (constants t) n tg = Some v"
    by (rule resolved_objects) (rule that, assumption+)
  have k: "element_of (constants t) ''CcCal_SWRDC_GainUpdate_K1D'' tg = Some (IntV 5397215)"
    "element_of (constants t) ''CcCal_SWRDC_GainUpdate_K2D'' tg = Some (IntV 8344302)"
    using e [OF _ _ _ CcCalBase_c_part3_elements(13) [unfolded mantissa_K1], of tg]
      e [OF _ _ _ CcCalBase_c_part3_elements(15) [unfolded mantissa_K2], of tg]
    by simp_all
  have s: "element_of (constants t) ''CcCal_SWRDC_GainUpdate_K1SCALE'' tg = Some (IntV 7)"
    "element_of (constants t) ''CcCal_SWRDC_GainUpdate_K2SCALE'' tg = Some (IntV 4)"
    using e [OF _ _ _ CcCalBase_c_part3_elements(14), of tg]
      e [OF _ _ _ CcCalBase_c_part3_elements(16), of tg]
    by simp_all
  have d: "0 \<le> 0.64339817 - spec_decode 5397215 23"
    "0.64339817 - spec_decode 5397215 23 < 1 / 2 ^ 23"
    "0 \<le> 0.99471843 - spec_decode 8344302 23"
    "0.99471843 - spec_decode 8344302 23 < 1 / 2 ^ 23"
    by (simp_all add: spec_decode_def)
  have g: "scalar_of (constants t) ''BswCfgCal_Rdc_MotK1'' = Some (FltV (9404747 / 2 ^ 24))"
    "scalar_of (constants t) ''BswCfgCal_Rdc_MotK2'' = Some (FltV (12642453 / 2 ^ 24))"
    "scalar_of (constants t) ''BswCfgCal_Rdc_MotK1Scale'' = Some (IntV 6)"
    "scalar_of (constants t) ''BswCfgCal_Rdc_MotK2Scale'' = Some (IntV 5)"
    "scalar_of (constants t) ''BswCfgCal_Rdc_HsgK1'' = Some (FltV (9404747 / 2 ^ 24))"
    "scalar_of (constants t) ''BswCfgCal_Rdc_HsgK2'' = Some (FltV (12642453 / 2 ^ 24))"
    "scalar_of (constants t) ''BswCfgCal_Rdc_HsgK1Scale'' = Some (IntV 6)"
    "scalar_of (constants t) ''BswCfgCal_Rdc_HsgK2Scale'' = Some (IntV 5)"
    using r [OF _ BswCfgRdc_c_scalars(1)] r [OF _ BswCfgRdc_c_scalars(2)]
      r [OF _ BswCfgRdc_c_scalars(3)] r [OF _ BswCfgRdc_c_scalars(4)]
      r [OF _ BswCfgRdc_c_scalars(5)] r [OF _ BswCfgRdc_c_scalars(6)]
      r [OF _ BswCfgRdc_c_scalars(7)] r [OF _ BswCfgRdc_c_scalars(8)]
    unfolding BSWCFGRDC_MOT_K1_D_def BSWCFGRDC_MOT_K2_D_def BSWCFGRDC_MOT_K1_SCALE_def
        BSWCFGRDC_MOT_K2_SCALE_def BSWCFGRDC_HSG_K1_D_def BSWCFGRDC_HSG_K2_D_def
        BSWCFGRDC_HSG_K1_SCALE_def BSWCFGRDC_HSG_K2_SCALE_def stored_K1 stored_K2
    by simp_all
  have n: "\<bar>9404747 / 2 ^ 24 - 0.5605666\<bar> \<le> (1::real) / 2 ^ 25"
    "\<bar>12642453 / 2 ^ 24 - 0.7535489\<bar> \<le> (1::real) / 2 ^ 25"
    by simp_all
  from k s d g n show ?thesis
    by (intro conjI)
qed

theorem gain_mantissas_decode_with_exponent_23_witness:
  "resolve example_ext example_env = Inr example_table
   \<and> element_of (constants example_table) ''CcCal_SWRDC_GainUpdate_K2D'' HSG = Some (IntV 8344302)
   \<and> element_of (constants example_table) ''CcCal_SWRDC_GainUpdate_K2SCALE'' HSG = Some (IntV 4)
   \<and> 0.99471843 - spec_decode 8344302 23 < 1 / 2 ^ 23"
  using gain_mantissas_decode_with_exponent_23 [OF example_resolves, of HSG] example_resolves
  by simp

section \<open>The power module axis left undefined\<close>

text \<open>
  C6. The build gives the power module axis no value (the macro is not defined, and is read
  as 0) or gives it the code of \<^verbatim>\<open>_UNDEFINED_OPTION\<close>. What \<^verbatim>\<open>common.h\<close> must provide for the
  first case is stated as a hypothesis: the sentinel is 0, or no power module option has the
  code 0. Then the power module group ends in one of its two \<^verbatim>\<open>#error\<close>s, both naming the
  axis, and resolution returns an error and no table, so no dead-time constant is bound.
  Where the headers before \<^verbatim>\<open>SpInvCal.h\<close>'s power module group succeed, that error is the
  result of resolution.
\<close>

theorem power_module_axis_undefined:
  assumes "env ''_POWER_MODULE_TYPE'' = None
           \<or> pp env ''_POWER_MODULE_TYPE'' = pp env ''_UNDEFINED_OPTION''"
    and "pp env ''_UNDEFINED_OPTION'' = 0
         \<or> list_all (\<lambda>opt. pp env opt \<noteq> 0) (tl POWER_MODULE_TYPE_options)"
  shows "(\<exists>e \<in> {PpError ''undefined POWER_MODULE_TYPE MACRO (check #define!!)'',
                PpError ''undefined _POWER_MODULE_TYPE MACRO''}.
            POWER_MODULE_TYPE_section env = Inl e
            \<and> (\<forall>x. isl (resolve x env))
            \<and> (\<forall>x. \<not> isl (CcCalPrjCfg_h env) \<and> \<not> isl (GATE_IC_TYPE_section env)
                  \<longrightarrow> resolve x env = Inl e))
     \<and> (pp env ''_POWER_MODULE_TYPE'' = pp env ''_UNDEFINED_OPTION'' \<longrightarrow>
           POWER_MODULE_TYPE_section env
             = Inl (PpError ''undefined POWER_MODULE_TYPE MACRO (check #define!!)''))"
proof -
  let ?e1 = "PpError ''undefined POWER_MODULE_TYPE MACRO (check #define!!)''"
  let ?e2 = "PpError ''undefined _POWER_MODULE_TYPE MACRO''"
  have first: "POWER_MODULE_TYPE_section env = Inl ?e1"
    if "pp env ''_POWER_MODULE_TYPE'' = pp env ''_UNDEFINED_OPTION''"
    using that by (simp add: POWER_MODULE_TYPE_section_def)
  have res: "(\<forall>x. isl (resolve x env))
      \<and> (\<forall>x. \<not> isl (CcCalPrjCfg_h env) \<and> \<not> isl (GATE_IC_TYPE_section env)
                  \<longrightarrow> resolve x env = Inl e)"
    if "POWER_MODULE_TYPE_section env = Inl e" for e
    using that by (auto simp: resolve_def split: sum.splits)
  have "pp env ''_POWER_MODULE_TYPE'' = pp env ''_UNDEFINED_OPTION''
        \<or> unmatched env ''_POWER_MODULE_TYPE'' POWER_MODULE_TYPE_options"
    using assms by (auto simp: pp_def unmatched_def POWER_MODULE_TYPE_options_def)
  then have "POWER_MODULE_TYPE_section env = Inl ?e1 \<or> POWER_MODULE_TYPE_section env = Inl ?e2"
    using first POWER_MODULE_TYPE_section_unmatched [of env] by blast
  then have "\<exists>e \<in> {?e1, ?e2}. POWER_MODULE_TYPE_section env = Inl e
            \<and> (\<forall>x. isl (resolve x env))
            \<and> (\<forall>x. \<not> isl (CcCalPrjCfg_h env) \<and> \<not> isl (GATE_IC_TYPE_section env)
                  \<longrightarrow> resolve x env = Inl e)"
  proof
    assume a: "POWER_MODULE_TYPE_section env = Inl ?e1"
    show ?thesis
      by (rule bexI [of _ ?e1]) (use a res [OF a] in simp_all)
  next
    assume a: "POWER_MODULE_TYPE_section env = Inl ?e2"
    show ?thesis
      by (rule bexI [of _ ?e2]) (use a res [OF a] in simp_all)
  qed
  with first show ?thesis
    by (intro conjI impI)
qed

theorem power_module_axis_undefined_witness:
  "without_axis ''_POWER_MODULE_TYPE'' ''_POWER_MODULE_TYPE'' = None
   \<and> resolve example_ext (without_axis ''_POWER_MODULE_TYPE'')
       = Inl (PpError ''undefined POWER_MODULE_TYPE MACRO (check #define!!)'')
   \<and> pp (with_axis ''_POWER_MODULE_TYPE'' 0) ''_POWER_MODULE_TYPE''
       = pp (with_axis ''_POWER_MODULE_TYPE'' 0) ''_UNDEFINED_OPTION''
   \<and> resolve example_ext (with_axis ''_POWER_MODULE_TYPE'' 0)
       = Inl (PpError ''undefined POWER_MODULE_TYPE MACRO (check #define!!)'')"
proof -
  have a1: "without_axis ''_POWER_MODULE_TYPE'' ''_POWER_MODULE_TYPE'' = None"
    by (simp add: without_axis_def)
  have a2: "pp (without_axis ''_POWER_MODULE_TYPE'') ''_UNDEFINED_OPTION'' = 0"
    by (simp add: pp_without_axis example_env_pp)
  have a3: "pp (without_axis ''_POWER_MODULE_TYPE'') ''_POWER_MODULE_TYPE''
       = pp (without_axis ''_POWER_MODULE_TYPE'') ''_UNDEFINED_OPTION''"
    by (simp add: pp_without_axis example_env_pp)
  have b1: "pp (with_axis ''_POWER_MODULE_TYPE'' 0) ''_POWER_MODULE_TYPE''
       = pp (with_axis ''_POWER_MODULE_TYPE'' 0) ''_UNDEFINED_OPTION''"
    by (simp add: pp_with_axis example_env_pp)
  have b2: "pp (with_axis ''_POWER_MODULE_TYPE'' 0) ''_UNDEFINED_OPTION'' = 0"
    by (simp add: pp_with_axis example_env_pp)
  have ok: "\<not> isl (CcCalPrjCfg_h (without_axis ''_POWER_MODULE_TYPE''))"
    "\<not> isl (GATE_IC_TYPE_section (without_axis ''_POWER_MODULE_TYPE''))"
    "\<not> isl (CcCalPrjCfg_h (with_axis ''_POWER_MODULE_TYPE'' 0))"
    "\<not> isl (GATE_IC_TYPE_section (with_axis ''_POWER_MODULE_TYPE'' 0))"
    by (subst CcCalPrjCfg_h_without_axis CcCalPrjCfg_h_with_axis sections_without_axis
          sections_with_axis;
        simp add: example_CcCalPrjCfg_h example_GATE_IC_TYPE_section GATE_IC_TYPE_options_def
          MARKET_VERSION_options_def DEVELOPMENT_PHASE_options_def PERFORMANCE_TYPE_options_def
          PROJECT_NAME_options_def)+
  note w1 = power_module_axis_undefined [of "without_axis ''_POWER_MODULE_TYPE''",
      OF disjI1 [OF a1] disjI1 [OF a2]]
  note w2 = power_module_axis_undefined [of "with_axis ''_POWER_MODULE_TYPE'' 0",
      OF disjI2 [OF b1] disjI1 [OF b2]]
  have r1: "resolve example_ext (without_axis ''_POWER_MODULE_TYPE'')
       = Inl (PpError ''undefined POWER_MODULE_TYPE MACRO (check #define!!)'')"
    using w1 a3 ok(1,2) by auto
  have r2: "resolve example_ext (with_axis ''_POWER_MODULE_TYPE'' 0)
       = Inl (PpError ''undefined POWER_MODULE_TYPE MACRO (check #define!!)'')"
    using w2 b1 ok(3,4) by auto
  show ?thesis
    using a1 r1 b1 r2 by (intro conjI)
qed

section \<open>The gate IC axis\<close>

text \<open>
  C7. When the build selects gate IC type 7 (the axis has the code of \<^verbatim>\<open>_GATE_IC_TYPE_7\<close>,
  and no guard before that one has the same code), the gate IC group defines the literals
  of that branch, and every table resolved for the build binds them: minimum pulse width
  300 ns for both inverters of the motor and of the HSG, edge offset 390 ns for both targets.
\<close>

theorem gate_ic_type_7_literals:
  assumes "pp env ''_GATE_IC_TYPE'' = pp env ''_GATE_IC_TYPE_7''"
    and "pp env ''_GATE_IC_TYPE_7'' \<notin> pp env ` {''_UNDEFINED_OPTION'', ''_GATE_IC_TYPE_1'',
           ''_GATE_IC_TYPE_2'', ''_GATE_IC_TYPE_3'', ''_GATE_IC_TYPE_4'', ''_GATE_IC_TYPE_5'',
           ''_GATE_IC_TYPE_6''}"
  shows "GATE_IC_TYPE_section env = Inr
           \<lparr>BSWCFGPWM_MOT_INV1_MIN_WIDTH = IntV 300,
            BSWCFGPWM_MOT_INV2_MIN_WIDTH = IntV 300,
            BSWCFGPWM_MOT_ASAC_EDGE_OFFSET = IntV 390,
            BSWCFGPWM_HSG_INV1_MIN_WIDTH = IntV 300,
            BSWCFGPWM_HSG_INV2_MIN_WIDTH = IntV 300,
            BSWCFGPWM_HSG_ASAC_EDGE_OFFSET = IntV 390\<rparr>
       \<and> (\<forall>x t. resolve x env = Inr t \<longrightarrow>
             scalar_of (constants t) ''BswCfgCal_Pwm_MotMinPulseWidth_INV1'' = Some (IntV 300)
           \<and> scalar_of (constants t) ''BswCfgCal_Pwm_MotMinPulseWidth_INV2'' = Some (IntV 300)
           \<and> scalar_of (constants t) ''BswCfgCal_Pwm_HsgMinPulseWidth_INV1'' = Some (IntV 300)
           \<and> scalar_of (constants t) ''BswCfgCal_Pwm_HsgMinPulseWidth_INV2'' = Some (IntV 300)
           \<and> scalar_of (constants t) ''BswCfgCal_Pwm_MotAsacEdgeOffset'' = Some (IntV 390)
           \<and> scalar_of (constants t) ''BswCfgCal_Pwm_HsgAsacEdgeOffset'' = Some (IntV 390))"
proof -
  have sec: "GATE_IC_TYPE_section env = Inr
           \<lparr>BSWCFGPWM_MOT_INV1_MIN_WIDTH = IntV 300,
            BSWCFGPWM_MOT_INV2_MIN_WIDTH = IntV 300,
            BSWCFGPWM_MOT_ASAC_EDGE_OFFSET = IntV 390,
            BSWCFGPWM_HSG_INV1_MIN_WIDTH = IntV 300,
            BSWCFGPWM_HSG_INV2_MIN_WIDTH = IntV 300,
            BSWCFGPWM_HSG_ASAC_EDGE_OFFSET = IntV 390\<rparr>"
    using assms by (simp add: GATE_IC_TYPE_section_def)
  moreover have "scalar_of (constants t) ''BswCfgCal_Pwm_MotMinPulseWidth_INV1'' = Some (IntV 300)
           \<and> scalar_of (constants t) ''BswCfgCal_Pwm_MotMinPulseWidth_INV2'' = Some (IntV 300)
           \<and> scalar_of (constants t) ''BswCfgCal_Pwm_HsgMinPulseWidth_INV1'' = Some (IntV 300)
           \<and> scalar_of (constants t) ''BswCfgCal_Pwm_HsgMinPulseWidth_INV2'' = Some (IntV 300)
           \<and> scalar_of (constants t) ''BswCfgCal_Pwm_MotAsacEdgeOffset'' = Some (IntV 390)
           \<and> scalar_of (constants t) ''BswCfgCal_Pwm_HsgAsacEdgeOffset'' = Some (IntV 390)"
    if "resolve x env = Inr t" for x t
  proof -
    from that obtain prj gic pm cs et au s1 s2 rest where
      gic: "GATE_IC_TYPE_section env = Inr gic"
      and t: "constants t = BswCfgPwm_c x gic pm et au @ BswCfgRdc_c x @ CcCalBase_c_part1 x @ s1
        @ CcCalBase_c_part2 x @ s2 @ CcCalBase_c_part3 x pm cs @ rest"
      by (rule resolved_table)
    from gic sec have g: "gic = \<lparr>BSWCFGPWM_MOT_INV1_MIN_WIDTH = IntV 300,
            BSWCFGPWM_MOT_INV2_MIN_WIDTH = IntV 300,
            BSWCFGPWM_MOT_ASAC_EDGE_OFFSET = IntV 390,
            BSWCFGPWM_HSG_INV1_MIN_WIDTH = IntV 300,
            BSWCFGPWM_HSG_INV2_MIN_WIDTH = IntV 300,
            BSWCFGPWM_HSG_ASAC_EDGE_OFFSET = IntV 390\<rparr>"
      by simp
    show ?thesis
      using BswCfgPwm_c_scalars(1-6) [of x gic pm et au, THEN scalar_in_BswCfgPwm_c [OF t]]
      by (simp add: g)
  qed
  ultimately show ?thesis by blast
qed

theorem gate_ic_type_7_literals_witness:
  "pp example_env ''_GATE_IC_TYPE'' = pp example_env ''_GATE_IC_TYPE_7''
   \<and> resolve example_ext example_env = Inr example_table
   \<and> scalar_of (constants example_table) ''BswCfgCal_Pwm_MotMinPulseWidth_INV1'' = Some (IntV 300)
   \<and> scalar_of (constants example_table) ''BswCfgCal_Pwm_MotMinPulseWidth_INV2'' = Some (IntV 300)
   \<and> scalar_of (constants example_table) ''BswCfgCal_Pwm_HsgMinPulseWidth_INV1'' = Some (IntV 300)
   \<and> scalar_of (constants example_table) ''BswCfgCal_Pwm_HsgMinPulseWidth_INV2'' = Some (IntV 300)
   \<and> scalar_of (constants example_table) ''BswCfgCal_Pwm_MotAsacEdgeOffset'' = Some (IntV 390)
   \<and> scalar_of (constants example_table) ''BswCfgCal_Pwm_HsgAsacEdgeOffset'' = Some (IntV 390)"
proof -
  have 1: "pp example_env ''_GATE_IC_TYPE'' = pp example_env ''_GATE_IC_TYPE_7''"
    by (simp add: example_env_pp)
  have 2: "pp example_env ''_GATE_IC_TYPE_7'' \<notin> pp example_env ` {''_UNDEFINED_OPTION'',
           ''_GATE_IC_TYPE_1'', ''_GATE_IC_TYPE_2'', ''_GATE_IC_TYPE_3'', ''_GATE_IC_TYPE_4'',
           ''_GATE_IC_TYPE_5'', ''_GATE_IC_TYPE_6''}"
    by (simp add: example_env_pp)
  show ?thesis
    using gate_ic_type_7_literals [OF 1 2] example_resolves 1 by blast
qed

section \<open>The current scale of a 400 A sensor\<close>

text \<open>
  C8. When the motor current sensor group selects a range of 400 (the branches
  \<^verbatim>\<open>_MOT_400A_SCALE_HALL\<close> and \<^verbatim>\<open>_MOT_400A_SCALE_SHUNT_TYPE1\<close> define it as the integer
  constant \<^verbatim>\<open>400\<close>), the macro \<^verbatim>\<open>CUR_SENSOR_SCALE_MOT\<close> is \<^verbatim>\<open>400*0.00061035\<close>, a product in
  \<^verbatim>\<open>double\<close>, and the motor element of \<^verbatim>\<open>CcCal_Cur_ScaleFactor\<close> is that product rounded to
  \<^verbatim>\<open>FLOAT32\<close>: \<open>8191979 / 2^25\<close>, which is \<open>0.24414\<close> within half a unit in the last place of
  a \<^verbatim>\<open>FLOAT32\<close> of that magnitude (\<open>2^-27\<close>).
\<close>

theorem current_scale_of_400A_range:
  assumes "resolve x env = Inr t"
    and "MOT_CUR_SENSOR_TYPE_section env = Inr cs"
    and "real_of_cval (CUR_SENSOR_RANGE_MOT cs) = 400"
  shows "CUR_SENSOR_SCALE_MOT cs = c_mul (IntV 400) (dbl_lit 0.00061035)
     \<and> element_of (constants t) ''CcCal_Cur_ScaleFactor'' MOT = Some (FltV (8191979 / 2 ^ 25))
     \<and> \<bar>8191979 / 2 ^ 25 - spec_current_sensor_scale 400\<bar> \<le> 1 / 2 ^ 27
     \<and> spec_current_sensor_scale 400 = 0.24414"
proof -
  from assms(1) obtain pm cs' where
    cs': "MOT_CUR_SENSOR_TYPE_section env = Inr cs'"
    and e: "\<And>n tg v. take 4 (drop 10 n) \<noteq> ''Pwm_'' \<Longrightarrow> take 4 (drop 10 n) \<noteq> ''Rdc_''
       \<Longrightarrow> n \<notin> set [''BswCfgCal_Rsv_DefaultOffset'', ''BswCfgCal_Rsv_RotDir'',
             ''TestCal_RSPWM_Enb'', ''TestCal_VnCtrl_Enb'', ''CcCal_SQPWM_Mode_Regen_Disable'']
       \<Longrightarrow> element_of (CcCalBase_c_part3 x pm cs') n tg = Some v
       \<Longrightarrow> element_of (constants t) n tg = Some v"
    by (rule resolved_objects) (rule that, assumption+)
  from cs' assms(2) have c: "cs' = cs" by simp
  have r: "CUR_SENSOR_RANGE_MOT cs = IntV 400"
    using assms(2,3) by (rule MOT_CUR_SENSOR_range_400)
  have s: "CUR_SENSOR_SCALE_MOT cs = c_mul (IntV 400) (dbl_lit 0.00061035)"
    unfolding CUR_SENSOR_SCALE_MOT_def r by (rule refl)
  have sc: "CUR_SENSOR_SCALE x cs MOT = c_mul (IntV 400) (dbl_lit 0.00061035)"
    unfolding CUR_SENSOR_SCALE_def target.case s by (rule refl)
  have "element_of (CcCalBase_c_part3 x pm cs') ''CcCal_Cur_ScaleFactor'' MOT
      = Some (FltV (8191979 / 2 ^ 25))"
    unfolding CcCalBase_c_part3_elements(10) c sc ScaleFactor_400 by (rule refl)
  then have v: "element_of (constants t) ''CcCal_Cur_ScaleFactor'' MOT = Some (FltV (8191979 / 2 ^ 25))"
    by (rule e [rotated 3]) simp_all
  have "\<bar>8191979 / 2 ^ 25 - spec_current_sensor_scale 400\<bar> \<le> 1 / 2 ^ 27"
    "spec_current_sensor_scale 400 = 0.24414"
    by (simp_all add: spec_current_sensor_scale_def)
  with s v show ?thesis by (intro conjI)
qed

theorem current_scale_of_400A_range_witness:
  "resolve example_ext example_env = Inr example_table
   \<and> pp example_env ''_MOT_CUR_SENSOR_TYPE'' = pp example_env ''_MOT_400A_SCALE_HALL''
   \<and> MOT_CUR_SENSOR_TYPE_section example_env = Inr \<lparr>CUR_SENSOR_RANGE_MOT = IntV 400\<rparr>
   \<and> element_of (constants example_table) ''CcCal_Cur_ScaleFactor'' MOT
       = Some (FltV (8191979 / 2 ^ 25))"
proof -
  have "real_of_cval (CUR_SENSOR_RANGE_MOT \<lparr>CUR_SENSOR_RANGE_MOT = IntV 400\<rparr>) = 400"
    by simp
  from current_scale_of_400A_range [OF example_resolves example_MOT_CUR_SENSOR_TYPE_section this]
  have "element_of (constants example_table) ''CcCal_Cur_ScaleFactor'' MOT
       = Some (FltV (8191979 / 2 ^ 25))"
    by (rule conjunct2 [THEN conjunct1])
  then show ?thesis
    using example_resolves example_MOT_CUR_SENSOR_TYPE_section by (simp add: example_env_pp)
qed

section \<open>The resolver configuration (\<^verbatim>\<open>BswCfgRdc.c\<close>)\<close>

text \<open>
  C9. No comment of the sources says how the uni-trigger start offset is obtained. For both
  targets the constants bound by \<^verbatim>\<open>BswCfgRdc.c\<close> satisfy
  \<open>UnitrigStartOffset = 500 * Period + StartOffset\<close>: for the motor \<open>33005 = 500 * 66 + 5\<close>,
  for the HSG \<open>33030 = 500 * 66 + 30\<close>. The period and the uni-trigger start offset are
  \<^verbatim>\<open>UINT32\<close> objects, the start offset is a \<^verbatim>\<open>FLOAT32\<close> object (5 and 30 are
  values of single precision).
\<close>

theorem unitrig_start_offset_derivation:
  "scalar_of (BswCfgRdc_c x) ''BswCfgCal_Rdc_MotUnitrigStartOffset'' = Some (IntV 33005)
   \<and> scalar_of (BswCfgRdc_c x) ''BswCfgCal_Rdc_MotPeriod'' = Some (IntV 66)
   \<and> scalar_of (BswCfgRdc_c x) ''BswCfgCal_Rdc_MotStartOffset'' = Some (FltV 5)
   \<and> real_of_cval (IntV 33005) = 500 * real_of_cval (IntV 66) + real_of_cval (FltV 5)
   \<and> scalar_of (BswCfgRdc_c x) ''BswCfgCal_Rdc_HsgUnitrigStartOffset'' = Some (IntV 33030)
   \<and> scalar_of (BswCfgRdc_c x) ''BswCfgCal_Rdc_HsgPeriod'' = Some (IntV 66)
   \<and> scalar_of (BswCfgRdc_c x) ''BswCfgCal_Rdc_HsgStartOffset'' = Some (FltV 30)
   \<and> real_of_cval (IntV 33030) = 500 * real_of_cval (IntV 66) + real_of_cval (FltV 30)"
  unfolding scalar_of_def BswCfgRdc_c_def
      BSWCFGRDC_MOT_UNITRIG_START_OFFSET_def BSWCFGRDC_MOT_PERIOD_def BSWCFGRDC_MOT_START_OFFSET_def
      BSWCFGRDC_HSG_UNITRIG_START_OFFSET_def BSWCFGRDC_HSG_PERIOD_def BSWCFGRDC_HSG_START_OFFSET_def
      c_init.simps stored_int_5 stored_int_30
  by simp

section \<open>The dead-time compensation currents\<close>

text \<open>
  C10. \<^verbatim>\<open>CcCal_DeadTimeComp_IcompZCC\<close> and \<^verbatim>\<open>CcCal_DeadTimeComp_INVIcompZCC\<close> are not exact
  inverses. In the example build the motor range is \<open>400\<close>: the first holds \<open>20\<close> and the second
  the single-precision quotient \<^verbatim>\<open>1.f/20.f\<close>, which is \<open>13421773 / 2^28\<close>, and their product is
  \<open>1 + 2^-26\<close>.
\<close>

theorem dead_time_comp_currents_product_is_not_one:
  "element_of (constants example_table) ''CcCal_DeadTimeComp_IcompZCC_INV1'' MOT = Some (FltV 20)
   \<and> element_of (constants example_table) ''CcCal_DeadTimeComp_INVIcompZCC_INV1'' MOT
       = Some (FltV (13421773 / 2 ^ 28))
   \<and> 20 * (13421773 / 2 ^ 28) = 1 + 1 / (2::real) ^ 26
   \<and> 20 * (13421773 / 2 ^ 28) \<noteq> (1::real)"
proof -
  from example_resolves obtain pm cs where
    cs: "MOT_CUR_SENSOR_TYPE_section example_env = Inr cs"
    and e: "\<And>n tg v. take 4 (drop 10 n) \<noteq> ''Pwm_'' \<Longrightarrow> take 4 (drop 10 n) \<noteq> ''Rdc_''
       \<Longrightarrow> n \<notin> set [''BswCfgCal_Rsv_DefaultOffset'', ''BswCfgCal_Rsv_RotDir'',
             ''TestCal_RSPWM_Enb'', ''TestCal_VnCtrl_Enb'', ''CcCal_SQPWM_Mode_Regen_Disable'']
       \<Longrightarrow> element_of (CcCalBase_c_part3 example_ext pm cs) n tg = Some v
       \<Longrightarrow> element_of (constants example_table) n tg = Some v"
    by (rule resolved_objects) (rule that, assumption+)
  have r: "CUR_SENSOR_RANGE example_ext cs MOT = IntV 400"
    using cs by (auto simp: example_MOT_CUR_SENSOR_TYPE_section CUR_SENSOR_RANGE_def)
  have "element_of (CcCalBase_c_part3 example_ext pm cs) ''CcCal_DeadTimeComp_IcompZCC_INV1'' MOT
      = Some (FltV 20)"
    unfolding CcCalBase_c_part3_elements(5) r IcompZCC_400 by (rule refl)
  then have 1: "element_of (constants example_table) ''CcCal_DeadTimeComp_IcompZCC_INV1'' MOT
      = Some (FltV 20)"
    by (rule e [rotated 3]) simp_all
  have "element_of (CcCalBase_c_part3 example_ext pm cs) ''CcCal_DeadTimeComp_INVIcompZCC_INV1'' MOT
      = Some (FltV (13421773 / 2 ^ 28))"
    unfolding CcCalBase_c_part3_elements(1) r INVIcompZCC_400 by (rule refl)
  then have 2: "element_of (constants example_table) ''CcCal_DeadTimeComp_INVIcompZCC_INV1'' MOT
      = Some (FltV (13421773 / 2 ^ 28))"
    by (rule e [rotated 3]) simp_all
  have 3: "20 * (13421773 / 2 ^ 28) = 1 + 1 / (2::real) ^ 26" "20 * (13421773 / 2 ^ 28) \<noteq> (1::real)"
    by simp_all
  from 1 2 3 show ?thesis by (intro conjI)
qed

text \<open>
  C10, as the code has it. For every target and both inverters the two objects are derived
  from the same expression, the current sensor range of the target times \<^verbatim>\<open>0.05f\<close>:
  \<^verbatim>\<open>IcompZCC\<close> holds its value and \<^verbatim>\<open>INVIcompZCC\<close> the quotient of \<^verbatim>\<open>1.f\<close> by it, each rounded
  to \<^verbatim>\<open>FLOAT32\<close>. Their product is 1 up to the roundings: it differs from 1 by at most
  \<open>2^-22\<close>. The motor range is one of the constants of the sensor group; the HSG range is a
  macro of a missing header and is taken between 1 and 100000.
\<close>

theorem dead_time_comp_currents_are_rounded_inverses:
  assumes "resolve x env = Inr t"
    and "1 \<le> real_of_cval (CUR_SENSOR_RANGE_HSG x)"
    and "real_of_cval (CUR_SENSOR_RANGE_HSG x) \<le> 100000"
  shows "\<exists>cs v w. MOT_CUR_SENSOR_TYPE_section env = Inr cs
      \<and> c_convert FLOAT32 (c_mul (CUR_SENSOR_RANGE x cs tg) (flt_lit 0.05)) = FltV v
      \<and> c_convert FLOAT32 (c_div (flt_lit 1) (c_mul (CUR_SENSOR_RANGE x cs tg) (flt_lit 0.05)))
          = FltV w
      \<and> element_of (constants t) ''CcCal_DeadTimeComp_IcompZCC_INV1'' tg = Some (FltV v)
      \<and> element_of (constants t) ''CcCal_DeadTimeComp_INVIcompZCC_INV1'' tg = Some (FltV w)
      \<and> element_of (constants t) ''CcCal_DeadTimeComp_IcompZCC_INV2'' tg = Some (FltV v)
      \<and> element_of (constants t) ''CcCal_DeadTimeComp_INVIcompZCC_INV2'' tg = Some (FltV w)
      \<and> 0 < v
      \<and> \<bar>v * w - 1\<bar> \<le> 1 / 2 ^ 22"
proof -
  from assms(1) obtain pm cs where
    cs: "MOT_CUR_SENSOR_TYPE_section env = Inr cs"
    and e: "\<And>n tg v. take 4 (drop 10 n) \<noteq> ''Pwm_'' \<Longrightarrow> take 4 (drop 10 n) \<noteq> ''Rdc_''
       \<Longrightarrow> n \<notin> set [''BswCfgCal_Rsv_DefaultOffset'', ''BswCfgCal_Rsv_RotDir'',
             ''TestCal_RSPWM_Enb'', ''TestCal_VnCtrl_Enb'', ''CcCal_SQPWM_Mode_Regen_Disable'']
       \<Longrightarrow> element_of (CcCalBase_c_part3 x pm cs) n tg = Some v
       \<Longrightarrow> element_of (constants t) n tg = Some v"
    by (rule resolved_objects) (rule that, assumption+)
  have "1 \<le> real_of_cval (CUR_SENSOR_RANGE x cs tg)"
    "real_of_cval (CUR_SENSOR_RANGE x cs tg) \<le> 100000"
    using MOT_CUR_SENSOR_range_bounds [OF cs] assms(2,3)
    by (cases tg; simp add: CUR_SENSOR_RANGE_def)+
  then obtain v w where
    v: "c_convert FLOAT32 (c_mul (CUR_SENSOR_RANGE x cs tg) (flt_lit 0.05)) = FltV v"
    and w: "c_convert FLOAT32 (c_div (flt_lit 1) (c_mul (CUR_SENSOR_RANGE x cs tg) (flt_lit 0.05)))
          = FltV w"
    and b: "0 < v" "\<bar>v * w - 1\<bar> \<le> 1 / 2 ^ 22"
    by (rule inverse_pair)
  have "element_of (CcCalBase_c_part3 x pm cs) ''CcCal_DeadTimeComp_IcompZCC_INV1'' tg = Some (FltV v)"
    unfolding CcCalBase_c_part3_elements(5) v by (rule refl)
  then have i1: "element_of (constants t) ''CcCal_DeadTimeComp_IcompZCC_INV1'' tg = Some (FltV v)"
    by (rule e [rotated 3]) simp_all
  have "element_of (CcCalBase_c_part3 x pm cs) ''CcCal_DeadTimeComp_IcompZCC_INV2'' tg = Some (FltV v)"
    unfolding CcCalBase_c_part3_elements(6) v by (rule refl)
  then have i2: "element_of (constants t) ''CcCal_DeadTimeComp_IcompZCC_INV2'' tg = Some (FltV v)"
    by (rule e [rotated 3]) simp_all
  have "element_of (CcCalBase_c_part3 x pm cs) ''CcCal_DeadTimeComp_INVIcompZCC_INV1'' tg = Some (FltV w)"
    unfolding CcCalBase_c_part3_elements(1) w by (rule refl)
  then have j1: "element_of (constants t) ''CcCal_DeadTimeComp_INVIcompZCC_INV1'' tg = Some (FltV w)"
    by (rule e [rotated 3]) simp_all
  have "element_of (CcCalBase_c_part3 x pm cs) ''CcCal_DeadTimeComp_INVIcompZCC_INV2'' tg = Some (FltV w)"
    unfolding CcCalBase_c_part3_elements(2) w by (rule refl)
  then have j2: "element_of (constants t) ''CcCal_DeadTimeComp_INVIcompZCC_INV2'' tg = Some (FltV w)"
    by (rule e [rotated 3]) simp_all
  show ?thesis
    by (intro exI [of _ cs] exI [of _ v] exI [of _ w] conjI cs v w i1 j1 i2 j2 b)
qed

theorem dead_time_comp_currents_are_rounded_inverses_witness:
  "resolve example_ext example_env = Inr example_table
   \<and> 1 \<le> real_of_cval (CUR_SENSOR_RANGE_HSG example_ext)
   \<and> real_of_cval (CUR_SENSOR_RANGE_HSG example_ext) \<le> 100000
   \<and> element_of (constants example_table) ''CcCal_DeadTimeComp_IcompZCC_INV2'' HSG = Some (FltV 25)
   \<and> element_of (constants example_table) ''CcCal_DeadTimeComp_INVIcompZCC_INV2'' HSG
       = Some (FltV (5368709 / 2 ^ 27))
   \<and> \<bar>25 * (5368709 / 2 ^ 27) - 1\<bar> \<le> (1::real) / 2 ^ 22"
proof -
  have h: "1 \<le> real_of_cval (CUR_SENSOR_RANGE_HSG example_ext)"
    "real_of_cval (CUR_SENSOR_RANGE_HSG example_ext) \<le> 100000"
    by (simp_all add: example_ext_def)
  from dead_time_comp_currents_are_rounded_inverses [OF example_resolves h, of HSG]
  obtain cs v w where
    v: "c_convert FLOAT32 (c_mul (CUR_SENSOR_RANGE example_ext cs HSG) (flt_lit 0.05)) = FltV v"
    and w: "c_convert FLOAT32 (c_div (flt_lit 1)
        (c_mul (CUR_SENSOR_RANGE example_ext cs HSG) (flt_lit 0.05))) = FltV w"
    and i: "element_of (constants example_table) ''CcCal_DeadTimeComp_IcompZCC_INV2'' HSG = Some (FltV v)"
    and j: "element_of (constants example_table) ''CcCal_DeadTimeComp_INVIcompZCC_INV2'' HSG = Some (FltV w)"
    and b: "\<bar>v * w - 1\<bar> \<le> 1 / 2 ^ 22"
    by blast
  have r: "CUR_SENSOR_RANGE example_ext cs HSG = IntV 500"
    by (simp add: CUR_SENSOR_RANGE_def example_ext_def)
  from v have v': "v = 25"
    unfolding r IcompZCC_500 by (simp only: cval.inject fval.inject)
  from w have w': "w = 5368709 / 2 ^ 27"
    unfolding r INVIcompZCC_500 by (simp only: cval.inject fval.inject)
  from i j b h example_resolves show ?thesis
    unfolding v' w' by (intro conjI)
qed

end
